(* ===== verification/Prelude.thy ===== *)
theory Prelude
  imports Main "HOL-Library.Char_ord" "HOL-Library.List_Lexorder" "HOL-Library.Multiset"
begin

text \<open>
  The vocabulary every component of the development shares.

  \<^item> Errors. A Go error value is a \<open>error\<close>: \<open>ErrNew\<close> for a value made by
    \<^verbatim>\<open>errors.New\<close>, \<^verbatim>\<open>errors.Errorf\<close> or \<^verbatim>\<open>fmt.Errorf\<close> (its message), \<open>ErrWrap\<close> for
    \<^verbatim>\<open>errors.Wrap\<close> and \<^verbatim>\<open>errors.Wrapf\<close> (message and cause), \<open>ErrNotFound\<close> for an API server error
    that satisfies \<^verbatim>\<open>apierrors.IsNotFound\<close>, and one constructor for each sentinel
    variable the code compares by identity.
  \<^item> Outcomes. A call returns a value, returns an error, or panics (a nil dereference,
    an index out of range); \<open>res\<close> has one constructor for each. A panic propagates
    through every caller, an error only where the code returns it.
  \<^item> Programs. \<open>('s, 'c, 'a) M\<close> is a function of the state that gives an outcome, the list
    of externally visible calls it made, in order, and the state it leaves. Nothing is
    rolled back when an error is returned.
  \<^item> \<open>wp\<close> states a postcondition over outcome, calls and state; the collection
    \<open>wp_simps\<close> computes it through every combinator, so that component proofs are
    a simplification followed by case splits on what the outside world answered.
\<close>

named_theorems wp_simps "weakest preconditions of the program combinators"

section \<open>Errors and outcomes\<close>

datatype error =
    ErrNew string
  | ErrWrap string error
  | ErrNotFound string
  | ErrBootstrapDataNotReady
  | ErrFailureDomainNotFound
  | ErrNoReadyAPIServer

text \<open>The text of an error, as \<^verbatim>\<open>err.Error()\<close> gives it.\<close>

fun Error :: "error \<Rightarrow> string" where
  "Error (ErrNew msg) = msg"
| "Error (ErrWrap msg e) = msg @ '': '' @ Error e"
| "Error (ErrNotFound msg) = msg @ '' not found''"
| "Error ErrBootstrapDataNotReady =
     ''error retrieving bootstrap data: linked Machine's bootstrap.dataSecretName is nil''"
| "Error ErrFailureDomainNotFound = ''error no failure domain available''"
| "Error ErrNoReadyAPIServer = ''No ready API server was found''"

text \<open>The Kubernetes helper: true of an API status error itself, not of an error that wraps one.\<close>

fun IsNotFound :: "error \<Rightarrow> bool" where
  "IsNotFound (ErrNotFound _) = True"
| "IsNotFound _ = False"

datatype 'a res = Ok 'a | Err error | Panic string

definition is_ok :: "'a res \<Rightarrow> bool" where
  "is_ok r = (case r of Ok _ \<Rightarrow> True | _ \<Rightarrow> False)"

definition is_panic :: "'a res \<Rightarrow> bool" where
  "is_panic r = (case r of Panic _ \<Rightarrow> True | _ \<Rightarrow> False)"

lemma is_ok_simps [simp]:
  "is_ok (Ok a)" "\<not> is_ok (Err e)" "\<not> is_ok (Panic p)"
  by (simp_all add: is_ok_def)

lemma is_panic_simps [simp]:
  "\<not> is_panic (Ok a)" "\<not> is_panic (Err e)" "is_panic (Panic p)"
  by (simp_all add: is_panic_def)

section \<open>Programs\<close>

type_synonym ('s, 'c, 'a) M = "'s \<Rightarrow> 'a res \<times> 'c list \<times> 's"

definition outcome :: "'a res \<times> 'c list \<times> 's \<Rightarrow> 'a res" where
  "outcome x = fst x"

definition calls :: "'a res \<times> 'c list \<times> 's \<Rightarrow> 'c list" where
  "calls x = fst (snd x)"

definition final :: "'a res \<times> 'c list \<times> 's \<Rightarrow> 's" where
  "final x = snd (snd x)"

definition ret :: "'a \<Rightarrow> ('s, 'c, 'a) M" where
  "ret a = (\<lambda>s. (Ok a, [], s))"

definition failM :: "error \<Rightarrow> ('s, 'c, 'a) M" where
  "failM e = (\<lambda>s. (Err e, [], s))"

definition panicM :: "string \<Rightarrow> ('s, 'c, 'a) M" where
  "panicM p = (\<lambda>s. (Panic p, [], s))"

definition bindM :: "('s, 'c, 'a) M \<Rightarrow> ('a \<Rightarrow> ('s, 'c, 'b) M) \<Rightarrow> ('s, 'c, 'b) M" where
  "bindM m f = (\<lambda>s. case m s of
      (Ok a, t, s1) \<Rightarrow> (case f a s1 of (r, t', s2) \<Rightarrow> (r, t @ t', s2))
    | (Err e, t, s1) \<Rightarrow> (Err e, t, s1)
    | (Panic p, t, s1) \<Rightarrow> (Panic p, t, s1))"

text \<open>Sequencing that drops the first value, the state accessors, and a record of one call.\<close>

abbreviation thenM :: "('s, 'c, 'a) M \<Rightarrow> ('s, 'c, 'b) M \<Rightarrow> ('s, 'c, 'b) M" where
  "thenM m k \<equiv> bindM m (\<lambda>_. k)"

definition getsM :: "('s \<Rightarrow> 'a) \<Rightarrow> ('s, 'c, 'a) M" where
  "getsM f = (\<lambda>s. (Ok (f s), [], s))"

definition modifyM :: "('s \<Rightarrow> 's) \<Rightarrow> ('s, 'c, unit) M" where
  "modifyM f = (\<lambda>s. (Ok (), [], f s))"

definition tellM :: "'c \<Rightarrow> ('s, 'c, unit) M" where
  "tellM c = (\<lambda>s. (Ok (), [c], s))"

text \<open>
  \<open>tryM\<close> is the Go idiom \<^verbatim>\<open>v, err := f()\<close>: the error becomes a value, a panic does not.
  \<open>wrapM\<close> is \<^verbatim>\<open>if err != nil { return errors.Wrap(err, msg) }\<close> around a call;
  \<open>mapErrM\<close> is the same with an arbitrary new error. \<open>derefM\<close> is the dereference of a
  pointer, which panics on nil.
\<close>

definition tryM :: "('s, 'c, 'a) M \<Rightarrow> ('s, 'c, error + 'a) M" where
  "tryM m = (\<lambda>s. case m s of
      (Ok a, t, s1) \<Rightarrow> (Ok (Inr a), t, s1)
    | (Err e, t, s1) \<Rightarrow> (Ok (Inl e), t, s1)
    | (Panic p, t, s1) \<Rightarrow> (Panic p, t, s1))"

definition mapErrM :: "(error \<Rightarrow> error) \<Rightarrow> ('s, 'c, 'a) M \<Rightarrow> ('s, 'c, 'a) M" where
  "mapErrM g m = (\<lambda>s. case m s of
      (Err e, t, s1) \<Rightarrow> (Err (g e), t, s1)
    | x \<Rightarrow> x)"

abbreviation wrapM :: "string \<Rightarrow> ('s, 'c, 'a) M \<Rightarrow> ('s, 'c, 'a) M" where
  "wrapM msg \<equiv> mapErrM (ErrWrap msg)"

definition liftM :: "error + 'a \<Rightarrow> ('s, 'c, 'a) M" where
  "liftM x = (case x of Inl e \<Rightarrow> failM e | Inr a \<Rightarrow> ret a)"

definition derefM :: "string \<Rightarrow> 'a option \<Rightarrow> ('s, 'c, 'a) M" where
  "derefM what p = (case p of None \<Rightarrow> panicM what | Some a \<Rightarrow> ret a)"

definition whenM :: "bool \<Rightarrow> ('s, 'c, unit) M \<Rightarrow> ('s, 'c, unit) M" where
  "whenM b m = (if b then m else ret ())"

text \<open>Loops over a slice that stop at the first error or panic.\<close>

primrec forM :: "('a \<Rightarrow> ('s, 'c, unit) M) \<Rightarrow> 'a list \<Rightarrow> ('s, 'c, unit) M" where
  "forM f [] = ret ()"
| "forM f (x # xs) = bindM (f x) (\<lambda>_. forM f xs)"

primrec mapMM :: "('a \<Rightarrow> ('s, 'c, 'b) M) \<Rightarrow> 'a list \<Rightarrow> ('s, 'c, 'b list) M" where
  "mapMM f [] = ret []"
| "mapMM f (x # xs) = bindM (f x) (\<lambda>y. bindM (mapMM f xs) (\<lambda>ys. ret (y # ys)))"

section \<open>Weakest preconditions\<close>

definition wp :: "('s, 'c, 'a) M \<Rightarrow> 's \<Rightarrow> ('a res \<Rightarrow> 'c list \<Rightarrow> 's \<Rightarrow> bool) \<Rightarrow> bool" where
  "wp m s Q = (case m s of (r, t, s') \<Rightarrow> Q r t s')"

lemma wp_iff: "wp m s Q \<longleftrightarrow> Q (outcome (m s)) (calls (m s)) (final (m s))"
  by (simp add: wp_def outcome_def calls_def final_def split: prod.splits)

lemma wpD: "wp m s Q \<Longrightarrow> m s = (r, t, s') \<Longrightarrow> Q r t s'"
  by (simp add: wp_def)

lemma wp_mono: "wp m s P \<Longrightarrow> (\<And>r t s'. P r t s' \<Longrightarrow> Q r t s') \<Longrightarrow> wp m s Q"
  by (auto simp: wp_def)

lemma wp_conj: "wp m s P \<Longrightarrow> wp m s Q \<Longrightarrow> wp m s (\<lambda>r t s'. P r t s' \<and> Q r t s')"
  by (auto simp: wp_def)

lemma wp_mono2:
  "wp m s P \<Longrightarrow> wp m s P' \<Longrightarrow> (\<And>r t s'. P r t s' \<Longrightarrow> P' r t s' \<Longrightarrow> Q r t s') \<Longrightarrow> wp m s Q"
  by (auto simp: wp_def)

lemma wp_ret [wp_simps]: "wp (ret a) s Q = Q (Ok a) [] s"
  by (simp add: wp_def ret_def)

lemma wp_failM [wp_simps]: "wp (failM e) s Q = Q (Err e) [] s"
  by (simp add: wp_def failM_def)

lemma wp_panicM [wp_simps]: "wp (panicM p) s Q = Q (Panic p) [] s"
  by (simp add: wp_def panicM_def)

lemma wp_getsM [wp_simps]: "wp (getsM f) s Q = Q (Ok (f s)) [] s"
  by (simp add: wp_def getsM_def)

lemma wp_modifyM [wp_simps]: "wp (modifyM f) s Q = Q (Ok ()) [] (f s)"
  by (simp add: wp_def modifyM_def)

lemma wp_tellM [wp_simps]: "wp (tellM c) s Q = Q (Ok ()) [c] s"
  by (simp add: wp_def tellM_def)

definition bind_post ::
    "('a \<Rightarrow> ('s, 'c, 'b) M) \<Rightarrow> ('b res \<Rightarrow> 'c list \<Rightarrow> 's \<Rightarrow> bool) \<Rightarrow> 'a res \<Rightarrow> 'c list \<Rightarrow> 's \<Rightarrow> bool"
  where
  "bind_post f Q r t s1 = (case r of
      Ok a \<Rightarrow> wp (f a) s1 (\<lambda>r' t' s2. Q r' (t @ t') s2)
    | Err e \<Rightarrow> Q (Err e) t s1
    | Panic p \<Rightarrow> Q (Panic p) t s1)"

lemma bind_post_simps [simp]:
  "bind_post f Q (Ok a) t s1 = wp (f a) s1 (\<lambda>r' t' s2. Q r' (t @ t') s2)"
  "bind_post f Q (Err e) t s1 = Q (Err e) t s1"
  "bind_post f Q (Panic p) t s1 = Q (Panic p) t s1"
  by (simp_all add: bind_post_def)

lemma wp_bindM [wp_simps]: "wp (bindM m f) s Q = wp m s (bind_post f Q)"
  by (auto simp: wp_def bindM_def bind_post_def split: prod.splits res.splits)

lemma wp_bind_ok: "m s = (Ok a, [], s1) \<Longrightarrow> wp (bindM m f) s Q = wp (f a) s1 Q"
  by (simp add: wp_bindM) (simp add: wp_def)

definition try_post ::
    "((error + 'a) res \<Rightarrow> 'c list \<Rightarrow> 's \<Rightarrow> bool) \<Rightarrow> 'a res \<Rightarrow> 'c list \<Rightarrow> 's \<Rightarrow> bool" where
  "try_post Q r t s1 = (case r of
      Ok a \<Rightarrow> Q (Ok (Inr a)) t s1
    | Err e \<Rightarrow> Q (Ok (Inl e)) t s1
    | Panic p \<Rightarrow> Q (Panic p) t s1)"

lemma try_post_simps [simp]:
  "try_post Q (Ok a) t s1 = Q (Ok (Inr a)) t s1"
  "try_post Q (Err e) t s1 = Q (Ok (Inl e)) t s1"
  "try_post Q (Panic p) t s1 = Q (Panic p) t s1"
  by (simp_all add: try_post_def)

lemma wp_tryM [wp_simps]: "wp (tryM m) s Q = wp m s (try_post Q)"
  by (auto simp: wp_def tryM_def try_post_def split: prod.splits res.splits)

definition map_err :: "(error \<Rightarrow> error) \<Rightarrow> 'a res \<Rightarrow> 'a res" where
  "map_err g r = (case r of Err e \<Rightarrow> Err (g e) | _ \<Rightarrow> r)"

lemma map_err_simps [simp]:
  "map_err g (Ok a) = Ok a" "map_err g (Err e) = Err (g e)" "map_err g (Panic p) = Panic p"
  by (simp_all add: map_err_def)

lemma map_err_eq_simps [simp]:
  "map_err g r = Ok a \<longleftrightarrow> r = Ok a"
  "map_err g r = Panic p \<longleftrightarrow> r = Panic p"
  "is_ok (map_err g r) = is_ok r"
  "is_panic (map_err g r) = is_panic r"
  by (cases r; simp)+

lemma wp_mapErrM [wp_simps]:
  "wp (mapErrM g m) s Q = wp m s (\<lambda>r t s'. Q (map_err g r) t s')"
  by (auto simp: wp_def mapErrM_def map_err_def split: prod.splits res.splits)

lemma wp_liftM [wp_simps]:
  "wp (liftM x) s Q = (case x of Inl e \<Rightarrow> Q (Err e) [] s | Inr a \<Rightarrow> Q (Ok a) [] s)"
  by (simp add: liftM_def wp_simps split: sum.splits)

lemma wp_derefM [wp_simps]:
  "wp (derefM what p) s Q = (case p of None \<Rightarrow> Q (Panic what) [] s | Some a \<Rightarrow> Q (Ok a) [] s)"
  by (simp add: derefM_def wp_simps split: option.splits)

lemma wp_whenM [wp_simps]:
  "wp (whenM b m) s Q = (if b then wp m s Q else Q (Ok ()) [] s)"
  by (simp add: whenM_def wp_simps)

lemma wp_if [wp_simps]: "wp (if b then m else k) s Q = (if b then wp m s Q else wp k s Q)"
  by simp

lemma wp_case_option [wp_simps]:
  "wp (case x of None \<Rightarrow> m | Some a \<Rightarrow> f a) s Q = (case x of None \<Rightarrow> wp m s Q | Some a \<Rightarrow> wp (f a) s Q)"
  by (simp split: option.splits)

lemma wp_case_sum [wp_simps]:
  "wp (case x of Inl a \<Rightarrow> f a | Inr b \<Rightarrow> g b) s Q =
     (case x of Inl a \<Rightarrow> wp (f a) s Q | Inr b \<Rightarrow> wp (g b) s Q)"
  by (simp split: sum.splits)

lemma wp_case_list [wp_simps]:
  "wp (case xs of [] \<Rightarrow> m | y # ys \<Rightarrow> f y ys) s Q =
     (case xs of [] \<Rightarrow> wp m s Q | y # ys \<Rightarrow> wp (f y ys) s Q)"
  by (simp split: list.splits)

lemma wp_case_prod [wp_simps]:
  "wp (case x of (a, b) \<Rightarrow> f a b) s Q = (case x of (a, b) \<Rightarrow> wp (f a b) s Q)"
  by (simp split: prod.splits)

lemma wp_Let [wp_simps]: "wp (let x = a in f x) s Q = (let x = a in wp (f x) s Q)"
  by simp

text \<open>
  The loop rule: an invariant over the calls made so far and the state, kept by every
  iteration that goes on, and strong enough for the postcondition where one stops.
\<close>

lemma wp_forM:
  assumes "I [] s"
    and "\<And>x t0 s0. x \<in> set xs \<Longrightarrow> I t0 s0 \<Longrightarrow>
       wp (f x) s0 (\<lambda>r t s1. case r of Ok _ \<Rightarrow> I (t0 @ t) s1 | Err e \<Rightarrow> Q (Err e) (t0 @ t) s1
                                | Panic p \<Rightarrow> Q (Panic p) (t0 @ t) s1)"
    and "\<And>t0 s0. I t0 s0 \<Longrightarrow> Q (Ok ()) t0 s0"
  shows "wp (forM f xs) s Q"
proof -
  have "wp (forM f ys) s0 (\<lambda>r t s1. Q r (t0 @ t) s1)"
    if "set ys \<subseteq> set xs" and "I t0 s0" for ys t0 s0
    using that
  proof (induction ys arbitrary: t0 s0)
    case Nil
    then show ?case using assms(3) by (simp add: wp_simps)
  next
    case (Cons y ys)
    from Cons.prems have "y \<in> set xs" by simp
    from assms(2)[OF this Cons.prems(2)] show ?case
      unfolding forM.simps wp_bindM
    proof (rule wp_mono)
      fix r t s1
      assume *: "case r of Ok _ \<Rightarrow> I (t0 @ t) s1 | Err e \<Rightarrow> Q (Err e) (t0 @ t) s1
        | Panic p \<Rightarrow> Q (Panic p) (t0 @ t) s1"
      show "bind_post (\<lambda>_. forM f ys) (\<lambda>r t s1. Q r (t0 @ t) s1) r t s1"
        using * Cons.IH[of "t0 @ t" s1] Cons.prems(1) by (cases r) auto
    qed
  qed
  from this[of xs "[]"] assms(1) show ?thesis by simp
qed

section \<open>Lists and maps\<close>

text \<open>
  A Go map whose iteration order the code can observe is an association list with distinct
  keys: the order of the list is the order the runtime happened to choose. \<open>map_put\<close> is
  assignment to a key, \<open>map_of\<close> the lookup, \<open>map_del\<close> the built-in \<^verbatim>\<open>delete\<close>.
\<close>

type_synonym ('k, 'v) gomap = "('k \<times> 'v) list"

fun map_put :: "'k \<Rightarrow> 'v \<Rightarrow> ('k, 'v) gomap \<Rightarrow> ('k, 'v) gomap" where
  "map_put k v [] = [(k, v)]"
| "map_put k v ((k', v') # m) = (if k = k' then (k, v) # m else (k', v') # map_put k v m)"

definition map_del :: "'k \<Rightarrow> ('k, 'v) gomap \<Rightarrow> ('k, 'v) gomap" where
  "map_del k m = filter (\<lambda>(k', _). k' \<noteq> k) m"

definition map_keys :: "('k, 'v) gomap \<Rightarrow> 'k list" where
  "map_keys m = map fst m"

lemma map_of_map_put [simp]: "map_of (map_put k v m) = (map_of m)(k \<mapsto> v)"
  by (induction m) auto

lemma set_keys_map_put [simp]: "fst ` set (map_put k v m) = insert k (fst ` set m)"
  by (induction k v m rule: map_put.induct) (simp_all add: insert_commute)

lemma distinct_map_put [intro]: "distinct (map fst m) \<Longrightarrow> distinct (map fst (map_put k v m))"
  by (induction m) auto

lemma map_of_map_del [simp]: "map_of (map_del k m) = (map_of m)(k := None)"
  by (induction m) (auto simp: map_del_def)

lemma find_Some_mem: "find P xs = Some x \<Longrightarrow> x \<in> set xs \<and> P x"
  by (induction xs) (auto split: if_splits)

lemma sort_empty_iff [simp]: "(sort xs = []) = (xs = [])" for xs :: "'a :: linorder list"
  by (metis length_0_conv length_sort)

text \<open>The last element of a list that satisfies a predicate: a loop that overwrites its match.\<close>

definition find_last :: "('a \<Rightarrow> bool) \<Rightarrow> 'a list \<Rightarrow> 'a option" where
  "find_last P xs = find P (rev xs)"

lemma find_last_None: "find_last P xs = None \<longleftrightarrow> (\<forall>x \<in> set xs. \<not> P x)"
  by (auto simp: find_last_def find_None_iff)

lemma find_last_Some: "find_last P xs = Some x \<Longrightarrow> x \<in> set xs \<and> P x"
  by (auto simp: find_last_def dest: find_Some_mem)

end
