(* ===== verification/Go_Lib.thy ===== *)
theory Go_Lib
  imports Prelude "HOL-Library.Word"
begin

text \<open>
  The parts of the Go standard library the program's behaviour depends on, as executable
  functions: \<^verbatim>\<open>strings\<close> and \<^verbatim>\<open>strconv\<close> (prefixes, splitting, joining, trimming, decimal
  printing), \<^verbatim>\<open>hash/crc32\<close> (the IEEE checksum), and \<^verbatim>\<open>net\<close> (printing and parsing of IP
  addresses and CIDR blocks, classification of addresses), at the Go version of the build
  (1.13: leading zeros of an IPv4 octet are accepted). A Go string is a \<open>string\<close> whose
  characters are its bytes; an IP is its byte slice, \<open>[]\<close> for nil.
\<close>

unbundle bit_operations_syntax

section \<open>Strings\<close>

definition HasPrefix :: "string \<Rightarrow> string \<Rightarrow> bool" where
  "HasPrefix s p = (take (length p) s = p)"

definition HasSuffix :: "string \<Rightarrow> string \<Rightarrow> bool" where
  "HasSuffix s p = (length p \<le> length s \<and> drop (length s - length p) s = p)"

definition TrimPrefix :: "string \<Rightarrow> string \<Rightarrow> string" where
  "TrimPrefix s p = (if HasPrefix s p then drop (length p) s else s)"

definition TrimSuffix :: "string \<Rightarrow> string \<Rightarrow> string" where
  "TrimSuffix s p = (if HasSuffix s p then take (length s - length p) s else s)"

fun Contains :: "string \<Rightarrow> string \<Rightarrow> bool" where
  "Contains [] p = (p = [])"
| "Contains (c # s) p = (HasPrefix (c # s) p \<or> Contains s p)"

definition TrimRight :: "string \<Rightarrow> char \<Rightarrow> string" where
  "TrimRight s c = rev (dropWhile (\<lambda>x. x = c) (rev s))"

definition Trim :: "string \<Rightarrow> char \<Rightarrow> string" where
  "Trim s c = TrimRight (dropWhile (\<lambda>x. x = c) s) c"

text \<open>\<^verbatim>\<open>strings.Split\<close> for a separator that is not empty (the code uses \<^verbatim>\<open>"--"\<close> and \<^verbatim>\<open>"/"\<close>).\<close>

function split_from :: "string \<Rightarrow> string \<Rightarrow> string \<Rightarrow> string list" where
  "split_from sep cur s =
     (if sep \<noteq> [] \<and> s \<noteq> [] \<and> HasPrefix s sep
      then cur # split_from sep [] (drop (length sep) s)
      else case s of [] \<Rightarrow> [cur] | c # cs \<Rightarrow> split_from sep (cur @ [c]) cs)"
  by pat_completeness auto
termination
  by (relation "measure (\<lambda>(sep, cur, s). length s)") auto

declare split_from.simps [simp del]

definition Split :: "string \<Rightarrow> string \<Rightarrow> string list" where
  "Split s sep = split_from sep [] s"

fun Join :: "string list \<Rightarrow> string \<Rightarrow> string" where
  "Join [] sep = []"
| "Join [x] sep = x"
| "Join (x # y # xs) sep = x @ sep @ Join (y # xs) sep"

definition digit :: "int \<Rightarrow> char" where
  "digit d = char_of (if d < 10 then 48 + d else 87 + d)"

function utoa :: "int \<Rightarrow> string" where
  "utoa n = (if n < 10 then [digit n] else utoa (n div 10) @ [digit (n mod 10)])"
  by pat_completeness auto
termination
  by (relation "measure nat") auto

declare utoa.simps [simp del]

definition itoa :: "int \<Rightarrow> string" where
  "itoa i = (if i < 0 then ''-'' @ utoa (- i) else utoa i)"

section \<open>CRC-32\<close>

definition crc_poly :: "32 word" where
  "crc_poly = 0xEDB88320"

definition crc_bit :: "32 word \<Rightarrow> 32 word" where
  "crc_bit c = (if c AND 1 = 1 then drop_bit 1 c XOR crc_poly else drop_bit 1 c)"

definition crc_byte :: "32 word \<Rightarrow> char \<Rightarrow> 32 word" where
  "crc_byte c b = (crc_bit ^^ 8) (c XOR word_of_nat (of_char b))"

definition ChecksumIEEE :: "string \<Rightarrow> 32 word" where
  "ChecksumIEEE s = NOT (foldl crc_byte (NOT 0) s)"

section \<open>IP addresses\<close>

type_synonym IP = "8 word list"

record IPNet =
  net_IP :: IP
  net_ones :: nat

definition v4InV6Prefix :: IP where
  "v4InV6Prefix = [0, 0, 0, 0, 0, 0, 0, 0, 0, 0, 0xff, 0xff]"

definition To4 :: "IP \<Rightarrow> IP" where
  "To4 ip = (if length ip = 4 then ip
             else if length ip = 16 \<and> take 12 ip = v4InV6Prefix then drop 12 ip else [])"

function htoa :: "int \<Rightarrow> string" where
  "htoa n = (if n < 16 then [digit n] else htoa (n div 16) @ [digit (n mod 16)])"
  by pat_completeness auto
termination
  by (relation "measure nat") auto

declare htoa.simps [simp del]

fun groups :: "IP \<Rightarrow> int list" where
  "groups (a # b # r) = (uint a * 256 + uint b) # groups r"
| "groups _ = []"

text \<open>The first longest run of zero groups, as (start, length).\<close>

definition longest_zero_run :: "int list \<Rightarrow> nat \<times> nat" where
  "longest_zero_run g = foldl (\<lambda>(e, n) i. let r = length (takeWhile (\<lambda>x. x = 0) (drop i g))
                                         in if r > n then (i, r) else (e, n))
                              (0, 0) [0..<length g]"

definition hex_byte :: "8 word \<Rightarrow> string" where
  "hex_byte b = [digit (uint b div 16), digit (uint b mod 16)]"

definition IP_String :: "IP \<Rightarrow> string" where
  "IP_String ip =
     (if ip = [] then ''<nil>''
      else if To4 ip \<noteq> [] then Join (map (\<lambda>b. utoa (uint b)) (To4 ip)) ''.''
      else if length ip \<noteq> 16 then ''?'' @ concat (map hex_byte ip)
      else let g = groups ip; (e, n) = longest_zero_run g
           in if n < 2 then Join (map htoa g) '':''
              else Join (map htoa (take e g)) '':'' @ ''::'' @ Join (map htoa (drop (e + n) g)) '':'')"

definition IsGlobalUnicast :: "IP \<Rightarrow> bool" where
  "IsGlobalUnicast ip =
     (let p4 = To4 ip in
      (length ip = 4 \<or> length ip = 16)
      \<and> p4 \<noteq> [255, 255, 255, 255]
      \<and> \<not> (p4 = [0, 0, 0, 0] \<or> ip = replicate 16 0)
      \<and> \<not> (if p4 \<noteq> [] then p4 ! 0 = 127 else ip = replicate 15 0 @ [1])
      \<and> \<not> (if p4 \<noteq> [] then p4 ! 0 AND 0xf0 = 0xe0 else ip ! 0 = 0xff)
      \<and> \<not> (if p4 \<noteq> [] then p4 ! 0 = 169 \<and> p4 ! 1 = 254
            else ip ! 0 = 0xfe \<and> ip ! 1 AND 0xc0 = 0x80))"

section \<open>Parsing\<close>

definition big :: int where "big = 0xFFFFFF"

definition digit_val :: "int \<Rightarrow> char \<Rightarrow> int option" where
  "digit_val base c =
     (let n = (of_char c :: int) in
      if 48 \<le> n \<and> n \<le> 57 then Some (n - 48)
      else if base = 16 \<and> 97 \<le> n \<and> n \<le> 102 then Some (n - 87)
      else if base = 16 \<and> 65 \<le> n \<and> n \<le> 70 then Some (n - 55)
      else None)"

text \<open>\<^verbatim>\<open>dtoi\<close> and \<^verbatim>\<open>xtoi\<close>: the number at the start of the string and the rest after it.\<close>

fun toi_loop :: "int \<Rightarrow> int \<Rightarrow> string \<Rightarrow> (int \<times> string) option" where
  "toi_loop base n [] = Some (n, [])"
| "toi_loop base n (c # cs) = (case digit_val base c of
      None \<Rightarrow> Some (n, c # cs)
    | Some d \<Rightarrow> if n * base + d \<ge> big then None else toi_loop base (n * base + d) cs)"

definition toi :: "int \<Rightarrow> string \<Rightarrow> (int \<times> string) option" where
  "toi base s = (case s of [] \<Rightarrow> None
     | c # cs \<Rightarrow> (case digit_val base c of None \<Rightarrow> None | Some _ \<Rightarrow> toi_loop base 0 s))"

text \<open>The four octets of \<^verbatim>\<open>parseIPv4\<close>; the dot is required before every octet but the first.\<close>

fun parse_octets :: "nat \<Rightarrow> bool \<Rightarrow> string \<Rightarrow> IP option" where
  "parse_octets 0 _ s = (if s = [] then Some [] else None)"
| "parse_octets (Suc k) first s =
     (case (if first then Some s
            else case s of c # cs \<Rightarrow> if c = CHR ''.'' then Some cs else None | [] \<Rightarrow> None) of
        None \<Rightarrow> None
      | Some s1 \<Rightarrow> (case toi 10 s1 of
            None \<Rightarrow> None
          | Some (n, s2) \<Rightarrow>
              if n > 255 then None
              else map_option (Cons (word_of_int n)) (parse_octets k False s2)))"

definition parseIPv4 :: "string \<Rightarrow> IP option" where
  "parseIPv4 s = map_option (\<lambda>p. v4InV6Prefix @ p) (parse_octets 4 True s)"

text \<open>
  \<^verbatim>\<open>parseIPv6\<close>: the loop carries the bytes read so far and the position of the ellipsis; the
  first argument counts the 16-bit groups that still fit.
\<close>

fun parse_groups :: "nat \<Rightarrow> nat option \<Rightarrow> IP \<Rightarrow> string \<Rightarrow> (nat option \<times> IP \<times> string) option" where
  "parse_groups 0 ell acc s = Some (ell, acc, s)"
| "parse_groups (Suc k) ell acc s = (case toi 16 s of
      None \<Rightarrow> None
    | Some (n, s1) \<Rightarrow>
        if n > 0xFFFF then None
        else (case s1 of
            [] \<Rightarrow> Some (ell, acc @ [word_of_int (n div 256), word_of_int n], [])
          | c # s2 \<Rightarrow>
              if c = CHR ''.'' then
                (if (ell = None \<and> length acc \<noteq> 12) \<or> length acc + 4 > 16 then None
                 else case parse_octets 4 True s of None \<Rightarrow> None | Some p \<Rightarrow> Some (ell, acc @ p, []))
              else if c \<noteq> CHR '':'' \<or> s2 = [] then None
              else if hd s2 = CHR '':'' then
                (if ell \<noteq> None then None
                 else let acc' = acc @ [word_of_int (n div 256), word_of_int n] in
                      if tl s2 = [] then Some (Some (length acc'), acc', [])
                      else parse_groups k (Some (length acc')) acc' (tl s2))
              else parse_groups k ell (acc @ [word_of_int (n div 256), word_of_int n]) s2))"

definition parseIPv6 :: "string \<Rightarrow> IP option" where
  "parseIPv6 s =
     (let (ell, s1) = (if take 2 s = ''::'' then (Some 0, drop 2 s) else (None, s)) in
      if ell = Some 0 \<and> s1 = [] then Some (replicate 16 0)
      else case parse_groups 8 ell [] s1 of
          None \<Rightarrow> None
        | Some (ell', acc, rest) \<Rightarrow>
            if rest \<noteq> [] then None
            else if length acc < 16 then
              (case ell' of None \<Rightarrow> None
               | Some e \<Rightarrow> Some (take e acc @ replicate (16 - length acc) 0 @ drop e acc))
            else if ell' \<noteq> None then None else Some acc)"

definition mask_byte :: "nat \<Rightarrow> 8 word" where
  "mask_byte ones = NOT (mask (8 - min 8 ones))"

fun mask_ip :: "nat \<Rightarrow> IP \<Rightarrow> IP" where
  "mask_ip ones [] = []"
| "mask_ip ones (b # bs) = (b AND mask_byte ones) # mask_ip (ones - 8) bs"

text \<open>\<^verbatim>\<open>net.ParseCIDR\<close>, the network it returns; the error is the parse error of the text.\<close>

definition ParseCIDR :: "string \<Rightarrow> error + IPNet" where
  "ParseCIDR s =
     (let addr = takeWhile (\<lambda>c. c \<noteq> CHR ''/'') s;
          tl1 = dropWhile (\<lambda>c. c \<noteq> CHR ''/'') s;
          perr = Inl (ErrNew (''invalid CIDR address: '' @ s)) in
      if tl1 = [] then perr
      else case (case parseIPv4 addr of Some p \<Rightarrow> Some (32, drop 12 p)
                 | None \<Rightarrow> (case parseIPv6 addr of Some p \<Rightarrow> Some (128, p) | None \<Rightarrow> None)) of
          None \<Rightarrow> perr
        | Some (bits, p) \<Rightarrow> (case toi 10 (tl tl1) of
              Some (n, []) \<Rightarrow>
                if n > int bits then perr else Inr \<lparr>net_IP = mask_ip (nat n) p, net_ones = nat n\<rparr>
            | _ \<Rightarrow> perr))"

text \<open>
  \<^verbatim>\<open>IPNet.String\<close>: the mask has as many bytes as the address, and of an IPv4 address in its
  sixteen byte form only the last four bytes of the mask count.
\<close>

definition IPNet_String :: "IPNet \<Rightarrow> string" where
  "IPNet_String n =
     (if length (net_IP n) \<noteq> 4 \<and> length (net_IP n) \<noteq> 16 then ''<nil>''
      else IP_String (net_IP n) @ ''/'' @
        utoa (int (if length (net_IP n) = 16 \<and> To4 (net_IP n) \<noteq> [] then net_ones n - 96 else net_ones n)))"

end
