(* ===== verification/Api_Types.thy ===== *)
theory Api_Types
  imports Go_Lib
begin

text \<open>
  The data the program works on: the tag keys and the resource types of \<^verbatim>\<open>api/v1alpha3\<close>,
  and the fields the program reads of the Hetzner Cloud client library's and the Cluster API's types. Field
  names carry a prefix for their type, since two Go structs share many field names. A
  pointer is an \<open>option\<close>; a Go map is an association list in iteration order; a
  string-based enumeration of the program's own API stays a string, one of a client
  library is a datatype with a constructor for every other value.
\<close>

section \<open>Types of the client libraries\<close>

record ObjectMeta =
  om_Name :: string
  om_Namespace :: string
  om_Labels :: "(string, string) gomap"
  om_Finalizers :: "string list"
  om_DeletionTimestamp :: "int option"

datatype NodeAddressType =
  NodeHostName | NodeInternalIP | NodeExternalIP | NodeInternalDNS | NodeExternalDNS

record NodeAddress =
  na_Type :: NodeAddressType
  na_Address :: string

record APIEndpoint =
  ep_Host :: string
  ep_Port :: int

datatype ServerStatus = ServerStatusRunning | ServerStatusOff | ServerStatusOther string

datatype ImageStatus = ImageStatusAvailable | ImageStatusOther string

datatype LoadBalancerAlgorithmType =
  LoadBalancerAlgorithmTypeRoundRobin | LoadBalancerAlgorithmTypeLeastConnections
| LoadBalancerAlgorithmTypeOther string

record hcloud_Location =
  loc_Name :: string
  loc_NetworkZone :: string

definition NetworkZoneEUCentral :: string where
  "NetworkZoneEUCentral = ''eu-central''"

definition NetworkSubnetTypeServer :: string where
  "NetworkSubnetTypeServer = ''server''"

record hcloud_NetworkSubnet =
  sn_Type :: string
  sn_IPRange :: IPNet
  sn_NetworkZone :: string

record hcloud_Network =
  nw_ID :: int
  nw_IPRange :: IPNet
  nw_Subnets :: "hcloud_NetworkSubnet list"
  nw_Labels :: "(string, string) gomap"

record NetworkCreateOpts =
  nco_Name :: string
  nco_IPRange :: IPNet
  nco_Labels :: "(string, string) gomap"
  nco_Subnets :: "hcloud_NetworkSubnet list"

text \<open>A load balancer target points to a server only when it is a server target.\<close>

record hcloud_LoadBalancer =
  lb_ID :: int
  lb_Name :: string
  lb_IPv4 :: IP
  lb_IPv6 :: IP
  lb_PrivateNet :: "IP list"
  lb_Algorithm :: LoadBalancerAlgorithmType
  lb_Targets :: "int option list"
  lb_Type :: string
  lb_Labels :: "(string, string) gomap"

record LoadBalancerServiceOpts =
  lso_Protocol :: string
  lso_ListenPort :: int
  lso_DestinationPort :: int
  lso_Proxyprotocol :: bool

record LoadBalancerCreateOpts =
  lco_Name :: string
  lco_Type :: "string option"
  lco_Algorithm :: LoadBalancerAlgorithmType
  lco_Location :: string
  lco_Network :: "hcloud_Network option"
  lco_Labels :: "(string, string) gomap"
  lco_Services :: "LoadBalancerServiceOpts list"

record hcloud_Server =
  sv_ID :: int
  sv_Name :: string
  sv_Status :: ServerStatus
  sv_IPv4 :: IP
  sv_IPv6 :: IP
  sv_PrivateNet :: "IP list"

record hcloud_SSHKey =
  sk_ID :: int
  sk_Name :: string

record ServerCreateOpts =
  sco_Name :: string
  sco_Labels :: "(string, string) gomap"
  sco_Image :: int
  sco_Location :: string
  sco_ServerType :: string
  sco_Automount :: bool
  sco_StartAfterCreate :: bool
  sco_UserData :: string
  sco_Volumes :: "int list"
  sco_SSHKeys :: "hcloud_SSHKey list"
  sco_Networks :: "int list"

record hcloud_Volume =
  vo_ID :: int
  vo_Name :: string
  vo_Size :: int
  vo_Location :: string

record VolumeCreateOpts =
  vco_Name :: string
  vco_Labels :: "(string, string) gomap"
  vco_Location :: string
  vco_Format :: string
  vco_Automount :: bool
  vco_Size :: int

record hcloud_Image =
  im_ID :: int
  im_Status :: ImageStatus
  im_Created :: int

text \<open>
  Cluster API objects. A machine is a control plane when it carries the control plane
  label; \<open>m_ControlPlane\<close> is that test.
\<close>

record FailureDomainSpec =
  fd_ControlPlane :: bool

record Cluster =
  cl_Name :: string
  cl_Namespace :: string
  cl_FailureDomains :: "(string, FailureDomainSpec) gomap"
  cl_ControlPlaneEndpoint :: APIEndpoint
  cl_InfrastructureRefName :: "string option"

record Machine =
  m_Name :: string
  m_Namespace :: string
  m_ControlPlane :: bool
  m_ClusterName :: string
  m_FailureDomain :: "string option"
  m_Version :: "string option"
  m_DataSecretName :: "string option"
  m_InfrastructureRefGroupKind :: string
  m_InfrastructureRefName :: string
  m_InfrastructureReady :: bool

text \<open>
  The Hetzner Robot API of bare metal servers: the fields the program reads. \<open>bs_PaidUntil\<close> is a
  date as text.
\<close>

record robot_Server =
  bs_ServerIP :: string
  bs_ServerNumber :: int
  bs_ServerName :: string
  bs_Status :: string
  bs_Cancelled :: bool
  bs_PaidUntil :: string

record robot_Key =
  rk_Name :: string
  rk_Fingerprint :: string

text \<open>
  A certificate signing request as the API server keeps it. A condition has a type and a
  reason; its message text and its time are not modelled.
\<close>

datatype RequestConditionType = CertificateApproved | CertificateDenied

record CSRCondition =
  cnd_Type :: RequestConditionType
  cnd_Reason :: string

record CertificateSigningRequest =
  csr_Name :: string
  csr_Username :: string
  csr_Request :: string
  csr_Conditions :: "CSRCondition list"

section \<open>Tags: api/v1alpha3/tags.go\<close>

definition ResourceLifecycleOwned :: string where
  "ResourceLifecycleOwned = ''owned''"

definition NameHcloudProviderPrefix :: string where
  "NameHcloudProviderPrefix = ''cluster-api-provider-hcloud.capihc.com/''"

definition NameHcloudProviderOwned :: string where
  "NameHcloudProviderOwned = ''cluster.'' @ NameHcloudProviderPrefix"

definition MachineNameTagKey :: string where
  "MachineNameTagKey = ''machine.'' @ NameHcloudProviderPrefix @ ''name''"

definition ClusterTagKey :: "string \<Rightarrow> string" where
  "ClusterTagKey name = NameHcloudProviderOwned @ name"

section \<open>Machines: api/v1alpha3/hcloudmachine\_types.go\<close>

type_synonym HcloudLocation = string
type_synonym HcloudNetworkZone = string

definition MachineFinalizer :: string where
  "MachineFinalizer = ''hcloudmachine.cluster-api-provider-hcloud.capihc.com''"

record HcloudSSHKeySpec =
  sks_Name :: "string option"
  sks_ID :: "int option"

record HcloudMachineVolume =
  mv_Name :: string
  mv_VolumeRef :: string
  mv_MountPath :: string

record HcloudMachineSpec =
  hms_SSHKeys :: "HcloudSSHKeySpec list"
  hms_Type :: string
  hms_Volumes :: "HcloudMachineVolume list"
  hms_ImageName :: string
  hms_ProviderID :: "string option"

record HcloudMachineStatus =
  hmt_Location :: HcloudLocation
  hmt_NetworkZone :: HcloudNetworkZone
  hmt_ImageID :: "int option"
  hmt_ServerState :: "ServerStatus option"
  hmt_Ready :: bool
  hmt_ImageInitialized :: bool
  hmt_Addresses :: "NodeAddress list"
  hmt_FailureReason :: "string option"
  hmt_FailureMessage :: "string option"

record HcloudMachine =
  hm_Meta :: ObjectMeta
  hm_Spec :: HcloudMachineSpec
  hm_Status :: HcloudMachineStatus

section \<open>Clusters: api/v1alpha3/hcloudcluster\_types.go\<close>

definition ClusterFinalizer :: string where
  "ClusterFinalizer = ''hcloudcluster.cluster-api-provider-hcloud.capihc.com''"

definition HcloudLoadBalancerAlgorithmTypeRoundRobin :: string where
  "HcloudLoadBalancerAlgorithmTypeRoundRobin = ''round_robin''"

definition HcloudLoadBalancerAlgorithmTypeLeastConnections :: string where
  "HcloudLoadBalancerAlgorithmTypeLeastConnections = ''least_connections''"

record HcloudNetworkSubnetSpec =
  sns_CIDRBlock :: string
  sns_NetworkZone :: HcloudNetworkZone

record HcloudNetworkSpec =
  hns_CIDRBlock :: string
  hns_Subnets :: "HcloudNetworkSubnetSpec list"

definition IsZero :: "HcloudNetworkSpec \<Rightarrow> bool" where
  "IsZero s = (if length (hns_CIDRBlock s) > 0 then False
               else if length (hns_Subnets s) > 0 then False else True)"

record HcloudNetworkStatus =
  hnt_CIDRBlock :: string
  hnt_Subnets :: "HcloudNetworkSubnetSpec list"
  hnt_ID :: int
  hnt_Labels :: "(string, string) gomap"

record LoadBalancerServiceSpec =
  lss_Protocol :: string
  lss_ListenPort :: int
  lss_DestinationPort :: int

record HcloudLoadBalancerSpec =
  lbs_Name :: "string option"
  lbs_Algorithm :: string
  lbs_Type :: string
  lbs_Services :: "LoadBalancerServiceSpec list"

record HcloudLoadBalancerStatus =
  lbt_ID :: int
  lbt_Name :: string
  lbt_Type :: string
  lbt_IPv4 :: string
  lbt_IPv6 :: string
  lbt_InternalIP :: string
  lbt_Labels :: "(string, string) gomap"
  lbt_Algorithm :: string
  lbt_Targets :: "int list"

record HcloudClusterStatusManifests =
  cm_Initialized :: "bool option"
  cm_AppliedHash :: "string option"

record SecretKeySelector =
  sel_Name :: string
  sel_Key :: string

record HrobotTokenRef =
  hrt_PasswordKey :: string
  hrt_UserNameKey :: string
  hrt_TokenName :: string

record HcloudClusterSpec =
  hcs_Locations :: "HcloudLocation list"
  hcs_SSHKeys :: "HcloudSSHKeySpec list"
  hcs_ControlPlaneLoadBalancer :: HcloudLoadBalancerSpec
  hcs_ControlPlaneEndpoint :: "APIEndpoint option"
  hcs_Network :: "HcloudNetworkSpec option"
  hcs_VCKubeletClientSecretEnabled :: bool
  hcs_HcloudTokenRef :: "SecretKeySelector option"
  hcs_HrobotTokenRef :: "HrobotTokenRef option"

record HcloudClusterStatus =
  hct_Locations :: "HcloudLocation list"
  hct_NetworkZone :: HcloudNetworkZone
  hct_ControlPlaneLoadBalancer :: HcloudLoadBalancerStatus
  hct_Network :: "HcloudNetworkStatus option"
  hct_Manifests :: "HcloudClusterStatusManifests option"
  hct_Ready :: bool
  hct_FailureDomains :: "(string, FailureDomainSpec) gomap"
  hct_FailureReason :: "string option"
  hct_FailureMessage :: "string option"

record HcloudCluster =
  hc_Meta :: ObjectMeta
  hc_Spec :: HcloudClusterSpec
  hc_Status :: HcloudClusterStatus

section \<open>Volumes: api/v1alpha3/hcloudvolume\_types.go\<close>

definition VolumeFinalizer :: string where
  "VolumeFinalizer = ''hcloudvolume.cluster-api-provider-hcloud.capihc.com''"

definition HcloudVolumeReclaimDelete :: string where
  "HcloudVolumeReclaimDelete = ''Delete''"

definition HcloudVolumeReclaimRetain :: string where
  "HcloudVolumeReclaimRetain = ''Retain''"

text \<open>
  A \<^verbatim>\<open>resource.Quantity\<close> is an exact decimal with at most nine fractional digits: the integer
  here counts billionths. \<^verbatim>\<open>Value()\<close> rounds up to a whole number, \<^verbatim>\<open>Cmp\<close> compares exactly.
\<close>

type_synonym Quantity = int

definition nano :: int where "nano = 1000000000"

definition NewQuantity :: "int \<Rightarrow> Quantity" where
  "NewQuantity v = v * nano"

definition Quantity_Value :: "Quantity \<Rightarrow> int" where
  "Quantity_Value q = - ((- q) div nano)"

definition Quantity_Cmp :: "Quantity \<Rightarrow> Quantity \<Rightarrow> int" where
  "Quantity_Cmp a b = (if a < b then -1 else if a = b then 0 else 1)"

record HcloudVolumeSpec =
  hvs_Location :: HcloudLocation
  hvs_Size :: "Quantity option"
  hvs_ReclaimPolicy :: string

record HcloudVolumeStatus =
  hvt_Location :: HcloudLocation
  hvt_Size :: "Quantity option"
  hvt_VolumeID :: "int option"

record HcloudVolume =
  hv_Meta :: ObjectMeta
  hv_Spec :: HcloudVolumeSpec
  hv_Status :: HcloudVolumeStatus

section \<open>Bare metal machines: api/v1alpha3/baremetalmachine\_types.go\<close>

record SshTokenRef =
  str_PublicKey :: string
  str_PrivateKey :: string
  str_SSHKeyName :: string
  str_TokenName :: string

record BareMetalMachineSpec =
  bms_SSHTokenRef :: SshTokenRef
  bms_ProviderID :: "string option"
  bms_Partition :: "string option"
  bms_ImagePath :: "string option"
  bms_ServerType :: "string option"

record BareMetalMachineStatus =
  bmt_IPv4 :: string
  bmt_IPv6 :: string
  bmt_ServerID :: int
  bmt_ServerName :: string
  bmt_Ready :: bool
  bmt_ServerState :: string
  bmt_Cancelled :: bool
  bmt_Reset :: bool
  bmt_Rescue :: bool
  bmt_FailureReason :: "string option"
  bmt_FailureMessage :: "string option"

record BareMetalMachine =
  bm_Meta :: ObjectMeta
  bm_Spec :: BareMetalMachineSpec
  bm_Status :: BareMetalMachineStatus

section \<open>Zero values\<close>

definition zero_ObjectMeta :: ObjectMeta where
  "zero_ObjectMeta = \<lparr>om_Name = [], om_Namespace = [], om_Labels = [], om_Finalizers = [],
     om_DeletionTimestamp = None\<rparr>"

definition zero_Machine :: Machine where
  "zero_Machine = \<lparr>m_Name = [], m_Namespace = [], m_ControlPlane = False, m_ClusterName = [],
     m_FailureDomain = None, m_Version = None, m_DataSecretName = None,
     m_InfrastructureRefGroupKind = [], m_InfrastructureRefName = [],
     m_InfrastructureReady = False\<rparr>"

definition zero_Cluster :: Cluster where
  "zero_Cluster = \<lparr>cl_Name = [], cl_Namespace = [], cl_FailureDomains = [],
     cl_ControlPlaneEndpoint = \<lparr>ep_Host = [], ep_Port = 0\<rparr>, cl_InfrastructureRefName = None\<rparr>"

definition zero_HcloudMachine :: HcloudMachine where
  "zero_HcloudMachine = \<lparr>hm_Meta = zero_ObjectMeta,
     hm_Spec = \<lparr>hms_SSHKeys = [], hms_Type = [], hms_Volumes = [], hms_ImageName = [],
       hms_ProviderID = None\<rparr>,
     hm_Status = \<lparr>hmt_Location = [], hmt_NetworkZone = [], hmt_ImageID = None,
       hmt_ServerState = None, hmt_Ready = False, hmt_ImageInitialized = False,
       hmt_Addresses = [], hmt_FailureReason = None, hmt_FailureMessage = None\<rparr>\<rparr>"

definition zero_HcloudCluster :: HcloudCluster where
  "zero_HcloudCluster = \<lparr>hc_Meta = zero_ObjectMeta,
     hc_Spec = \<lparr>hcs_Locations = [], hcs_SSHKeys = [],
       hcs_ControlPlaneLoadBalancer = \<lparr>lbs_Name = None, lbs_Algorithm = [], lbs_Type = [],
         lbs_Services = []\<rparr>,
       hcs_ControlPlaneEndpoint = None, hcs_Network = None,
       hcs_VCKubeletClientSecretEnabled = False, hcs_HcloudTokenRef = None,
       hcs_HrobotTokenRef = None\<rparr>,
     hc_Status = \<lparr>hct_Locations = [], hct_NetworkZone = [],
       hct_ControlPlaneLoadBalancer = \<lparr>lbt_ID = 0, lbt_Name = [], lbt_Type = [], lbt_IPv4 = [],
         lbt_IPv6 = [], lbt_InternalIP = [], lbt_Labels = [], lbt_Algorithm = [],
         lbt_Targets = []\<rparr>,
       hct_Network = None, hct_Manifests = None, hct_Ready = False,
       hct_FailureDomains = [], hct_FailureReason = None, hct_FailureMessage = None\<rparr>\<rparr>"

definition zero_HcloudVolume :: HcloudVolume where
  "zero_HcloudVolume = \<lparr>hv_Meta = zero_ObjectMeta,
     hv_Spec = \<lparr>hvs_Location = [], hvs_Size = None, hvs_ReclaimPolicy = []\<rparr>,
     hv_Status = \<lparr>hvt_Location = [], hvt_Size = None, hvt_VolumeID = None\<rparr>\<rparr>"

definition zero_BareMetalMachine :: BareMetalMachine where
  "zero_BareMetalMachine = \<lparr>bm_Meta = zero_ObjectMeta,
     bm_Spec = \<lparr>bms_SSHTokenRef = \<lparr>str_PublicKey = [], str_PrivateKey = [], str_SSHKeyName = [],
         str_TokenName = []\<rparr>,
       bms_ProviderID = None, bms_Partition = None, bms_ImagePath = None, bms_ServerType = None\<rparr>,
     bm_Status = \<lparr>bmt_IPv4 = [], bmt_IPv6 = [], bmt_ServerID = 0, bmt_ServerName = [],
       bmt_Ready = False, bmt_ServerState = [], bmt_Cancelled = False, bmt_Reset = False,
       bmt_Rescue = False, bmt_FailureReason = None, bmt_FailureMessage = None\<rparr>\<rparr>"

end
