(* ===== verification/Clients.thy ===== *)
theory Clients
  imports Api_Types
begin

text \<open>
  The interfaces through which the program acts on the outside world, and the record of what
  it does there.

  Nothing is assumed about the outside world: it is a value of an arbitrary type \<open>'w\<close>, and
  every operation of an interface is a function field that gets its arguments and the
  world and gives an answer or an error and the next world. \<open>HcloudClient\<close> has one field per
  method the program calls of the interface in pkg/scope/hcloudClient.go, \<open>HrobotClient\<close> one per method it
  calls of the interface in pkg/scope/hrobotClient.go, \<open>KubeClient\<close> one per use of the
  Kubernetes client and of the Cluster API helpers, \<open>OsClient\<close> one per use of the file
  system, of HTTP and of child processes. A theorem about a component holds for every
  choice of these functions: whatever the cloud answers, in whatever order.

  \<open>extcall\<close> makes a call and records it as a \<open>call\<close>, so that a property can speak of what
  was asked of the outside world, with which arguments and in which order. Kubernetes
  events are recorded with their type and reason; their message text and the log lines
  are not modelled.
\<close>

section \<open>What the program does to the outside world\<close>

text \<open>
  The image builder's memory is shared by all machines of the process, so it is part of
  the state next to the outside world. A build is the child process of one
  \<^verbatim>\<open>packer build\<close>.
\<close>

record build =
  b_terminated :: bool
  b_result :: "error option"
  b_stdout :: string
  b_stderr :: string

record Packer =
  packerConfigPath :: string
  packerPath :: string
  builds :: "string \<rightharpoonup> build"

text \<open>A kubeconfig: the server URL of each of its clusters.\<close>

type_synonym ClientConfig = "(string, string) gomap"

record 'w sys =
  world :: 'w
  packer :: Packer

datatype (plugins only: code size) call =
    ListLocationC
  | CreateLoadBalancerC LoadBalancerCreateOpts
  | DeleteLoadBalancerC hcloud_LoadBalancer
  | ListLoadBalancersC string
  | AttachLoadBalancerToNetworkC hcloud_LoadBalancer hcloud_Network
  | GetLoadBalancerTypeByNameC string
  | AddTargetServerToLoadBalancerC hcloud_Server bool hcloud_LoadBalancer
  | DeleteTargetServerOfLoadBalancerC hcloud_LoadBalancer hcloud_Server
  | AddServiceToLoadBalancerC hcloud_LoadBalancer LoadBalancerServiceOpts
  | ListImagesC string
  | CreateServerC ServerCreateOpts
  | ListServersC string
  | ShutdownServerC hcloud_Server
  | DeleteServerC hcloud_Server
  | CreateVolumeC VolumeCreateOpts
  | ListVolumesC string
  | DeleteVolumeC int
  | CreateNetworkC NetworkCreateOpts
  | ListNetworksC string
  | DeleteNetworkC int
  | ListSSHKeysC
  | EventC string string
  | KubeGetC string string string
  | KubeListC string string
  | PatchHcloudMachineC HcloudMachine
  | PatchHcloudClusterC HcloudCluster
  | PatchHcloudVolumeC HcloudVolume
  | StatC string
  | HttpGetC string
  | MkdirC string
  | CreateFileC string string
  | LookPathC string
  | RunC string "string list" "string list"
  | StartC string "string list" "string list" string
  | KubeconfigC string string
  | ReadyzC ClientConfig
  | KubeListLabelledC string string "(string, string) gomap"
  | GetCSRC string
  | UpdateApprovalC CertificateSigningRequest
  | PatchBareMetalMachineC BareMetalMachine
  | NewManagerC ClientConfig
  | ReadFileC string
  | JsonnetC string
  | TempFileC
  | WriteTempC string
  | CloseTempC
  | RemoveTempC
  | StdinPipeC
  | KubectlC string "string list" "string list"
  | StdinC string
  | CloseStdinC
  | WaitC
  | NowC
  | ListBMServersC
  | ListBMKeysC
  | ActivateRescueC string string
  | ResetBMServerC string string
  | SetBMServerNameC string string
  | SshDialC string int int
  | SleepC int
  | SshRunC string string

definition extcall ::
    "call \<Rightarrow> ('w \<Rightarrow> (error + 'a) \<times> 'w) \<Rightarrow> (('w, 'x) sys_scheme, call, 'a) M" where
  "extcall c f = (\<lambda>s. case f (world s) of
      (Inl e, w) \<Rightarrow> (Err e, [c], s\<lparr>world := w\<rparr>)
    | (Inr a, w) \<Rightarrow> (Ok a, [c], s\<lparr>world := w\<rparr>))"

definition Eventf :: "string \<Rightarrow> string \<Rightarrow> (('w, 'x) sys_scheme, call, unit) M" where
  "Eventf eventtype reason = tellM (EventC eventtype reason)"

abbreviation EventTypeNormal :: string where "EventTypeNormal \<equiv> ''Normal''"
abbreviation EventTypeWarning :: string where "EventTypeWarning \<equiv> ''Warning''"

section \<open>The Hetzner Cloud client: pkg/scope/hcloudClient.go\<close>

record 'w HcloudClient =
  h_Token :: string
  h_ListLocation :: "'w \<Rightarrow> (error + hcloud_Location list) \<times> 'w"
  h_CreateLoadBalancer :: "LoadBalancerCreateOpts \<Rightarrow> 'w \<Rightarrow> (error + hcloud_LoadBalancer) \<times> 'w"
  h_DeleteLoadBalancer :: "hcloud_LoadBalancer \<Rightarrow> 'w \<Rightarrow> (error + unit) \<times> 'w"
  h_ListLoadBalancers :: "string \<Rightarrow> 'w \<Rightarrow> (error + hcloud_LoadBalancer list) \<times> 'w"
  h_AttachLoadBalancerToNetwork :: "hcloud_LoadBalancer \<Rightarrow> hcloud_Network \<Rightarrow> 'w \<Rightarrow> (error + unit) \<times> 'w"
  h_GetLoadBalancerTypeByName :: "string \<Rightarrow> 'w \<Rightarrow> (error + string option) \<times> 'w"
  h_AddTargetServerToLoadBalancer :: "hcloud_Server \<Rightarrow> bool \<Rightarrow> hcloud_LoadBalancer \<Rightarrow> 'w \<Rightarrow> (error + unit) \<times> 'w"
  h_DeleteTargetServerOfLoadBalancer :: "hcloud_LoadBalancer \<Rightarrow> hcloud_Server \<Rightarrow> 'w \<Rightarrow> (error + unit) \<times> 'w"
  h_AddServiceToLoadBalancer :: "hcloud_LoadBalancer \<Rightarrow> LoadBalancerServiceOpts \<Rightarrow> 'w \<Rightarrow> (error + unit) \<times> 'w"
  h_ListImages :: "string \<Rightarrow> 'w \<Rightarrow> (error + hcloud_Image list) \<times> 'w"
  h_CreateServer :: "ServerCreateOpts \<Rightarrow> 'w \<Rightarrow> (error + hcloud_Server) \<times> 'w"
  h_ListServers :: "string \<Rightarrow> 'w \<Rightarrow> (error + hcloud_Server list) \<times> 'w"
  h_ShutdownServer :: "hcloud_Server \<Rightarrow> 'w \<Rightarrow> (error + unit) \<times> 'w"
  h_DeleteServer :: "hcloud_Server \<Rightarrow> 'w \<Rightarrow> (error + unit) \<times> 'w"
  h_CreateVolume :: "VolumeCreateOpts \<Rightarrow> 'w \<Rightarrow> (error + hcloud_Volume) \<times> 'w"
  h_ListVolumes :: "string \<Rightarrow> 'w \<Rightarrow> (error + hcloud_Volume list) \<times> 'w"
  h_DeleteVolume :: "int \<Rightarrow> 'w \<Rightarrow> (error + unit) \<times> 'w"
  h_CreateNetwork :: "NetworkCreateOpts \<Rightarrow> 'w \<Rightarrow> (error + hcloud_Network) \<times> 'w"
  h_ListNetworks :: "string \<Rightarrow> 'w \<Rightarrow> (error + hcloud_Network list) \<times> 'w"
  h_DeleteNetwork :: "int \<Rightarrow> 'w \<Rightarrow> (error + unit) \<times> 'w"
  h_ListSSHKeys :: "'w \<Rightarrow> (error + hcloud_SSHKey list) \<times> 'w"

definition ListLocation :: "'w HcloudClient \<Rightarrow> (('w, 'x) sys_scheme, call, hcloud_Location list) M" where
  "ListLocation c = extcall ListLocationC (h_ListLocation c)"

definition CreateLoadBalancer :: "'w HcloudClient \<Rightarrow> LoadBalancerCreateOpts \<Rightarrow> (('w, 'x) sys_scheme, call, hcloud_LoadBalancer) M" where
  "CreateLoadBalancer c opts = extcall (CreateLoadBalancerC opts) (h_CreateLoadBalancer c opts)"

definition DeleteLoadBalancer :: "'w HcloudClient \<Rightarrow> hcloud_LoadBalancer \<Rightarrow> (('w, 'x) sys_scheme, call, unit) M" where
  "DeleteLoadBalancer c lb = extcall (DeleteLoadBalancerC lb) (h_DeleteLoadBalancer c lb)"

definition ListLoadBalancers :: "'w HcloudClient \<Rightarrow> string \<Rightarrow> (('w, 'x) sys_scheme, call, hcloud_LoadBalancer list) M" where
  "ListLoadBalancers c labelSelector = extcall (ListLoadBalancersC labelSelector) (h_ListLoadBalancers c labelSelector)"

definition AttachLoadBalancerToNetwork :: "'w HcloudClient \<Rightarrow> hcloud_LoadBalancer \<Rightarrow> hcloud_Network \<Rightarrow> (('w, 'x) sys_scheme, call, unit) M" where
  "AttachLoadBalancerToNetwork c lb net = extcall (AttachLoadBalancerToNetworkC lb net) (h_AttachLoadBalancerToNetwork c lb net)"

definition GetLoadBalancerTypeByName :: "'w HcloudClient \<Rightarrow> string \<Rightarrow> (('w, 'x) sys_scheme, call, string option) M" where
  "GetLoadBalancerTypeByName c name = extcall (GetLoadBalancerTypeByNameC name) (h_GetLoadBalancerTypeByName c name)"

definition AddTargetServerToLoadBalancer :: "'w HcloudClient \<Rightarrow> hcloud_Server \<Rightarrow> bool \<Rightarrow> hcloud_LoadBalancer \<Rightarrow> (('w, 'x) sys_scheme, call, unit) M" where
  "AddTargetServerToLoadBalancer c server usePrivateIP lb = extcall (AddTargetServerToLoadBalancerC server usePrivateIP lb) (h_AddTargetServerToLoadBalancer c server usePrivateIP lb)"

definition DeleteTargetServerOfLoadBalancer :: "'w HcloudClient \<Rightarrow> hcloud_LoadBalancer \<Rightarrow> hcloud_Server \<Rightarrow> (('w, 'x) sys_scheme, call, unit) M" where
  "DeleteTargetServerOfLoadBalancer c lb server = extcall (DeleteTargetServerOfLoadBalancerC lb server) (h_DeleteTargetServerOfLoadBalancer c lb server)"

definition AddServiceToLoadBalancer :: "'w HcloudClient \<Rightarrow> hcloud_LoadBalancer \<Rightarrow> LoadBalancerServiceOpts \<Rightarrow> (('w, 'x) sys_scheme, call, unit) M" where
  "AddServiceToLoadBalancer c lb opts = extcall (AddServiceToLoadBalancerC lb opts) (h_AddServiceToLoadBalancer c lb opts)"

definition ListImages :: "'w HcloudClient \<Rightarrow> string \<Rightarrow> (('w, 'x) sys_scheme, call, hcloud_Image list) M" where
  "ListImages c labelSelector = extcall (ListImagesC labelSelector) (h_ListImages c labelSelector)"

definition CreateServer :: "'w HcloudClient \<Rightarrow> ServerCreateOpts \<Rightarrow> (('w, 'x) sys_scheme, call, hcloud_Server) M" where
  "CreateServer c opts = extcall (CreateServerC opts) (h_CreateServer c opts)"

definition ListServers :: "'w HcloudClient \<Rightarrow> string \<Rightarrow> (('w, 'x) sys_scheme, call, hcloud_Server list) M" where
  "ListServers c labelSelector = extcall (ListServersC labelSelector) (h_ListServers c labelSelector)"

definition ShutdownServer :: "'w HcloudClient \<Rightarrow> hcloud_Server \<Rightarrow> (('w, 'x) sys_scheme, call, unit) M" where
  "ShutdownServer c server = extcall (ShutdownServerC server) (h_ShutdownServer c server)"

definition DeleteServer :: "'w HcloudClient \<Rightarrow> hcloud_Server \<Rightarrow> (('w, 'x) sys_scheme, call, unit) M" where
  "DeleteServer c server = extcall (DeleteServerC server) (h_DeleteServer c server)"

definition CreateVolume :: "'w HcloudClient \<Rightarrow> VolumeCreateOpts \<Rightarrow> (('w, 'x) sys_scheme, call, hcloud_Volume) M" where
  "CreateVolume c opts = extcall (CreateVolumeC opts) (h_CreateVolume c opts)"

definition ListVolumes :: "'w HcloudClient \<Rightarrow> string \<Rightarrow> (('w, 'x) sys_scheme, call, hcloud_Volume list) M" where
  "ListVolumes c labelSelector = extcall (ListVolumesC labelSelector) (h_ListVolumes c labelSelector)"

definition DeleteVolume :: "'w HcloudClient \<Rightarrow> int \<Rightarrow> (('w, 'x) sys_scheme, call, unit) M" where
  "DeleteVolume c i = extcall (DeleteVolumeC i) (h_DeleteVolume c i)"

definition CreateNetwork :: "'w HcloudClient \<Rightarrow> NetworkCreateOpts \<Rightarrow> (('w, 'x) sys_scheme, call, hcloud_Network) M" where
  "CreateNetwork c opts = extcall (CreateNetworkC opts) (h_CreateNetwork c opts)"

definition ListNetworks :: "'w HcloudClient \<Rightarrow> string \<Rightarrow> (('w, 'x) sys_scheme, call, hcloud_Network list) M" where
  "ListNetworks c labelSelector = extcall (ListNetworksC labelSelector) (h_ListNetworks c labelSelector)"

definition DeleteNetwork :: "'w HcloudClient \<Rightarrow> int \<Rightarrow> (('w, 'x) sys_scheme, call, unit) M" where
  "DeleteNetwork c i = extcall (DeleteNetworkC i) (h_DeleteNetwork c i)"

definition ListSSHKeys :: "'w HcloudClient \<Rightarrow> (('w, 'x) sys_scheme, call, hcloud_SSHKey list) M" where
  "ListSSHKeys c = extcall ListSSHKeysC (h_ListSSHKeys c)"

section \<open>The Kubernetes client and the Cluster API helpers\<close>

text \<open>
  A patch gets the object as it was when the patch helper was made and as it is now. The
  owner lookups answer \<open>None\<close> when there is no owner reference yet. \<open>k_IsPaused\<close> is
  \<^verbatim>\<open>util.IsPaused\<close>, \<open>k_ReadKubeconfig\<close> the kubeconfig secret and its parsing, \<open>k_Readyz\<close> the
  \<^verbatim>\<open>/readyz\<close> request to the API server of a kubeconfig.
\<close>

record 'w KubeClient =
  k_GetHcloudCluster :: "string \<Rightarrow> string \<Rightarrow> 'w \<Rightarrow> (error + HcloudCluster) \<times> 'w"
  k_GetHcloudMachine :: "string \<Rightarrow> string \<Rightarrow> 'w \<Rightarrow> (error + HcloudMachine) \<times> 'w"
  k_GetHcloudVolume :: "string \<Rightarrow> string \<Rightarrow> 'w \<Rightarrow> (error + HcloudVolume) \<times> 'w"
  k_GetSecret :: "string \<Rightarrow> string \<Rightarrow> 'w \<Rightarrow> (error + (string, string) gomap) \<times> 'w"
  k_GetOwnerMachine :: "ObjectMeta \<Rightarrow> 'w \<Rightarrow> (error + Machine option) \<times> 'w"
  k_GetClusterFromMetadata :: "ObjectMeta \<Rightarrow> 'w \<Rightarrow> (error + Cluster) \<times> 'w"
  k_GetOwnerCluster :: "ObjectMeta \<Rightarrow> 'w \<Rightarrow> (error + Cluster option) \<times> 'w"
  k_ListMachinesRaw :: "string \<Rightarrow> 'w \<Rightarrow> (error + Machine list) \<times> 'w"
  k_ListHcloudMachinesRaw :: "string \<Rightarrow> 'w \<Rightarrow> (error + HcloudMachine list) \<times> 'w"
  k_PatchHcloudMachine :: "HcloudMachine \<Rightarrow> HcloudMachine \<Rightarrow> 'w \<Rightarrow> (error + unit) \<times> 'w"
  k_PatchHcloudCluster :: "HcloudCluster \<Rightarrow> HcloudCluster \<Rightarrow> 'w \<Rightarrow> (error + unit) \<times> 'w"
  k_PatchHcloudVolume :: "HcloudVolume \<Rightarrow> HcloudVolume \<Rightarrow> 'w \<Rightarrow> (error + unit) \<times> 'w"
  k_IsPaused :: "Cluster \<Rightarrow> ObjectMeta \<Rightarrow> bool"
  k_ReadKubeconfig :: "string \<Rightarrow> string \<Rightarrow> 'w \<Rightarrow> (error + ClientConfig) \<times> 'w"
  k_Readyz :: "ClientConfig \<Rightarrow> 'w \<Rightarrow> (error + unit) \<times> 'w"
  k_ListMachinesLabelled :: "string \<Rightarrow> (string, string) gomap \<Rightarrow> 'w \<Rightarrow> (error + Machine list) \<times> 'w"
  k_GetBareMetalMachine :: "string \<Rightarrow> string \<Rightarrow> 'w \<Rightarrow> (error + BareMetalMachine) \<times> 'w"
  k_PatchBareMetalMachine :: "BareMetalMachine \<Rightarrow> BareMetalMachine \<Rightarrow> 'w \<Rightarrow> (error + unit) \<times> 'w"
  k_GetClusterOfMachine :: "Machine \<Rightarrow> 'w \<Rightarrow> (error + Cluster) \<times> 'w"
  k_RestConfig :: "ClientConfig \<Rightarrow> error + unit"
  k_NewForConfig :: "ClientConfig \<Rightarrow> error + unit"
  k_NewManager :: "ClientConfig \<Rightarrow> 'w \<Rightarrow> (error + unit) \<times> 'w"

definition GetHcloudCluster :: "'w KubeClient \<Rightarrow> string \<Rightarrow> string \<Rightarrow> (('w, 'x) sys_scheme, call, HcloudCluster) M" where
  "GetHcloudCluster k ns name = extcall (KubeGetC ''HcloudCluster'' ns name) (k_GetHcloudCluster k ns name)"

definition GetHcloudMachine :: "'w KubeClient \<Rightarrow> string \<Rightarrow> string \<Rightarrow> (('w, 'x) sys_scheme, call, HcloudMachine) M" where
  "GetHcloudMachine k ns name = extcall (KubeGetC ''HcloudMachine'' ns name) (k_GetHcloudMachine k ns name)"

definition GetHcloudVolume :: "'w KubeClient \<Rightarrow> string \<Rightarrow> string \<Rightarrow> (('w, 'x) sys_scheme, call, HcloudVolume) M" where
  "GetHcloudVolume k ns name = extcall (KubeGetC ''HcloudVolume'' ns name) (k_GetHcloudVolume k ns name)"

definition GetSecret :: "'w KubeClient \<Rightarrow> string \<Rightarrow> string \<Rightarrow> (('w, 'x) sys_scheme, call, (string, string) gomap) M" where
  "GetSecret k ns name = extcall (KubeGetC ''Secret'' ns name) (k_GetSecret k ns name)"

definition GetOwnerMachine :: "'w KubeClient \<Rightarrow> ObjectMeta \<Rightarrow> (('w, 'x) sys_scheme, call, Machine option) M" where
  "GetOwnerMachine k meta = extcall (KubeGetC ''OwnerMachine'' (om_Namespace meta) (om_Name meta)) (k_GetOwnerMachine k meta)"

definition GetClusterFromMetadata :: "'w KubeClient \<Rightarrow> ObjectMeta \<Rightarrow> (('w, 'x) sys_scheme, call, Cluster) M" where
  "GetClusterFromMetadata k meta = extcall (KubeGetC ''ClusterFromMetadata'' (om_Namespace meta) (om_Name meta)) (k_GetClusterFromMetadata k meta)"

definition GetOwnerCluster :: "'w KubeClient \<Rightarrow> ObjectMeta \<Rightarrow> (('w, 'x) sys_scheme, call, Cluster option) M" where
  "GetOwnerCluster k meta = extcall (KubeGetC ''OwnerCluster'' (om_Namespace meta) (om_Name meta)) (k_GetOwnerCluster k meta)"

definition ListMachinesRaw :: "'w KubeClient \<Rightarrow> string \<Rightarrow> (('w, 'x) sys_scheme, call, Machine list) M" where
  "ListMachinesRaw k ns = extcall (KubeListC ''Machine'' ns) (k_ListMachinesRaw k ns)"

definition ListHcloudMachinesRaw :: "'w KubeClient \<Rightarrow> string \<Rightarrow> (('w, 'x) sys_scheme, call, HcloudMachine list) M" where
  "ListHcloudMachinesRaw k ns = extcall (KubeListC ''HcloudMachine'' ns) (k_ListHcloudMachinesRaw k ns)"

definition PatchHcloudMachine :: "'w KubeClient \<Rightarrow> HcloudMachine \<Rightarrow> HcloudMachine \<Rightarrow> (('w, 'x) sys_scheme, call, unit) M" where
  "PatchHcloudMachine k before obj = extcall (PatchHcloudMachineC obj) (k_PatchHcloudMachine k before obj)"

definition PatchHcloudCluster :: "'w KubeClient \<Rightarrow> HcloudCluster \<Rightarrow> HcloudCluster \<Rightarrow> (('w, 'x) sys_scheme, call, unit) M" where
  "PatchHcloudCluster k before obj = extcall (PatchHcloudClusterC obj) (k_PatchHcloudCluster k before obj)"

definition PatchHcloudVolume :: "'w KubeClient \<Rightarrow> HcloudVolume \<Rightarrow> HcloudVolume \<Rightarrow> (('w, 'x) sys_scheme, call, unit) M" where
  "PatchHcloudVolume k before obj = extcall (PatchHcloudVolumeC obj) (k_PatchHcloudVolume k before obj)"

definition ReadKubeconfig :: "'w KubeClient \<Rightarrow> string \<Rightarrow> string \<Rightarrow> (('w, 'x) sys_scheme, call, ClientConfig) M" where
  "ReadKubeconfig k ns name = extcall (KubeconfigC ns name) (k_ReadKubeconfig k ns name)"

definition Readyz :: "'w KubeClient \<Rightarrow> ClientConfig \<Rightarrow> (('w, 'x) sys_scheme, call, unit) M" where
  "Readyz k cfg = extcall (ReadyzC cfg) (k_Readyz k cfg)"

text \<open>\<open>labels\<close> are the labels a listed object must carry.\<close>

definition ListMachinesLabelled :: "'w KubeClient \<Rightarrow> string \<Rightarrow> (string, string) gomap \<Rightarrow> (('w, 'x) sys_scheme, call, Machine list) M" where
  "ListMachinesLabelled k ns labels = extcall (KubeListLabelledC ''Machine'' ns labels) (k_ListMachinesLabelled k ns labels)"

definition GetBareMetalMachine :: "'w KubeClient \<Rightarrow> string \<Rightarrow> string \<Rightarrow> (('w, 'x) sys_scheme, call, BareMetalMachine) M" where
  "GetBareMetalMachine k ns name = extcall (KubeGetC ''BareMetalMachine'' ns name) (k_GetBareMetalMachine k ns name)"

definition PatchBareMetalMachine :: "'w KubeClient \<Rightarrow> BareMetalMachine \<Rightarrow> BareMetalMachine \<Rightarrow> (('w, 'x) sys_scheme, call, unit) M" where
  "PatchBareMetalMachine k before obj = extcall (PatchBareMetalMachineC obj) (k_PatchBareMetalMachine k before obj)"

text \<open>
  The cluster that the metadata of a Machine names. A manager is the set of controllers that
  run against the API server of a kubeconfig; \<open>k_RestConfig\<close> and \<open>k_NewForConfig\<close> are the checks of the
  kubeconfig by \<^verbatim>\<open>ClientConfig\<close> and \<^verbatim>\<open>kubernetes.NewForConfig\<close>, which call nobody.
\<close>

definition GetClusterOfMachine :: "'w KubeClient \<Rightarrow> Machine \<Rightarrow> (('w, 'x) sys_scheme, call, Cluster) M" where
  "GetClusterOfMachine k machine = extcall (KubeGetC ''ClusterFromMetadata'' (m_Namespace machine) (m_Name machine)) (k_GetClusterOfMachine k machine)"

definition NewManager :: "'w KubeClient \<Rightarrow> ClientConfig \<Rightarrow> (('w, 'x) sys_scheme, call, unit) M" where
  "NewManager k cfg = extcall (NewManagerC cfg) (k_NewManager k cfg)"

section \<open>The Hetzner Robot client: pkg/scope/hrobotClient.go\<close>

record 'w HrobotClient =
  r_ListBMServers :: "'w \<Rightarrow> (error + robot_Server list) \<times> 'w"
  r_ListBMKeys :: "'w \<Rightarrow> (error + robot_Key list) \<times> 'w"
  r_ActivateRescue :: "string \<Rightarrow> string \<Rightarrow> 'w \<Rightarrow> (error + unit) \<times> 'w"
  r_ResetBMServer :: "string \<Rightarrow> string \<Rightarrow> 'w \<Rightarrow> (error + unit) \<times> 'w"
  r_SetBMServerName :: "string \<Rightarrow> string \<Rightarrow> 'w \<Rightarrow> (error + unit) \<times> 'w"

definition ListBMServers :: "'w HrobotClient \<Rightarrow> (('w, 'x) sys_scheme, call, robot_Server list) M" where
  "ListBMServers r = extcall ListBMServersC (r_ListBMServers r)"

definition ListBMKeys :: "'w HrobotClient \<Rightarrow> (('w, 'x) sys_scheme, call, robot_Key list) M" where
  "ListBMKeys r = extcall ListBMKeysC (r_ListBMKeys r)"

definition ActivateRescue :: "'w HrobotClient \<Rightarrow> string \<Rightarrow> string \<Rightarrow> (('w, 'x) sys_scheme, call, unit) M" where
  "ActivateRescue r ip key = extcall (ActivateRescueC ip key) (r_ActivateRescue r ip key)"

definition ResetBMServer :: "'w HrobotClient \<Rightarrow> string \<Rightarrow> string \<Rightarrow> (('w, 'x) sys_scheme, call, unit) M" where
  "ResetBMServer r ip resetType = extcall (ResetBMServerC ip resetType) (r_ResetBMServer r ip resetType)"

definition SetBMServerName :: "'w HrobotClient \<Rightarrow> string \<Rightarrow> string \<Rightarrow> (('w, 'x) sys_scheme, call, unit) M" where
  "SetBMServerName r ip name = extcall (SetBMServerNameC ip name) (r_SetBMServerName r ip name)"

section \<open>Files, HTTP and child processes\<close>

text \<open>
  \<open>os_NotExist\<close> is \<^verbatim>\<open>os.IsNotExist\<close> of the error of \<^verbatim>\<open>os.Stat\<close>. \<open>os_Untar\<close> is the decoding of a gzip
  stream and of the tar archive in it: an error of the gzip reader, or the entries up to
  the end of the archive or to the error that \<^verbatim>\<open>Next\<close> returns. \<open>os_HttpGet\<close> answers the error of
  the request, or that of reading the body, or the body; \<open>os_CreateFile\<close> the error of creating
  the file, or that of writing it, if any. A command runs with exactly the environment given
  and answers its output and its error, if any. The last argument of \<open>StartC\<close> names the
  build that the child process serves.
\<close>

datatype TarEntry = TarDir string | TarReg string string | TarOther string string

record 'w OsClient =
  os_NotExist :: "string \<Rightarrow> 'w \<Rightarrow> (error + bool) \<times> 'w"
  os_HttpGet :: "string \<Rightarrow> 'w \<Rightarrow> (error + (error + string)) \<times> 'w"
  os_Untar :: "string \<Rightarrow> error + (TarEntry list \<times> error option)"
  os_Mkdir :: "string \<Rightarrow> 'w \<Rightarrow> (error + unit) \<times> 'w"
  os_CreateFile :: "string \<Rightarrow> string \<Rightarrow> 'w \<Rightarrow> (error + error option) \<times> 'w"
  os_LookPath :: "string \<Rightarrow> 'w \<Rightarrow> (error + string) \<times> 'w"
  os_Output :: "string \<Rightarrow> string list \<Rightarrow> string list \<Rightarrow> 'w \<Rightarrow> (string \<times> error option) \<times> 'w"
  os_Start :: "string \<Rightarrow> string list \<Rightarrow> string list \<Rightarrow> 'w \<Rightarrow> (error + unit) \<times> 'w"

section \<open>Clients that are cut off\<close>

text \<open>
  Clients whose every request fails. A concrete run updates the few operations it needs.
\<close>

definition offline_hcloud :: "'w HcloudClient" where
  "offline_hcloud = \<lparr>h_Token = [], h_ListLocation = (\<lambda>w. (Inl (ErrNew ''offline''), w)),
     h_CreateLoadBalancer = (\<lambda>_ w. (Inl (ErrNew ''offline''), w)),
     h_DeleteLoadBalancer = (\<lambda>_ w. (Inl (ErrNew ''offline''), w)),
     h_ListLoadBalancers = (\<lambda>_ w. (Inl (ErrNew ''offline''), w)),
     h_AttachLoadBalancerToNetwork = (\<lambda>_ _ w. (Inl (ErrNew ''offline''), w)),
     h_GetLoadBalancerTypeByName = (\<lambda>_ w. (Inl (ErrNew ''offline''), w)),
     h_AddTargetServerToLoadBalancer = (\<lambda>_ _ _ w. (Inl (ErrNew ''offline''), w)),
     h_DeleteTargetServerOfLoadBalancer = (\<lambda>_ _ w. (Inl (ErrNew ''offline''), w)),
     h_AddServiceToLoadBalancer = (\<lambda>_ _ w. (Inl (ErrNew ''offline''), w)),
     h_ListImages = (\<lambda>_ w. (Inl (ErrNew ''offline''), w)),
     h_CreateServer = (\<lambda>_ w. (Inl (ErrNew ''offline''), w)),
     h_ListServers = (\<lambda>_ w. (Inl (ErrNew ''offline''), w)),
     h_ShutdownServer = (\<lambda>_ w. (Inl (ErrNew ''offline''), w)),
     h_DeleteServer = (\<lambda>_ w. (Inl (ErrNew ''offline''), w)),
     h_CreateVolume = (\<lambda>_ w. (Inl (ErrNew ''offline''), w)),
     h_ListVolumes = (\<lambda>_ w. (Inl (ErrNew ''offline''), w)),
     h_DeleteVolume = (\<lambda>_ w. (Inl (ErrNew ''offline''), w)),
     h_CreateNetwork = (\<lambda>_ w. (Inl (ErrNew ''offline''), w)),
     h_ListNetworks = (\<lambda>_ w. (Inl (ErrNew ''offline''), w)),
     h_DeleteNetwork = (\<lambda>_ w. (Inl (ErrNew ''offline''), w)),
     h_ListSSHKeys = (\<lambda>w. (Inl (ErrNew ''offline''), w))\<rparr>"

definition offline_kube :: "'w KubeClient" where
  "offline_kube = \<lparr>k_GetHcloudCluster = (\<lambda>_ _ w. (Inl (ErrNew ''offline''), w)),
     k_GetHcloudMachine = (\<lambda>_ _ w. (Inl (ErrNew ''offline''), w)),
     k_GetHcloudVolume = (\<lambda>_ _ w. (Inl (ErrNew ''offline''), w)),
     k_GetSecret = (\<lambda>_ _ w. (Inl (ErrNew ''offline''), w)),
     k_GetOwnerMachine = (\<lambda>_ w. (Inl (ErrNew ''offline''), w)),
     k_GetClusterFromMetadata = (\<lambda>_ w. (Inl (ErrNew ''offline''), w)),
     k_GetOwnerCluster = (\<lambda>_ w. (Inl (ErrNew ''offline''), w)),
     k_ListMachinesRaw = (\<lambda>_ w. (Inl (ErrNew ''offline''), w)),
     k_ListHcloudMachinesRaw = (\<lambda>_ w. (Inl (ErrNew ''offline''), w)),
     k_PatchHcloudMachine = (\<lambda>_ _ w. (Inl (ErrNew ''offline''), w)),
     k_PatchHcloudCluster = (\<lambda>_ _ w. (Inl (ErrNew ''offline''), w)),
     k_PatchHcloudVolume = (\<lambda>_ _ w. (Inl (ErrNew ''offline''), w)),
     k_IsPaused = (\<lambda>_ _. False),
     k_ReadKubeconfig = (\<lambda>_ _ w. (Inl (ErrNew ''offline''), w)),
     k_Readyz = (\<lambda>_ w. (Inl (ErrNew ''offline''), w)),
     k_ListMachinesLabelled = (\<lambda>_ _ w. (Inl (ErrNew ''offline''), w)),
     k_GetBareMetalMachine = (\<lambda>_ _ w. (Inl (ErrNew ''offline''), w)),
     k_PatchBareMetalMachine = (\<lambda>_ _ w. (Inl (ErrNew ''offline''), w)),
     k_GetClusterOfMachine = (\<lambda>_ w. (Inl (ErrNew ''offline''), w)),
     k_RestConfig = (\<lambda>_. Inr ()),
     k_NewForConfig = (\<lambda>_. Inr ()),
     k_NewManager = (\<lambda>_ w. (Inl (ErrNew ''offline''), w))\<rparr>"

definition offline_os :: "'w OsClient" where
  "offline_os = \<lparr>os_NotExist = (\<lambda>_ w. (Inl (ErrNew ''offline''), w)),
     os_HttpGet = (\<lambda>_ w. (Inl (ErrNew ''offline''), w)),
     os_Untar = (\<lambda>_. Inl (ErrNew ''offline'')),
     os_Mkdir = (\<lambda>_ w. (Inl (ErrNew ''offline''), w)),
     os_CreateFile = (\<lambda>_ _ w. (Inl (ErrNew ''offline''), w)),
     os_LookPath = (\<lambda>_ w. (Inl (ErrNew ''offline''), w)),
     os_Output = (\<lambda>_ _ _ w. (([], Some (ErrNew ''offline'')), w)),
     os_Start = (\<lambda>_ _ _ w. (Inl (ErrNew ''offline''), w))\<rparr>"

definition offline_robot :: "'w HrobotClient" where
  "offline_robot = \<lparr>r_ListBMServers = (\<lambda>w. (Inl (ErrNew ''offline''), w)),
     r_ListBMKeys = (\<lambda>w. (Inl (ErrNew ''offline''), w)),
     r_ActivateRescue = (\<lambda>_ _ w. (Inl (ErrNew ''offline''), w)),
     r_ResetBMServer = (\<lambda>_ _ w. (Inl (ErrNew ''offline''), w)),
     r_SetBMServerName = (\<lambda>_ _ w. (Inl (ErrNew ''offline''), w))\<rparr>"

definition fresh_packer :: Packer where
  "fresh_packer = \<lparr>packerConfigPath = [], packerPath = [], builds = Map.empty\<rparr>"

lemmas offline_defs = offline_hcloud_def offline_kube_def offline_os_def offline_robot_def
  fresh_packer_def

section \<open>Rules\<close>

definition ext_post ::
    "call \<Rightarrow> ('w, 'x) sys_scheme \<Rightarrow> ('a res \<Rightarrow> call list \<Rightarrow> ('w, 'x) sys_scheme \<Rightarrow> bool)
       \<Rightarrow> (error + 'a) \<times> 'w \<Rightarrow> bool" where
  "ext_post c s Q x = (case x of
      (Inl e, w) \<Rightarrow> Q (Err e) [c] (s\<lparr>world := w\<rparr>)
    | (Inr a, w) \<Rightarrow> Q (Ok a) [c] (s\<lparr>world := w\<rparr>))"

lemma ext_post_simps [simp]:
  "ext_post c s Q (Inl e, w) = Q (Err e) [c] (s\<lparr>world := w\<rparr>)"
  "ext_post c s Q (Inr a, w) = Q (Ok a) [c] (s\<lparr>world := w\<rparr>)"
  by (simp_all add: ext_post_def)

lemma wp_extcall: "wp (extcall c f) s Q = ext_post c s Q (f (world s))"
  by (auto simp: wp_def extcall_def ext_post_def split: prod.splits sum.splits)

lemma ext_post_iff:
  "ext_post c s Q x \<longleftrightarrow>
     (\<forall>e w. x = (Inl e, w) \<longrightarrow> Q (Err e) [c] (s\<lparr>world := w\<rparr>)) \<and>
     (\<forall>a w. x = (Inr a, w) \<longrightarrow> Q (Ok a) [c] (s\<lparr>world := w\<rparr>))"
  by (auto simp: ext_post_def split: prod.splits sum.splits)

lemmas client_defs =
  ListLocation_def CreateLoadBalancer_def DeleteLoadBalancer_def
  ListLoadBalancers_def AttachLoadBalancerToNetwork_def GetLoadBalancerTypeByName_def
  AddTargetServerToLoadBalancer_def DeleteTargetServerOfLoadBalancer_def AddServiceToLoadBalancer_def
  ListImages_def CreateServer_def ListServers_def
  ShutdownServer_def DeleteServer_def CreateVolume_def
  ListVolumes_def DeleteVolume_def CreateNetwork_def
  ListNetworks_def DeleteNetwork_def ListSSHKeys_def
  GetHcloudCluster_def GetHcloudMachine_def GetHcloudVolume_def
  GetSecret_def GetOwnerMachine_def GetClusterFromMetadata_def
  GetOwnerCluster_def ListMachinesRaw_def ListHcloudMachinesRaw_def
  PatchHcloudMachine_def PatchHcloudCluster_def PatchHcloudVolume_def
  ReadKubeconfig_def Readyz_def ListMachinesLabelled_def
  GetBareMetalMachine_def PatchBareMetalMachine_def GetClusterOfMachine_def NewManager_def
  ListBMServers_def ListBMKeys_def ActivateRescue_def ResetBMServer_def SetBMServerName_def

text \<open>
  Where nothing is known of the answer: the postcondition must hold for every error and
  every value.
\<close>

lemma wp_extcallI:
  assumes "\<And>e w. f (world s) = (Inl e, w) \<Longrightarrow> Q (Err e) [c] (s\<lparr>world := w\<rparr>)"
    and "\<And>a w. f (world s) = (Inr a, w) \<Longrightarrow> Q (Ok a) [c] (s\<lparr>world := w\<rparr>)"
  shows "wp (extcall c f) s Q"
  using assms by (auto simp: wp_extcall ext_post_def split: prod.splits sum.splits)

lemma wp_Eventf [wp_simps]: "wp (Eventf ty reason) s Q = Q (Ok ()) [EventC ty reason] s"
  by (simp add: Eventf_def wp_simps)

text \<open>
  The requests of a list were accepted one after the other: each answer is a value, and leaves the
  world in which the next request is made.
\<close>

fun accepts_all :: "('a \<Rightarrow> 'w \<Rightarrow> (error + 'b) \<times> 'w) \<Rightarrow> 'a list \<Rightarrow> 'w \<Rightarrow> 'w \<Rightarrow> bool" where
  "accepts_all f [] w w' \<longleftrightarrow> w' = w"
| "accepts_all f (x # xs) w w' \<longleftrightarrow> (case f x w of (Inl e, _) \<Rightarrow> False | (Inr _, w1) \<Rightarrow> accepts_all f xs w1 w')"

lemma accepts_all_append:
  "accepts_all f (xs @ ys) w w' \<longleftrightarrow> (\<exists>w1. accepts_all f xs w w1 \<and> accepts_all f ys w1 w')"
  by (induction xs arbitrary: w) (auto split: prod.splits sum.splits)

text \<open>A loop whose every iteration succeeds only when the outside world accepted its request.\<close>

lemma wp_forM_accepted:
  assumes "\<And>x s0. x \<in> set xs \<Longrightarrow> wp (f x) s0 (\<lambda>r t s'. is_ok r \<longrightarrow>
     t = C x \<and> (\<exists>a. h x (world s0) = (Inr a, world s')))"
  shows "wp (forM f xs) s (\<lambda>r t s'. is_ok r \<longrightarrow>
     t = concat (map C xs) \<and> accepts_all h xs (world s) (world s'))"
  using assms
proof (induction xs arbitrary: s)
  case Nil
  then show ?case by (simp add: wp_simps)
next
  case (Cons x xs)
  show ?case
    unfolding forM.simps wp_bindM
    apply (rule wp_mono[OF Cons.prems])
     apply simp
    subgoal for r t s1
      by (cases r) (auto intro!: wp_mono[OF Cons.IH] Cons.prems)
    done
qed

text \<open>
  A loop of one call each: the calls made are the first ones of the list, all of them, and all
  accepted, when it succeeds, and only the outside world changes.
\<close>

lemma wp_forM_extcall:
  "wp (forM (\<lambda>x. mapErrM g (extcall (C x) (f x))) xs) s (\<lambda>r t s'.
     (\<exists>ys. map C xs = t @ ys) \<and> (r = Ok () \<longrightarrow> t = map C xs \<and> accepts_all f xs (world s) (world s')) \<and>
     \<not> is_panic r \<and> (\<exists>w. s' = s\<lparr>world := w\<rparr>))"
proof (induction xs arbitrary: s)
  case Nil
  then show ?case by (auto simp: wp_simps intro: exI[of _ "world s"])
next
  case (Cons x xs)
  show ?case
  proof (cases "f x (world s)")
    case (Pair a w)
    show ?thesis
    proof (cases a)
      case (Inl e)
      with Pair show ?thesis by (auto simp: wp_simps wp_extcall)
    next
      case (Inr b)
      with Pair show ?thesis
        by (auto simp: wp_simps wp_extcall intro!: wp_mono[OF Cons.IH])
    qed
  qed
qed

end
