(* ===== verification/Scope.thy ===== *)
theory Scope
  imports Clients
begin

text \<open>
  The scopes of pkg/scope: what one reconcile iteration works on. \<open>ClusterScope\<close> extends the
  outside world with the Cluster and HcloudCluster objects; \<open>MachineScope\<close> and
  \<open>VolumeScope\<close> embed it, as the Go structs do. The objects are mutated in place by the
  services and persisted by \<open>Close\<close>, which patches the difference to the snapshot taken
  when the scope was made. Also here: the label selector of pkg/cloud/utils and the manifest
  parameters of pkg/manifests/parameters.

  The lemmas show that the failure domain of a machine is one the cluster offers to it and
  does not depend on the iteration order of the map.
\<close>

section \<open>Scopes\<close>

record 'w ClusterScope = "'w sys" +
  cs_Cluster :: Cluster
  cs_HcloudCluster :: HcloudCluster
  cs_patchHelper :: HcloudCluster
  cs_hcloudToken :: string
  cs_robotUserName :: string
  cs_robotPassword :: string

record 'w MachineScope = "'w ClusterScope" +
  ms_Machine :: Machine
  ms_HcloudMachine :: HcloudMachine
  ms_patchHelper :: HcloudMachine

record 'w VolumeScope = "'w ClusterScope" +
  vs_HcloudVolume :: HcloudVolume
  vs_patchHelper :: HcloudVolume

definition setClusterStatus ::
    "(HcloudClusterStatus \<Rightarrow> HcloudClusterStatus) \<Rightarrow> ('w, 'x) ClusterScope_scheme \<Rightarrow> ('w, 'x) ClusterScope_scheme" where
  "setClusterStatus f s =
     s\<lparr>cs_HcloudCluster := (cs_HcloudCluster s)\<lparr>hc_Status := f (hc_Status (cs_HcloudCluster s))\<rparr>\<rparr>"

definition setClusterSpec ::
    "(HcloudClusterSpec \<Rightarrow> HcloudClusterSpec) \<Rightarrow> ('w, 'x) ClusterScope_scheme \<Rightarrow> ('w, 'x) ClusterScope_scheme" where
  "setClusterSpec f s =
     s\<lparr>cs_HcloudCluster := (cs_HcloudCluster s)\<lparr>hc_Spec := f (hc_Spec (cs_HcloudCluster s))\<rparr>\<rparr>"

definition setMachineStatus ::
    "(HcloudMachineStatus \<Rightarrow> HcloudMachineStatus) \<Rightarrow> ('w, 'x) MachineScope_scheme \<Rightarrow> ('w, 'x) MachineScope_scheme" where
  "setMachineStatus f s =
     s\<lparr>ms_HcloudMachine := (ms_HcloudMachine s)\<lparr>hm_Status := f (hm_Status (ms_HcloudMachine s))\<rparr>\<rparr>"

definition setMachineSpec ::
    "(HcloudMachineSpec \<Rightarrow> HcloudMachineSpec) \<Rightarrow> ('w, 'x) MachineScope_scheme \<Rightarrow> ('w, 'x) MachineScope_scheme" where
  "setMachineSpec f s =
     s\<lparr>ms_HcloudMachine := (ms_HcloudMachine s)\<lparr>hm_Spec := f (hm_Spec (ms_HcloudMachine s))\<rparr>\<rparr>"

lemmas scope_update_defs =
  setClusterStatus_def setClusterSpec_def setMachineStatus_def setMachineSpec_def

section \<open>Label selectors: pkg/cloud/utils\<close>

definition LabelsToLabelSelector :: "(string, string) gomap \<Rightarrow> string" where
  "LabelsToLabelSelector labels =
     Join (map (\<lambda>(key, val). key @ ''=='' @ val) labels) '',''"

section \<open>The cluster scope: pkg/scope/cluster.go\<close>

definition defaultControlPlaneAPIEndpointPort :: int where
  "defaultControlPlaneAPIEndpointPort = 6443"

definition ClusterScope_Name :: "('w, 'x) ClusterScope_scheme \<Rightarrow> string" where
  "ClusterScope_Name s = om_Name (hc_Meta (cs_HcloudCluster s))"

definition ClusterScope_Namespace :: "('w, 'x) ClusterScope_scheme \<Rightarrow> string" where
  "ClusterScope_Namespace s = om_Namespace (hc_Meta (cs_HcloudCluster s))"

definition ClusterScope_Close ::
    "'w KubeClient \<Rightarrow> (('w, 'x) ClusterScope_scheme, call, unit) M" where
  "ClusterScope_Close k = (\<lambda>s. PatchHcloudCluster k (cs_patchHelper s) (cs_HcloudCluster s) s)"

definition ClusterScope_GetSpecLocations :: "('w, 'x) ClusterScope_scheme \<Rightarrow> HcloudLocation list" where
  "ClusterScope_GetSpecLocations s = hcs_Locations (hc_Spec (cs_HcloudCluster s))"

definition ClusterScope_SetStatusLocations ::
    "HcloudLocation list \<Rightarrow> HcloudNetworkZone \<Rightarrow> (('w, 'x) ClusterScope_scheme, call, unit) M" where
  "ClusterScope_SetStatusLocations locations networkZone =
     bindM (modifyM (setClusterSpec (\<lambda>sp. sp\<lparr>hcs_Locations := locations\<rparr>))) (\<lambda>_.
     bindM (modifyM (setClusterStatus (\<lambda>st. st\<lparr>hct_Locations := locations\<rparr>))) (\<lambda>_.
     bindM (modifyM (setClusterStatus (\<lambda>st. st\<lparr>hct_FailureDomains := []\<rparr>))) (\<lambda>_.
     bindM (modifyM (setClusterStatus (\<lambda>st. st\<lparr>hct_FailureDomains :=
              foldl (\<lambda>m l. map_put l \<lparr>fd_ControlPlane = True\<rparr> m) (hct_FailureDomains st) locations\<rparr>))) (\<lambda>_.
     modifyM (setClusterStatus (\<lambda>st. st\<lparr>hct_NetworkZone := networkZone\<rparr>))))))"

definition ClusterScope_ClientConfig ::
    "'w KubeClient \<Rightarrow> (('w, 'x) ClusterScope_scheme, call, ClientConfig) M" where
  "ClusterScope_ClientConfig k =
     bindM (getsM cs_Cluster) (\<lambda>cluster.
     wrapM ''error retrieving kubeconfig for cluster''
       (ReadKubeconfig k (cl_Namespace cluster) (cl_Name cluster)))"

text \<open>
  The endpoint argument is not used: every cluster entry gets the control plane endpoint
  of the HcloudCluster and the port of the first load balancer service.
\<close>

definition ClientConfigWithAPIEndpoint ::
    "'w KubeClient \<Rightarrow> APIEndpoint \<Rightarrow> (('w, 'x) ClusterScope_scheme, call, ClientConfig) M" where
  "ClientConfigWithAPIEndpoint k endpoint =
     bindM (ClusterScope_ClientConfig k) (\<lambda>raw.
     bindM (getsM cs_HcloudCluster) (\<lambda>hc.
     mapMM (\<lambda>(key, _).
       bindM (derefM ''ControlPlaneEndpoint'' (hcs_ControlPlaneEndpoint (hc_Spec hc))) (\<lambda>ep.
       case lbs_Services (hcs_ControlPlaneLoadBalancer (hc_Spec hc)) of
         [] \<Rightarrow> panicM ''index out of range: Services[0]''
       | svc # _ \<Rightarrow> ret (key, ''https://'' @ ep_Host ep @ '':'' @ itoa (lss_ListenPort svc)))) raw))"

definition IsControlPlaneReady ::
    "'w KubeClient \<Rightarrow> ClientConfig \<Rightarrow> (('w, 'x) sys_scheme, call, unit) M" where
  "IsControlPlaneReady k cfg = Readyz k cfg"

text \<open>The machines of this cluster that have an HcloudMachine, in the order of the HcloudMachine list.\<close>

fun index_machines :: "string \<Rightarrow> Machine list \<Rightarrow> (string \<rightharpoonup> Machine)" where
  "index_machines cluster [] = Map.empty"
| "index_machines cluster (m # ms) =
     (let rest = index_machines cluster ms in
      if m_ClusterName m \<noteq> cluster
         \<or> m_InfrastructureRefGroupKind m \<noteq> ''HcloudMachine.cluster-api-provider-hcloud.capihc.com''
      then rest
      else (\<lambda>n. case rest n of Some m' \<Rightarrow> Some m'
                | None \<Rightarrow> if n = m_InfrastructureRefName m then Some m else None))"

fun match_machines :: "(string \<rightharpoonup> Machine) \<Rightarrow> HcloudMachine list \<Rightarrow> (Machine \<times> HcloudMachine) list" where
  "match_machines idx [] = []"
| "match_machines idx (hm # hms) = (case idx (om_Name (hm_Meta hm)) of
      None \<Rightarrow> match_machines idx hms
    | Some m \<Rightarrow> (m, hm) # match_machines idx hms)"

definition ListMachines ::
    "'w KubeClient \<Rightarrow> (('w, 'x) ClusterScope_scheme, call, (Machine \<times> HcloudMachine) list) M" where
  "ListMachines k =
     bindM (getsM ClusterScope_Namespace) (\<lambda>ns.
     bindM (ListMachinesRaw k ns) (\<lambda>machines.
     bindM (getsM cs_Cluster) (\<lambda>cluster.
     bindM (ListHcloudMachinesRaw k ns) (\<lambda>hcloudMachines.
     ret (match_machines (index_machines (cl_Name cluster) machines) hcloudMachines)))))"

section \<open>The machine scope: pkg/scope/machine.go\<close>

definition MachineScope_Close ::
    "'w KubeClient \<Rightarrow> (('w, 'x) MachineScope_scheme, call, unit) M" where
  "MachineScope_Close k = (\<lambda>s. PatchHcloudMachine k (ms_patchHelper s) (ms_HcloudMachine s) s)"

definition PatchObject ::
    "'w KubeClient \<Rightarrow> (('w, 'x) MachineScope_scheme, call, unit) M" where
  "PatchObject k = (\<lambda>s. PatchHcloudMachine k (ms_patchHelper s) (ms_HcloudMachine s) s)"

definition IsControlPlane :: "('w, 'x) MachineScope_scheme \<Rightarrow> bool" where
  "IsControlPlane s = m_ControlPlane (ms_Machine s)"

definition MachineScope_Name :: "('w, 'x) MachineScope_scheme \<Rightarrow> string" where
  "MachineScope_Name s = om_Name (hm_Meta (ms_HcloudMachine s))"

definition MachineScope_Namespace :: "('w, 'x) MachineScope_scheme \<Rightarrow> string" where
  "MachineScope_Namespace s = om_Namespace (hm_Meta (ms_HcloudMachine s))"

definition IsBootstrapDataReady :: "('w, 'x) MachineScope_scheme \<Rightarrow> bool" where
  "IsBootstrapDataReady s = (m_DataSecretName (ms_Machine s) \<noteq> None)"

definition failureDomainNames :: "bool \<Rightarrow> (string, FailureDomainSpec) gomap \<Rightarrow> string list" where
  "failureDomainNames controlPlane fds =
     map fst (filter (\<lambda>(fdName, fd). \<not> (controlPlane \<and> \<not> fd_ControlPlane fd)) fds)"

definition GetFailureDomain :: "('w, 'x) MachineScope_scheme \<Rightarrow> error + string" where
  "GetFailureDomain s =
     (case m_FailureDomain (ms_Machine s) of
        Some fd \<Rightarrow> Inr fd
      | None \<Rightarrow>
          let names = failureDomainNames (IsControlPlane s) (cl_FailureDomains (cs_Cluster s)) in
          if length names = 0 then Inl ErrFailureDomainNotFound
          else if length names = 1 then Inr (names ! 0)
          else let sorted_names = sort names;
                   pos = unat (ChecksumIEEE (MachineScope_Name s)) mod length sorted_names
               in Inr (sorted_names ! pos))"

definition GetRawBootstrapData ::
    "'w KubeClient \<Rightarrow> (('w, 'x) MachineScope_scheme, call, string) M" where
  "GetRawBootstrapData k =
     bindM (getsM ms_Machine) (\<lambda>machine.
     case m_DataSecretName machine of
       None \<Rightarrow> failM ErrBootstrapDataNotReady
     | Some secretName \<Rightarrow>
         bindM (getsM MachineScope_Namespace) (\<lambda>ns.
         bindM (getsM MachineScope_Name) (\<lambda>name.
         bindM (wrapM (''failed to retrieve bootstrap data secret for HcloudMachine '' @ ns @ ''/'' @ name)
                  (GetSecret k ns secretName)) (\<lambda>data.
         case map_of data ''value'' of
           None \<Rightarrow> failM (ErrNew ''error retrieving bootstrap data: secret value key is missing'')
         | Some value \<Rightarrow> ret value))))"

section \<open>The volume scope: pkg/scope/volume.go\<close>

definition VolumeScope_Close ::
    "'w KubeClient \<Rightarrow> (('w, 'x) VolumeScope_scheme, call, unit) M" where
  "VolumeScope_Close k = (\<lambda>s. PatchHcloudVolume k (vs_patchHelper s) (vs_HcloudVolume s) s)"

definition VolumeScope_GetSpecLocations :: "('w, 'x) VolumeScope_scheme \<Rightarrow> HcloudLocation list" where
  "VolumeScope_GetSpecLocations s = [hvs_Location (hv_Spec (vs_HcloudVolume s))]"

definition setVolumeStatus ::
    "(HcloudVolumeStatus \<Rightarrow> HcloudVolumeStatus) \<Rightarrow> ('w, 'x) VolumeScope_scheme \<Rightarrow> ('w, 'x) VolumeScope_scheme" where
  "setVolumeStatus f s =
     s\<lparr>vs_HcloudVolume := (vs_HcloudVolume s)\<lparr>hv_Status := f (hv_Status (vs_HcloudVolume s))\<rparr>\<rparr>"

definition setVolumeSpec ::
    "(HcloudVolumeSpec \<Rightarrow> HcloudVolumeSpec) \<Rightarrow> ('w, 'x) VolumeScope_scheme \<Rightarrow> ('w, 'x) VolumeScope_scheme" where
  "setVolumeSpec f s =
     s\<lparr>vs_HcloudVolume := (vs_HcloudVolume s)\<lparr>hv_Spec := f (hv_Spec (vs_HcloudVolume s))\<rparr>\<rparr>"

definition VolumeScope_SetStatusLocations ::
    "HcloudLocation list \<Rightarrow> HcloudNetworkZone \<Rightarrow> (('w, 'x) VolumeScope_scheme, call, unit) M" where
  "VolumeScope_SetStatusLocations location networkZone =
     (case location of
        [] \<Rightarrow> panicM ''index out of range: location[0]''
      | l # _ \<Rightarrow> modifyM (setVolumeStatus (\<lambda>st. st\<lparr>hvt_Location := l\<rparr>)))"

section \<open>Manifest parameters: pkg/scope/cluster.go and pkg/manifests/parameters\<close>

text \<open>\<^verbatim>\<open>intstr.IntOrString\<close> and its \<^verbatim>\<open>String\<close> method.\<close>

datatype IntOrString = FromInt int | FromString string

fun IntOrString_String :: "IntOrString \<Rightarrow> string" where
  "IntOrString_String (FromInt i) = itoa i"
| "IntOrString_String (FromString v) = v"

record ManifestParameters =
  mp_HcloudToken :: "string option"
  mp_RobotUserName :: "string option"
  mp_RobotPassword :: "string option"
  mp_HcloudNetwork :: "IntOrString option"
  mp_KubeAPIServerIPv4 :: "string option"
  mp_KubeAPIServerDomain :: "string option"
  mp_Port :: "string option"
  mp_CAcrt :: "string option"
  mp_CAkey :: "string option"

definition put_or :: "string \<Rightarrow> string option \<Rightarrow> string \<Rightarrow> (string, string) gomap \<Rightarrow> (string, string) gomap" where
  "put_or key val dflt m = map_put key (case val of Some v \<Rightarrow> v | None \<Rightarrow> dflt) m"

definition put_some :: "string \<Rightarrow> string option \<Rightarrow> (string, string) gomap \<Rightarrow> (string, string) gomap" where
  "put_some key val m = (case val of Some v \<Rightarrow> map_put key v m | None \<Rightarrow> m)"

definition ExtVar :: "ManifestParameters \<Rightarrow> (string, string) gomap" where
  "ExtVar p =
     put_or ''hcloud-network'' (map_option IntOrString_String (mp_HcloudNetwork p)) ''''
     (put_some ''ca-key'' (mp_CAkey p)
     (put_some ''ca-crt'' (mp_CAcrt p)
     (put_some ''robot-password'' (mp_RobotPassword p)
     (put_some ''robot-username'' (mp_RobotUserName p)
     (put_some ''hcloud-token'' (mp_HcloudToken p)
     (put_or ''port'' (mp_Port p) ''6443''
     (put_or ''kube-apiserver-domain'' (mp_KubeAPIServerDomain p) ''''
     (put_or ''kube-apiserver-ip'' (mp_KubeAPIServerIPv4 p) '''' []))))))))"

definition int32 :: "int \<Rightarrow> int" where
  "int32 i = sint (word_of_int i :: 32 word)"

definition manifestParameters ::
    "'w KubeClient \<Rightarrow> (('w, 'x) ClusterScope_scheme, call, ManifestParameters) M" where
  "manifestParameters k =
     bindM (getsM id) (\<lambda>s.
     let hc = cs_HcloudCluster s;
         ipv4 = lbt_IPv4 (hct_ControlPlaneLoadBalancer (hc_Status hc)) in
     bindM (derefM ''ControlPlaneEndpoint'' (hcs_ControlPlaneEndpoint (hc_Spec hc))) (\<lambda>ep.
     let domain = (if ep_Host ep \<noteq> ipv4 then ep_Host ep else '''');
         params = (\<lambda>crt key. \<lparr>mp_HcloudToken = Some (cs_hcloudToken s),
            mp_RobotUserName = Some (cs_robotUserName s),
            mp_RobotPassword = Some (cs_robotPassword s),
            mp_HcloudNetwork = map_option (\<lambda>n. FromInt (int32 (hnt_ID n))) (hct_Network (hc_Status hc)),
            mp_KubeAPIServerIPv4 = Some ipv4,
            mp_KubeAPIServerDomain = Some domain,
            mp_Port = Some (itoa (ep_Port ep)),
            mp_CAcrt = Some crt, mp_CAkey = Some key\<rparr>) in
     if hcs_VCKubeletClientSecretEnabled (hc_Spec hc) then
       bindM (wrapM (''failed to retrieve ca secret '' @ ClusterScope_Namespace s @ ''/'' @ ClusterScope_Name s)
                (GetSecret k (ClusterScope_Namespace s) (ClusterScope_Name s @ ''-ca''))) (\<lambda>data.
       case map_of data ''tls.crt'' of
         None \<Rightarrow> failM (ErrNew ''error retrieving bootstrap data: secret value key is missing'')
       | Some tlsCrt \<Rightarrow> (case map_of data ''tls.key'' of
           None \<Rightarrow> failM (ErrNew ''error retrieving bootstrap data: secret value key is missing'')
         | Some tlsKey \<Rightarrow> ret (params tlsCrt tlsKey)))
     else ret (params [] [])))"

section \<open>Scopes of zero values\<close>

definition zero_ClusterScope :: "'w \<Rightarrow> 'w ClusterScope" where
  "zero_ClusterScope w = \<lparr>world = w, packer = fresh_packer, cs_Cluster = zero_Cluster,
     cs_HcloudCluster = zero_HcloudCluster, cs_patchHelper = zero_HcloudCluster,
     cs_hcloudToken = [], cs_robotUserName = [], cs_robotPassword = []\<rparr>"

definition zero_MachineScope :: "'w \<Rightarrow> 'w MachineScope" where
  "zero_MachineScope w = ClusterScope.extend (zero_ClusterScope w)
     (MachineScope.fields zero_Machine zero_HcloudMachine zero_HcloudMachine)"

definition zero_VolumeScope :: "'w \<Rightarrow> 'w VolumeScope" where
  "zero_VolumeScope w = ClusterScope.extend (zero_ClusterScope w)
     (VolumeScope.fields zero_HcloudVolume zero_HcloudVolume)"

lemmas zero_defs = zero_ClusterScope_def zero_MachineScope_def zero_VolumeScope_def
  zero_Cluster_def zero_Machine_def zero_HcloudCluster_def zero_HcloudMachine_def
  zero_HcloudVolume_def zero_ObjectMeta_def

section \<open>Failure domains\<close>

lemma set_failureDomainNames:
  "set (failureDomainNames cp fds) = {n. \<exists>fd. (n, fd) \<in> set fds \<and> (cp \<longrightarrow> fd_ControlPlane fd)}"
  by (force simp: failureDomainNames_def)

lemma mset_failureDomainNames:
  "mset fds = mset fds' \<Longrightarrow> mset (failureDomainNames cp fds) = mset (failureDomainNames cp fds')"
  by (simp add: failureDomainNames_def)

lemma sort_cong_mset:
  fixes xs ys :: "'a :: linorder list"
  shows "mset xs = mset ys \<Longrightarrow> sort xs = sort ys"
  by (metis properties_for_sort mset_sort sorted_sort)

lemma GetFailureDomain_sorted:
  "GetFailureDomain s = (case m_FailureDomain (ms_Machine s) of
     Some fd \<Rightarrow> Inr fd
   | None \<Rightarrow> (let names = sort (failureDomainNames (IsControlPlane s) (cl_FailureDomains (cs_Cluster s)))
              in if names = [] then Inl ErrFailureDomainNotFound
                 else Inr (names ! (unat (ChecksumIEEE (MachineScope_Name s)) mod length names))))"
proof -
  have one: "sort xs = xs" if "length xs = 1" for xs :: "string list"
    using that by (cases xs) auto
  from one show ?thesis
    by (auto simp: GetFailureDomain_def Let_def split: option.splits)
qed

section \<open>Listing machines\<close>

definition belongs :: "string \<Rightarrow> Machine \<Rightarrow> HcloudMachine \<Rightarrow> bool" where
  "belongs cluster m hm \<longleftrightarrow> m_ClusterName m = cluster \<and>
     m_InfrastructureRefGroupKind m = ''HcloudMachine.cluster-api-provider-hcloud.capihc.com'' \<and>
     m_InfrastructureRefName m = om_Name (hm_Meta hm)"

lemma index_machines_Some:
  "index_machines cluster ms (om_Name (hm_Meta hm)) = Some m \<Longrightarrow> m \<in> set ms \<and> belongs cluster m hm"
  by (induction ms) (auto simp: belongs_def Let_def split: if_splits option.splits)

lemma index_machines_None:
  "index_machines cluster ms (om_Name (hm_Meta hm)) = None \<longleftrightarrow> (\<forall>m \<in> set ms. \<not> belongs cluster m hm)"
  by (induction ms) (auto simp: belongs_def Let_def split: if_splits option.splits)

lemma match_machines_snd:
  "map snd (match_machines idx hms) = filter (\<lambda>hm. idx (om_Name (hm_Meta hm)) \<noteq> None) hms"
  by (induction hms) (auto split: option.splits)

lemma match_machines_mem:
  "(m, hm) \<in> set (match_machines idx hms) \<Longrightarrow> idx (om_Name (hm_Meta hm)) = Some m"
  by (induction hms) (auto split: option.splits)

lemma ListMachines_wp:
  "wp (ListMachines k) s (\<lambda>r t s'.
     cs_HcloudCluster s' = cs_HcloudCluster s \<and> cs_Cluster s' = cs_Cluster s \<and> \<not> is_panic r \<and>
     (\<forall>ps. r = Ok ps \<longrightarrow> (\<exists>ms hms w w'.
        k_ListMachinesRaw k (ClusterScope_Namespace s) (world s) = (Inr ms, w) \<and>
        k_ListHcloudMachinesRaw k (ClusterScope_Namespace s) w = (Inr hms, w') \<and>
        ps = match_machines (index_machines (cl_Name (cs_Cluster s)) ms) hms)))"
  by (auto simp: ListMachines_def wp_simps client_defs wp_extcall ext_post_iff)

section \<open>Properties\<close>

text \<open>
  The failure domain of a machine that does not name one is one of the cluster's, and for a
  control plane machine one that accepts control planes; the only error is that there is none.
\<close>

theorem GetFailureDomain_offered:
  assumes "m_FailureDomain (ms_Machine s) = None"
  shows "case GetFailureDomain s of
      Inr n \<Rightarrow> \<exists>fd. (n, fd) \<in> set (cl_FailureDomains (cs_Cluster s)) \<and> (IsControlPlane s \<longrightarrow> fd_ControlPlane fd)
    | Inl e \<Rightarrow> e = ErrFailureDomainNotFound \<and>
        \<not> (\<exists>(n, fd) \<in> set (cl_FailureDomains (cs_Cluster s)). IsControlPlane s \<longrightarrow> fd_ControlPlane fd)"
proof -
  let ?ns = "sort (failureDomainNames (IsControlPlane s) (cl_FailureDomains (cs_Cluster s)))"
  have set_ns: "set ?ns = {n. \<exists>fd. (n, fd) \<in> set (cl_FailureDomains (cs_Cluster s)) \<and>
      (IsControlPlane s \<longrightarrow> fd_ControlPlane fd)}"
    by (simp only: set_sort set_failureDomainNames)
  show ?thesis
  proof (cases "?ns = []")
    case True
    with set_ns have "\<forall>(n, fd) \<in> set (cl_FailureDomains (cs_Cluster s)). IsControlPlane s \<and> \<not> fd_ControlPlane fd"
      by auto
    with True assms show ?thesis by (auto simp: GetFailureDomain_sorted Let_def)
  next
    case False
    then have "?ns ! (unat (ChecksumIEEE (MachineScope_Name s)) mod length ?ns) \<in> set ?ns"
      by (intro nth_mem mod_less_divisor) simp
    with set_ns False assms show ?thesis by (auto simp: GetFailureDomain_sorted Let_def)
  qed
qed

definition example_domains :: "(string, FailureDomainSpec) gomap" where
  "example_domains = [(''nbg1'', \<lparr>fd_ControlPlane = True\<rparr>), (''hel1'', \<lparr>fd_ControlPlane = True\<rparr>),
     (''fsn1'', \<lparr>fd_ControlPlane = True\<rparr>), (''ash'', \<lparr>fd_ControlPlane = False\<rparr>)]"

definition example_machine_scope :: "(string, FailureDomainSpec) gomap \<Rightarrow> unit MachineScope" where
  "example_machine_scope fds = (zero_MachineScope ())
     \<lparr>cs_Cluster := zero_Cluster\<lparr>cl_FailureDomains := fds\<rparr>,
      ms_Machine := zero_Machine\<lparr>m_ControlPlane := True\<rparr>,
      ms_HcloudMachine := zero_HcloudMachine\<lparr>hm_Meta := zero_ObjectMeta\<lparr>om_Name := ''my-name''\<rparr>\<rparr>\<rparr>"

lemma GetFailureDomain_offered_witness:
  "\<exists>n fd. GetFailureDomain (example_machine_scope example_domains) = Inr n \<and>
     (n, fd) \<in> set example_domains \<and> fd_ControlPlane fd"
proof -
  have "m_FailureDomain (ms_Machine (example_machine_scope example_domains)) = None"
    and cl: "cl_FailureDomains (cs_Cluster (example_machine_scope example_domains)) = example_domains"
    and cp: "IsControlPlane (example_machine_scope example_domains)"
    by (simp_all add: example_machine_scope_def zero_defs IsControlPlane_def)
  note offered = GetFailureDomain_offered[OF this(1), unfolded cl]
  have "(''nbg1'', \<lparr>fd_ControlPlane = True\<rparr>) \<in> set example_domains" by (simp add: example_domains_def)
  with offered cp show ?thesis
    by (fastforce split: sum.splits)
qed

text \<open>
  The failure domain of a machine does not depend on the order in which the runtime
  iterates over the cluster's map of failure domains.
\<close>

theorem GetFailureDomain_order:
  assumes "mset (cl_FailureDomains (cs_Cluster s)) = mset (cl_FailureDomains (cs_Cluster s'))"
    and "ms_Machine s = ms_Machine s'" and "MachineScope_Name s = MachineScope_Name s'"
  shows "GetFailureDomain s = GetFailureDomain s'"
proof -
  have names: "sort (failureDomainNames cp (cl_FailureDomains (cs_Cluster s))) =
      sort (failureDomainNames cp (cl_FailureDomains (cs_Cluster s')))" for cp
    by (rule sort_cong_mset[OF mset_failureDomainNames[OF assms(1)]])
  have cp: "IsControlPlane s = IsControlPlane s'" by (simp add: IsControlPlane_def assms(2))
  show ?thesis
    unfolding GetFailureDomain_sorted names assms(2,3) cp by (rule refl)
qed

lemma GetFailureDomain_order_witness:
  "GetFailureDomain (example_machine_scope example_domains) =
   GetFailureDomain (example_machine_scope (rev example_domains))"
  by (rule GetFailureDomain_order) (simp_all add: example_machine_scope_def MachineScope_Name_def)

text \<open>
  Listing the machines of a cluster returns exactly the listed HcloudMachines that a listed
  Machine of this cluster refers to, in their order, each with such a Machine.
\<close>

theorem ListMachines_correct:
  assumes "outcome (ListMachines k s) = Ok ps"
  shows "\<exists>ms hms w w'.
     k_ListMachinesRaw k (ClusterScope_Namespace s) (world s) = (Inr ms, w) \<and>
     k_ListHcloudMachinesRaw k (ClusterScope_Namespace s) w = (Inr hms, w') \<and>
     map snd ps = filter (\<lambda>hm. \<exists>m \<in> set ms. belongs (cl_Name (cs_Cluster s)) m hm) hms \<and>
     (\<forall>(m, hm) \<in> set ps. m \<in> set ms \<and> belongs (cl_Name (cs_Cluster s)) m hm)"
proof -
  from ListMachines_wp[of k s] assms obtain ms hms w w' where
    raw: "k_ListMachinesRaw k (ClusterScope_Namespace s) (world s) = (Inr ms, w)"
      "k_ListHcloudMachinesRaw k (ClusterScope_Namespace s) w = (Inr hms, w')"
    and ps: "ps = match_machines (index_machines (cl_Name (cs_Cluster s)) ms) hms"
    unfolding wp_iff by blast
  have "(index_machines (cl_Name (cs_Cluster s)) ms (om_Name (hm_Meta hm)) \<noteq> None) =
      (\<exists>m \<in> set ms. belongs (cl_Name (cs_Cluster s)) m hm)" for hm
    by (simp add: index_machines_None del: not_None_eq)
  then have "map snd ps = filter (\<lambda>hm. \<exists>m \<in> set ms. belongs (cl_Name (cs_Cluster s)) m hm) hms"
    by (simp only: ps match_machines_snd)
  moreover have "\<forall>(m, hm) \<in> set ps. m \<in> set ms \<and> belongs (cl_Name (cs_Cluster s)) m hm"
    using match_machines_mem index_machines_Some by (fastforce simp: ps)
  ultimately show ?thesis using raw by blast
qed

definition example_listing_client :: "unit KubeClient" where
  "example_listing_client = offline_kube
     \<lparr>k_ListMachinesRaw := \<lambda>_ w. (Inr [zero_Machine\<lparr>m_ClusterName := ''c'', m_InfrastructureRefName := ''m1'',
        m_InfrastructureRefGroupKind := ''HcloudMachine.cluster-api-provider-hcloud.capihc.com''\<rparr>], w),
      k_ListHcloudMachinesRaw := \<lambda>_ w. (Inr [
        zero_HcloudMachine\<lparr>hm_Meta := zero_ObjectMeta\<lparr>om_Name := ''m0''\<rparr>\<rparr>,
        zero_HcloudMachine\<lparr>hm_Meta := zero_ObjectMeta\<lparr>om_Name := ''m1''\<rparr>\<rparr>], w)\<rparr>"

lemma ListMachines_correct_witness:
  "\<exists>ps. outcome (ListMachines example_listing_client
          ((zero_ClusterScope ())\<lparr>cs_Cluster := zero_Cluster\<lparr>cl_Name := ''c''\<rparr>\<rparr>)) = Ok ps \<and>
     (\<forall>(m, hm) \<in> set ps. belongs ''c'' m hm)"
proof -
  let ?s = "(zero_ClusterScope ())\<lparr>cs_Cluster := zero_Cluster\<lparr>cl_Name := ''c''\<rparr>\<rparr>"
  obtain ps where ps: "outcome (ListMachines example_listing_client ?s) = Ok ps"
    by (simp add: ListMachines_def example_listing_client_def client_defs extcall_def bindM_def getsM_def
        ret_def outcome_def)
  from ListMachines_correct[OF ps] have "\<forall>(m, hm) \<in> set ps. belongs ''c'' m hm" by auto
  with ps show ?thesis by blast
qed

end
