(* ===== verification/Location_Service.thy ===== *)
theory Location_Service
  imports Scope
begin

text \<open>
  pkg/cloud/resources/location: the locations and the network zone of a cluster or of a
  volume. The service works on the interface \<open>localScope\<close>, which the cluster scope and the
  volume scope implement; \<open>location_Reconcile\<close> takes the interface's operations as
  arguments. The locale \<open>local_scope\<close> states what the service relies on, its lemmas hold for
  both implementations through the two interpretations.

  \<open>select_locations\<close> is the computation between the reads and the write. The lemmas show
  what it accepts and rejects, that a cluster's locations are sorted, non-empty, known and in
  one zone, that a failed reconcile leaves the objects alone, and that a second reconcile
  with the same answer of the cloud succeeds.
\<close>

section \<open>The service\<close>

definition allLocationsMap :: "hcloud_Location list \<Rightarrow> (string \<rightharpoonup> hcloud_Location)" where
  "allLocationsMap ls = map_of (rev (map (\<lambda>l. (loc_Name l, l)) ls))"

definition zone_error :: "string list \<Rightarrow> string \<Rightarrow> string \<Rightarrow> string \<Rightarrow> error" where
  "zone_error locations zone name nZ =
     ErrNew (''error all locations need to be in the same NetworkZone. '' @ Join locations '',''
       @ '' in NetworkZone '' @ zone @ '', '' @ name @ '' in NetworkZone '' @ nZ)"

fun spec_loop ::
    "(string \<rightharpoonup> hcloud_Location) \<Rightarrow> string option \<Rightarrow> string list \<Rightarrow> HcloudLocation list
       \<Rightarrow> error + (string list \<times> string option)" where
  "spec_loop m zone locations [] = Inr (locations, zone)"
| "spec_loop m zone locations (l # ls) =
     (case m l of
        None \<Rightarrow> Inl (ErrNew (''error location '' @ [CHR 0x27] @ l @ [CHR 0x27] @ '' cannot be found''))
      | Some location \<Rightarrow>
          let nZ = loc_NetworkZone location;
              z = (case zone of None \<Rightarrow> nZ | Some z \<Rightarrow> z) in
          if z \<noteq> nZ then Inl (zone_error locations z (loc_Name location) nZ)
          else spec_loop m (Some z) (locations @ [loc_Name location]) ls)"

definition select_locations ::
    "hcloud_Location list \<Rightarrow> HcloudLocation list \<Rightarrow> error + (string list \<times> string)" where
  "select_locations allLocations specLocations =
     (let (locations, networkZone) =
            (if length specLocations = 0
             then (map loc_Name (filter (\<lambda>l. NetworkZoneEUCentral = loc_NetworkZone l) allLocations),
                   Some NetworkZoneEUCentral)
             else ([], None)) in
      case spec_loop (allLocationsMap allLocations) networkZone locations specLocations of
        Inl e \<Rightarrow> Inl e
      | Inr (ls, zone) \<Rightarrow>
          if length ls = 0 then Inl (ErrNew ''error locations is empty'')
          else (case zone of Some z \<Rightarrow> Inr (sort ls, z)
                | None \<Rightarrow> Inl (ErrNew ''error locations is empty'')))"

definition location_Reconcile ::
    "('s, call, hcloud_Location list) M \<Rightarrow> ('s \<Rightarrow> HcloudLocation list)
       \<Rightarrow> (HcloudLocation list \<Rightarrow> HcloudNetworkZone \<Rightarrow> ('s, call, unit) M) \<Rightarrow> ('s, call, unit) M" where
  "location_Reconcile listLocation getSpecLocations setStatusLocations =
     bindM listLocation (\<lambda>allLocations.
     bindM (getsM getSpecLocations) (\<lambda>specLocations.
     bindM (liftM (select_locations allLocations specLocations)) (\<lambda>(locations, networkZone).
     setStatusLocations locations networkZone)))"

definition cluster_location_Reconcile ::
    "'w HcloudClient \<Rightarrow> (('w, 'x) ClusterScope_scheme, call, unit) M" where
  "cluster_location_Reconcile c =
     location_Reconcile (ListLocation c) ClusterScope_GetSpecLocations ClusterScope_SetStatusLocations"

definition volume_location_Reconcile ::
    "'w HcloudClient \<Rightarrow> (('w, 'x) VolumeScope_scheme, call, unit) M" where
  "volume_location_Reconcile c =
     location_Reconcile (ListLocation c) VolumeScope_GetSpecLocations VolumeScope_SetStatusLocations"

section \<open>What is selected\<close>

lemma allLocationsMap_Some:
  "allLocationsMap ls n = Some l \<Longrightarrow> l \<in> set ls \<and> loc_Name l = n"
  by (auto simp: allLocationsMap_def dest: map_of_SomeD)

lemma allLocationsMap_None: "allLocationsMap ls n = None \<longleftrightarrow> n \<notin> loc_Name ` set ls"
  by (auto simp: allLocationsMap_def map_of_eq_None_iff image_image)

lemma spec_loop_Inr_iff:
  assumes "\<And>n l. m n = Some l \<Longrightarrow> loc_Name l = n"
  shows "spec_loop m zone acc ls = Inr (res, z) \<longleftrightarrow>
     res = acc @ ls \<and>
     (case zone of Some z0 \<Rightarrow> z = Some z0
      | None \<Rightarrow> z = (case ls of [] \<Rightarrow> None | l # _ \<Rightarrow> map_option loc_NetworkZone (m l))) \<and>
     (\<forall>l \<in> set ls. \<exists>x. m l = Some x \<and> Some (loc_NetworkZone x) = z)"
  by (induction ls arbitrary: zone acc)
    (auto simp: Let_def dest: assms split: option.splits list.splits)

lemma spec_loop_sum: "(\<exists>r z. spec_loop m zone acc ls = Inr (r, z)) \<or> (\<exists>e. spec_loop m zone acc ls = Inl e)"
  by (cases "spec_loop m zone acc ls") auto

text \<open>The accepted inputs, with the locations and the zone that result.\<close>

lemma select_locations_Inr_iff:
  "select_locations all spec = Inr (ls, z) \<longleftrightarrow>
     (if spec = []
      then ls = sort (map loc_Name (filter (\<lambda>l. NetworkZoneEUCentral = loc_NetworkZone l) all))
           \<and> z = NetworkZoneEUCentral \<and> ls \<noteq> []
      else ls = sort spec \<and>
           (\<forall>l \<in> set spec. \<exists>x. allLocationsMap all l = Some x \<and> loc_NetworkZone x = z))"
proof (cases "spec = []")
  case True
  then show ?thesis by (auto simp: select_locations_def)
next
  case False
  have loop: "spec_loop (allLocationsMap all) None [] spec = Inr (r, zo) \<longleftrightarrow>
      r = spec \<and> (\<forall>l \<in> set spec. \<exists>x. allLocationsMap all l = Some x \<and> Some (loc_NetworkZone x) = zo)" for r zo
    using False allLocationsMap_Some[of all]
    by (subst spec_loop_Inr_iff) (auto split: list.splits)
  show ?thesis
  proof (cases "spec_loop (allLocationsMap all) None [] spec")
    case (Inl e)
    with loop have "\<not> (\<forall>l \<in> set spec. \<exists>x. allLocationsMap all l = Some x \<and> Some (loc_NetworkZone x) = Some z)"
      by (metis Inl_Inr_False)
    with Inl False show ?thesis by (auto simp: select_locations_def)
  next
    case (Inr p)
    obtain r zo where p: "p = (r, zo)" by (cases p)
    from Inr[unfolded p loop] have r: "r = spec"
      and zo: "\<forall>l \<in> set spec. \<exists>x. allLocationsMap all l = Some x \<and> Some (loc_NetworkZone x) = zo"
      by auto
    from zo False obtain z0 where z0: "zo = Some z0" by (cases spec) auto
    with zo have "(\<forall>l \<in> set spec. \<exists>x. allLocationsMap all l = Some x \<and> loc_NetworkZone x = z) \<longleftrightarrow> z = z0"
      using False by (cases spec) auto
    with Inr p r z0 False show ?thesis by (auto simp: select_locations_def)
  qed
qed

lemma select_locations_props:
  assumes "select_locations all spec = Inr (ls, z)"
  shows "ls \<noteq> []" and "sorted ls"
    and "\<forall>l \<in> set ls. \<exists>x \<in> set all. loc_Name x = l \<and> loc_NetworkZone x = z"
    and "spec \<noteq> [] \<Longrightarrow> mset ls = mset spec"
proof -
  show "ls \<noteq> []" "sorted ls" "spec \<noteq> [] \<Longrightarrow> mset ls = mset spec"
    using assms by (auto simp: select_locations_Inr_iff split: if_splits)
  show "\<forall>l \<in> set ls. \<exists>x \<in> set all. loc_Name x = l \<and> loc_NetworkZone x = z"
  proof (cases "spec = []")
    case True
    with assms show ?thesis by (auto simp: select_locations_Inr_iff)
  next
    case False
    with assms have "ls = sort spec"
      and *: "\<forall>l \<in> set spec. \<exists>x. allLocationsMap all l = Some x \<and> loc_NetworkZone x = z"
      by (simp_all add: select_locations_Inr_iff)
    then have "set ls = set spec" by simp
    with * show ?thesis by (metis allLocationsMap_Some)
  qed
qed

text \<open>What was selected is accepted again, when names are unique: the basis of idempotence.\<close>

lemma select_locations_again:
  assumes "select_locations all spec = Inr (ls, z)" and "distinct (map loc_Name all)"
  shows "select_locations all ls = Inr (ls, z)"
proof -
  have "sort ls = ls" using select_locations_props(2)[OF assms(1)] by (simp add: sorted_sort_id)
  moreover have "\<exists>x. allLocationsMap all l = Some x \<and> loc_NetworkZone x = z" if "l \<in> set ls" for l
  proof -
    from select_locations_props(3)[OF assms(1)] that obtain x where
      x: "x \<in> set all" "loc_Name x = l" "loc_NetworkZone x = z" by blast
    then obtain y where y: "allLocationsMap all l = Some y"
      by (metis allLocationsMap_None imageI not_None_eq)
    from allLocationsMap_Some[OF y] have "y \<in> set all" "loc_Name y = l" by auto
    with x assms(2) have "y = x" by (metis distinct_map inj_onD)
    with x y show ?thesis by simp
  qed
  ultimately show ?thesis
    using select_locations_props(1)[OF assms(1)] by (auto simp: select_locations_Inr_iff)
qed

section \<open>The interface\<close>

text \<open>
  What the service relies on: writing a non-empty list of locations neither fails nor calls
  the outside world, the first one becomes the primary location, and the requested locations
  are afterwards either the written ones or what they were.
\<close>

locale local_scope =
  fixes getSpec :: "'s \<Rightarrow> HcloudLocation list"
    and setStatus :: "HcloudLocation list \<Rightarrow> HcloudNetworkZone \<Rightarrow> ('s, call, unit) M"
    and primary :: "'s \<Rightarrow> HcloudLocation"
  assumes set_status: "ls \<noteq> [] \<Longrightarrow> \<exists>s'. setStatus ls z s = (Ok (), [], s') \<and> primary s' = hd ls \<and>
      (getSpec s' = ls \<or> getSpec s' = getSpec s)"
begin

lemma reconcile_cases:
  assumes "listL s = (r, t, s1)"
  shows "\<exists>s2. location_Reconcile listL getSpec setStatus s =
    ((case r of Panic p \<Rightarrow> Panic p | Err e \<Rightarrow> Err e
      | Ok all \<Rightarrow> (case select_locations all (getSpec s1) of Inl e \<Rightarrow> Err e | Inr _ \<Rightarrow> Ok ())), t, s2) \<and>
    (case r of
       Ok all \<Rightarrow> (case select_locations all (getSpec s1) of
           Inl e \<Rightarrow> s2 = s1
         | Inr (ls, z) \<Rightarrow> primary s2 = hd ls \<and> (getSpec s2 = ls \<or> getSpec s2 = getSpec s1))
     | _ \<Rightarrow> s2 = s1)"
proof (cases r)
  case (Ok all)
  show ?thesis
  proof (cases "select_locations all (getSpec s1)")
    case (Inl e)
    with Ok assms show ?thesis
      by (simp add: location_Reconcile_def bindM_def getsM_def liftM_def failM_def)
  next
    case (Inr p)
    obtain ls z where p: "p = (ls, z)" by (cases p)
    from Inr[unfolded p] have "ls \<noteq> []" by (rule select_locations_props(1))
    from set_status[OF this, of z s1] obtain s' where
      "setStatus ls z s1 = (Ok (), [], s')" "primary s' = hd ls"
      "getSpec s' = ls \<or> getSpec s' = getSpec s1" by blast
    with Ok Inr p assms show ?thesis
      by (simp add: location_Reconcile_def bindM_def getsM_def liftM_def ret_def)
  qed
qed (use assms in \<open>simp_all add: location_Reconcile_def bindM_def\<close>)

text \<open>The service makes the calls of the listing and no others, and panics only if that does.\<close>

lemma reconcile_calls: "calls (location_Reconcile listL getSpec setStatus s) = calls (listL s)"
proof -
  obtain r t s1 where l: "listL s = (r, t, s1)" by (metis prod_cases3)
  from reconcile_cases[of listL s, OF l] l show ?thesis by (auto simp: calls_def)
qed

lemma reconcile_panic:
  "is_panic (outcome (location_Reconcile listL getSpec setStatus s)) = is_panic (outcome (listL s))"
proof -
  obtain r t s1 where l: "listL s = (r, t, s1)" by (metis prod_cases3)
  from reconcile_cases[of listL s, OF l] l show ?thesis
    by (cases r) (auto simp: outcome_def split: sum.splits)
qed

text \<open>A failed reconcile leaves the state the listing left.\<close>

lemma reconcile_error_final:
  assumes "\<not> is_ok (outcome (location_Reconcile listL getSpec setStatus s))"
  shows "final (location_Reconcile listL getSpec setStatus s) = final (listL s)"
proof -
  obtain r t s1 where l: "listL s = (r, t, s1)" by (metis prod_cases3)
  from reconcile_cases[of listL s, OF l] l assms show ?thesis
    by (cases r) (auto simp: outcome_def final_def split: sum.splits)
qed

text \<open>
  After a reconcile that succeeded, another one succeeds and keeps the primary location, if
  the listing answers the same again and keeps the requested locations.
\<close>

lemma reconcile_again:
  assumes "outcome (location_Reconcile listL getSpec setStatus s) = Ok ()"
    and "outcome (listL s) = Ok all" and "distinct (map loc_Name all)"
    and "getSpec (final (listL s)) = getSpec s"
    and "s2 = final (location_Reconcile listL getSpec setStatus s)"
    and "outcome (listL s2) = Ok all" and "getSpec (final (listL s2)) = getSpec s2"
  shows "outcome (location_Reconcile listL getSpec setStatus s2) = Ok ()"
    and "primary (final (location_Reconcile listL getSpec setStatus s2)) = primary s2"
proof -
  obtain t s1 where l: "listL s = (Ok all, t, s1)"
    using assms(2) by (metis outcome_def fst_conv prod_cases3)
  obtain t' s3 where l2: "listL s2 = (Ok all, t', s3)"
    using assms(6) by (metis outcome_def fst_conv prod_cases3)
  have eq1: "getSpec s1 = getSpec s" using assms(4) l by (simp add: final_def)
  have eq2: "getSpec s3 = getSpec s2" using assms(7) l2 by (simp add: final_def)
  from reconcile_cases[of listL s, OF l] assms(1) obtain ls z where
    sel: "select_locations all (getSpec s) = Inr (ls, z)"
    by (auto simp: outcome_def eq1 split: sum.splits)
  from reconcile_cases[of listL s, OF l] assms(5) sel eq1 have
    p: "primary s2 = hd ls" "getSpec s2 = ls \<or> getSpec s2 = getSpec s"
    by (auto simp: final_def)
  have sel2: "select_locations all (getSpec s2) = Inr (ls, z)"
    using p(2) sel select_locations_again[OF sel assms(3)] by auto
  from reconcile_cases[of listL s2, OF l2] sel2 p(1) eq2 show
    "outcome (location_Reconcile listL getSpec setStatus s2) = Ok ()"
    "primary (final (location_Reconcile listL getSpec setStatus s2)) = primary s2"
    by (auto simp: outcome_def final_def)
qed

end

lemma ClusterScope_SetStatusLocations_eq:
  "ClusterScope_SetStatusLocations ls z s =
     (Ok (), [], setClusterStatus (\<lambda>st. st\<lparr>hct_Locations := ls,
         hct_FailureDomains := foldl (\<lambda>m l. map_put l \<lparr>fd_ControlPlane = True\<rparr> m) [] ls,
         hct_NetworkZone := z\<rparr>)
       (setClusterSpec (\<lambda>sp. sp\<lparr>hcs_Locations := ls\<rparr>) s))"
  by (simp add: ClusterScope_SetStatusLocations_def bindM_def modifyM_def scope_update_defs)

interpretation cluster_scope: local_scope ClusterScope_GetSpecLocations
    ClusterScope_SetStatusLocations "\<lambda>s. hd (hct_Locations (hc_Status (cs_HcloudCluster s)))"
  by unfold_locales
    (auto simp: ClusterScope_SetStatusLocations_eq ClusterScope_GetSpecLocations_def scope_update_defs)

interpretation volume_scope: local_scope VolumeScope_GetSpecLocations
    VolumeScope_SetStatusLocations "\<lambda>s. hvt_Location (hv_Status (vs_HcloudVolume s))"
proof unfold_locales
  fix ls :: "HcloudLocation list" and z and s :: "('a, 'b) VolumeScope_scheme"
  assume "ls \<noteq> []"
  then show "\<exists>s'. VolumeScope_SetStatusLocations ls z s = (Ok (), [], s') \<and>
      hvt_Location (hv_Status (vs_HcloudVolume s')) = hd ls \<and>
      (VolumeScope_GetSpecLocations s' = ls \<or> VolumeScope_GetSpecLocations s' = VolumeScope_GetSpecLocations s)"
    by (cases ls) (auto simp: VolumeScope_SetStatusLocations_def modifyM_def setVolumeStatus_def
        VolumeScope_GetSpecLocations_def)
qed

section \<open>The cluster's locations\<close>

definition with_locations ::
    "HcloudLocation list \<Rightarrow> HcloudNetworkZone \<Rightarrow> ('w, 'x) ClusterScope_scheme \<Rightarrow> ('w, 'x) ClusterScope_scheme" where
  "with_locations ls z s = setClusterStatus (\<lambda>st. st\<lparr>hct_Locations := ls,
         hct_FailureDomains := foldl (\<lambda>m l. map_put l \<lparr>fd_ControlPlane = True\<rparr> m) [] ls,
         hct_NetworkZone := z\<rparr>)
       (setClusterSpec (\<lambda>sp. sp\<lparr>hcs_Locations := ls\<rparr>) s)"

lemma cluster_location_Reconcile_eq:
  "cluster_location_Reconcile c s = (case h_ListLocation c (world s) of
      (Inl e, w) \<Rightarrow> (Err e, [ListLocationC], s\<lparr>world := w\<rparr>)
    | (Inr all, w) \<Rightarrow> (case select_locations all (hcs_Locations (hc_Spec (cs_HcloudCluster s))) of
          Inl e \<Rightarrow> (Err e, [ListLocationC], s\<lparr>world := w\<rparr>)
        | Inr (ls, z) \<Rightarrow> (Ok (), [ListLocationC], with_locations ls z (s\<lparr>world := w\<rparr>))))"
  by (auto simp: cluster_location_Reconcile_def location_Reconcile_def ListLocation_def extcall_def
      bindM_def getsM_def liftM_def failM_def ret_def ClusterScope_GetSpecLocations_def
      ClusterScope_SetStatusLocations_eq with_locations_def split: prod.splits sum.splits)

lemma foldl_failureDomains:
  "map_of (foldl (\<lambda>m l. map_put l v m) m0 ls) k = (if k \<in> set ls then Some v else map_of m0 k)"
  by (induction ls arbitrary: m0) auto

lemma with_locations_simps [simp]:
  "world (with_locations ls z s) = world s"
  "hcs_Locations (hc_Spec (cs_HcloudCluster (with_locations ls z s))) = ls"
  "hct_Locations (hc_Status (cs_HcloudCluster (with_locations ls z s))) = ls"
  "hct_NetworkZone (hc_Status (cs_HcloudCluster (with_locations ls z s))) = z"
  "map_of (hct_FailureDomains (hc_Status (cs_HcloudCluster (with_locations ls z s)))) k =
     (if k \<in> set ls then Some \<lparr>fd_ControlPlane = True\<rparr> else None)"
  by (simp_all add: with_locations_def scope_update_defs foldl_failureDomains)

lemma with_locations_again: 
  "cs_HcloudCluster (with_locations ls z ((with_locations ls z s)\<lparr>world := w\<rparr>)) =
   cs_HcloudCluster (with_locations ls z s)"
  by (simp add: with_locations_def scope_update_defs)

text \<open>
  C24. Reconciling the locations of a cluster makes one request and never panics. When it
  succeeds, the written locations are the same in spec and status, not empty, sorted, all
  known to the cloud, all in the one network zone that the status names, each a failure
  domain for control planes and no other; and they are a permutation of what was requested, or,
  when nothing was requested, all locations of the zone eu-central. When it does not succeed
  the object is as it was.
\<close>

theorem cluster_location_Reconcile_correct:
  "case cluster_location_Reconcile c s of (r, t, s') \<Rightarrow>
     t = [ListLocationC] \<and> \<not> is_panic r \<and>
     (let spec = hcs_Locations (hc_Spec (cs_HcloudCluster s));
          ls = hcs_Locations (hc_Spec (cs_HcloudCluster s'));
          st = hc_Status (cs_HcloudCluster s') in
      if is_ok r then
        \<exists>all w. h_ListLocation c (world s) = (Inr all, w) \<and>
          ls \<noteq> [] \<and> sorted ls \<and> hct_Locations st = ls \<and>
          (\<forall>l \<in> set ls. \<exists>x \<in> set all. loc_Name x = l \<and> loc_NetworkZone x = hct_NetworkZone st) \<and>
          (\<forall>n. map_of (hct_FailureDomains st) n =
             (if n \<in> set ls then Some \<lparr>fd_ControlPlane = True\<rparr> else None)) \<and>
          mset ls = (if spec = [] then mset (map loc_Name (filter (\<lambda>l. NetworkZoneEUCentral = loc_NetworkZone l) all))
                     else mset spec)
      else cs_HcloudCluster s' = cs_HcloudCluster s)"
proof -
  obtain a w where l: "h_ListLocation c (world s) = (a, w)" by fastforce
  show ?thesis
  proof (cases a)
    case (Inl e)
    with l show ?thesis by (simp add: cluster_location_Reconcile_eq)
  next
    case (Inr all)
    note a = this
    show ?thesis
    proof (cases "select_locations all (hcs_Locations (hc_Spec (cs_HcloudCluster s)))")
      case (Inl e)
      with l a show ?thesis by (simp add: cluster_location_Reconcile_eq)
    next
      case (Inr p)
      obtain ls z where p: "p = (ls, z)" by (cases p)
      from Inr[unfolded p] have "mset ls = (if hcs_Locations (hc_Spec (cs_HcloudCluster s)) = []
          then mset (map loc_Name (filter (\<lambda>l. NetworkZoneEUCentral = loc_NetworkZone l) all))
          else mset (hcs_Locations (hc_Spec (cs_HcloudCluster s))))"
        by (auto simp: select_locations_Inr_iff split: if_splits)
      with select_locations_props[OF Inr[unfolded p]] l a Inr p show ?thesis
        by (simp add: cluster_location_Reconcile_eq Let_def del: mset_map)
    qed
  qed
qed

definition example_locations :: "hcloud_Location list" where
  "example_locations = [\<lparr>loc_Name = ''nbg1'', loc_NetworkZone = ''eu-central''\<rparr>,
     \<lparr>loc_Name = ''fsn1'', loc_NetworkZone = ''eu-central''\<rparr>,
     \<lparr>loc_Name = ''ash'', loc_NetworkZone = ''us-east''\<rparr>]"

definition example_location_client :: "unit HcloudClient" where
  "example_location_client = offline_hcloud\<lparr>h_ListLocation := \<lambda>w. (Inr example_locations, w)\<rparr>"

lemma cluster_location_Reconcile_correct_witness:
  "hcs_Locations (hc_Spec (cs_HcloudCluster
     (final (cluster_location_Reconcile example_location_client (zero_ClusterScope ()))))) \<noteq> [] \<and>
   is_ok (outcome (cluster_location_Reconcile example_location_client (zero_ClusterScope ())))"
proof -
  have "is_ok (outcome (cluster_location_Reconcile example_location_client (zero_ClusterScope ())))"
    by code_simp
  with cluster_location_Reconcile_correct[where c = example_location_client and s = "zero_ClusterScope ()"]
  show ?thesis by (auto simp: outcome_def final_def Let_def split: prod.splits)
qed

text \<open>
  Reconciling the locations of a cluster is idempotent: after a reconcile that succeeded,
  another one that gets the same list of locations, in which names are unique, succeeds and
  leaves the object as it is.
\<close>

theorem cluster_location_Reconcile_idempotent:
  assumes "outcome (cluster_location_Reconcile c s) = Ok ()"
    and "s2 = final (cluster_location_Reconcile c s)"
    and "h_ListLocation c (world s) = (Inr all, w)" and "h_ListLocation c (world s2) = (Inr all, w2)"
    and "distinct (map loc_Name all)"
  shows "outcome (cluster_location_Reconcile c s2) = Ok () \<and>
    cs_HcloudCluster (final (cluster_location_Reconcile c s2)) = cs_HcloudCluster s2"
proof -
  from assms(1,3) obtain ls z where
    sel: "select_locations all (hcs_Locations (hc_Spec (cs_HcloudCluster s))) = Inr (ls, z)"
    by (auto simp: cluster_location_Reconcile_eq outcome_def split: sum.splits)
  with assms(2,3) have s2: "s2 = with_locations ls z (s\<lparr>world := w\<rparr>)"
    by (simp add: cluster_location_Reconcile_eq final_def)
  have "outcome (cluster_location_Reconcile c s2) = Ok ()"
    unfolding cluster_location_Reconcile_def
    by (rule cluster_scope.reconcile_again(1)[where s = s and all = all])
      (use assms in \<open>simp_all add: cluster_location_Reconcile_def ListLocation_def extcall_def
        outcome_def final_def ClusterScope_GetSpecLocations_def\<close>)
  moreover have "final (cluster_location_Reconcile c s2) = with_locations ls z (s2\<lparr>world := w2\<rparr>)"
    using assms(4) select_locations_again[OF sel assms(5)]
    by (simp add: s2 cluster_location_Reconcile_eq final_def)
  ultimately show ?thesis by (simp add: s2 with_locations_again)
qed

lemma cluster_location_Reconcile_idempotent_witness:
  "outcome (cluster_location_Reconcile example_location_client
     (final (cluster_location_Reconcile example_location_client (zero_ClusterScope ())))) = Ok ()"
  by (rule conjunct1[OF cluster_location_Reconcile_idempotent[where all = example_locations, OF _ refl]])
    code_simp+

text \<open>
  Reconciling the location of a volume writes a location only when the cloud knows it
  under the requested name, and the written location is the requested one; a location the
  cloud does not know is an error and the object stays as it was.
\<close>

theorem volume_location_Reconcile_correct:
  assumes "h_ListLocation c (world s) = (Inr all, w)"
  shows "case volume_location_Reconcile c s of (r, t, s') \<Rightarrow>
     t = [ListLocationC] \<and>
     (if hvs_Location (hv_Spec (vs_HcloudVolume s)) \<in> loc_Name ` set all
      then r = Ok () \<and>
        hvt_Location (hv_Status (vs_HcloudVolume s')) = hvs_Location (hv_Spec (vs_HcloudVolume s)) \<and>
        VolumeScope_GetSpecLocations s' = VolumeScope_GetSpecLocations s
      else (\<exists>e. r = Err e) \<and> vs_HcloudVolume s' = vs_HcloudVolume s)"
proof -
  let ?l = "hvs_Location (hv_Spec (vs_HcloudVolume s))"
  have l: "ListLocation c s = (Ok all, [ListLocationC], s\<lparr>world := w\<rparr>)"
    using assms by (simp add: ListLocation_def extcall_def)
  have g: "VolumeScope_GetSpecLocations (s\<lparr>world := w\<rparr>) = [?l]"
    by (simp add: VolumeScope_GetSpecLocations_def)
  from volume_scope.reconcile_cases[of "ListLocation c", OF l, unfolded g] obtain s2 where
    r: "volume_location_Reconcile c s =
        (case select_locations all [?l] of Inl e \<Rightarrow> Err e | Inr _ \<Rightarrow> Ok (), [ListLocationC], s2)"
    and s2: "case select_locations all [?l] of Inl e \<Rightarrow> s2 = s\<lparr>world := w\<rparr>
      | Inr (ls, z) \<Rightarrow> hvt_Location (hv_Status (vs_HcloudVolume s2)) = hd ls \<and>
          (VolumeScope_GetSpecLocations s2 = ls \<or> VolumeScope_GetSpecLocations s2 = [?l])"
    by (auto simp: volume_location_Reconcile_def)
  show ?thesis
  proof (cases "allLocationsMap all ?l")
    case None
    then have "\<exists>e. select_locations all [?l] = Inl e"
      by (auto simp: select_locations_def)
    with None r s2 show ?thesis by (auto simp: allLocationsMap_None)
  next
    case (Some x)
    then have "select_locations all [?l] = Inr ([?l], loc_NetworkZone x)" by (simp add: select_locations_Inr_iff)
    moreover from Some have "?l \<in> loc_Name ` set all"
      by (metis allLocationsMap_None option.distinct(1))
    ultimately show ?thesis
      using r s2 by (auto simp: VolumeScope_GetSpecLocations_def)
  qed
qed

lemma volume_location_Reconcile_correct_witness:
  "\<exists>e. outcome (volume_location_Reconcile example_location_client (zero_VolumeScope ())) = Err e"
  using volume_location_Reconcile_correct[where c = example_location_client and s = "zero_VolumeScope ()"
      and all = example_locations and w = "()"]
  by (simp add: example_location_client_def example_locations_def zero_defs outcome_def 
      VolumeScope.defs ClusterScope.defs split: prod.splits)

end
