(* ===== verification/Network_Service.thy ===== *)
theory Network_Service
  imports Scope
begin

text \<open>
  pkg/cloud/resources/network: the private network of a cluster. One definition per function
  of network.go, over any scope that extends the cluster scope. The lemmas show when a network
  is created (only after a listing by the cluster's label found none, at most once, with valid
  CIDR blocks), what the status then says, and that deletion only touches a network whose own
  labels say that the cluster owns it.
\<close>

section \<open>The service\<close>

definition network_apiToStatus :: "hcloud_Network \<Rightarrow> HcloudNetworkStatus" where
  "network_apiToStatus network =
     \<lparr>hnt_CIDRBlock = IPNet_String (nw_IPRange network),
      hnt_Subnets = map (\<lambda>n. \<lparr>sns_CIDRBlock = IPNet_String (sn_IPRange n),
                              sns_NetworkZone = sn_NetworkZone n\<rparr>) (nw_Subnets network),
      hnt_ID = nw_ID network,
      hnt_Labels = nw_Labels network\<rparr>"

definition network_defaults :: "('w, 'x) ClusterScope_scheme \<Rightarrow> HcloudNetworkSpec" where
  "network_defaults s =
     \<lparr>hns_CIDRBlock = ''10.0.0.0/16'',
      hns_Subnets = [\<lparr>sns_CIDRBlock = ''10.0.0.0/24'',
                      sns_NetworkZone = hct_NetworkZone (hc_Status (cs_HcloudCluster s))\<rparr>]\<rparr>"

definition network_labels :: "('w, 'x) ClusterScope_scheme \<Rightarrow> (string, string) gomap" where
  "network_labels s = [(ClusterTagKey (om_Name (hc_Meta (cs_HcloudCluster s))), ResourceLifecycleOwned)]"

definition network_actualStatus ::
    "'w HcloudClient \<Rightarrow> (('w, 'x) ClusterScope_scheme, call, HcloudNetworkStatus option) M" where
  "network_actualStatus c =
     bindM (getsM network_labels) (\<lambda>labels.
     bindM (ListNetworks c (LabelsToLabelSelector labels)) (\<lambda>networks.
     case networks of
       [] \<Rightarrow> ret None
     | n # _ \<Rightarrow> ret (Some (network_apiToStatus n))))"

definition parse_block :: "string \<Rightarrow> error + IPNet" where
  "parse_block cidr = map_sum (ErrWrap (''invalid network '' @ [CHR 0x27] @ cidr @ [CHR 0x27])) id (ParseCIDR cidr)"

definition network_createNetwork ::
    "'w HcloudClient \<Rightarrow> HcloudNetworkSpec \<Rightarrow> (('w, 'x) ClusterScope_scheme, call, HcloudNetworkStatus) M" where
  "network_createNetwork c spec =
     bindM (liftM (parse_block (hns_CIDRBlock spec))) (\<lambda>network.
     bindM (mapMM (\<lambda>sn. bindM (liftM (parse_block (sns_CIDRBlock sn))) (\<lambda>subnet.
                     ret \<lparr>sn_Type = NetworkSubnetTypeServer, sn_IPRange = subnet,
                          sn_NetworkZone = sns_NetworkZone sn\<rparr>))
              (hns_Subnets spec)) (\<lambda>subnets.
     bindM (getsM id) (\<lambda>s.
     bindM (wrapM ''error creating network'' (CreateNetwork c
              \<lparr>nco_Name = om_Name (hc_Meta (cs_HcloudCluster s)),
               nco_IPRange = network,
               nco_Labels = network_labels s,
               nco_Subnets = subnets\<rparr>)) (\<lambda>respNetworkCreate.
     ret (network_apiToStatus respNetworkCreate)))))"

definition network_Reconcile :: "'w HcloudClient \<Rightarrow> (('w, 'x) ClusterScope_scheme, call, unit) M" where
  "network_Reconcile c =
     bindM (getsM id) (\<lambda>s.
     bindM (whenM (hcs_Network (hc_Spec (cs_HcloudCluster s)) = None)
              (modifyM (setClusterSpec (\<lambda>sp. sp\<lparr>hcs_Network := Some (network_defaults s)\<rparr>)))) (\<lambda>_.
     bindM (getsM (\<lambda>s. hcs_Network (hc_Spec (cs_HcloudCluster s)))) (\<lambda>net.
     bindM (derefM ''Spec.Network'' net) (\<lambda>spec.
     if IsZero spec then ret ()
     else
       bindM (wrapM ''failed to refresh networks'' (network_actualStatus c)) (\<lambda>networkStatus.
       bindM (modifyM (setClusterStatus (\<lambda>st. st\<lparr>hct_Network := networkStatus\<rparr>))) (\<lambda>_.
       if networkStatus \<noteq> None then ret ()
       else
         bindM (wrapM ''failed to create network'' (network_createNetwork c spec)) (\<lambda>created.
         modifyM (setClusterStatus (\<lambda>st. st\<lparr>hct_Network := Some created\<rparr>)))))))))"

definition network_deleteNetwork ::
    "'w HcloudClient \<Rightarrow> HcloudNetworkStatus \<Rightarrow> (('w, 'x) ClusterScope_scheme, call, unit) M" where
  "network_deleteNetwork c status =
     bindM (getsM (\<lambda>s. ClusterTagKey (om_Name (hc_Meta (cs_HcloudCluster s))))) (\<lambda>clusterTagKey.
     if map_of (hnt_Labels status) clusterTagKey \<noteq> Some ResourceLifecycleOwned then ret ()
     else DeleteNetwork c (hnt_ID status))"

definition network_Delete :: "'w HcloudClient \<Rightarrow> (('w, 'x) ClusterScope_scheme, call, unit) M" where
  "network_Delete c =
     bindM (wrapM ''failed to refresh networks'' (network_actualStatus c)) (\<lambda>networkStatus.
     case networkStatus of
       None \<Rightarrow> ret ()
     | Some status \<Rightarrow> wrapM ''failed to delete network'' (network_deleteNetwork c status))"

section \<open>Parsing the blocks of a spec\<close>

definition parsed_subnets :: "HcloudNetworkSpec \<Rightarrow> hcloud_NetworkSubnet list \<Rightarrow> bool" where
  "parsed_subnets spec subnets =
     list_all2 (\<lambda>sn p. ParseCIDR (sns_CIDRBlock sn) = Inr (sn_IPRange p) \<and>
         sn_Type p = NetworkSubnetTypeServer \<and> sn_NetworkZone p = sns_NetworkZone sn)
       (hns_Subnets spec) subnets"

lemma parse_block_Inr: "parse_block cidr = Inr n \<longleftrightarrow> ParseCIDR cidr = Inr n"
  by (cases "ParseCIDR cidr") (auto simp: parse_block_def)

lemma parse_subnets_wp:
  "wp (mapMM (\<lambda>sn. bindM (liftM (parse_block (sns_CIDRBlock sn))) (\<lambda>subnet.
          ret \<lparr>sn_Type = NetworkSubnetTypeServer, sn_IPRange = subnet, sn_NetworkZone = sns_NetworkZone sn\<rparr>)) sns) s
     (\<lambda>r t s'. t = [] \<and> s' = s \<and>
        (case r of
           Ok ps \<Rightarrow> list_all2 (\<lambda>sn p. ParseCIDR (sns_CIDRBlock sn) = Inr (sn_IPRange p) \<and>
                       sn_Type p = NetworkSubnetTypeServer \<and> sn_NetworkZone p = sns_NetworkZone sn) sns ps
         | Err e \<Rightarrow> True
         | Panic p \<Rightarrow> False))"
proof (induction sns)
  case (Cons sn sns)
  show ?case
  proof (cases "parse_block (sns_CIDRBlock sn)")
    case (Inl e)
    then show ?thesis by (simp add: wp_simps)
  next
    case (Inr net)
    moreover from Inr have "ParseCIDR (sns_CIDRBlock sn) = Inr net" by (simp only: parse_block_Inr)
    ultimately show ?thesis
      by (auto simp: wp_simps bind_post_def intro!: wp_mono[OF Cons.IH] split: res.splits)
  qed
qed (simp add: wp_simps)

text \<open>
  Creation: either a block does not parse and nothing is called, or exactly one creation
  with the parsed blocks and the cluster's label is called.
\<close>

lemma network_createNetwork_wp:
  "wp (network_createNetwork c spec) s (\<lambda>r t s'.
     cs_HcloudCluster s' = cs_HcloudCluster s \<and> \<not> is_panic r \<and>
     (t = [] \<and> s' = s \<and> \<not> is_ok r \<or>
      (\<exists>opts. t = [CreateNetworkC opts] \<and>
         nco_Labels opts = network_labels s \<and>
         ParseCIDR (hns_CIDRBlock spec) = Inr (nco_IPRange opts) \<and>
         parsed_subnets spec (nco_Subnets opts) \<and>
         (\<forall>st. r = Ok st \<longrightarrow>
            (\<exists>n w. h_CreateNetwork c opts (world s) = (Inr n, w) \<and> st = network_apiToStatus n)))))"
proof (cases "parse_block (hns_CIDRBlock spec)")
  case (Inl e)
  then show ?thesis by (simp add: network_createNetwork_def wp_simps)
next
  case (Inr net)
  show ?thesis
    unfolding network_createNetwork_def wp_bindM wp_liftM Inr sum.case bind_post_simps
    by (rule wp_mono[OF parse_subnets_wp])
      (use Inr in \<open>auto simp: wp_simps client_defs wp_extcall ext_post_iff bind_post_def parsed_subnets_def
        parse_block_Inr split: res.splits\<close>)
qed

lemma network_actualStatus_wp:
  "wp (network_actualStatus c) s Q =
     ext_post (ListNetworksC (LabelsToLabelSelector (network_labels s))) s
       (\<lambda>r t s'. Q (case r of Ok ns \<Rightarrow> Ok (case ns of [] \<Rightarrow> None | n # _ \<Rightarrow> Some (network_apiToStatus n))
                     | Err e \<Rightarrow> Err e | Panic p \<Rightarrow> Panic p) t s')
       (h_ListNetworks c (LabelsToLabelSelector (network_labels s)) (world s))"
  by (auto simp: network_actualStatus_def wp_simps client_defs wp_extcall ext_post_def
      split: prod.splits sum.splits list.splits)

section \<open>Properties\<close>

definition network_spec_in_force :: "('w, 'x) ClusterScope_scheme \<Rightarrow> HcloudNetworkSpec" where
  "network_spec_in_force s = (case hcs_Network (hc_Spec (cs_HcloudCluster s)) of
      None \<Rightarrow> network_defaults s | Some spec \<Rightarrow> spec)"

lemma network_defaults_not_zero [simp]: "\<not> IsZero (network_defaults s)"
  by (simp add: IsZero_def network_defaults_def)

text \<open>The state after the defaulting at the start of the reconcile.\<close>

definition network_defaulted :: "('w, 'x) ClusterScope_scheme \<Rightarrow> ('w, 'x) ClusterScope_scheme" where
  "network_defaulted s = (if hcs_Network (hc_Spec (cs_HcloudCluster s)) = None
     then setClusterSpec (\<lambda>sp. sp\<lparr>hcs_Network := Some (network_defaults s)\<rparr>) s else s)"

lemma network_defaulted_simps [simp]:
  "world (network_defaulted s) = world s"
  "network_labels (network_defaulted s) = network_labels s"
  "hc_Status (cs_HcloudCluster (network_defaulted s)) = hc_Status (cs_HcloudCluster s)"
  "hc_Meta (cs_HcloudCluster (network_defaulted s)) = hc_Meta (cs_HcloudCluster s)"
  by (simp_all add: network_defaulted_def setClusterSpec_def network_labels_def)

lemma network_labels_world [simp]: "network_labels (s\<lparr>world := w\<rparr>) = network_labels s"
  by (simp add: network_labels_def)

lemma network_labels_status [simp]: "network_labels (setClusterStatus f s) = network_labels s"
  by (simp add: network_labels_def setClusterStatus_def)

lemma network_Reconcile_unfold:
  "wp (network_Reconcile c) s Q =
     (if IsZero (network_spec_in_force s) then Q (Ok ()) [] (network_defaulted s)
      else wp (wrapM ''failed to refresh networks'' (network_actualStatus c)) (network_defaulted s)
        (bind_post (\<lambda>networkStatus.
           bindM (modifyM (setClusterStatus (\<lambda>st. st\<lparr>hct_Network := networkStatus\<rparr>))) (\<lambda>_.
           if networkStatus \<noteq> None then ret ()
           else bindM (wrapM ''failed to create network'' (network_createNetwork c (network_spec_in_force s)))
                  (\<lambda>created. modifyM (setClusterStatus (\<lambda>st. st\<lparr>hct_Network := Some created\<rparr>)))))
         Q))"
proof (cases "hcs_Network (hc_Spec (cs_HcloudCluster s))")
  case None
  then have *: "network_spec_in_force s = network_defaults s" by (simp add: network_spec_in_force_def)
  from None show ?thesis
    unfolding * by (simp add: network_Reconcile_def wp_simps network_defaulted_def setClusterSpec_def)
next
  case (Some spec)
  then have *: "network_spec_in_force s = spec" by (simp add: network_spec_in_force_def)
  from Some show ?thesis
    unfolding * by (cases "IsZero spec") (simp_all add: network_Reconcile_def wp_simps network_defaulted_def)
qed

lemma network_Reconcile_wp:
  "wp (network_Reconcile c) s (\<lambda>r t s'.
     \<not> is_panic r \<and>
     (if IsZero (network_spec_in_force s) then t = [] \<and> r = Ok () \<and> s' = s
      else t = [ListNetworksC (LabelsToLabelSelector (network_labels s))] \<and>
             (r = Ok () \<longrightarrow> (\<exists>n ns w.
                 h_ListNetworks c (LabelsToLabelSelector (network_labels s)) (world s) = (Inr (n # ns), w) \<and>
                 hct_Network (hc_Status (cs_HcloudCluster s')) = Some (network_apiToStatus n)))
         \<or> (\<exists>opts w. t = [ListNetworksC (LabelsToLabelSelector (network_labels s)), CreateNetworkC opts] \<and>
             h_ListNetworks c (LabelsToLabelSelector (network_labels s)) (world s) = (Inr [], w) \<and>
             nco_Labels opts = network_labels s \<and>
             ParseCIDR (hns_CIDRBlock (network_spec_in_force s)) = Inr (nco_IPRange opts) \<and>
             parsed_subnets (network_spec_in_force s) (nco_Subnets opts) \<and>
             (r = Ok () \<longrightarrow> (\<exists>n w'. h_CreateNetwork c opts w = (Inr n, w') \<and>
                 hct_Network (hc_Status (cs_HcloudCluster s')) = Some (network_apiToStatus n))))))"
proof (cases "IsZero (network_spec_in_force s)")
  case True
  then have "hcs_Network (hc_Spec (cs_HcloudCluster s)) \<noteq> None"
    by (auto simp: network_spec_in_force_def split: option.splits)
  then have "network_defaulted s = s" by (auto simp add: network_defaulted_def)
  with True show ?thesis by (simp add: network_Reconcile_unfold)
next
  case False
  obtain a w where l: "h_ListNetworks c (LabelsToLabelSelector (network_labels s)) (world s) = (a, w)" by fastforce
  show ?thesis
  proof (cases a)
    case (Inl e)
    with l False show ?thesis
      by (simp add: network_Reconcile_unfold wp_mapErrM network_actualStatus_wp)
  next
    case (Inr ns)
    show ?thesis
    proof (cases ns)
      case (Cons n ns')
      with Inr l False show ?thesis
        by (auto simp: network_Reconcile_unfold wp_simps network_actualStatus_wp setClusterStatus_def)
    next
      case Nil
      let ?s1 = "setClusterStatus (\<lambda>st. st\<lparr>hct_Network := None\<rparr>) ((network_defaulted s)\<lparr>world := w\<rparr>)"
      have w: "world ?s1 = w" and lb: "network_labels ?s1 = network_labels s"
        by (simp_all add: setClusterStatus_def network_labels_def)
      from Nil Inr l False show ?thesis
        by (simp add: network_Reconcile_unfold wp_mapErrM network_actualStatus_wp wp_bindM
            wp_modifyM wp_if)
          (rule wp_mono[OF network_createNetwork_wp[of c "network_spec_in_force s" ?s1]],
            auto simp: bind_post_def wp_simps w lb setClusterStatus_def network_labels_def split: res.splits)
    qed
  qed
qed

text \<open>
  C10. Reconciling the network of a cluster never panics and lists by the cluster's label
  first; it asks for the creation of a network only when that listing was empty, exactly
  once, with the cluster's ownership label and with the parsed CIDR blocks of the spec in
  force (the requested one, or the defaults); and when it succeeds the status is the network
  found or created. An explicitly empty network spec makes no call and changes nothing.
\<close>

theorem network_Reconcile_creates_once:
  "case network_Reconcile c s of (r, t, s') \<Rightarrow>
     \<not> is_panic r \<and>
     (if IsZero (network_spec_in_force s) then t = [] \<and> r = Ok () \<and> s' = s
      else t = [ListNetworksC (LabelsToLabelSelector (network_labels s))] \<and>
             (r = Ok () \<longrightarrow> (\<exists>n ns w.
                 h_ListNetworks c (LabelsToLabelSelector (network_labels s)) (world s) = (Inr (n # ns), w) \<and>
                 hct_Network (hc_Status (cs_HcloudCluster s')) = Some (network_apiToStatus n)))
         \<or> (\<exists>opts w. t = [ListNetworksC (LabelsToLabelSelector (network_labels s)), CreateNetworkC opts] \<and>
             h_ListNetworks c (LabelsToLabelSelector (network_labels s)) (world s) = (Inr [], w) \<and>
             nco_Labels opts = network_labels s \<and>
             ParseCIDR (hns_CIDRBlock (network_spec_in_force s)) = Inr (nco_IPRange opts) \<and>
             parsed_subnets (network_spec_in_force s) (nco_Subnets opts) \<and>
             (r = Ok () \<longrightarrow> (\<exists>n w'. h_CreateNetwork c opts w = (Inr n, w') \<and>
                 hct_Network (hc_Status (cs_HcloudCluster s')) = Some (network_apiToStatus n)))))"
  using network_Reconcile_wp unfolding wp_def .

definition example_network :: hcloud_Network where
  "example_network = \<lparr>nw_ID = 42, nw_IPRange = \<lparr>net_IP = [10, 0, 0, 0], net_ones = 16\<rparr>,
     nw_Subnets = [], nw_Labels = network_labels (zero_ClusterScope ())\<rparr>"

definition example_network_client :: "hcloud_Network list \<Rightarrow> unit HcloudClient" where
  "example_network_client ns = offline_hcloud\<lparr>h_ListNetworks := \<lambda>_ w. (Inr ns, w),
     h_CreateNetwork := \<lambda>_ w. (Inr example_network, w),
     h_DeleteNetwork := \<lambda>_ w. (Inr (), w)\<rparr>"

lemma network_Reconcile_creates_once_witness:
  "\<exists>opts. calls (network_Reconcile (example_network_client []) (zero_ClusterScope ())) =
       [ListNetworksC (LabelsToLabelSelector (network_labels (zero_ClusterScope ()))), CreateNetworkC opts] \<and>
     ParseCIDR ''10.0.0.0/16'' = Inr (nco_IPRange opts)"
proof -
  have "length (calls (network_Reconcile (example_network_client []) (zero_ClusterScope ()))) = 2"
    by code_simp
  moreover have "\<not> IsZero (network_spec_in_force (zero_ClusterScope ()))"
    "hns_CIDRBlock (network_spec_in_force (zero_ClusterScope ())) = ''10.0.0.0/16''"
    by code_simp+
  ultimately show ?thesis
    using network_Reconcile_creates_once[where c = "example_network_client []" and s = "zero_ClusterScope ()"]
    by (auto simp: calls_def split: prod.splits)
qed

text \<open>
  C31. Deleting the network of a cluster asks for the deletion of at most the first network
  that the listing by the cluster's label returned, and only if that network's own labels mark
  it as owned by this cluster.
\<close>

theorem network_Delete_only_owned:
  assumes "DeleteNetworkC i \<in> set (calls (network_Delete c s))"
  shows "\<exists>n ns w. h_ListNetworks c (LabelsToLabelSelector (network_labels s)) (world s) = (Inr (n # ns), w) \<and>
     i = nw_ID n \<and>
     map_of (nw_Labels n) (ClusterTagKey (om_Name (hc_Meta (cs_HcloudCluster s)))) = Some ResourceLifecycleOwned \<and>
     calls (network_Delete c s) = [ListNetworksC (LabelsToLabelSelector (network_labels s)), DeleteNetworkC i]"
proof -
  have "wp (network_Delete c) s (\<lambda>r t s'. \<forall>i. DeleteNetworkC i \<in> set t \<longrightarrow>
      (\<exists>n ns w. h_ListNetworks c (LabelsToLabelSelector (network_labels s)) (world s) = (Inr (n # ns), w) \<and>
        i = nw_ID n \<and>
        map_of (nw_Labels n) (ClusterTagKey (om_Name (hc_Meta (cs_HcloudCluster s)))) = Some ResourceLifecycleOwned \<and>
        t = [ListNetworksC (LabelsToLabelSelector (network_labels s)), DeleteNetworkC i]))"
    by (auto simp: network_Delete_def network_deleteNetwork_def wp_simps network_actualStatus_wp
        client_defs wp_extcall ext_post_iff network_apiToStatus_def split: list.splits)
  with assms show ?thesis unfolding wp_iff by blast
qed

lemma network_Delete_only_owned_witness:
  "calls (network_Delete (example_network_client [example_network]) (zero_ClusterScope ())) =
     [ListNetworksC (LabelsToLabelSelector (network_labels (zero_ClusterScope ()))), DeleteNetworkC 42]"
proof -
  have "DeleteNetworkC 42 \<in> set (calls (network_Delete (example_network_client [example_network]) (zero_ClusterScope ())))"
    by code_simp
  from network_Delete_only_owned[OF this] show ?thesis by blast
qed

end
