(* ===== verification/Load_Balancer.thy ===== *)
theory Load_Balancer
  imports Scope
begin

text \<open>
  pkg/cloud/resources/loadbalancer: the load balancer in front of a cluster's API servers. One
  definition per function of loadbalancer.go. The name generator of the API server library is
  an argument of the definitions that call it (its result ends in random characters); the target of a load
  balancer that is not a server is \<open>None\<close>, and dereferencing it panics, as does the first
  service of a spec that has none. A load balancer type is its name, \<open>None\<close> the nil pointer
  that the lookup of an unknown name returns without an error; the request of the client library
  reads the fields of the type it is given, so creating a load balancer of the nil type panics
  before anything is sent.

  The lemmas show when a load balancer is created (only after a listing by the cluster's label
  was empty, once, with the label, the first location and the first service), that further
  services follow in order, when an existing one is attached to the network, what the status
  says afterwards, exactly when the reconcile panics, and what is deleted.
\<close>

section \<open>The service\<close>

definition lb_labels :: "('w, 'x) ClusterScope_scheme \<Rightarrow> (string, string) gomap" where
  "lb_labels s = [(ClusterTagKey (om_Name (hc_Meta (cs_HcloudCluster s))), ResourceLifecycleOwned)]"

definition FindLoadBalancer ::
    "'w HcloudClient \<Rightarrow> (('w, 'x) ClusterScope_scheme, call, hcloud_LoadBalancer option) M" where
  "FindLoadBalancer c =
     bindM (getsM lb_labels) (\<lambda>labels.
     bindM (wrapM ''failed to list load balancers''
              (ListLoadBalancers c (LabelsToLabelSelector labels))) (\<lambda>loadBalancers.
     if length loadBalancers > 1
     then failM (ErrNew (''Found '' @ itoa (int (length loadBalancers)) @ '' loadbalancers in Hcloud''))
     else if length loadBalancers = 0 then ret None
     else ret (Some (loadBalancers ! 0))))"

definition lb_algorithm :: "hcloud_LoadBalancer \<Rightarrow> error + string" where
  "lb_algorithm lb = (case lb_Algorithm lb of
      LoadBalancerAlgorithmTypeRoundRobin \<Rightarrow> Inr HcloudLoadBalancerAlgorithmTypeRoundRobin
    | LoadBalancerAlgorithmTypeLeastConnections \<Rightarrow> Inr HcloudLoadBalancerAlgorithmTypeLeastConnections
    | LoadBalancerAlgorithmTypeOther a \<Rightarrow>
        Inl (ErrNew (''Unknown load balancer algorithm type: '' @ a)))"

definition lb_apiToStatus ::
    "hcloud_LoadBalancer \<Rightarrow> (('w, 'x) ClusterScope_scheme, call, HcloudLoadBalancerStatus) M" where
  "lb_apiToStatus lb =
     bindM (getsM (\<lambda>s. hct_Network (hc_Status (cs_HcloudCluster s)))) (\<lambda>network.
     let internalIP = (if network \<noteq> None \<and> length (lb_PrivateNet lb) > 0
                       then IP_String (lb_PrivateNet lb ! 0) else '''') in
     bindM (liftM (lb_algorithm lb)) (\<lambda>algType.
     bindM (mapMM (derefM ''server.Server'') (lb_Targets lb)) (\<lambda>targetIDs.
     ret \<lparr>lbt_ID = lb_ID lb, lbt_Name = lb_Name lb, lbt_Type = lb_Type lb,
          lbt_IPv4 = IP_String (lb_IPv4 lb), lbt_IPv6 = IP_String (lb_IPv6 lb),
          lbt_InternalIP = internalIP, lbt_Labels = lb_Labels lb,
          lbt_Algorithm = algType, lbt_Targets = targetIDs\<rparr>)))"

text \<open>The loop overwrites its match, so the last network with the identifier is taken.\<close>

definition find_network ::
    "'w HcloudClient \<Rightarrow> int \<Rightarrow> (('w, 'x) ClusterScope_scheme, call, hcloud_Network) M" where
  "find_network c networkID =
     bindM (wrapM ''failed to list networks'' (ListNetworks c '''')) (\<lambda>networks.
     case find_last (\<lambda>net. nw_ID net = networkID) networks of
       None \<Rightarrow> failM (ErrNew (''could not find network with ID '' @ itoa networkID))
     | Some network \<Rightarrow> ret network)"

definition attachLoadBalancerToNetwork ::
    "'w HcloudClient \<Rightarrow> hcloud_LoadBalancer \<Rightarrow> (('w, 'x) ClusterScope_scheme, call, unit) M" where
  "attachLoadBalancerToNetwork c lb =
     bindM (getsM (\<lambda>s. hct_Network (hc_Status (cs_HcloudCluster s)))) (\<lambda>status.
     case status of
       None \<Rightarrow> failM (ErrNew ''no network set on the cluster'')
     | Some nst \<Rightarrow>
         bindM (find_network c (hnt_ID nst)) (\<lambda>network.
         bindM (tryM (AttachLoadBalancerToNetwork c lb network)) (\<lambda>res.
         case res of
           Inl err \<Rightarrow>
             bindM (Eventf EventTypeWarning ''FailedAttachLoadBalancer'') (\<lambda>_.
             failM (ErrWrap ''failed to attach load balancer to network'' err))
         | Inr _ \<Rightarrow> ret ())))"

definition service_opts :: "LoadBalancerServiceSpec \<Rightarrow> LoadBalancerServiceOpts" where
  "service_opts svc = \<lparr>lso_Protocol = lss_Protocol svc, lso_ListenPort = lss_ListenPort svc,
     lso_DestinationPort = lss_DestinationPort svc, lso_Proxyprotocol = False\<rparr>"

definition gather_algorithm :: "string \<Rightarrow> error + LoadBalancerAlgorithmType" where
  "gather_algorithm a =
     (if a = HcloudLoadBalancerAlgorithmTypeRoundRobin then Inr LoadBalancerAlgorithmTypeRoundRobin
      else if a = HcloudLoadBalancerAlgorithmTypeLeastConnections
      then Inr LoadBalancerAlgorithmTypeLeastConnections
      else Inl (ErrNew (''error invalid load balancer algorithm type: '' @ a)))"

definition add_services ::
    "'w HcloudClient \<Rightarrow> hcloud_LoadBalancer \<Rightarrow> LoadBalancerServiceSpec list
       \<Rightarrow> (('w, 'x) ClusterScope_scheme, call, unit) M" where
  "add_services c lb =
     forM (\<lambda>svc. mapErrM (\<lambda>err. ErrNew (''Error adding service to load balancer: '' @ Error err))
       (AddServiceToLoadBalancer c lb (service_opts svc)))"

text \<open>
  The creation proper, from the first service on: lines 123 to 176 of the function. The type is
  dereferenced by \<^verbatim>\<open>LoadBalancer.Create\<close> of hcloud-go, when it builds the request.
\<close>

definition submitLoadBalancer ::
    "'w HcloudClient \<Rightarrow> HcloudCluster \<Rightarrow> string \<Rightarrow> string option \<Rightarrow> LoadBalancerAlgorithmType \<Rightarrow> string
       \<Rightarrow> hcloud_Network option \<Rightarrow> (('w, 'x) ClusterScope_scheme, call, hcloud_LoadBalancer) M" where
  "submitLoadBalancer c hc name loadBalancerType algType location network =
     (case lbs_Services (hcs_ControlPlaneLoadBalancer (hc_Spec hc)) of
        [] \<Rightarrow> panicM ''index out of range: Services[0]''
      | kubeAPISpec # rest \<Rightarrow>
          bindM (derefM ''opts.LoadBalancerType'' loadBalancerType) (\<lambda>lbType.
          bindM (tryM (CreateLoadBalancer c
            \<lparr>lco_Name = name, lco_Type = Some lbType, lco_Algorithm = algType,
             lco_Location = location, lco_Network = network,
             lco_Labels = [(ClusterTagKey (om_Name (hc_Meta hc)), ResourceLifecycleOwned)],
             lco_Services = [service_opts kubeAPISpec]\<rparr>)) (\<lambda>created.
          case created of
            Inl err \<Rightarrow>
              bindM (Eventf EventTypeWarning ''FailedCreateLoadBalancer'') (\<lambda>_.
              failM (ErrNew (''error creating load balancer: '' @ Error err)))
          | Inr lb \<Rightarrow>
              bindM (add_services c lb rest) (\<lambda>_.
              bindM (Eventf EventTypeNormal ''CreateLoadBalancer'') (\<lambda>_.
              ret lb)))))"

definition createLoadBalancer ::
    "(string \<Rightarrow> string) \<Rightarrow> 'w HcloudClient \<Rightarrow> HcloudLoadBalancerSpec
       \<Rightarrow> (('w, 'x) ClusterScope_scheme, call, hcloud_LoadBalancer) M" where
  "createLoadBalancer generateName c spec =
     bindM (liftM (gather_algorithm (lbs_Algorithm spec))) (\<lambda>algType.
     bindM (getsM cs_HcloudCluster) (\<lambda>hc.
     let name = (case lbs_Name (hcs_ControlPlaneLoadBalancer (hc_Spec hc)) of
             Some n \<Rightarrow> n | None \<Rightarrow> generateName (om_Name (hc_Meta hc) @ ''-kube-apiserver-'')) in
     bindM (wrapM ''failed to find load balancer type'' (GetLoadBalancerTypeByName c (lbs_Type spec)))
       (\<lambda>loadBalancerType.
     case hct_Locations (hc_Status hc) of
       [] \<Rightarrow> failM (ErrNew ''no locations set on the cluster'')
     | location # _ \<Rightarrow>
         bindM (case hct_Network (hc_Status hc) of
                  None \<Rightarrow> ret None
                | Some nst \<Rightarrow> bindM (find_network c (hnt_ID nst)) (\<lambda>n. ret (Some n)))
         (submitLoadBalancer c hc name loadBalancerType algType location))))"

definition set_lb_status :: "HcloudLoadBalancerStatus \<Rightarrow> (('w, 'x) ClusterScope_scheme, call, unit) M" where
  "set_lb_status lbStatus = modifyM (setClusterStatus (\<lambda>st. st\<lparr>hct_ControlPlaneLoadBalancer := lbStatus\<rparr>))"

definition lb_Reconcile ::
    "(string \<Rightarrow> string) \<Rightarrow> 'w HcloudClient \<Rightarrow> (('w, 'x) ClusterScope_scheme, call, unit) M" where
  "lb_Reconcile generateName c =
     bindM (wrapM ''failed to find load balancer'' (FindLoadBalancer c)) (\<lambda>found.
     bindM (case found of
         Some lb \<Rightarrow>
           bindM (wrapM ''failed to obtain load balancer status'' (lb_apiToStatus lb)) (\<lambda>lbStatus.
           bindM (set_lb_status lbStatus) (\<lambda>_.
           bindM (getsM (\<lambda>s. hct_Network (hc_Status (cs_HcloudCluster s)))) (\<lambda>network.
           bindM (whenM (network \<noteq> None \<and> length (lb_PrivateNet lb) = 0)
              (wrapM ''failed to attach load balancer to network'' (attachLoadBalancerToNetwork c lb))) (\<lambda>_.
           ret lb))))
       | None \<Rightarrow>
           bindM (getsM (\<lambda>s. hcs_ControlPlaneLoadBalancer (hc_Spec (cs_HcloudCluster s)))) (\<lambda>spec.
           wrapM ''failed to create load balancer'' (createLoadBalancer generateName c spec))) (\<lambda>lb.
     bindM (wrapM ''failed to refresh load balancer status'' (lb_apiToStatus lb)) (\<lambda>lbStatus.
     set_lb_status lbStatus)))"

definition lb_Delete :: "'w HcloudClient \<Rightarrow> (('w, 'x) ClusterScope_scheme, call, unit) M" where
  "lb_Delete c =
     bindM (wrapM ''failed to refresh load balancer'' (FindLoadBalancer c)) (\<lambda>found.
     case found of
       None \<Rightarrow> Eventf EventTypeNormal ''UnknownLoadBalancer''
     | Some lb \<Rightarrow>
         bindM (tryM (DeleteLoadBalancer c lb)) (\<lambda>res.
         case res of
           Inl err \<Rightarrow>
             bindM (Eventf EventTypeNormal ''FailedLoadBalancerDelete'') (\<lambda>_.
             failM (ErrWrap ''failed to delete load balancer'' err))
         | Inr _ \<Rightarrow> Eventf EventTypeNormal ''DeleteLoadBalancer''))"

fun intSlice_contains :: "int list \<Rightarrow> int \<Rightarrow> bool" where
  "intSlice_contains [] e = False"
| "intSlice_contains (i # s) e = (if i = e then True else intSlice_contains s e)"

section \<open>The functions one by one\<close>

lemma mapMM_derefM: "mapMM (derefM what) xs s =
    (if None \<in> set xs then Panic what else Ok (map the xs), [], s)"
  by (induction xs) (auto simp: ret_def bindM_def derefM_def panicM_def split: option.splits)

definition lb_status :: "bool \<Rightarrow> hcloud_LoadBalancer \<Rightarrow> HcloudLoadBalancerStatus res" where
  "lb_status has_network lb = (case lb_algorithm lb of
      Inl e \<Rightarrow> Err e
    | Inr algType \<Rightarrow>
        if None \<in> set (lb_Targets lb) then Panic ''server.Server''
        else Ok \<lparr>lbt_ID = lb_ID lb, lbt_Name = lb_Name lb, lbt_Type = lb_Type lb,
          lbt_IPv4 = IP_String (lb_IPv4 lb), lbt_IPv6 = IP_String (lb_IPv6 lb),
          lbt_InternalIP = (if has_network \<and> lb_PrivateNet lb \<noteq> [] then IP_String (lb_PrivateNet lb ! 0) else []),
          lbt_Labels = lb_Labels lb,
          lbt_Algorithm = algType, lbt_Targets = map the (lb_Targets lb)\<rparr>)"

abbreviation status_network :: "('w, 'x) ClusterScope_scheme \<Rightarrow> HcloudNetworkStatus option" where
  "status_network s \<equiv> hct_Network (hc_Status (cs_HcloudCluster s))"

lemma wp_lb_apiToStatus [wp_simps]:
  "wp (lb_apiToStatus lb) s Q = Q (lb_status (status_network s \<noteq> None) lb) [] s"
  by (simp add: wp_def lb_apiToStatus_def bindM_def getsM_def liftM_def failM_def ret_def mapMM_derefM
      lb_status_def Let_def split: sum.splits)

lemma wp_set_lb_status [wp_simps]:
  "wp (set_lb_status st) s Q = Q (Ok ()) [] (setClusterStatus (\<lambda>x. x\<lparr>hct_ControlPlaneLoadBalancer := st\<rparr>) s)"
  by (simp add: set_lb_status_def wp_simps)

definition lb_selector :: "('w, 'x) ClusterScope_scheme \<Rightarrow> string" where
  "lb_selector s = LabelsToLabelSelector (lb_labels s)"

definition found_lb :: "hcloud_LoadBalancer list \<Rightarrow> hcloud_LoadBalancer option res" where
  "found_lb lbs = (case lbs of [] \<Rightarrow> Ok None | [lb] \<Rightarrow> Ok (Some lb)
     | _ \<Rightarrow> Err (ErrNew (''Found '' @ itoa (int (length lbs)) @ '' loadbalancers in Hcloud'')))"

lemma wp_FindLoadBalancer:
  "wp (FindLoadBalancer c) s Q = ext_post (ListLoadBalancersC (lb_selector s)) s
     (\<lambda>r t s'. Q (case r of Ok lbs \<Rightarrow> found_lb lbs
        | Err e \<Rightarrow> Err (ErrWrap ''failed to list load balancers'' e) | Panic p \<Rightarrow> Panic p) t s')
     (h_ListLoadBalancers c (lb_selector s) (world s))"
  by (auto simp: FindLoadBalancer_def wp_simps client_defs wp_extcall ext_post_def lb_selector_def
      found_lb_def split: prod.splits sum.splits list.splits)

text \<open>A search for the network makes one request, and finds only the network asked for.\<close>

lemma find_network_wp:
  "wp (find_network c i) s (\<lambda>r t s'. t = [ListNetworksC []] \<and> (\<exists>w. s' = s\<lparr>world := w\<rparr>) \<and> \<not> is_panic r \<and>
     (\<forall>n. r = Ok n \<longrightarrow> nw_ID n = i))"
  by (auto simp: find_network_def wp_simps client_defs wp_extcall ext_post_iff
      split: option.splits dest: find_last_Some)

lemma attach_wp:
  "wp (attachLoadBalancerToNetwork c lb) s (\<lambda>r t s'. (\<exists>w. s' = s\<lparr>world := w\<rparr>) \<and> \<not> is_panic r \<and>
     (\<forall>nst. status_network s = Some nst \<longrightarrow>
        (t = [ListNetworksC []] \<and> \<not> is_ok r \<or>
         (\<exists>n ev. t = [ListNetworksC [], AttachLoadBalancerToNetworkC lb n] @ ev \<and> nw_ID n = hnt_ID nst \<and>
           (ev = [] \<and> r = Ok () \<or> ev = [EventC EventTypeWarning ''FailedAttachLoadBalancer''] \<and> \<not> is_ok r)))))"
proof (cases "status_network s")
  case None
  then show ?thesis
    by (auto simp: attachLoadBalancerToNetwork_def wp_simps intro: exI[of _ "world s"])
next
  case (Some nst)
  show ?thesis
    unfolding attachLoadBalancerToNetwork_def wp_bindM wp_getsM bind_post_simps Some option.case
    by (rule wp_mono[OF find_network_wp])
      (auto simp: bind_post_def wp_simps client_defs wp_extcall ext_post_iff split: res.splits)
qed

text \<open>The options of a creation, as far as the spec and the status fix them.\<close>

definition lb_opts_ok :: "('w, 'x) ClusterScope_scheme \<Rightarrow> LoadBalancerCreateOpts \<Rightarrow> bool" where
  "lb_opts_ok s opts \<longleftrightarrow>
     (let hc = cs_HcloudCluster s; lbspec = hcs_ControlPlaneLoadBalancer (hc_Spec hc) in
      lco_Labels opts = lb_labels s \<and>
      hct_Locations (hc_Status hc) \<noteq> [] \<and> lco_Location opts = hd (hct_Locations (hc_Status hc)) \<and>
      lbs_Services lbspec \<noteq> [] \<and> lco_Services opts = [service_opts (hd (lbs_Services lbspec))] \<and>
      gather_algorithm (lbs_Algorithm lbspec) = Inr (lco_Algorithm opts) \<and>
      (\<forall>n. lbs_Name lbspec = Some n \<longrightarrow> lco_Name opts = n) \<and> lco_Type opts \<noteq> None \<and>
      map_option nw_ID (lco_Network opts) = map_option hnt_ID (hct_Network (hc_Status hc)))"

definition is_create :: "call \<Rightarrow> bool" where
  "is_create c = (case c of CreateLoadBalancerC _ \<Rightarrow> True | _ \<Rightarrow> False)"

lemma is_create_simps [simp]:
  "is_create (CreateLoadBalancerC opts)" "\<not> is_create (ListNetworksC l)"
  "\<not> is_create (GetLoadBalancerTypeByNameC n)" "\<not> is_create (EventC a b)"
  "\<not> is_create (AddServiceToLoadBalancerC lb so)" "\<not> is_create (ListLoadBalancersC l)"
  "\<not> is_create (AttachLoadBalancerToNetworkC lb nw)"
  by (simp_all add: is_create_def)

lemma is_create_iff: "is_create c \<longleftrightarrow> (\<exists>opts. c = CreateLoadBalancerC opts)"
  by (cases c) (simp_all add: is_create_def)

definition add_calls :: "hcloud_LoadBalancer \<Rightarrow> LoadBalancerServiceSpec list \<Rightarrow> call list" where
  "add_calls lb svcs = map (\<lambda>svc. AddServiceToLoadBalancerC lb (service_opts svc)) svcs"

text \<open>The cloud accepted the services, one after the other, between two worlds.\<close>

definition services_accepted ::
    "'w HcloudClient \<Rightarrow> hcloud_LoadBalancer \<Rightarrow> LoadBalancerServiceSpec list \<Rightarrow> 'w \<Rightarrow> 'w \<Rightarrow> bool" where
  "services_accepted c lb = accepts_all (\<lambda>svc. h_AddServiceToLoadBalancer c lb (service_opts svc))"

lemma add_services_wp:
  "wp (add_services c lb svcs) s (\<lambda>r t s'. (\<exists>ys. add_calls lb svcs = t @ ys) \<and>
     (r = Ok () \<longrightarrow> t = add_calls lb svcs \<and> services_accepted c lb svcs (world s) (world s')) \<and>
     \<not> is_panic r \<and> (\<exists>w. s' = s\<lparr>world := w\<rparr>))"
  unfolding add_services_def AddServiceToLoadBalancer_def add_calls_def services_accepted_def
  by (rule wp_forM_extcall)

lemma filter_add_calls: "add_calls lb svcs = t @ ys \<Longrightarrow> filter is_create t = []"
proof -
  assume "add_calls lb svcs = t @ ys"
  then have "set t \<subseteq> set (add_calls lb svcs)" by simp
  then show ?thesis by (auto simp: add_calls_def filter_empty_conv)
qed

lemma filter_add_calls_all [simp]: "filter is_create (add_calls lb svcs) = []"
  by (auto simp: add_calls_def filter_empty_conv)

text \<open>
  A creation run from the world \<open>w0\<close>: requests that create nothing, then at most one creation
  with proper options, and, when it succeeds, the other services in order, every one accepted. It
  panics only for a spec with no service or of an unknown type.
\<close>

abbreviation lb_services :: "('w, 'x) ClusterScope_scheme \<Rightarrow> LoadBalancerServiceSpec list" where
  "lb_services s \<equiv> lbs_Services (hcs_ControlPlaneLoadBalancer (hc_Spec (cs_HcloudCluster s)))"

abbreviation lb_type :: "('w, 'x) ClusterScope_scheme \<Rightarrow> string" where
  "lb_type s \<equiv> lbs_Type (hcs_ControlPlaneLoadBalancer (hc_Spec (cs_HcloudCluster s)))"

definition may_panic :: "'w HcloudClient \<Rightarrow> ('w, 'x) ClusterScope_scheme \<Rightarrow> 'w \<Rightarrow> bool" where
  "may_panic c s w0 \<longleftrightarrow> lb_services s = [] \<or> fst (h_GetLoadBalancerTypeByName c (lb_type s) w0) = Inr None"

definition lb_made ::
    "'w HcloudClient \<Rightarrow> ('w, 'x) ClusterScope_scheme \<Rightarrow> LoadBalancerCreateOpts \<Rightarrow> 'w
       \<Rightarrow> hcloud_LoadBalancer \<Rightarrow> call list \<Rightarrow> bool" where
  "lb_made c s opts w' lb post \<longleftrightarrow>
     (\<exists>w1 w2. h_CreateLoadBalancer c opts w1 = (Inr lb, w2) \<and> services_accepted c lb (tl (lb_services s)) w2 w') \<and>
     post = add_calls lb (tl (lb_services s)) @ [EventC EventTypeNormal ''CreateLoadBalancer'']"

definition create_run ::
    "'w HcloudClient \<Rightarrow> ('w, 'x) ClusterScope_scheme \<Rightarrow> 'w \<Rightarrow> 'w \<Rightarrow> hcloud_LoadBalancer res \<Rightarrow> call list \<Rightarrow> bool" where
  "create_run c s w0 w' r t \<longleftrightarrow>
     filter is_create t = [] \<and> \<not> is_ok r \<and> (is_panic r \<longrightarrow> may_panic c s w0) \<or>
     (\<exists>pre opts post. t = pre @ CreateLoadBalancerC opts # post \<and> filter is_create pre = [] \<and>
        filter is_create post = [] \<and> lb_opts_ok s opts \<and> \<not> is_panic r \<and>
        (\<forall>lb. r = Ok lb \<longrightarrow> lb_made c s opts w' lb post))"

lemma lb_madeI:
  assumes "h_CreateLoadBalancer c opts w1 = (Inr lb, w2)" and "lb_services s = svc # rest"
    and "services_accepted c lb rest w2 w'" and "post = add_calls lb rest @ [EventC EventTypeNormal ''CreateLoadBalancer'']"
  shows "lb_made c s opts w' lb post"
  using assms by (auto simp: lb_made_def)

lemma create_run_fail: "filter is_create t = [] \<Longrightarrow> create_run c s w0 w' (Err e) t"
  by (simp add: create_run_def)

lemma create_run_panic: "filter is_create t = [] \<Longrightarrow> may_panic c s w0 \<Longrightarrow> create_run c s w0 w' (Panic p) t"
  by (simp add: create_run_def)

lemma create_run_prepend:
  assumes "create_run c s w0 w' r t" and "filter is_create t0 = []"
  shows "create_run c s w0 w' r (t0 @ t)"
proof (cases "filter is_create t = [] \<and> \<not> is_ok r \<and> (is_panic r \<longrightarrow> may_panic c s w0)")
  case True
  with assms(2) show ?thesis by (simp add: create_run_def)
next
  case False
  with assms(1) obtain pre opts post where
    "t = pre @ CreateLoadBalancerC opts # post" "filter is_create pre = []" and
    rest: "filter is_create post = []" "lb_opts_ok s opts" "\<not> is_panic r"
      "\<forall>lb. r = Ok lb \<longrightarrow> lb_made c s opts w' lb post"
    unfolding create_run_def by blast
  with assms(2) have "t0 @ t = (t0 @ pre) @ CreateLoadBalancerC opts # post" "filter is_create (t0 @ pre) = []"
    by simp_all
  with rest show ?thesis unfolding create_run_def by blast
qed

lemma create_runI:
  assumes "lb_opts_ok s opts" and "filter is_create post = []" and "\<not> is_panic r"
    and "\<And>lb. r = Ok lb \<Longrightarrow> lb_made c s opts w' lb post"
  shows "create_run c s w0 w' r (CreateLoadBalancerC opts # post)"
  unfolding create_run_def
  by (rule disjI2, intro exI[of _ "[]"] exI[of _ opts] exI[of _ post]) (use assms in auto)

lemma submitLoadBalancer_wp:
  assumes "hct_Locations (hc_Status (cs_HcloudCluster s)) = location # locs"
    and "gather_algorithm (lbs_Algorithm (hcs_ControlPlaneLoadBalancer (hc_Spec (cs_HcloudCluster s)))) = Inr alg"
    and "map_option nw_ID net = map_option hnt_ID (status_network s)"
    and "\<And>n. lbs_Name (hcs_ControlPlaneLoadBalancer (hc_Spec (cs_HcloudCluster s))) = Some n \<Longrightarrow> name = n"
    and "fst (h_GetLoadBalancerTypeByName c (lb_type s) w00) = Inr ty"
  shows "wp (submitLoadBalancer c (cs_HcloudCluster s) name ty alg location net) (s\<lparr>world := w0\<rparr>)
     (\<lambda>r t s'. (\<exists>w. s' = s\<lparr>world := w\<rparr>) \<and> create_run c s w00 (world s') r t)"
proof (cases "lb_services s")
  case Nil
  then show ?thesis by (auto simp: submitLoadBalancer_def wp_simps may_panic_def intro!: create_run_panic)
next
  case (Cons svc rest)
  show ?thesis
  proof (cases ty)
    case None
    with Cons assms(5) show ?thesis
      by (auto simp: submitLoadBalancer_def wp_simps may_panic_def intro!: create_run_panic)
  next
    case (Some lbType)
    let ?opts = "\<lparr>lco_Name = name, lco_Type = Some lbType, lco_Algorithm = alg, lco_Location = location,
       lco_Network = net,
       lco_Labels = [(ClusterTagKey (om_Name (hc_Meta (cs_HcloudCluster s))), ResourceLifecycleOwned)],
       lco_Services = [service_opts svc]\<rparr>"
    have ok: "lb_opts_ok s ?opts"
      using assms Cons by (auto simp: lb_opts_ok_def lb_labels_def Let_def)
    obtain a w where cr: "h_CreateLoadBalancer c ?opts w0 = (a, w)" by fastforce
    show ?thesis
    proof (cases a)
      case (Inl e)
      with Some Cons cr ok show ?thesis
        by (auto simp: submitLoadBalancer_def wp_simps client_defs wp_extcall intro!: create_runI)
    next
      case (Inr lb)
      show ?thesis
        unfolding submitLoadBalancer_def Cons list.case wp_bindM wp_tryM wp_derefM Some option.case
          bind_post_simps CreateLoadBalancer_def wp_extcall
        using cr Inr
        by (simp add: wp_bindM)
          (rule wp_mono[OF add_services_wp], use Cons cr Inr in \<open>auto simp: bind_post_def wp_simps
            intro!: create_runI[OF ok] lb_madeI[OF cr[unfolded Inr] Cons] dest: filter_add_calls split: res.splits\<close>)
    qed
  qed
qed

lemma createLoadBalancer_wp:
  "wp (createLoadBalancer g c (hcs_ControlPlaneLoadBalancer (hc_Spec (cs_HcloudCluster s)))) (s\<lparr>world := w0\<rparr>)
     (\<lambda>r t s'. (\<exists>w. s' = s\<lparr>world := w\<rparr>) \<and> create_run c s w0 (world s') r t)"
proof (cases "gather_algorithm (lbs_Algorithm (hcs_ControlPlaneLoadBalancer (hc_Spec (cs_HcloudCluster s))))")
  case (Inl e)
  then show ?thesis
    by (auto simp: createLoadBalancer_def wp_simps create_run_fail)
next
  case (Inr alg)
  note alg = this
  show ?thesis
  proof (cases "hct_Locations (hc_Status (cs_HcloudCluster s))")
    case Nil
    with Inr show ?thesis
      by (auto simp: createLoadBalancer_def wp_simps create_run_fail client_defs wp_extcall ext_post_iff)
  next
    case (Cons location locs)
    obtain a w where ty: "h_GetLoadBalancerTypeByName c (lb_type s) w0 = (a, w)" by fastforce
    show ?thesis
    proof (cases a)
      case (Inl e)
      with ty alg show ?thesis
        by (auto simp: createLoadBalancer_def wp_simps create_run_fail client_defs wp_extcall)
    next
      case (Inr tyv)
      with ty have "fst (h_GetLoadBalancerTypeByName c (lb_type s) w0) = Inr tyv" by simp
      note submit = submitLoadBalancer_wp[where ty = tyv and ?w00.0 = w0, OF Cons alg _ _ this]
      show ?thesis
      proof (cases "status_network s")
        case None
        with ty alg Cons Inr show ?thesis
          by (auto simp: createLoadBalancer_def wp_simps client_defs wp_extcall
              intro!: wp_mono[OF submit] create_run_prepend[of _ _ _ _ _ _ "[x]" for x, simplified])
      next
        case (Some nst)
        with ty alg Cons Inr show ?thesis
          by (simp add: createLoadBalancer_def wp_simps client_defs wp_extcall)
            (rule wp_mono[OF find_network_wp], auto simp: bind_post_def wp_simps create_run_fail
              split: res.splits intro!: wp_mono[OF submit]
                create_run_prepend[of _ _ _ _ _ _ "[x, y]" for x y, simplified])
      qed
    qed
  qed
qed

section \<open>The reconcile and the deletion\<close>

abbreviation lb_state :: "('w, 'x) ClusterScope_scheme \<Rightarrow> HcloudLoadBalancerStatus" where
  "lb_state s \<equiv> hct_ControlPlaneLoadBalancer (hc_Status (cs_HcloudCluster s))"

lemma lb_status_set [simp]:
  "status_network (setClusterStatus (\<lambda>x. x\<lparr>hct_ControlPlaneLoadBalancer := st\<rparr>) s) = status_network s"
  by (simp add: setClusterStatus_def)

text \<open>No answer, or more than one load balancer: nothing further happens.\<close>

lemma lb_Reconcile_error_wp:
  assumes "h_ListLoadBalancers c (lb_selector s) (world s) = (a, w)"
    and "\<And>lbs. a = Inr lbs \<Longrightarrow> length lbs > 1"
  shows "wp (lb_Reconcile g c) s (\<lambda>r t s'. t = [ListLoadBalancersC (lb_selector s)] \<and>
     \<not> is_ok r \<and> \<not> is_panic r \<and> s' = s\<lparr>world := w\<rparr>)"
  using assms
  by (cases a) (auto simp: lb_Reconcile_def wp_simps wp_FindLoadBalancer found_lb_def split: list.splits)

text \<open>One load balancer: it is adopted, and attached to the network if it is not.\<close>

lemma lb_Reconcile_existing_wp:
  assumes "h_ListLoadBalancers c (lb_selector s) (world s) = (Inr [lb], w)"
  shows "wp (lb_Reconcile g c) s (\<lambda>r t s'. filter is_create t = [] \<and>
     (case lb_status (status_network s \<noteq> None) lb of
        Ok st \<Rightarrow> lb_state s' = st \<and> \<not> is_panic r \<and>
          (if status_network s = None \<or> lb_PrivateNet lb \<noteq> []
           then t = [ListLoadBalancersC (lb_selector s)] \<and> r = Ok ()
           else \<exists>att. t = [ListLoadBalancersC (lb_selector s), ListNetworksC []] @ att \<and>
             (r = Ok () \<longrightarrow> (\<exists>n. att = [AttachLoadBalancerToNetworkC lb n] \<and>
                Some (nw_ID n) = map_option hnt_ID (status_network s))))
      | st \<Rightarrow> t = [ListLoadBalancersC (lb_selector s)] \<and> \<not> is_ok r \<and> lb_state s' = lb_state s \<and>
          (is_panic r \<longleftrightarrow> is_panic st)))"
proof (cases "lb_status (status_network s \<noteq> None) lb")
  case (Ok st)
  show ?thesis
  proof (cases "status_network s = None \<or> lb_PrivateNet lb \<noteq> []")
    case True
    with Ok assms show ?thesis
      by (auto simp: lb_Reconcile_def wp_simps wp_FindLoadBalancer found_lb_def setClusterStatus_def)
  next
    case False
    then obtain nst where nst: "status_network s = Some nst" by auto
    with Ok False assms show ?thesis
      by (simp add: lb_Reconcile_def wp_simps wp_FindLoadBalancer found_lb_def)
        (rule wp_mono[OF attach_wp], auto simp: bind_post_def wp_simps setClusterStatus_def map_err_def split: res.splits)
  qed
qed (use assms in \<open>auto simp: lb_Reconcile_def wp_simps wp_FindLoadBalancer found_lb_def\<close>)

text \<open>None: one is created, unless something fails first.\<close>

definition lb_adopted ::
    "('w, 'x) ClusterScope_scheme \<Rightarrow> hcloud_LoadBalancer res \<Rightarrow> unit res \<Rightarrow> ('w, 'x) ClusterScope_scheme \<Rightarrow> bool" where
  "lb_adopted s rc r s' = (case rc of
      Ok lb \<Rightarrow> (case lb_status (status_network s \<noteq> None) lb of
          Ok st \<Rightarrow> r = Ok () \<and> lb_state s' = st
        | Err e \<Rightarrow> \<not> is_ok r \<and> \<not> is_panic r \<and> lb_state s' = lb_state s
        | Panic p \<Rightarrow> r = Panic p)
    | Err e \<Rightarrow> \<not> is_ok r \<and> \<not> is_panic r \<and> lb_state s' = lb_state s
    | Panic p \<Rightarrow> r = Panic p)"

lemma lb_Reconcile_creating_wp:
  assumes "h_ListLoadBalancers c (lb_selector s) (world s) = (Inr [], w)"
  shows "wp (lb_Reconcile g c) s (\<lambda>r t s'. \<exists>rc tc. t = ListLoadBalancersC (lb_selector s) # tc \<and>
     create_run c s w (world s') rc tc \<and> lb_adopted s rc r s')"
proof -
  let ?K = "\<lambda>lb. bindM (wrapM ''failed to refresh load balancer status'' (lb_apiToStatus lb)) set_lb_status"
  have "wp (wrapM ''failed to create load balancer''
          (createLoadBalancer g c (hcs_ControlPlaneLoadBalancer (hc_Spec (cs_HcloudCluster s))))) (s\<lparr>world := w\<rparr>)
       (bind_post ?K (\<lambda>r t s'. \<exists>rc. create_run c s w (world s') rc t \<and> lb_adopted s rc r s'))"
    unfolding wp_mapErrM
  proof (rule wp_mono[OF createLoadBalancer_wp])
    fix rc t s1
    assume *: "(\<exists>w. s1 = s\<lparr>world := w\<rparr>) \<and> create_run c s w (world s1) rc t"
    then show "bind_post ?K (\<lambda>r t s'. \<exists>rc. create_run c s w (world s') rc t \<and> lb_adopted s rc r s')
        (map_err (ErrWrap ''failed to create load balancer'') rc) t s1"
      by (cases rc) (auto simp: bind_post_def wp_simps map_err_def lb_adopted_def setClusterStatus_def
          split: res.splits intro!: exI[of _ rc])
  qed
  with assms show ?thesis
    by (simp add: lb_Reconcile_def wp_simps wp_FindLoadBalancer found_lb_def ex_simps)
qed
lemma lb_listing_cases:
  obtains (error) a w where "h_ListLoadBalancers c l v = (a, w)" "\<And>lbs. a = Inr lbs \<Longrightarrow> length lbs > 1"
  | (one) lb w where "h_ListLoadBalancers c l v = (Inr [lb], w)"
  | (none) w where "h_ListLoadBalancers c l v = (Inr [], w)"
proof (cases "h_ListLoadBalancers c l v")
  case (Pair a w)
  show ?thesis
  proof (cases a)
    case (Inl e)
    with Pair error show ?thesis by simp
  next
    case (Inr lbs)
    consider "lbs = []" | lb where "lbs = [lb]" | "length lbs > 1"
      by (cases lbs rule: list.exhaust; cases "tl lbs") auto
    then show ?thesis using Pair Inr error one none by cases auto
  qed
qed

lemma create_run_filter:
  assumes "create_run c s w w' r t"
  shows "length (filter is_create t) \<le> 1" and "CreateLoadBalancerC opts \<in> set t \<Longrightarrow> lb_opts_ok s opts"
proof -
  have *: "filter is_create t = [] \<or> (\<exists>o'. filter is_create t = [CreateLoadBalancerC o'] \<and> lb_opts_ok s o')"
    using assms by (auto simp: create_run_def)
  then show "length (filter is_create t) \<le> 1" by auto
  assume "CreateLoadBalancerC opts \<in> set t"
  then have "CreateLoadBalancerC opts \<in> set (filter is_create t)" by simp
  with * show "lb_opts_ok s opts" by (auto simp del: set_filter)
qed

lemma filter_create_none: "filter is_create t = [] \<Longrightarrow> CreateLoadBalancerC opts \<notin> set t"
  by (auto simp: filter_empty_conv)

section \<open>Properties\<close>

text \<open>
  C9. A reconcile asks for the creation of at most one load balancer, and only when the listing
  by the cluster's label returned none; the creation carries the ownership label, the first of
  the cluster's locations, the requested algorithm and name, the cluster's network if it has one, and the
  first requested service.
\<close>

theorem lb_Reconcile_creates_once:
  "case lb_Reconcile g c s of (r, t, s') \<Rightarrow>
     length (filter is_create t) \<le> 1 \<and>
     (\<forall>opts. CreateLoadBalancerC opts \<in> set t \<longrightarrow>
        (\<exists>w. h_ListLoadBalancers c (lb_selector s) (world s) = (Inr [], w)) \<and> lb_opts_ok s opts)"
proof (cases c "lb_selector s" "world s" rule: lb_listing_cases)
  case (error a w)
  from lb_Reconcile_error_wp[OF error, of g] show ?thesis by (auto simp: wp_def)
next
  case (one lb w)
  from lb_Reconcile_existing_wp[OF one, of g] show ?thesis
    by (auto simp: wp_def dest: filter_create_none)
next
  case (none w)
  obtain r t s' where eq: "lb_Reconcile g c s = (r, t, s')" by (metis prod_cases3)
  from wpD[OF lb_Reconcile_creating_wp[OF none, of g] eq] obtain rc tc where
    "t = ListLoadBalancersC (lb_selector s) # tc" and run: "create_run c s w (world s') rc tc" by blast
  with none eq create_run_filter[OF run] show ?thesis by simp
qed

definition example_lb_cluster :: HcloudCluster where
  "example_lb_cluster = zero_HcloudCluster
     \<lparr>hc_Spec := (hc_Spec zero_HcloudCluster)
        \<lparr>hcs_ControlPlaneLoadBalancer := \<lparr>lbs_Name = Some ''lb'', lbs_Algorithm = ''round_robin'',
           lbs_Type = ''lb11'', lbs_Services = [\<lparr>lss_Protocol = ''tcp'', lss_ListenPort = 443, lss_DestinationPort = 6443\<rparr>,
             \<lparr>lss_Protocol = ''tcp'', lss_ListenPort = 80, lss_DestinationPort = 8080\<rparr>]\<rparr>\<rparr>,
      hc_Status := (hc_Status zero_HcloudCluster)\<lparr>hct_Locations := [''fsn1'']\<rparr>\<rparr>"

definition example_lb :: hcloud_LoadBalancer where
  "example_lb = \<lparr>lb_ID = 7, lb_Name = ''lb'', lb_IPv4 = [1, 2, 3, 4], lb_IPv6 = [], lb_PrivateNet = [],
     lb_Algorithm = LoadBalancerAlgorithmTypeRoundRobin, lb_Targets = [Some 3], lb_Type = ''lb11'', lb_Labels = []\<rparr>"

definition example_lb_client :: "hcloud_LoadBalancer list \<Rightarrow> unit HcloudClient" where
  "example_lb_client lbs = offline_hcloud
     \<lparr>h_ListLoadBalancers := \<lambda>_ w. (Inr lbs, w),
      h_GetLoadBalancerTypeByName := \<lambda>n w. (Inr (Some n), w),
      h_CreateLoadBalancer := \<lambda>_ w. (Inr example_lb, w),
      h_AddServiceToLoadBalancer := \<lambda>_ _ w. (Inr (), w),
      h_DeleteLoadBalancer := \<lambda>_ w. (Inr (), w)\<rparr>"

definition example_lb_scope :: "unit ClusterScope" where
  "example_lb_scope = (zero_ClusterScope ())\<lparr>cs_HcloudCluster := example_lb_cluster\<rparr>"

lemma lb_Reconcile_creates_once_witness:
  "\<exists>opts. CreateLoadBalancerC opts \<in> set (calls (lb_Reconcile id (example_lb_client []) example_lb_scope)) \<and>
     lb_opts_ok example_lb_scope opts"
proof -
  have "\<exists>c \<in> set (calls (lb_Reconcile id (example_lb_client []) example_lb_scope)). is_create c"
    by code_simp
  then obtain opts where "CreateLoadBalancerC opts \<in> set (calls (lb_Reconcile id (example_lb_client []) example_lb_scope))"
    by (auto simp: is_create_iff)
  with lb_Reconcile_creates_once[where g = id and c = "example_lb_client []" and s = example_lb_scope]
  show ?thesis by (auto simp: calls_def split: prod.splits)
qed

text \<open>
  C32. When no load balancer was found and the reconcile succeeds, exactly one was created, with
  the options of the spec; then the cloud accepted the remaining requested services, one by one in the
  order of the spec, each in the world that the acceptance before it left; and the status describes
  the load balancer that was created.
\<close>

theorem lb_Reconcile_created:
  assumes "h_ListLoadBalancers c (lb_selector s) (world s) = (Inr [], w)"
    and "outcome (lb_Reconcile g c s) = Ok ()"
  shows "\<exists>pre opts lb w1 w2.
     calls (lb_Reconcile g c s) = ListLoadBalancersC (lb_selector s) # pre @ CreateLoadBalancerC opts #
       add_calls lb (tl (lb_services s)) @ [EventC EventTypeNormal ''CreateLoadBalancer''] \<and>
     filter is_create pre = [] \<and> lb_opts_ok s opts \<and> h_CreateLoadBalancer c opts w1 = (Inr lb, w2) \<and>
     services_accepted c lb (tl (lb_services s)) w2 (world (final (lb_Reconcile g c s))) \<and>
     lb_status (status_network s \<noteq> None) lb = Ok (lb_state (final (lb_Reconcile g c s)))"
proof -
  from lb_Reconcile_creating_wp[OF assms(1), of g] assms(2) obtain rc tc where
    t: "calls (lb_Reconcile g c s) = ListLoadBalancersC (lb_selector s) # tc"
    and run: "create_run c s w (world (final (lb_Reconcile g c s))) rc tc"
    and ad: "lb_adopted s rc (Ok ()) (final (lb_Reconcile g c s))"
    unfolding wp_iff by auto
  from ad obtain lb where lb: "rc = Ok lb"
    and st: "lb_status (status_network s \<noteq> None) lb = Ok (lb_state (final (lb_Reconcile g c s)))"
    by (auto simp: lb_adopted_def split: res.splits)
  from run lb obtain pre opts post where "tc = pre @ CreateLoadBalancerC opts # post"
    "filter is_create pre = []" "lb_opts_ok s opts"
    and "lb_made c s opts (world (final (lb_Reconcile g c s))) lb post"
    by (auto simp: create_run_def)
  with t st show ?thesis unfolding lb_made_def by blast
qed

lemma lb_Reconcile_created_witness:
  "lb_status False example_lb = Ok (lb_state (final (lb_Reconcile id (example_lb_client []) example_lb_scope)))"
proof -
  have "h_ListLoadBalancers (example_lb_client []) (lb_selector example_lb_scope) (world example_lb_scope) = (Inr [], ())"
    by (simp add: example_lb_client_def)
  moreover have "outcome (lb_Reconcile id (example_lb_client []) example_lb_scope) = Ok ()" by code_simp
  moreover have "status_network example_lb_scope = None" by code_simp
  ultimately show ?thesis
    using lb_Reconcile_created[where g = id and c = "example_lb_client []" and s = example_lb_scope]
    by (auto simp: example_lb_client_def)
qed

text \<open>
  A load balancer that was found is adopted, never created again: when its status can be
  computed the object carries it, also when the reconcile then fails; and it is attached to the cluster's
  network exactly when there is one and the load balancer is in none.
\<close>

theorem lb_Reconcile_adopts:
  assumes "h_ListLoadBalancers c (lb_selector s) (world s) = (Inr [lb], w)"
  shows "case lb_Reconcile g c s of (r, t, s') \<Rightarrow> filter is_create t = [] \<and>
     (case lb_status (status_network s \<noteq> None) lb of
        Ok st \<Rightarrow> lb_state s' = st \<and> \<not> is_panic r \<and>
          (if status_network s = None \<or> lb_PrivateNet lb \<noteq> []
           then t = [ListLoadBalancersC (lb_selector s)] \<and> r = Ok ()
           else \<exists>att. t = [ListLoadBalancersC (lb_selector s), ListNetworksC []] @ att \<and>
             (r = Ok () \<longrightarrow> (\<exists>n. att = [AttachLoadBalancerToNetworkC lb n] \<and>
                Some (nw_ID n) = map_option hnt_ID (status_network s))))
      | st \<Rightarrow> t = [ListLoadBalancersC (lb_selector s)] \<and> \<not> is_ok r \<and> lb_state s' = lb_state s \<and>
          (is_panic r \<longleftrightarrow> is_panic st))"
  using lb_Reconcile_existing_wp[OF assms] unfolding wp_def .

lemma lb_Reconcile_adopts_witness:
  "calls (lb_Reconcile id (example_lb_client [example_lb]) example_lb_scope) = [ListLoadBalancersC (lb_selector example_lb_scope)]"
proof -
  have "status_network example_lb_scope = None" by code_simp
  then show ?thesis
  using lb_Reconcile_adopts[where g = id and c = "example_lb_client [example_lb]" and s = example_lb_scope
      and lb = example_lb and w = "()"]
  by (auto simp: example_lb_client_def calls_def split: prod.splits res.splits)
qed



text \<open>
  Deleting the load balancer of a cluster asks for the deletion of the one load balancer
  that the listing by the cluster's label returned, of none when there is none, and of none, with an error,
  when there are several.
\<close>

theorem lb_Delete_correct:
  assumes "h_ListLoadBalancers c (lb_selector s) (world s) = (Inr lbs, w)"
  shows "case lb_Delete c s of (r, t, s') \<Rightarrow> \<not> is_panic r \<and> cs_HcloudCluster s' = cs_HcloudCluster s \<and>
     (case lbs of
        [] \<Rightarrow> r = Ok () \<and> t = [ListLoadBalancersC (lb_selector s), EventC EventTypeNormal ''UnknownLoadBalancer'']
      | [lb] \<Rightarrow> (\<exists>reason. t = [ListLoadBalancersC (lb_selector s), DeleteLoadBalancerC lb, EventC EventTypeNormal reason]) \<and>
          (is_ok r \<longleftrightarrow> (\<exists>u. fst (h_DeleteLoadBalancer c lb w) = Inr u))
      | _ \<Rightarrow> \<not> is_ok r \<and> t = [ListLoadBalancersC (lb_selector s)])"
proof -
  have "wp (lb_Delete c) s (\<lambda>r t s'. \<not> is_panic r \<and> cs_HcloudCluster s' = cs_HcloudCluster s \<and>
     (case lbs of
        [] \<Rightarrow> r = Ok () \<and> t = [ListLoadBalancersC (lb_selector s), EventC EventTypeNormal ''UnknownLoadBalancer'']
      | [lb] \<Rightarrow> (\<exists>reason. t = [ListLoadBalancersC (lb_selector s), DeleteLoadBalancerC lb, EventC EventTypeNormal reason]) \<and>
          (is_ok r \<longleftrightarrow> (\<exists>u. fst (h_DeleteLoadBalancer c lb w) = Inr u))
      | _ \<Rightarrow> \<not> is_ok r \<and> t = [ListLoadBalancersC (lb_selector s)]))"
    using assms by (auto simp: lb_Delete_def wp_simps wp_FindLoadBalancer found_lb_def client_defs
        wp_extcall ext_post_iff split: list.splits)
  then show ?thesis unfolding wp_def .
qed

lemma lb_Delete_correct_witness:
  "DeleteLoadBalancerC example_lb \<in> set (calls (lb_Delete (example_lb_client [example_lb]) example_lb_scope))"
  using lb_Delete_correct[where c = "example_lb_client [example_lb]" and s = example_lb_scope and lbs = "[example_lb]" and w = "()"]
  by (auto simp: example_lb_client_def calls_def split: prod.splits)

end
