(* ===== verification/Volume_Service.thy ===== *)
theory Volume_Service
  imports Scope
begin

text \<open>
  pkg/cloud/resources/volume: a persistent volume. One definition per function of volume.go,
  over the volume scope. The lemmas show what a reconcile makes of the spec (the size and the
  reclaim policy are filled in before anything else), that it creates a volume only when no
  listed one has the name, once, with a size of at least ten gibibytes that is the requested
  one rounded down, and that a deletion happens only under the reclaim policy Delete and only
  to the volume of that name.
\<close>

section \<open>The service\<close>

definition volumeMinimumSize :: Quantity where
  "volumeMinimumSize = NewQuantity (10 * 1024 * 1024 * 1024)"

definition vol_apiToStatus :: "hcloud_Volume \<Rightarrow> HcloudVolumeStatus" where
  "vol_apiToStatus v = \<lparr>hvt_Location = vo_Location v,
     hvt_Size = Some (NewQuantity (vo_Size v * 1024 * 1024 * 1024)), hvt_VolumeID = Some (vo_ID v)\<rparr>"

definition vol_name :: "('w, 'x) VolumeScope_scheme \<Rightarrow> string" where
  "vol_name s = om_Name (hc_Meta (cs_HcloudCluster s)) @ ''-'' @ om_Name (hv_Meta (vs_HcloudVolume s))"

definition vol_labels :: "('w, 'x) VolumeScope_scheme \<Rightarrow> (string, string) gomap" where
  "vol_labels s = [(ClusterTagKey (om_Name (hc_Meta (cs_HcloudCluster s))), ResourceLifecycleOwned)]"

definition vol_actualStatus ::
    "'w HcloudClient \<Rightarrow> (('w, 'x) VolumeScope_scheme, call, HcloudVolumeStatus option) M" where
  "vol_actualStatus c =
     bindM (getsM id) (\<lambda>s.
     bindM (ListVolumes c (LabelsToLabelSelector (vol_labels s))) (\<lambda>volumes.
     ret (map_option vol_apiToStatus (find (\<lambda>v. vo_Name v = vol_name s) volumes))))"

text \<open>\<^verbatim>\<open>int(size.Value() / 1024 / 1024 / 1024)\<close>: Go's division truncates towards zero.\<close>

definition quot :: "int \<Rightarrow> int \<Rightarrow> int" where
  "quot a b = sgn a * sgn b * (\<bar>a\<bar> div \<bar>b\<bar>)"

definition size_in_GB :: "Quantity \<Rightarrow> int" where
  "size_in_GB q = quot (quot (quot (Quantity_Value q) 1024) 1024) 1024"

definition createVolume :: "'w HcloudClient \<Rightarrow> (('w, 'x) VolumeScope_scheme, call, unit) M" where
  "createVolume c =
     bindM (getsM id) (\<lambda>s.
     bindM (derefM ''Spec.Size'' (hvs_Size (hv_Spec (vs_HcloudVolume s)))) (\<lambda>size.
     bindM (CreateVolume c
         \<lparr>vco_Name = vol_name s, vco_Labels = vol_labels s,
          vco_Location = hvs_Location (hv_Spec (vs_HcloudVolume s)),
          vco_Format = ''ext4'', vco_Automount = False, vco_Size = size_in_GB size\<rparr>) (\<lambda>v.
     modifyM (setVolumeStatus (\<lambda>_. vol_apiToStatus v)))))"

definition vol_defaults :: "HcloudVolumeSpec \<Rightarrow> HcloudVolumeSpec" where
  "vol_defaults sp0 =
     (let sp1 = (if hvs_Size sp0 = None then sp0\<lparr>hvs_Size := Some volumeMinimumSize\<rparr> else sp0);
          sp2 = (if Quantity_Cmp (the (hvs_Size sp1)) volumeMinimumSize < 1
                 then sp1\<lparr>hvs_Size := Some volumeMinimumSize\<rparr> else sp1)
      in if hvs_ReclaimPolicy sp2 = '''' then sp2\<lparr>hvs_ReclaimPolicy := HcloudVolumeReclaimRetain\<rparr> else sp2)"

definition vol_Reconcile :: "'w HcloudClient \<Rightarrow> (('w, 'x) VolumeScope_scheme, call, unit) M" where
  "vol_Reconcile c =
     bindM (modifyM (setVolumeSpec vol_defaults)) (\<lambda>_.
     bindM (wrapM ''failed to refresh volume'' (vol_actualStatus c)) (\<lambda>actualStatus.
     case actualStatus of
       None \<Rightarrow> wrapM ''failed to create volume'' (createVolume c)
     | Some status \<Rightarrow> modifyM (setVolumeStatus (\<lambda>_. status))))"

definition deleteVolume :: "'w HcloudClient \<Rightarrow> int \<Rightarrow> (('w, 'x) VolumeScope_scheme, call, unit) M" where
  "deleteVolume c i = DeleteVolume c i"

definition vol_Delete :: "'w HcloudClient \<Rightarrow> (('w, 'x) VolumeScope_scheme, call, unit) M" where
  "vol_Delete c =
     bindM (wrapM ''failed to refresh volume'' (vol_actualStatus c)) (\<lambda>actualStatus.
     case actualStatus of
       None \<Rightarrow> ret ()
     | Some status \<Rightarrow>
         bindM (getsM (\<lambda>s. hvs_ReclaimPolicy (hv_Spec (vs_HcloudVolume s)))) (\<lambda>policy.
         if policy \<noteq> HcloudVolumeReclaimDelete then ret ()
         else bindM (derefM ''VolumeID'' (hvt_VolumeID status)) (deleteVolume c)))"

section \<open>Sizes\<close>

lemma quot_nonneg [simp]: "0 \<le> a \<Longrightarrow> 0 < b \<Longrightarrow> quot a b = a div b"
  by (cases "a = 0") (simp_all add: quot_def)

text \<open>
  The size requested of the cloud is the quantity in gibibytes rounded down (a fraction of a
  byte counts as a byte first), and at least ten where the quantity is at least the minimum.
\<close>

lemma Quantity_Value_NewQuantity [simp]: "Quantity_Value (NewQuantity v) = v"
  by (simp add: Quantity_Value_def NewQuantity_def nano_def)

lemma Quantity_Value_mono: "a \<le> b \<Longrightarrow> Quantity_Value a \<le> Quantity_Value b"
  by (simp add: Quantity_Value_def nano_def zdiv_mono1)

lemma size_in_GB_eq: "0 \<le> q \<Longrightarrow> size_in_GB q = Quantity_Value q div (1024 * 1024 * 1024)"
proof -
  assume "0 \<le> q"
  then have "0 \<le> Quantity_Value q" using Quantity_Value_mono[of 0 q] by (simp add: Quantity_Value_def)
  then show ?thesis by (simp add: size_in_GB_def pos_imp_zdiv_nonneg_iff zdiv_zmult2_eq[symmetric])
qed

lemma size_in_GB_min:
  assumes "volumeMinimumSize \<le> q"
  shows "10 \<le> size_in_GB q"
proof -
  have "10 * 1024 * 1024 * 1024 \<le> Quantity_Value q"
    using Quantity_Value_mono[OF assms] by (simp add: volumeMinimumSize_def)
  then have "10 \<le> Quantity_Value q div (1024 * 1024 * 1024)" by simp
  moreover have "0 \<le> q" using assms by (simp add: volumeMinimumSize_def NewQuantity_def nano_def)
  ultimately show ?thesis by (simp add: size_in_GB_eq)
qed

lemma vol_defaults_size: "\<exists>q. hvs_Size (vol_defaults sp) = Some q \<and> volumeMinimumSize \<le> q"
  by (auto simp: vol_defaults_def Let_def Quantity_Cmp_def split: if_splits)

lemma vol_defaults_keep:
  assumes "hvs_Size sp = Some q" and "volumeMinimumSize \<le> q"
  shows "hvs_Size (vol_defaults sp) = Some q"
  using assms by (auto simp: vol_defaults_def Let_def Quantity_Cmp_def split: if_splits)

lemma vol_defaults_idem: "vol_defaults (vol_defaults sp) = vol_defaults sp"
  by (auto simp: vol_defaults_def Let_def Quantity_Cmp_def HcloudVolumeReclaimRetain_def)

lemma vol_defaults_simps [simp]:
  "hvs_Location (vol_defaults sp) = hvs_Location sp"
  "hvs_ReclaimPolicy (vol_defaults sp) = (if hvs_ReclaimPolicy sp = [] then HcloudVolumeReclaimRetain else hvs_ReclaimPolicy sp)"
  by (simp_all add: vol_defaults_def Let_def)

section \<open>Properties\<close>

definition vol_selector :: "('w, 'x) VolumeScope_scheme \<Rightarrow> string" where
  "vol_selector s = LabelsToLabelSelector (vol_labels s)"

lemma vol_names_update [simp]:
  "vol_name (setVolumeSpec f s) = vol_name s" "vol_labels (setVolumeSpec f s) = vol_labels s"
  "vol_name (s\<lparr>world := w\<rparr>) = vol_name s" "vol_labels (s\<lparr>world := w\<rparr>) = vol_labels s"
  by (simp_all add: vol_name_def vol_labels_def setVolumeSpec_def)

lemma wp_vol_actualStatus:
  "wp (vol_actualStatus c) s Q = ext_post (ListVolumesC (vol_selector s)) s
     (\<lambda>r t s'. Q (case r of
          Ok vs \<Rightarrow> Ok (map_option vol_apiToStatus (find (\<lambda>v. vo_Name v = vol_name s) vs))
        | Err e \<Rightarrow> Err e | Panic p \<Rightarrow> Panic p) t s')
     (h_ListVolumes c (vol_selector s) (world s))"
  by (auto simp: vol_actualStatus_def vol_selector_def wp_simps client_defs wp_extcall ext_post_def
      split: prod.splits sum.splits)

lemma vol_selector_update [simp]: "vol_selector (setVolumeSpec f s) = vol_selector s"
  by (simp add: vol_selector_def)

lemma vol_spec_world:
  "world (setVolumeSpec f s) = world s" "hv_Spec (vs_HcloudVolume (setVolumeSpec f s)) = f (hv_Spec (vs_HcloudVolume s))"
  by (simp_all add: setVolumeSpec_def)

text \<open>The three ways of a reconcile: the listing fails, no listed volume has the name, or one has.\<close>

lemma vol_Reconcile_unlisted:
  assumes "h_ListVolumes c (vol_selector s) (world s) = (Inl e, w)"
    and "hvs_Size (vol_defaults (hv_Spec (vs_HcloudVolume s))) = Some q"
  shows "wp (vol_Reconcile c) s (\<lambda>r t s'. \<not> is_ok r \<and> \<not> is_panic r \<and> t = [ListVolumesC (vol_selector s)] \<and>
    hv_Spec (vs_HcloudVolume s') = vol_defaults (hv_Spec (vs_HcloudVolume s)))"
  using assms by (simp add: vol_Reconcile_def wp_simps wp_vol_actualStatus vol_spec_world)

lemma vol_Reconcile_creates:
  assumes "h_ListVolumes c (vol_selector s) (world s) = (Inr vs, w)"
    and "find (\<lambda>v. vo_Name v = vol_name s) vs = None" and "hvs_Size (vol_defaults (hv_Spec (vs_HcloudVolume s))) = Some q"
  shows "wp (vol_Reconcile c) s (\<lambda>r t s'. \<not> is_panic r \<and>
    hv_Spec (vs_HcloudVolume s') = vol_defaults (hv_Spec (vs_HcloudVolume s)) \<and>
    (\<exists>opts. t = [ListVolumesC (vol_selector s), CreateVolumeC opts] \<and> vco_Name opts = vol_name s \<and>
      vco_Labels opts = vol_labels s \<and>
      vco_Location opts = hvs_Location (hv_Spec (vs_HcloudVolume s)) \<and> vco_Size opts = size_in_GB q \<and>
      (r = Ok () \<longrightarrow> (\<exists>v w'. h_CreateVolume c opts w = (Inr v, w') \<and>
         hv_Status (vs_HcloudVolume s') = vol_apiToStatus v))))"
  using assms by (auto simp: vol_Reconcile_def createVolume_def wp_simps wp_vol_actualStatus vol_spec_world client_defs
      wp_extcall ext_post_iff setVolumeStatus_def)

lemma vol_Reconcile_adopts:
  assumes "h_ListVolumes c (vol_selector s) (world s) = (Inr vs, w)"
    and "find (\<lambda>v. vo_Name v = vol_name s) vs = Some v" and "hvs_Size (vol_defaults (hv_Spec (vs_HcloudVolume s))) = Some q"
  shows "wp (vol_Reconcile c) s (\<lambda>r t s'. r = Ok () \<and> t = [ListVolumesC (vol_selector s)] \<and>
    hv_Spec (vs_HcloudVolume s') = vol_defaults (hv_Spec (vs_HcloudVolume s)) \<and>
    hv_Status (vs_HcloudVolume s') = vol_apiToStatus v)"
  using assms by (simp add: vol_Reconcile_def wp_simps wp_vol_actualStatus vol_spec_world setVolumeStatus_def)

text \<open>
  C30. Reconciling a volume never panics; afterwards, whatever happened, the spec has a size
  of at least ten gibibytes, which is the requested one if that was large enough, and a
  reclaim policy, Retain unless one was requested. The listing by the cluster's label comes
  first; a creation is requested only when no listed volume has the expected name, once, in the requested
  location, with at least ten gibibytes and the size of the spec rounded down; and when the
  reconcile succeeds the status describes the volume found or created.
\<close>

theorem vol_Reconcile_correct:
  "case vol_Reconcile c s of (r, t, s') \<Rightarrow>
     \<not> is_panic r \<and> hv_Spec (vs_HcloudVolume s') = vol_defaults (hv_Spec (vs_HcloudVolume s)) \<and>
     (\<exists>q. hvs_Size (vol_defaults (hv_Spec (vs_HcloudVolume s))) = Some q \<and> volumeMinimumSize \<le> q \<and>
        (t = [ListVolumesC (vol_selector s)] \<and>
           (r = Ok () \<longrightarrow> (\<exists>vs w v. h_ListVolumes c (vol_selector s) (world s) = (Inr vs, w) \<and>
              v \<in> set vs \<and> vo_Name v = vol_name s \<and> hv_Status (vs_HcloudVolume s') = vol_apiToStatus v)) \<or>
         (\<exists>vs w opts. t = [ListVolumesC (vol_selector s), CreateVolumeC opts] \<and>
            h_ListVolumes c (vol_selector s) (world s) = (Inr vs, w) \<and>
            (\<forall>v \<in> set vs. vo_Name v \<noteq> vol_name s) \<and>
            vco_Name opts = vol_name s \<and> vco_Labels opts = vol_labels s \<and>
            vco_Location opts = hvs_Location (hv_Spec (vs_HcloudVolume s)) \<and>
            vco_Size opts = Quantity_Value q div (1024 * 1024 * 1024) \<and> 10 \<le> vco_Size opts \<and>
            (r = Ok () \<longrightarrow> (\<exists>v w'. h_CreateVolume c opts w = (Inr v, w') \<and>
               hv_Status (vs_HcloudVolume s') = vol_apiToStatus v)))))"
proof -
  obtain q where q: "hvs_Size (vol_defaults (hv_Spec (vs_HcloudVolume s))) = Some q" "volumeMinimumSize \<le> q"
    using vol_defaults_size by blast
  then have q0: "0 \<le> q" by (simp add: volumeMinimumSize_def NewQuantity_def nano_def)
  obtain a w where l: "h_ListVolumes c (vol_selector s) (world s) = (a, w)" by fastforce
  show ?thesis
  proof (cases a)
    case (Inl e)
    from vol_Reconcile_unlisted[OF l[unfolded Inl] q(1)] q show ?thesis by (auto simp: wp_def)
  next
    case (Inr vs)
    show ?thesis
    proof (cases "find (\<lambda>v. vo_Name v = vol_name s) vs")
      case None
      then have "\<forall>v \<in> set vs. vo_Name v \<noteq> vol_name s" by (auto simp: find_None_iff)
      with vol_Reconcile_creates[OF l[unfolded Inr] None q(1)] show ?thesis
        using q l Inr size_in_GB_min[OF q(2)] by (auto simp: wp_def size_in_GB_eq[OF q0])
    next
      case (Some v)
      with find_Some_mem have "v \<in> set vs" "vo_Name v = vol_name s" by fastforce+
      with vol_Reconcile_adopts[OF l[unfolded Inr] Some q(1)] show ?thesis using q l Inr by (auto simp: wp_def)
    qed
  qed
qed

definition example_volume :: hcloud_Volume where
  "example_volume = \<lparr>vo_ID = 5, vo_Name = ''-'', vo_Size = 10, vo_Location = ''fsn1''\<rparr>"

definition example_volume_client :: "hcloud_Volume list \<Rightarrow> unit HcloudClient" where
  "example_volume_client vs = offline_hcloud\<lparr>h_ListVolumes := \<lambda>_ w. (Inr vs, w),
     h_CreateVolume := \<lambda>_ w. (Inr example_volume, w), h_DeleteVolume := \<lambda>_ w. (Inr (), w)\<rparr>"

lemma vol_Reconcile_correct_witness:
  "hv_Status (vs_HcloudVolume (final (vol_Reconcile (example_volume_client []) (zero_VolumeScope ())))) =
     vol_apiToStatus example_volume"
proof -
  have "outcome (vol_Reconcile (example_volume_client []) (zero_VolumeScope ())) = Ok ()" by code_simp
  then show ?thesis
    using vol_Reconcile_correct[where c = "example_volume_client []" and s = "zero_VolumeScope ()"]
    by (auto simp: example_volume_client_def outcome_def final_def split: prod.splits)
qed

text \<open>
  C29. Deleting a volume never panics and requests a deletion exactly when the reclaim policy is
  Delete and a listed volume has the expected name; then it is the first such volume.
\<close>

theorem vol_Delete_correct:
  assumes "h_ListVolumes c (vol_selector s) (world s) = (Inr vs, w)"
  shows "\<not> is_panic (outcome (vol_Delete c s)) \<and>
    calls (vol_Delete c s) = ListVolumesC (vol_selector s) #
     (if hvs_ReclaimPolicy (hv_Spec (vs_HcloudVolume s)) = HcloudVolumeReclaimDelete
      then (case find (\<lambda>v. vo_Name v = vol_name s) vs of None \<Rightarrow> [] | Some v \<Rightarrow> [DeleteVolumeC (vo_ID v)])
      else [])"
proof -
  have "wp (vol_Delete c) s (\<lambda>r t s'. \<not> is_panic r \<and> t = ListVolumesC (vol_selector s) #
     (if hvs_ReclaimPolicy (hv_Spec (vs_HcloudVolume s)) = HcloudVolumeReclaimDelete
      then (case find (\<lambda>v. vo_Name v = vol_name s) vs of None \<Rightarrow> [] | Some v \<Rightarrow> [DeleteVolumeC (vo_ID v)])
      else []))"
    using assms by (auto simp: vol_Delete_def deleteVolume_def wp_simps wp_vol_actualStatus client_defs
        wp_extcall ext_post_iff vol_apiToStatus_def split: option.splits)
  then show ?thesis unfolding wp_iff .
qed

lemma vol_Delete_correct_witness:
  "calls (vol_Delete (example_volume_client [example_volume]) (zero_VolumeScope ())) =
     [ListVolumesC (vol_selector (zero_VolumeScope ()))]"
proof -
  have "hvs_ReclaimPolicy (hv_Spec (vs_HcloudVolume (zero_VolumeScope ()))) \<noteq> HcloudVolumeReclaimDelete"
    by code_simp
  then show ?thesis
    using vol_Delete_correct[where c = "example_volume_client [example_volume]" and s = "zero_VolumeScope ()"]
    by (simp add: example_volume_client_def)
qed

end
