(* ===== verification/Md5.thy ===== *)
theory Md5
  imports Go_Lib
begin

text \<open>
  \<^verbatim>\<open>crypto/md5\<close>, which names the machine images: an executable digest of a byte string, printed
  as 32 hexadecimal digits.
\<close>

definition md5_K :: "32 word list" where
  "md5_K = [
     0xd76aa478, 0xe8c7b756, 0x242070db, 0xc1bdceee, 0xf57c0faf, 0x4787c62a,
     0xa8304613, 0xfd469501, 0x698098d8, 0x8b44f7af, 0xffff5bb1, 0x895cd7be,
     0x6b901122, 0xfd987193, 0xa679438e, 0x49b40821, 0xf61e2562, 0xc040b340,
     0x265e5a51, 0xe9b6c7aa, 0xd62f105d, 0x02441453, 0xd8a1e681, 0xe7d3fbc8,
     0x21e1cde6, 0xc33707d6, 0xf4d50d87, 0x455a14ed, 0xa9e3e905, 0xfcefa3f8,
     0x676f02d9, 0x8d2a4c8a, 0xfffa3942, 0x8771f681, 0x6d9d6122, 0xfde5380c,
     0xa4beea44, 0x4bdecfa9, 0xf6bb4b60, 0xbebfbc70, 0x289b7ec6, 0xeaa127fa,
     0xd4ef3085, 0x04881d05, 0xd9d4d039, 0xe6db99e5, 0x1fa27cf8, 0xc4ac5665,
     0xf4292244, 0x432aff97, 0xab9423a7, 0xfc93a039, 0x655b59c3, 0x8f0ccc92,
     0xffeff47d, 0x85845dd1, 0x6fa87e4f, 0xfe2ce6e0, 0xa3014314, 0x4e0811a1,
     0xf7537e82, 0xbd3af235, 0x2ad7d2bb, 0xeb86d391]"

definition md5_shift :: "nat list" where
  "md5_shift = concat (replicate 4 [7, 12, 17, 22]) @ concat (replicate 4 [5, 9, 14, 20]) @
     concat (replicate 4 [4, 11, 16, 23]) @ concat (replicate 4 [6, 10, 15, 21])"

definition md5_index :: "nat list" where
  "md5_index = [0, 1, 2, 3, 4, 5, 6, 7, 8, 9, 10, 11, 12, 13, 14, 15,
     1, 6, 11, 0, 5, 10, 15, 4, 9, 14, 3, 8, 13, 2, 7, 12,
     5, 8, 11, 14, 1, 4, 7, 10, 13, 0, 3, 6, 9, 12, 15, 2,
     0, 7, 14, 5, 12, 3, 10, 1, 8, 15, 6, 13, 4, 11, 2, 9]"

type_synonym md5_state = "32 word \<times> 32 word \<times> 32 word \<times> 32 word"

definition md5_mix :: "nat \<Rightarrow> 32 word \<Rightarrow> 32 word \<Rightarrow> 32 word \<Rightarrow> 32 word" where
  "md5_mix round b c d =
     (if round = 0 then (b AND c) OR (NOT b AND d)
      else if round = 1 then (d AND b) OR (NOT d AND c)
      else if round = 2 then b XOR c XOR d
      else c XOR (b OR NOT d))"

definition rotate_left :: "nat \<Rightarrow> 32 word \<Rightarrow> 32 word" where
  "rotate_left n x = push_bit n x OR drop_bit (32 - n) x"

definition md5_step :: "32 word list \<Rightarrow> md5_state \<Rightarrow> nat \<times> 32 word \<times> nat \<times> nat \<Rightarrow> md5_state" where
  "md5_step m = (\<lambda>(a, b, c, d) (round, k, sh, g).
     (d, b + rotate_left sh (md5_mix round b c d + a + k + m ! g), b, c))"

definition md5_rounds :: "(nat \<times> 32 word \<times> nat \<times> nat) list" where
  "md5_rounds = zip (concat (map (replicate 16) [0, 1, 2, 3])) (zip md5_K (zip md5_shift md5_index))"

definition md5_block :: "md5_state \<Rightarrow> 32 word list \<Rightarrow> md5_state" where
  "md5_block = (\<lambda>(a, b, c, d) m.
     case foldl (md5_step m) (a, b, c, d) md5_rounds of
       (a', b', c', d') \<Rightarrow> (a + a', b + b', c + c', d + d'))"

fun le_bytes :: "nat \<Rightarrow> int \<Rightarrow> int list" where
  "le_bytes 0 n = []"
| "le_bytes (Suc k) n = n mod 256 # le_bytes k (n div 256)"

definition md5_pad :: "string \<Rightarrow> int list" where
  "md5_pad s = (let n = length s in
     map of_char s @ [0x80] @ replicate ((119 - n mod 64) mod 64) 0 @ le_bytes 8 (8 * int n))"

fun le_words :: "int list \<Rightarrow> 32 word list" where
  "le_words (a # b # c # d # r) = word_of_int (a + 256 * (b + 256 * (c + 256 * d))) # le_words r"
| "le_words _ = []"

function md5_blocks :: "md5_state \<Rightarrow> 32 word list \<Rightarrow> md5_state" where
  "md5_blocks st ws = (if length ws < 16 then st else md5_blocks (md5_block st (take 16 ws)) (drop 16 ws))"
  by pat_completeness auto
termination
  by (relation "measure (\<lambda>(st, ws). length ws)") auto

declare md5_blocks.simps [simp del]

definition md5_hex_word :: "32 word \<Rightarrow> string" where
  "md5_hex_word w = concat (map (\<lambda>b. [digit (b div 16), digit (b mod 16)]) (le_bytes 4 (uint w)))"

definition md5_hex :: "string \<Rightarrow> string" where
  "md5_hex s = (case md5_blocks (0x67452301, 0xefcdab89, 0x98badcfe, 0x10325476) (le_words (md5_pad s)) of
     (a, b, c, d) \<Rightarrow> md5_hex_word a @ md5_hex_word b @ md5_hex_word c @ md5_hex_word d)"

lemma length_le_bytes [simp]: "length (le_bytes k n) = k"
  by (induction k arbitrary: n) auto

lemma length_md5_hex_word [simp]: "length (md5_hex_word w) = 8"
  by (simp add: md5_hex_word_def length_concat comp_def sum_list_triv)

lemma length_md5_hex: "length (md5_hex s) = 32"
  by (simp add: md5_hex_def split: prod.splits)

text \<open>The padding fills whole blocks of 64 bytes, whatever the length.\<close>

lemma length_md5_pad: "64 dvd length (md5_pad s)"
proof -
  have "length (md5_pad s) = length s + (119 - length s mod 64) mod 64 + 9"
    by (simp add: md5_pad_def Let_def)
  moreover have "length s mod 64 < 64" by simp
  then have "length s mod 64 + (119 - length s mod 64) mod 64 + 9 = 64 \<or>
      length s mod 64 + (119 - length s mod 64) mod 64 + 9 = 128"
    by (cases "length s mod 64 \<le> 55") (simp_all add: le_mod_geq)
  then have "64 dvd length s mod 64 + (119 - length s mod 64) mod 64 + 9" by (elim disjE) simp_all
  ultimately show ?thesis
    by (metis add.assoc mod_add_left_eq dvd_eq_mod_eq_0)
qed

end
