(* ===== verification/Packer_Builder.thy ===== *)
theory Packer_Builder
  imports Scope Md5
begin

text \<open>
  pkg/packer and pkg/packer/api: machine images. \<open>EnsureImage\<close> finds the newest available image
  for the hash of its parameters or starts one child process that builds it, and is asked
  again until the image is there; the map of builds in the state remembers the children.
  \<open>Initialize\<close> locates the packer configuration, downloading and unpacking it when the
  image name is a URL.

  A child process ends at its own time: \<open>packer_step\<close> is the step relation of calls to
  \<open>EnsureImage\<close> and \<open>Initialize\<close>, ends of children and changes of the outside world. The mutex of \<open>EnsureImage\<close>
  makes a call one step; the writes of the result and of the end of a child are taken to be one
  step, too. The lemmas show that two builds of one image never run at the same time in any
  interleaving, which image is returned, and what a finished build leads to.
\<close>

section \<open>Parameters: pkg/packer/api/api.go\<close>

record PackerParameters =
  KubernetesVersion :: string
  Image :: string

definition imageVersion :: int where "imageVersion = 2"

definition Hash :: "PackerParameters \<Rightarrow> string" where
  "Hash p = md5_hex (itoa imageVersion @ KubernetesVersion p @ Image p)"

definition EnvironmentVariables :: "PackerParameters \<Rightarrow> string list" where
  "EnvironmentVariables p = [''PACKER_KUBERNETES_VERSION='' @ KubernetesVersion p,
     ''PACKER_TEMPLATE_HASH='' @ Hash p]"

section \<open>The operating system calls\<close>

definition StatNotExist :: "'w OsClient \<Rightarrow> string \<Rightarrow> (('w, 'x) sys_scheme, call, bool) M" where
  "StatNotExist o' path =
     bindM (tryM (extcall (StatC path) (os_NotExist o' path))) (\<lambda>r.
     ret (case r of Inl _ \<Rightarrow> False | Inr b \<Rightarrow> b))"

definition HttpGet :: "'w OsClient \<Rightarrow> string \<Rightarrow> (('w, 'x) sys_scheme, call, error + string) M" where
  "HttpGet o' url = extcall (HttpGetC url) (os_HttpGet o' url)"

definition Output ::
    "'w OsClient \<Rightarrow> string \<Rightarrow> string list \<Rightarrow> string list \<Rightarrow> (('w, 'x) sys_scheme, call, string \<times> error option) M" where
  "Output o' path args env = extcall (RunC path args env) (\<lambda>w. map_prod Inr id (os_Output o' path args env w))"

lemmas os_defs = StatNotExist_def HttpGet_def Output_def

section \<open>The builder: pkg/packer/packer.go\<close>

definition envHcloudToken :: string where "envHcloudToken = ''HCLOUD_TOKEN''"

definition setPacker :: "(Packer \<Rightarrow> Packer) \<Rightarrow> (('w, 'x) sys_scheme, call, unit) M" where
  "setPacker f = modifyM (\<lambda>s. s\<lparr>packer := f (packer s)\<rparr>)"

definition DownloadFile :: "'w OsClient \<Rightarrow> string \<Rightarrow> (('w, 'x) sys_scheme, call, string) M" where
  "DownloadFile o' url =
     bindM (HttpGet o' url) (\<lambda>resp.
     case resp of
       Inl err \<Rightarrow> failM (ErrNew (''Failed to create file in DownloadFile: '' @ Error err))
     | Inr body \<Rightarrow> ret body)"

definition extract_entry :: "'w OsClient \<Rightarrow> TarEntry \<Rightarrow> (('w, 'x) sys_scheme, call, unit) M" where
  "extract_entry o' header = (case header of
      TarDir name \<Rightarrow>
        mapErrM (\<lambda>err. ErrNew (''ExtractTarGz: Mkdir() failed: '' @ Error err))
          (extcall (MkdirC (''/tmp/'' @ name)) (os_Mkdir o' (''/tmp/'' @ name)))
    | TarReg name content \<Rightarrow>
        bindM (mapErrM (\<lambda>err. ErrNew (''ExtractTarGz: Create() failed: '' @ Error err))
          (extcall (CreateFileC (''/tmp/'' @ name) content) (os_CreateFile o' (''/tmp/'' @ name) content))) (\<lambda>copy.
        case copy of
          Some err \<Rightarrow> failM (ErrNew (''ExtractTarGz: Copy() failed: '' @ Error err))
        | None \<Rightarrow> ret ())
    | TarOther typeflag name \<Rightarrow>
        failM (ErrNew (''ExtractTarGz: unknown type: '' @ typeflag @ '' in '' @ name)))"

definition ExtractTarGz :: "'w OsClient \<Rightarrow> string \<Rightarrow> (('w, 'x) sys_scheme, call, unit) M" where
  "ExtractTarGz o' gzipStream = (case os_Untar o' gzipStream of
      Inl err \<Rightarrow> failM (ErrNew (''ExtractTarGz: NewReader failed: '' @ Error err))
    | Inr (headers, stop) \<Rightarrow>
        bindM (forM (extract_entry o') headers) (\<lambda>_.
        case stop of
          Some err \<Rightarrow> failM (ErrNew (''ExtractTarGz: Next() failed: '' @ Error err))
        | None \<Rightarrow> ret ()))"

definition initializePacker :: "'w OsClient \<Rightarrow> (('w, 'x) sys_scheme, call, unit) M" where
  "initializePacker o' =
     bindM (tryM (extcall (LookPathC ''packer'') (os_LookPath o' ''packer''))) (\<lambda>found.
     bindM (setPacker (\<lambda>m. m\<lparr>packerPath := (case found of Inr path \<Rightarrow> path | Inl _ \<Rightarrow> [])\<rparr>)) (\<lambda>_.
     bindM (mapErrM (ErrWrap ''error finding packer'') (liftM found)) (\<lambda>path.
     bindM (Output o' path [''-v''] []) (\<lambda>(output, err).
     case err of
       Some e \<Rightarrow> failM (ErrWrap ''error executing packer version'' e)
     | None \<Rightarrow> ret ()))))"

definition initializeConfig :: "'w OsClient \<Rightarrow> (('w, 'x) sys_scheme, call, unit) M" where
  "initializeConfig o' =
     bindM (getsM packer) (\<lambda>m.
     bindM (Output o' (packerPath m) [''validate'', packerConfigPath m] [envHcloudToken @ ''=xxx'']) (\<lambda>(output, err).
     case err of
       Some e \<Rightarrow> failM (ErrNew (''error validating packer config '' @ [CHR 0x27] @ packerConfigPath m @
                     [CHR 0x27] @ '': '' @ output @ '' '' @ Error e))
     | None \<Rightarrow> ret ()))"

definition is_url :: "string \<Rightarrow> bool" where
  "is_url name = (HasPrefix name ''http://'' \<or> HasPrefix name ''https://'')"

definition folderName :: "string \<Rightarrow> string" where
  "folderName imageName = TrimSuffix (last (Split imageName ''/'')) ''.tar.gz''"

definition locate_config :: "'w OsClient \<Rightarrow> string \<Rightarrow> (('w, 'x) sys_scheme, call, unit) M" where
  "locate_config o' imageName =
     (if is_url imageName then
          bindM (StatNotExist o' (''/tmp/'' @ folderName imageName)) (\<lambda>absent.
          if absent then
            bindM (mapErrM (\<lambda>err. ErrNew (''error while downloading tar.gz file from '' @ imageName @ '': '' @ Error err))
                     (DownloadFile o' imageName)) (\<lambda>r.
            bindM (mapErrM (\<lambda>err. ErrNew (''error while getting and unzipping image from '' @ imageName @ '': '' @ Error err))
                     (ExtractTarGz o' r)) (\<lambda>_.
            setPacker (\<lambda>m. m\<lparr>packerConfigPath := ''/tmp/'' @ folderName imageName @ ''/image.json''\<rparr>)))
          else ret ())
        else setPacker (\<lambda>m. m\<lparr>packerConfigPath := ''/'' @ imageName @ ''-packer-config/image.json''\<rparr>))"

definition Initialize :: "'w OsClient \<Rightarrow> HcloudMachine \<Rightarrow> (('w, 'x) sys_scheme, call, unit) M" where
  "Initialize o' machine =
     bindM (locate_config o' (hms_ImageName (hm_Spec machine))) (\<lambda>_.
     bindM (initializePacker o') (\<lambda>_.
     initializeConfig o'))"

definition template_hash_key :: string where
  "template_hash_key = NameHcloudProviderPrefix @ ''template-hash''"

text \<open>The loop over the images: the newest available one, the first of those equally new.\<close>

fun latest_image :: "hcloud_Image option \<Rightarrow> hcloud_Image list \<Rightarrow> hcloud_Image option" where
  "latest_image best [] = best"
| "latest_image best (i # is) =
     (if im_Status i \<noteq> ImageStatusAvailable then latest_image best is
      else case best of
          None \<Rightarrow> latest_image (Some i) is
        | Some im \<Rightarrow> if im_Created i > im_Created im then latest_image (Some i) is else latest_image best is)"

definition started_build :: build where
  "started_build = \<lparr>b_terminated = False, b_result = None, b_stdout = [], b_stderr = []\<rparr>"

definition query_or_build ::
    "'w HcloudClient \<Rightarrow> 'w OsClient \<Rightarrow> PackerParameters \<Rightarrow> (('w, 'x) sys_scheme, call, int option) M" where
  "query_or_build hc o' parameters =
     (let hash = Hash parameters in
      bindM (ListImages hc (template_hash_key @ ''=='' @ hash)) (\<lambda>images.
      case latest_image None images of
        Some im \<Rightarrow> ret (Some (im_ID im))
      | None \<Rightarrow>
          bindM (getsM packer) (\<lambda>m.
          let args = [''build'', packerConfigPath m];
              env = EnvironmentVariables parameters @ [envHcloudToken @ ''='' @ h_Token hc] in
          bindM (extcall (StartC (packerPath m) args env hash) (os_Start o' (packerPath m) args env)) (\<lambda>_.
          bindM (setPacker (\<lambda>m. m\<lparr>builds := (builds m)(hash \<mapsto> started_build)\<rparr>)) (\<lambda>_.
          ret None)))))"

definition EnsureImage ::
    "'w HcloudClient \<Rightarrow> 'w OsClient \<Rightarrow> PackerParameters \<Rightarrow> (('w, 'x) sys_scheme, call, int option) M" where
  "EnsureImage hc o' parameters =
     (let hash = Hash parameters in
      bindM (getsM (\<lambda>s. builds (packer s) hash)) (\<lambda>found.
      case found of
        None \<Rightarrow> query_or_build hc o' parameters
      | Some b \<Rightarrow>
          if \<not> b_terminated b then ret None
          else
            bindM (setPacker (\<lambda>m. m\<lparr>builds := (builds m)(hash := None)\<rparr>)) (\<lambda>_.
            case b_result b of
              Some err \<Rightarrow> failM (ErrNew (Error err @ '' stdout='' @ b_stdout b @ '' stderr='' @ b_stderr b))
            | None \<Rightarrow> query_or_build hc o' parameters)))"
section \<open>The interleavings\<close>

text \<open>
  The builder together with the child processes that run: the hashes they build for, in the
  order of their starts. A child runs when the call that starts it did not fail.
\<close>

record 'w builder =
  b_sys :: "'w sys"
  b_running :: "string list"

fun started :: "call list \<Rightarrow> string list" where
  "started [] = []"
| "started (StartC _ _ _ hash # cs) = hash # started cs"
| "started (_ # cs) = started cs"

inductive packer_step :: "'w HcloudClient \<Rightarrow> 'w OsClient \<Rightarrow> 'w builder \<Rightarrow> 'w builder \<Rightarrow> bool"
  for hc o' where
  Ensure: "EnsureImage hc o' p (b_sys s) = (r, t, s1) \<Longrightarrow>
     packer_step hc o' s \<lparr>b_sys = s1, b_running = b_running s @ (if is_ok r then started t else [])\<rparr>"
| Init: "Initialize o' m (b_sys s) = (r, t, s1) \<Longrightarrow>
     packer_step hc o' s \<lparr>b_sys = s1, b_running = b_running s @ (if is_ok r then started t else [])\<rparr>"
| Exit: "hash \<in> set (b_running s) \<Longrightarrow> builds (packer (b_sys s)) hash = Some b \<Longrightarrow>
     packer_step hc o' s
       \<lparr>b_sys = (b_sys s)\<lparr>packer := (packer (b_sys s))\<lparr>builds := (builds (packer (b_sys s)))
            (hash \<mapsto> \<lparr>b_terminated = True, b_result = res, b_stdout = out, b_stderr = err\<rparr>)\<rparr>\<rparr>,
        b_running = remove1 hash (b_running s)\<rparr>"
| Outside: "packer_step hc o' s (s\<lparr>b_sys := (b_sys s)\<lparr>world := w\<rparr>\<rparr>)"

inductive packer_reachable :: "'w HcloudClient \<Rightarrow> 'w OsClient \<Rightarrow> 'w builder \<Rightarrow> bool"
  for hc o' where
  New: "packer_reachable hc o' \<lparr>b_sys = \<lparr>world = w, packer = fresh_packer\<rparr>, b_running = []\<rparr>"
| Step: "packer_reachable hc o' s \<Longrightarrow> packer_step hc o' s s' \<Longrightarrow> packer_reachable hc o' s'"

section \<open>Which image\<close>

lemma latest_image_Some:
  "latest_image best ims = Some i \<Longrightarrow>
     (i \<in> set ims \<and> im_Status i = ImageStatusAvailable \<or> best = Some i) \<and>
     (\<forall>j \<in> set ims. im_Status j = ImageStatusAvailable \<longrightarrow> im_Created j \<le> im_Created i) \<and>
     (\<forall>j. best = Some j \<longrightarrow> im_Created j \<le> im_Created i)"
proof (induction best ims rule: latest_image.induct)
  case (2 best k ks)
  show ?case
  proof (cases "im_Status k = ImageStatusAvailable")
    case False
    with 2 show ?thesis by auto
  next
    case True
    show ?thesis
    proof (cases best)
      case None
      with 2 True show ?thesis by auto
    next
      case (Some im)
      with 2 True show ?thesis by (cases "im_Created k > im_Created im") fastforce+
    qed
  qed
qed auto

lemma latest_image_None:
  "latest_image best ims = None \<longleftrightarrow> best = None \<and> (\<forall>j \<in> set ims. im_Status j \<noteq> ImageStatusAvailable)"
  by (induction best ims rule: latest_image.induct) (auto split: option.splits)

definition newest_available :: "hcloud_Image list \<Rightarrow> int \<Rightarrow> bool" where
  "newest_available ims i \<longleftrightarrow> (\<exists>im \<in> set ims. im_ID im = i \<and> im_Status im = ImageStatusAvailable \<and>
     (\<forall>j \<in> set ims. im_Status j = ImageStatusAvailable \<longrightarrow> im_Created j \<le> im_Created im))"

definition none_available :: "hcloud_Image list \<Rightarrow> bool" where
  "none_available ims \<longleftrightarrow> (\<forall>j \<in> set ims. im_Status j \<noteq> ImageStatusAvailable)"

section \<open>One call\<close>

definition image_selector :: "PackerParameters \<Rightarrow> string" where
  "image_selector p = template_hash_key @ ''=='' @ Hash p"

abbreviation build_of :: "('w, 'x) sys_scheme \<Rightarrow> PackerParameters \<Rightarrow> build option" where
  "build_of s p \<equiv> builds (packer s) (Hash p)"

definition is_start :: "call \<Rightarrow> bool" where
  "is_start c = (started [c] \<noteq> [])"

lemma wp_setPacker [wp_simps]: "wp (setPacker f) s Q = Q (Ok ()) [] (s\<lparr>packer := f (packer s)\<rparr>)"
  by (simp add: setPacker_def wp_simps)

lemma query_or_build_wp:
  "wp (query_or_build hc o' p) s (\<lambda>r t s'. \<not> is_panic r \<and>
     (\<exists>w. s' = s\<lparr>world := w, packer := packer s'\<rparr>) \<and>
     (t = [ListImagesC (image_selector p)] \<and> packer s' = packer s \<and>
        (r \<noteq> Ok None) \<and>
        (\<forall>i. r = Ok (Some i) \<longrightarrow> (\<exists>ims w. h_ListImages hc (image_selector p) (world s) = (Inr ims, w) \<and> newest_available ims i)) \<or>
      (\<exists>ims w env. t = [ListImagesC (image_selector p), StartC (packerPath (packer s)) [''build'', packerConfigPath (packer s)] env (Hash p)] \<and>
        h_ListImages hc (image_selector p) (world s) = (Inr ims, w) \<and> none_available ims \<and>
        (r = Ok None \<and> packer s' = (packer s)\<lparr>builds := (builds (packer s))(Hash p \<mapsto> started_build)\<rparr> \<or>
         \<not> is_ok r \<and> packer s' = packer s))))"
proof -
  obtain a w where l: "h_ListImages hc (image_selector p) (world s) = (a, w)" by fastforce
  show ?thesis
  proof (cases a)
    case (Inl e)
    with l show ?thesis
      by (auto simp: query_or_build_def Let_def wp_simps client_defs wp_extcall image_selector_def)
  next
    case (Inr ims)
    show ?thesis
    proof (cases "latest_image None ims")
      case None
      then have "none_available ims" by (simp add: latest_image_None none_available_def)
      with l Inr None show ?thesis
        by (auto simp: query_or_build_def Let_def wp_simps client_defs wp_extcall image_selector_def ext_post_iff)
    next
      case (Some im)
      then have "newest_available ims (im_ID im)"
        using latest_image_Some[OF Some] by (auto simp: newest_available_def)
      with l Inr Some show ?thesis
        by (auto simp: query_or_build_def Let_def wp_simps client_defs wp_extcall image_selector_def)
    qed
  qed
qed
text \<open>A call while the build runs, after it failed, and otherwise.\<close>

lemma EnsureImage_running:
  "build_of s p = Some b \<Longrightarrow> \<not> b_terminated b \<Longrightarrow> EnsureImage hc o' p s = (Ok None, [], s)"
  by (simp add: EnsureImage_def Let_def bindM_def getsM_def ret_def)

lemma EnsureImage_failed:
  "build_of s p = Some b \<Longrightarrow> b_terminated b \<Longrightarrow> b_result b = Some e \<Longrightarrow>
     EnsureImage hc o' p s =
       (Err (ErrNew (Error e @ '' stdout='' @ b_stdout b @ '' stderr='' @ b_stderr b)), [],
        s\<lparr>packer := (packer s)\<lparr>builds := (builds (packer s))(Hash p := None)\<rparr>\<rparr>)"
  by (simp add: EnsureImage_def Let_def bindM_def getsM_def setPacker_def modifyM_def failM_def)

lemma EnsureImage_query:
  assumes "build_of s p = None \<or> (\<exists>b. build_of s p = Some b \<and> b_terminated b \<and> b_result b = None)"
  shows "EnsureImage hc o' p s = query_or_build hc o' p
           (s\<lparr>packer := (packer s)\<lparr>builds := (builds (packer s))(Hash p := None)\<rparr>\<rparr>)"
proof (cases "build_of s p")
  case None
  then have "(builds (packer s))(Hash p := None) = builds (packer s)" by auto
  with None show ?thesis
    by (simp add: EnsureImage_def Let_def bindM_def getsM_def split: prod.splits res.splits)
next
  case (Some b)
  with assms show ?thesis
    by (simp add: EnsureImage_def Let_def bindM_def getsM_def setPacker_def modifyM_def
        split: prod.splits res.splits)
qed

lemma EnsureImage_cases:
  obtains (running) b where "build_of s p = Some b" "\<not> b_terminated b"
  | (failed) b e where "build_of s p = Some b" "b_terminated b" "b_result b = Some e"
  | (query) "build_of s p = None \<or> (\<exists>b. build_of s p = Some b \<and> b_terminated b \<and> b_result b = None)"
  by (cases "build_of s p"; cases "b_result (the (build_of s p))") auto

section \<open>No two builds of one image at a time\<close>

definition builder_inv :: "'w builder \<Rightarrow> bool" where
  "builder_inv s \<longleftrightarrow> distinct (b_running s) \<and>
     (\<forall>hash. hash \<in> set (b_running s) \<longleftrightarrow>
        (\<exists>b. builds (packer (b_sys s)) hash = Some b \<and> \<not> b_terminated b))"

lemma started_append: "started (xs @ ys) = started xs @ started ys"
proof (induction xs)
  case (Cons x xs)
  then show ?case by (cases x) auto
qed simp

lemma EnsureImage_inv:
  assumes "builder_inv s" and "EnsureImage hc o' p (b_sys s) = (r, t, s1)"
  shows "builder_inv \<lparr>b_sys = s1, b_running = b_running s @ (if is_ok r then started t else [])\<rparr>"
proof (cases "b_sys s" p rule: EnsureImage_cases)
  case (running b)
  with assms show ?thesis by (simp add: EnsureImage_running builder_inv_def)
next
  case (failed b e)
  with assms show ?thesis by (auto simp: EnsureImage_failed builder_inv_def split: if_splits)
next
  case query
  let ?s0 = "(b_sys s)\<lparr>packer := (packer (b_sys s))\<lparr>builds := (builds (packer (b_sys s)))(Hash p := None)\<rparr>\<rparr>"
  have notrun: "Hash p \<notin> set (b_running s)" using query assms(1) by (auto simp: builder_inv_def)
  from assms(2) have "query_or_build hc o' p ?s0 = (r, t, s1)" by (simp add: EnsureImage_query[OF query])
  from wpD[OF query_or_build_wp this] consider
    "(if is_ok r then started t else []) = []" "builds (packer s1) = (builds (packer (b_sys s)))(Hash p := None)"
    | "(if is_ok r then started t else []) = [Hash p]"
      "builds (packer s1) = (builds (packer (b_sys s)))(Hash p \<mapsto> started_build)"
    by auto
  then show ?thesis
  proof cases
    case 1
    with assms(1) notrun show ?thesis unfolding builder_inv_def 1(1) by (auto simp: 1(2) split: if_splits)
  next
    case 2
    with assms(1) notrun show ?thesis
      unfolding builder_inv_def 2(1) by (auto simp: 2(2) started_build_def split: if_splits)
  qed
qed

text \<open>
  Preparing the packer configuration leaves the builds alone and starts none, and the commands
  it runs get no token.
\<close>

definition token_free :: "call list \<Rightarrow> bool" where
  "token_free t \<longleftrightarrow> (\<forall>path args env. RunC path args env \<in> set t \<longrightarrow> env = [] \<or> env = [envHcloudToken @ ''=xxx''])"

lemma token_free_simps [simp]:
  "token_free []" "token_free (xs @ ys) \<longleftrightarrow> token_free xs \<and> token_free ys"
  "token_free (StatC p # xs) = token_free xs" "token_free (HttpGetC p # xs) = token_free xs"
  "token_free (MkdirC p # xs) = token_free xs" "token_free (CreateFileC p q # xs) = token_free xs"
  "token_free (LookPathC p # xs) = token_free xs"
  "token_free (RunC p args env # xs) \<longleftrightarrow> (env = [] \<or> env = [envHcloudToken @ ''=xxx'']) \<and> token_free xs"
  unfolding token_free_def by (simp_all; blast)+

abbreviation keeps_builds :: "('w, 'x) sys_scheme \<Rightarrow> 'a res \<Rightarrow> call list \<Rightarrow> ('w, 'x) sys_scheme \<Rightarrow> bool" where
  "keeps_builds s r t s' \<equiv>
     started t = [] \<and> builds (packer s') = builds (packer s) \<and> \<not> is_panic r \<and> token_free t"

text \<open>Unpacking: the calls of one entry of the archive and the answer to them.\<close>

definition entry_calls :: "TarEntry \<Rightarrow> call list" where
  "entry_calls e = (case e of
      TarDir name \<Rightarrow> [MkdirC (''/tmp/'' @ name)]
    | TarReg name content \<Rightarrow> [CreateFileC (''/tmp/'' @ name) content]
    | TarOther _ _ \<Rightarrow> [])"

definition entry_answer :: "'w OsClient \<Rightarrow> TarEntry \<Rightarrow> 'w \<Rightarrow> (error + unit) \<times> 'w" where
  "entry_answer o' e w = (case e of
      TarDir name \<Rightarrow> os_Mkdir o' (''/tmp/'' @ name) w
    | TarReg name content \<Rightarrow> (case os_CreateFile o' (''/tmp/'' @ name) content w of
          (Inr None, w') \<Rightarrow> (Inr (), w')
        | (Inr (Some err), w') \<Rightarrow> (Inl err, w')
        | (Inl err, w') \<Rightarrow> (Inl err, w'))
    | TarOther typeflag _ \<Rightarrow> (Inl (ErrNew typeflag), w))"

lemma extract_entry_accepted:
  "wp (extract_entry o' e) s (\<lambda>r t s'. is_ok r \<longrightarrow>
     t = entry_calls e \<and> (\<exists>a. entry_answer o' e (world s) = (Inr a, world s')))"
  by (cases e) (auto simp: extract_entry_def entry_calls_def entry_answer_def wp_simps wp_extcall ext_post_iff
      split: option.splits)

lemma ExtractTarGz_accepted:
  "wp (ExtractTarGz o' g) s (\<lambda>r t s'. is_ok r \<longrightarrow> (\<exists>headers. os_Untar o' g = Inr (headers, None) \<and>
     t = concat (map entry_calls headers) \<and> accepts_all (entry_answer o') headers (world s) (world s')))"
proof (cases "os_Untar o' g")
  case (Inl e)
  then show ?thesis by (simp add: ExtractTarGz_def wp_simps)
next
  case (Inr p)
  obtain hs stop where p: "p = (hs, stop)" by (cases p)
  show ?thesis
    using Inr p wp_forM_accepted[where f = "extract_entry o'" and xs = hs and s = s, OF extract_entry_accepted]
    by (auto simp: ExtractTarGz_def wp_simps bind_post_def elim!: wp_mono split: res.splits option.splits)
qed

lemma extract_entry_wp:
  "wp (extract_entry o' e) s (\<lambda>r t s'. keeps_builds s r t s' \<and> packer s' = packer s)"
  by (cases e) (auto simp: extract_entry_def wp_simps wp_extcall ext_post_iff split: option.splits)

lemma ExtractTarGz_wp:
  "wp (ExtractTarGz o' g) s (\<lambda>r t s'. keeps_builds s r t s' \<and> packer s' = packer s)"
proof (cases "os_Untar o' g")
  case (Inl e)
  then show ?thesis by (simp add: ExtractTarGz_def wp_simps)
next
  case (Inr p)
  obtain hs stop where p: "p = (hs, stop)" by (cases p)
  have "wp (forM (extract_entry o') hs) s (\<lambda>r t s'. keeps_builds s r t s' \<and> packer s' = packer s)"
    by (rule wp_forM[where I = "\<lambda>t s'. started t = [] \<and> token_free t \<and> packer s' = packer s"])
      (auto intro!: wp_mono[OF extract_entry_wp] simp: started_append split: res.splits)
  with Inr p show ?thesis
    by (auto simp: ExtractTarGz_def wp_simps bind_post_def elim!: wp_mono split: res.splits option.splits)
qed

text \<open>The command ended without an error.\<close>

definition succeeds :: "'w OsClient \<Rightarrow> string \<Rightarrow> string list \<Rightarrow> string list \<Rightarrow> 'w \<Rightarrow> 'w \<Rightarrow> bool" where
  "succeeds o' path args env w w' \<longleftrightarrow> (\<exists>out. os_Output o' path args env w = ((out, None), w'))"

lemma initializePacker_wp:
  "wp (initializePacker o') s (\<lambda>r t s'. keeps_builds s r t s' \<and> packerConfigPath (packer s') = packerConfigPath (packer s) \<and>
     (is_ok r \<longrightarrow> t = [LookPathC ''packer'', RunC (packerPath (packer s')) [''-v''] []] \<and>
        (\<exists>w. os_LookPath o' ''packer'' (world s) = (Inr (packerPath (packer s')), w) \<and>
           succeeds o' (packerPath (packer s')) [''-v''] [] w (world s'))))"
  by (auto simp: initializePacker_def succeeds_def os_defs wp_simps wp_extcall ext_post_iff map_prod_def
      split: option.splits prod.splits)

lemma initializeConfig_wp:
  "wp (initializeConfig o') s (\<lambda>r t s'. keeps_builds s r t s' \<and> packer s' = packer s \<and>
     t = [RunC (packerPath (packer s)) [''validate'', packerConfigPath (packer s)] [envHcloudToken @ ''=xxx'']] \<and>
     (is_ok r \<longrightarrow> succeeds o' (packerPath (packer s)) [''validate'', packerConfigPath (packer s)]
        [envHcloudToken @ ''=xxx''] (world s) (world s')))"
  by (auto simp: initializeConfig_def succeeds_def os_defs wp_simps wp_extcall ext_post_iff map_prod_def
      split: option.splits prod.splits)

definition config_path :: "string \<Rightarrow> string" where
  "config_path name = (if is_url name then ''/tmp/'' @ folderName name @ ''/image.json''
     else ''/'' @ name @ ''-packer-config/image.json'')"

text \<open>
  Where the configuration is found: the bundled one of the name, for a URL the one that was
  downloaded and unpacked without an error, or, when the folder is not missing, the one
  configured before.
\<close>

definition config_located :: "'w OsClient \<Rightarrow> string \<Rightarrow> ('w, 'x) sys_scheme \<Rightarrow> call list \<Rightarrow> 'w \<Rightarrow> string \<Rightarrow> bool" where
  "config_located o' n s t w' path \<longleftrightarrow>
     (if \<not> is_url n then t = [] \<and> w' = world s \<and> path = config_path n
      else \<exists>a w1. os_NotExist o' (''/tmp/'' @ folderName n) (world s) = (a, w1) \<and>
        (if a = Inr True
         then path = config_path n \<and> (\<exists>body w2 headers. os_HttpGet o' n w1 = (Inr (Inr body), w2) \<and>
                os_Untar o' body = Inr (headers, None) \<and> accepts_all (entry_answer o') headers w2 w' \<and>
                t = [StatC (''/tmp/'' @ folderName n), HttpGetC n] @ concat (map entry_calls headers))
         else path = packerConfigPath (packer s) \<and> t = [StatC (''/tmp/'' @ folderName n)] \<and> w' = w1))"

lemma locate_config_wp:
  "wp (locate_config o' n) s (\<lambda>r t s'. keeps_builds s r t s' \<and>
     (is_ok r \<longrightarrow> config_located o' n s t (world s') (packerConfigPath (packer s'))))"
proof (cases "is_url n")
  case False
  then show ?thesis by (simp add: locate_config_def config_located_def config_path_def wp_simps)
next
  case True
  obtain a w1 where st: "os_NotExist o' (''/tmp/'' @ folderName n) (world s) = (a, w1)" by fastforce
  show ?thesis
  proof (cases "a = Inr True")
    case False
    with st True show ?thesis
      by (cases a) (auto simp: locate_config_def config_located_def os_defs wp_simps wp_extcall)
  next
    case absent: True
    obtain b w2 where get: "os_HttpGet o' n w1 = (b, w2)" by fastforce
    show ?thesis
    proof (cases "\<exists>body. b = Inr (Inr body)")
      case False
      with st get absent True show ?thesis
        by (cases b; cases "projr b")
          (auto simp: locate_config_def DownloadFile_def os_defs wp_simps wp_extcall)
    next
      case got: True
      then obtain body where body: "b = Inr (Inr body)" by blast
      from st get absent True body show ?thesis
        by (simp add: locate_config_def DownloadFile_def os_defs wp_simps wp_extcall)
          (rule wp_mono2[OF ExtractTarGz_wp ExtractTarGz_accepted],
            auto simp: bind_post_def wp_simps config_located_def config_path_def split: res.splits)
    qed
  qed
qed

definition initialized :: "'w OsClient \<Rightarrow> string \<Rightarrow> ('w, 'x) sys_scheme \<Rightarrow> call list \<Rightarrow> ('w, 'x) sys_scheme \<Rightarrow> bool" where
  "initialized o' n s t s' \<longleftrightarrow>
     (let path = packerPath (packer s'); config = packerConfigPath (packer s') in
      \<exists>t0 w1 w2 w3. t = t0 @ [LookPathC ''packer'', RunC path [''-v''] [],
             RunC path [''validate'', config] [envHcloudToken @ ''=xxx'']] \<and>
         config_located o' n s t0 w1 config \<and> os_LookPath o' ''packer'' w1 = (Inr path, w2) \<and>
         succeeds o' path [''-v''] [] w2 w3 \<and>
         succeeds o' path [''validate'', config] [envHcloudToken @ ''=xxx''] w3 (world s'))"

lemma Initialize_wp:
  "wp (Initialize o' m) s (\<lambda>r t s'. keeps_builds s r t s' \<and>
     (is_ok r \<longrightarrow> initialized o' (hms_ImageName (hm_Spec m)) s t s'))"
proof -
  let ?n = "hms_ImageName (hm_Spec m)"
  have tail: "wp (bindM (initializePacker o') (\<lambda>_. initializeConfig o')) s1 (\<lambda>r t' s'.
      keeps_builds s1 r t' s' \<and> packerConfigPath (packer s') = packerConfigPath (packer s1) \<and>
      (is_ok r \<longrightarrow> t' = [LookPathC ''packer'', RunC (packerPath (packer s')) [''-v''] [],
           RunC (packerPath (packer s')) [''validate'', packerConfigPath (packer s')] [envHcloudToken @ ''=xxx'']] \<and>
         (\<exists>w2 w3. os_LookPath o' ''packer'' (world s1) = (Inr (packerPath (packer s')), w2) \<and>
            succeeds o' (packerPath (packer s')) [''-v''] [] w2 w3 \<and>
            succeeds o' (packerPath (packer s')) [''validate'', packerConfigPath (packer s')]
              [envHcloudToken @ ''=xxx''] w3 (world s'))))" for s1 :: "('a, 'b) sys_scheme"
    unfolding wp_bindM
    by (rule wp_mono[OF initializePacker_wp])
      (auto simp: bind_post_def started_append intro!: wp_mono[OF initializeConfig_wp] split: res.splits)
  show ?thesis
    unfolding Initialize_def
    apply (subst wp_bindM)
    apply (rule wp_mono[OF locate_config_wp])
    subgoal for r t s1
      by (cases r)
        (auto simp: started_append initialized_def Let_def intro!: wp_mono[OF tail], blast)
    done
qed

lemma packer_step_inv:
  assumes "packer_step hc o' s s'" and "builder_inv s"
  shows "builder_inv s'"
  using assms(1)
proof (cases rule: packer_step.cases)
  case (Ensure p r t s1)
  with EnsureImage_inv[OF assms(2)] show ?thesis by blast
next
  case (Init m r t s1)
  from wpD[OF Initialize_wp Init(2)] assms(2) Init(1) show ?thesis
    by (simp add: builder_inv_def)
next
  case (Exit hash b res out err)
  with assms(2) show ?thesis by (auto simp: builder_inv_def split: if_splits)
next
  case (Outside w)
  with assms(2) show ?thesis by (simp add: builder_inv_def)
qed

section \<open>Properties\<close>

text \<open>
  C5. In every interleaving of calls, ends of child processes and changes of the outside
  world, no two child processes build the same image at the same time, and the children that
  run are exactly the ones the builder remembers as not ended: none is forgotten.
\<close>

theorem builds_never_overlap:
  assumes "packer_reachable hc o' s"
  shows "distinct (b_running s) \<and>
     (\<forall>hash. hash \<in> set (b_running s) \<longleftrightarrow>
        (\<exists>b. builds (packer (b_sys s)) hash = Some b \<and> \<not> b_terminated b))"
  using assms
proof (induction rule: packer_reachable.induct)
  case (New w)
  then show ?case by (simp add: fresh_packer_def)
next
  case (Step s s')
  from packer_step_inv[OF Step.hyps(2)] Step.IH show ?case by (simp add: builder_inv_def)
qed

definition example_params :: PackerParameters where
  "example_params = \<lparr>KubernetesVersion = ''1.18.3'', Image = ''ubuntu''\<rparr>"

definition example_image_client :: "hcloud_Image list \<Rightarrow> unit HcloudClient" where
  "example_image_client ims = offline_hcloud\<lparr>h_ListImages := \<lambda>_ w. (Inr ims, w)\<rparr>"

definition example_os :: "unit OsClient" where
  "example_os = offline_os\<lparr>os_Start := \<lambda>_ _ _ w. (Inr (), w), os_LookPath := \<lambda>_ w. (Inr ''/bin/packer'', w),
     os_Output := \<lambda>_ _ _ w. ((''1.5'', None), w)\<rparr>"

definition fresh_sys :: "unit sys" where
  "fresh_sys = \<lparr>world = (), packer = fresh_packer\<rparr>"

lemma example_starts:
  "EnsureImage (example_image_client []) example_os example_params fresh_sys =
     (Ok None, [ListImagesC (image_selector example_params),
        StartC [] [''build'', []] (EnvironmentVariables example_params @ [envHcloudToken @ ''='']) (Hash example_params)],
      fresh_sys\<lparr>packer := fresh_packer\<lparr>builds := [Hash example_params \<mapsto> started_build]\<rparr>\<rparr>)"
  by (simp add: EnsureImage_def query_or_build_def image_selector_def example_image_client_def example_os_def
      fresh_sys_def fresh_packer_def offline_hcloud_def Let_def bindM_def getsM_def setPacker_def modifyM_def
      ret_def ListImages_def extcall_def)

lemma builds_never_overlap_witness:
  "\<exists>s. packer_reachable (example_image_client []) example_os s \<and>
     b_running s = [Hash example_params] \<and> distinct (b_running s) \<and>
     (\<exists>b. builds (packer (b_sys s)) (Hash example_params) = Some b \<and> \<not> b_terminated b)"
proof -
  let ?s = "\<lparr>b_sys = fresh_sys\<lparr>packer := fresh_packer\<lparr>builds := [Hash example_params \<mapsto> started_build]\<rparr>\<rparr>,
     b_running = [Hash example_params]\<rparr>"
  have "packer_step (example_image_client []) example_os \<lparr>b_sys = fresh_sys, b_running = []\<rparr> ?s"
    using packer_step.Ensure[where s = "\<lparr>b_sys = fresh_sys, b_running = []\<rparr>" and p = example_params, simplified, OF example_starts]
    by simp
  from packer_reachable.Step[OF packer_reachable.New[where w = "()", folded fresh_sys_def] this]
  have r: "packer_reachable (example_image_client []) example_os ?s" .
  from builds_never_overlap[OF r] r show ?thesis by (intro exI[of _ ?s]) (auto simp: started_build_def)
qed

text \<open>
  C27. One call to \<open>EnsureImage\<close>: while a build of the image runs, the call only says to wait. After a build
  that failed it reports the failure and forgets the build. Otherwise it lists the images
  with the hash of the parameters first; it returns an image only if that listing contained it as available, and
  then a newest one; it starts a build only if no listed image is available, and remembers it
  exactly when the start succeeded.
\<close>

theorem EnsureImage_correct:
  "case EnsureImage hc o' p s of (r, t, s') \<Rightarrow>
     (case build_of s p of
        Some b \<Rightarrow> (\<not> b_terminated b \<longrightarrow> r = Ok None \<and> t = [] \<and> s' = s) \<and>
          (b_terminated b \<and> b_result b \<noteq> None \<longrightarrow> (\<exists>e. r = Err e) \<and> t = [] \<and> build_of s' p = None)
      | None \<Rightarrow> True) \<and>
     (build_of s p = None \<or> (\<exists>b. build_of s p = Some b \<and> b_terminated b \<and> b_result b = None) \<longrightarrow>
        \<not> is_panic r \<and>
        (t = [ListImagesC (image_selector p)] \<and> build_of s' p = None \<and> r \<noteq> Ok None \<and>
           (\<forall>i. r = Ok (Some i) \<longrightarrow> (\<exists>ims w. h_ListImages hc (image_selector p) (world s) = (Inr ims, w) \<and> newest_available ims i)) \<or>
         (\<exists>ims w env. t = [ListImagesC (image_selector p),
              StartC (packerPath (packer s)) [''build'', packerConfigPath (packer s)] env (Hash p)] \<and>
            h_ListImages hc (image_selector p) (world s) = (Inr ims, w) \<and> none_available ims \<and>
            (r = Ok None \<and> build_of s' p = Some started_build \<or> \<not> is_ok r \<and> build_of s' p = None))))"
proof (cases s p rule: EnsureImage_cases)
  case (running b)
  then show ?thesis by (simp add: EnsureImage_running)
next
  case (failed b e)
  then show ?thesis by (simp add: EnsureImage_failed)
next
  case query
  let ?s0 = "s\<lparr>packer := (packer s)\<lparr>builds := (builds (packer s))(Hash p := None)\<rparr>\<rparr>"
  obtain r t s' where eq: "EnsureImage hc o' p s = (r, t, s')" by (metis prod_cases3)
  then have "query_or_build hc o' p ?s0 = (r, t, s')" by (simp add: EnsureImage_query[OF query])
  from wpD[OF query_or_build_wp this] query show ?thesis
    unfolding eq by (auto split: option.splits)
qed

lemma EnsureImage_correct_witness:
  "build_of (final (EnsureImage (example_image_client []) example_os example_params fresh_sys)) example_params = Some started_build"
proof -
  have "build_of fresh_sys example_params = None" by (simp add: fresh_sys_def fresh_packer_def)
  then show ?thesis
    using EnsureImage_correct[where hc = "example_image_client []" and o' = example_os and p = example_params and s = fresh_sys]
    by (auto simp: example_starts final_def)
qed

text \<open>
  C35. Initialising the builder for a machine never panics, starts no build and forgets none, and
  never hands a command the real API token. It succeeds only when the configuration was located,
  packer was found and answered its version, and, last, \<^verbatim>\<open>packer validate\<close> of the configuration that
  builds will use ended without an error. For an image that is not a URL that is the bundled configuration of that
  name. For a URL it is the one that was downloaded and unpacked without an error, or, when the folder
  already existed, whatever was configured before.
\<close>

theorem Initialize_correct:
  "case Initialize o' m s of (r, t, s') \<Rightarrow>
     \<not> is_panic r \<and> started t = [] \<and> builds (packer s') = builds (packer s) \<and>
     (\<forall>path args env. RunC path args env \<in> set t \<longrightarrow> env = [] \<or> env = [envHcloudToken @ ''=xxx'']) \<and>
     (r = Ok () \<longrightarrow> initialized o' (hms_ImageName (hm_Spec m)) s t s')"
proof -
  obtain r t s' where eq: "Initialize o' m s = (r, t, s')" by (metis prod_cases3)
  from wpD[OF Initialize_wp eq] show ?thesis unfolding eq token_free_def prod.case by (cases r) simp_all
qed

lemma Initialize_correct_witness:
  "packerConfigPath (packer (final (Initialize example_os
     (zero_HcloudMachine\<lparr>hm_Spec := (hm_Spec zero_HcloudMachine)\<lparr>hms_ImageName := ''ubuntu''\<rparr>\<rparr>) fresh_sys))) =
     ''/ubuntu-packer-config/image.json''"
proof -
  let ?m = "zero_HcloudMachine\<lparr>hm_Spec := (hm_Spec zero_HcloudMachine)\<lparr>hms_ImageName := ''ubuntu''\<rparr>\<rparr>"
  have "outcome (Initialize example_os ?m fresh_sys) = Ok ()" by code_simp
  moreover have "\<not> is_url ''ubuntu''" by code_simp
  ultimately show ?thesis
    using Initialize_correct[where o' = example_os and m = ?m and s = fresh_sys]
    by (auto simp: outcome_def final_def config_path_def initialized_def config_located_def Let_def split: prod.splits)
qed

text \<open>
  The hash that names an image does not determine its parameters: the version and the
  image name are concatenated without a separator, so that different parameters can get the same image.
\<close>

theorem Hash_collision:
  "Hash \<lparr>KubernetesVersion = ''1.18.1'', Image = ''8-ubuntu''\<rparr> = Hash \<lparr>KubernetesVersion = ''1.18.18'', Image = ''-ubuntu''\<rparr>"
  by (simp add: Hash_def)

end
