(* ===== verification/Userdata.thy ===== *)
theory Userdata
  imports Clients
begin

text \<open>
  pkg/userdata: the cloud-init document of a machine and the kubeadm configuration in it.

  A YAML node has a kind and style (\<open>yn_Kind\<close>, kept by every operation), a scalar value
  and children. The code walks the tree and updates scalars in place; here every operation
  gives the updated document, the pointers of the code being read and update functions along
  the same walk. The YAML and kubeadm encoders are library code: a \<open>Codec\<close> has one field per
  use of them, and nothing is assumed about it unless a property says so.

  The lemmas show that reading after writing gives what was written, that writing one file
  leaves every other file alone, when writing fails, that skipping kube-proxy is
  idempotent, and that the edits keep the kinds of the nodes.
\<close>

section \<open>Nodes and configurations\<close>

datatype YamlNode = YamlNode (yn_Kind: string) (yn_Value: string) (yn_Content: "YamlNode list")

definition set_Value :: "string \<Rightarrow> YamlNode \<Rightarrow> YamlNode" where
  "set_Value v n = YamlNode (yn_Kind n) v (yn_Content n)"

definition set_Content :: "YamlNode list \<Rightarrow> YamlNode \<Rightarrow> YamlNode" where
  "set_Content c n = YamlNode (yn_Kind n) (yn_Value n) c"

record ClusterConfiguration =
  cc_APIServerExtraArgs :: "(string, string) gomap"
  cc_ControllerManagerExtraArgs :: "(string, string) gomap"
  cc_CertSANs :: "string list"
  cc_Other :: string

text \<open>The node registration of a joining node: its kubelet arguments and the rest.\<close>

record JoinConfiguration =
  jc_KubeletExtraArgs :: "(string, string) gomap"
  jc_Other :: string

text \<open>The objects of a kubeadm document; the code reads no field of an object of the other kinds.\<close>

datatype KubeadmObject =
    ClusterConfigurationObj ClusterConfiguration
  | InitConfigurationObj string
  | JoinConfigurationObj JoinConfiguration
  | UnknownObj string

record KubeadmConfig =
  kc_ClusterConfiguration :: "ClusterConfiguration option"
  kc_InitConfiguration :: "string option"
  kc_JoinConfiguration :: "JoinConfiguration option"
  kc_isInit :: bool

record File =
  f_Path :: string
  f_Content :: string
  f_Permissions :: string
  f_Owner :: string

text \<open>
  \<open>decode_stream\<close> is the streaming decoder: the objects up to the end of the input or up to
  an error. \<open>decode_file\<close> is the encoding of a file as JSON and its parsing as YAML.
\<close>

record Codec =
  decode_yaml :: "string \<Rightarrow> error + YamlNode"
  encode_yaml :: "YamlNode \<Rightarrow> error + string"
  decode_stream :: "string \<Rightarrow> KubeadmObject list \<times> error option"
  yaml_serializer :: bool
  encode_object :: "KubeadmObject \<Rightarrow> error + string"
  decode_file :: "File \<Rightarrow> error + YamlNode"

section \<open>The operations: pkg/userdata/userdata.go\<close>

definition kubeadmConfigurationPathInit :: string where
  "kubeadmConfigurationPathInit = ''/tmp/kubeadm.yaml''"

definition kubeadmConfigurationPathJoin :: string where
  "kubeadmConfigurationPathJoin = ''/tmp/kubeadm-join-config.yaml''"

definition IsInit :: "KubeadmConfig \<Rightarrow> bool" where
  "IsInit k = kc_isInit k"

definition IsJoin :: "KubeadmConfig \<Rightarrow> bool" where
  "IsJoin k = (\<not> kc_isInit k)"

definition NewFromReader :: "Codec \<Rightarrow> string \<Rightarrow> error + YamlNode" where
  "NewFromReader cd r = map_sum (ErrWrap ''error parsing YAML user-data'') id (decode_yaml cd r)"

definition WriteYAML :: "Codec \<Rightarrow> YamlNode \<Rightarrow> error + string" where
  "WriteYAML cd u = encode_yaml cd u"

text \<open>
  The node after the first child whose value is the key (\<^verbatim>\<open>nextNode\<close> of the position), and
  the children with that node updated. Keys and values are not told apart.
\<close>

fun value_of :: "string \<Rightarrow> YamlNode list \<Rightarrow> YamlNode option" where
  "value_of key (a # b # r) = (if yn_Value a = key then Some b else value_of key (b # r))"
| "value_of key _ = None"

fun update_value :: "string \<Rightarrow> (YamlNode \<Rightarrow> YamlNode) \<Rightarrow> YamlNode list \<Rightarrow> YamlNode list" where
  "update_value key f (a # b # r) =
     (if yn_Value a = key then a # f b # r else a # update_value key f (b # r))"
| "update_value key f ns = ns"

fun write_files_of :: "YamlNode list \<Rightarrow> YamlNode option" where
  "write_files_of [] = None"
| "write_files_of (l1 # ls) = (case value_of ''write_files'' (yn_Content l1) of
      Some n \<Rightarrow> Some n | None \<Rightarrow> write_files_of ls)"

fun update_write_files :: "(YamlNode \<Rightarrow> YamlNode) \<Rightarrow> YamlNode list \<Rightarrow> YamlNode list" where
  "update_write_files f [] = []"
| "update_write_files f (l1 # ls) = (case value_of ''write_files'' (yn_Content l1) of
      Some n \<Rightarrow> set_Content (update_value ''write_files'' f (yn_Content l1)) l1 # ls
    | None \<Rightarrow> l1 # update_write_files f ls)"

definition getWriteFiles :: "YamlNode \<Rightarrow> error + YamlNode" where
  "getWriteFiles u = (case write_files_of (yn_Content u) of
      Some n \<Rightarrow> Inr n | None \<Rightarrow> Inl (ErrNew ''write_files not found in cloud-init''))"

fun has_path :: "string \<Rightarrow> YamlNode list \<Rightarrow> bool" where
  "has_path path (a # b # r) = ((yn_Value a = ''path'' \<and> yn_Value b = path) \<or> has_path path (b # r))"
| "has_path path _ = False"

definition is_file :: "string \<Rightarrow> YamlNode \<Rightarrow> bool" where
  "is_file path l1 = has_path path (yn_Content l1)"

definition getFile :: "string \<Rightarrow> YamlNode \<Rightarrow> error + YamlNode option" where
  "getFile path u = map_sum id (\<lambda>writeFiles. find (is_file path) (yn_Content writeFiles)) (getWriteFiles u)"

fun update_first :: "('a \<Rightarrow> bool) \<Rightarrow> ('a \<Rightarrow> 'a) \<Rightarrow> 'a list \<Rightarrow> 'a list" where
  "update_first P f [] = []"
| "update_first P f (x # xs) = (if P x then f x # xs else x # update_first P f xs)"

definition updateFile :: "string \<Rightarrow> (YamlNode \<Rightarrow> YamlNode) \<Rightarrow> YamlNode \<Rightarrow> YamlNode" where
  "updateFile path f u = set_Content (update_write_files
     (\<lambda>w. set_Content (update_first (is_file path) f (yn_Content w)) w) (yn_Content u)) u"

fun add_objects :: "KubeadmObject list \<Rightarrow> KubeadmConfig \<Rightarrow> error + KubeadmConfig" where
  "add_objects [] k = Inr k"
| "add_objects (ob # obs) k = (case ob of
      ClusterConfigurationObj o' \<Rightarrow> add_objects obs (k\<lparr>kc_ClusterConfiguration := Some o'\<rparr>)
    | InitConfigurationObj o' \<Rightarrow> add_objects obs (k\<lparr>kc_InitConfiguration := Some o'\<rparr>)
    | JoinConfigurationObj o' \<Rightarrow> add_objects obs (k\<lparr>kc_JoinConfiguration := Some o'\<rparr>)
    | UnknownObj o' \<Rightarrow> Inl (ErrNew (''unknown type during parse: '' @ o')))"

definition empty_config :: KubeadmConfig where
  "empty_config = \<lparr>kc_ClusterConfiguration = None, kc_InitConfiguration = None,
     kc_JoinConfiguration = None, kc_isInit = False\<rparr>"

definition parseKubeadmConfig :: "Codec \<Rightarrow> string \<Rightarrow> error + KubeadmConfig" where
  "parseKubeadmConfig cd data =
     (let (objs, stop) = decode_stream cd data in
      case add_objects objs empty_config of
        Inl e \<Rightarrow> Inl e
      | Inr k \<Rightarrow> (case stop of Some err \<Rightarrow> Inl (ErrWrap ''error during parse'' err) | None \<Rightarrow> Inr k))"

text \<open>The loop over the fields of the file: every \<^verbatim>\<open>content\<close> is parsed, the last one counts.\<close>

fun parse_contents :: "Codec \<Rightarrow> KubeadmConfig \<Rightarrow> YamlNode list \<Rightarrow> error + KubeadmConfig" where
  "parse_contents cd k (a # b # r) =
     (if yn_Value a = ''content''
      then (case parseKubeadmConfig cd (yn_Value b) of
          Inl e \<Rightarrow> Inl e | Inr k' \<Rightarrow> parse_contents cd k' (b # r))
      else parse_contents cd k (b # r))"
| "parse_contents cd k _ = Inr k"

definition GetKubeadmConfig :: "Codec \<Rightarrow> YamlNode \<Rightarrow> error + KubeadmConfig" where
  "GetKubeadmConfig cd u =
     (case getFile kubeadmConfigurationPathInit u of
        Inl e \<Rightarrow> Inl e
      | Inr n0 \<Rightarrow>
          (case (case n0 of
                   Some n \<Rightarrow> Inr (Some n, True)
                 | None \<Rightarrow> map_sum id (\<lambda>n. (n, n = None)) (getFile kubeadmConfigurationPathJoin u)) of
             Inl e \<Rightarrow> Inl e
           | Inr (None, isInit) \<Rightarrow> Inr (empty_config\<lparr>kc_isInit := isInit\<rparr>)
           | Inr (Some n, isInit) \<Rightarrow>
               map_sum id (\<lambda>k. k\<lparr>kc_isInit := isInit\<rparr>) (parse_contents cd empty_config (yn_Content n))))"

text \<open>
  The loop over the even positions of an existing file: fields that were to be updated are
  set and dropped from the map.
\<close>

fun update_fields :: "(string, string) gomap \<Rightarrow> YamlNode list \<Rightarrow> YamlNode list \<times> (string, string) gomap" where
  "update_fields todo (a # b # r) = (case map_of todo (yn_Value a) of
      None \<Rightarrow> (case update_fields todo r of (r', left) \<Rightarrow> (a # b # r', left))
    | Some v \<Rightarrow> (case update_fields (map_del (yn_Value a) todo) r of
                    (r', left) \<Rightarrow> (a # set_Value v b # r', left)))"
| "update_fields todo ns = (ns, todo)"

definition file_fields :: "File \<Rightarrow> (string, string) gomap" where
  "file_fields f =
     (if length (f_Content f) > 0 then [(''content'', f_Content f)] else []) @
     (if length (f_Permissions f) > 0 then [(''permissions'', f_Permissions f)] else []) @
     (if length (f_Owner f) > 0 then [(''owner'', f_Owner f)] else [])"

text \<open>The document is updated also when an error is returned.\<close>

definition SetOrUpdateFile :: "Codec \<Rightarrow> File \<Rightarrow> (YamlNode, 'c, unit) M" where
  "SetOrUpdateFile cd file =
     bindM (getsM id) (\<lambda>u.
     bindM (liftM (getFile (f_Path file) u)) (\<lambda>found.
     case found of
       None \<Rightarrow>
         bindM (liftM (decode_file cd file)) (\<lambda>fileNode.
         bindM (liftM (getWriteFiles u)) (\<lambda>_.
         case yn_Content fileNode of
           [] \<Rightarrow> panicM ''index out of range: fileNode.Content[0]''
         | c0 # _ \<Rightarrow> modifyM (\<lambda>u. set_Content
               (update_write_files (\<lambda>w. set_Content (yn_Content w @ [c0]) w) (yn_Content u)) u)))
     | Some n \<Rightarrow>
         bindM (modifyM (updateFile (f_Path file)
                  (\<lambda>n. set_Content (fst (update_fields (file_fields file) (yn_Content n))) n))) (\<lambda>_.
         let left = snd (update_fields (file_fields file) (yn_Content n)) in
         if length left = 0 then ret ()
         else failM (ErrNew (''existing file did not have '' @ Join (map_keys left) '', '' @ '' keys'')))))"

text \<open>The type of the object, as \<^verbatim>\<open>%T\<close> prints it.\<close>

definition object_type :: "KubeadmObject \<Rightarrow> string" where
  "object_type ob = (case ob of
      ClusterConfigurationObj _ \<Rightarrow> ''*v1beta2.ClusterConfiguration''
    | InitConfigurationObj _ \<Rightarrow> ''*v1beta2.InitConfiguration''
    | JoinConfigurationObj _ \<Rightarrow> ''*v1beta2.JoinConfiguration''
    | UnknownObj t \<Rightarrow> t)"

definition kubeadm_objects :: "KubeadmConfig \<Rightarrow> KubeadmObject list" where
  "kubeadm_objects k =
     (case kc_ClusterConfiguration k of Some o' \<Rightarrow> [ClusterConfigurationObj o'] | None \<Rightarrow> []) @
     (case kc_InitConfiguration k of Some o' \<Rightarrow> [InitConfigurationObj o'] | None \<Rightarrow> []) @
     (case kc_JoinConfiguration k of Some o' \<Rightarrow> [JoinConfigurationObj o'] | None \<Rightarrow> [])"

fun encode_objects :: "Codec \<Rightarrow> KubeadmObject list \<Rightarrow> error + string" where
  "encode_objects cd [] = Inr []"
| "encode_objects cd (ob # obs) = (case encode_object cd ob of
      Inl err \<Rightarrow> Inl (ErrWrap (''error serializing '' @ object_type ob) err)
    | Inr b \<Rightarrow> map_sum id (\<lambda>rest. ''---'' @ [CHR 0x0A] @ b @ rest) (encode_objects cd obs))"

definition config_file_path :: "KubeadmConfig \<Rightarrow> string" where
  "config_file_path k = (if IsJoin k then kubeadmConfigurationPathJoin else kubeadmConfigurationPathInit)"

definition SetKubeadmConfig :: "Codec \<Rightarrow> KubeadmConfig \<Rightarrow> (YamlNode, 'c, unit) M" where
  "SetKubeadmConfig cd k =
     (if \<not> yaml_serializer cd then failM (ErrNew ''unsupported media type: application/yaml'')
      else
        bindM (liftM (encode_objects cd (kubeadm_objects k))) (\<lambda>content.
        SetOrUpdateFile cd \<lparr>f_Path = config_file_path k, f_Content = content,
          f_Permissions = [], f_Owner = []\<rparr>))"

text \<open>The last \<^verbatim>\<open>runcmd\<close> of the document, and the document with it updated.\<close>

fun last_value_of :: "string \<Rightarrow> YamlNode list \<Rightarrow> YamlNode option" where
  "last_value_of key (a # b # r) = (case last_value_of key (b # r) of
      Some n \<Rightarrow> Some n | None \<Rightarrow> if yn_Value a = key then Some b else None)"
| "last_value_of key _ = None"

fun update_last_value :: "string \<Rightarrow> (YamlNode \<Rightarrow> YamlNode) \<Rightarrow> YamlNode list \<Rightarrow> YamlNode list" where
  "update_last_value key f (a # b # r) =
     (if last_value_of key (b # r) \<noteq> None then a # update_last_value key f (b # r)
      else if yn_Value a = key then a # f b # r else a # b # r)"
| "update_last_value key f ns = ns"

fun last_runcmd :: "YamlNode list \<Rightarrow> YamlNode option" where
  "last_runcmd [] = None"
| "last_runcmd (l1 # ls) = (case last_runcmd ls of
      Some n \<Rightarrow> Some n | None \<Rightarrow> last_value_of ''runcmd'' (yn_Content l1))"

fun update_last_runcmd :: "(YamlNode \<Rightarrow> YamlNode) \<Rightarrow> YamlNode list \<Rightarrow> YamlNode list" where
  "update_last_runcmd f [] = []"
| "update_last_runcmd f (l1 # ls) =
     (if last_runcmd ls \<noteq> None then l1 # update_last_runcmd f ls
      else set_Content (update_last_value ''runcmd'' f (yn_Content l1)) l1 # ls)"

definition skip_flag :: string where
  "skip_flag = ''--skip-phases=addon/kube-proxy''"

definition is_kubeadm_init :: "YamlNode \<Rightarrow> bool" where
  "is_kubeadm_init n = HasPrefix (yn_Value n) ''kubeadm init''"

definition add_skip_flag :: "YamlNode \<Rightarrow> YamlNode" where
  "add_skip_flag n = (if Contains (yn_Value n) skip_flag then n
     else set_Value (TrimRight (yn_Value n) CHR '' '' @ '' '' @ skip_flag) n)"

definition SkipKubeProxy :: "(YamlNode, 'c, unit) M" where
  "SkipKubeProxy =
     bindM (getsM id) (\<lambda>u.
     case last_runcmd (yn_Content u) of
       None \<Rightarrow> failM (ErrNew ''runcmd variable not found'')
     | Some n \<Rightarrow>
         (case find is_kubeadm_init (yn_Content n) of
            None \<Rightarrow> failM (ErrNew ''kubeadm init command not found'')
          | Some _ \<Rightarrow> modifyM (\<lambda>u. set_Content (update_last_runcmd
                (\<lambda>n. set_Content (update_first is_kubeadm_init add_skip_flag (yn_Content n)) n)
                (yn_Content u)) u)))"
section \<open>Reading what was written\<close>

lemma update_value_Cons: "\<exists>r'. update_value key f (b # r) = b # r'"
  by (cases r) auto

lemma value_of_update: "value_of key (update_value key f ns) = map_option f (value_of key ns)"
proof (induction key f ns rule: update_value.induct)
  case (1 key f a b r)
  obtain r' where "update_value key f (b # r) = b # r'" using update_value_Cons by blast
  with 1 show ?case by auto
qed auto

lemma set_Content_simps [simp]:
  "yn_Content (set_Content c n) = c" "yn_Value (set_Content c n) = yn_Value n"
  "yn_Value (set_Value v n) = v" "yn_Content (set_Value v n) = yn_Content n"
  "set_Content c (set_Content c' n) = set_Content c n" "set_Content (yn_Content n) n = n"
  by (simp_all add: set_Content_def set_Value_def)

lemma write_files_of_update:
  "write_files_of (update_write_files f ls) = map_option f (write_files_of ls)"
  by (induction ls) (auto simp: value_of_update split: option.splits)

lemma find_update_first:
  "(\<And>x. find P xs = Some x \<Longrightarrow> P (f x)) \<Longrightarrow> find P (update_first P f xs) = map_option f (find P xs)"
  by (induction xs) auto

lemma find_update_first_other:
  "(\<And>x. find P xs = Some x \<Longrightarrow> \<not> Q x \<and> \<not> Q (f x)) \<Longrightarrow> find Q (update_first P f xs) = find Q xs"
  by (induction xs) auto

lemma update_first_split:
  "find P xs = Some x \<Longrightarrow> \<exists>us vs. xs = us @ x # vs \<and> update_first P f xs = us @ f x # vs \<and> (\<forall>u \<in> set us. \<not> P u)"
proof (induction xs)
  case (Cons y ys)
  show ?case
  proof (cases "P y")
    case True
    with Cons.prems show ?thesis by (intro exI[of _ "[]"] exI[of _ ys]) auto
  next
    case False
    with Cons obtain us vs where "ys = us @ x # vs" "update_first P f ys = us @ f x # vs" "\<forall>u \<in> set us. \<not> P u"
      by auto
    with False show ?thesis by (intro exI[of _ "y # us"] exI[of _ vs]) auto
  qed
qed simp

lemma getFile_updateFile:
  assumes "getFile path u = Inr (Some n)" and "is_file path (f n)"
  shows "getFile path (updateFile path f u) = Inr (Some (f n))"
proof -
  from assms(1) obtain w where w: "write_files_of (yn_Content u) = Some w" "find (is_file path) (yn_Content w) = Some n"
    by (auto simp: getFile_def getWriteFiles_def split: option.splits)
  with find_update_first[of "is_file path" "yn_Content w" f] assms(2) show ?thesis
    by (simp add: getFile_def updateFile_def getWriteFiles_def write_files_of_update)
qed

lemma getFile_updateFile_other:
  assumes "getFile path u = Inr (Some n)" and "\<not> is_file q n" and "\<not> is_file q (f n)"
  shows "getFile q (updateFile path f u) = getFile q u"
proof -
  from assms(1) obtain w where w: "write_files_of (yn_Content u) = Some w" "find (is_file path) (yn_Content w) = Some n"
    by (auto simp: getFile_def getWriteFiles_def split: option.splits)
  with find_update_first_other[of "is_file path" "yn_Content w" "is_file q" f] assms(2,3) show ?thesis
    by (simp add: getFile_def updateFile_def getWriteFiles_def write_files_of_update)
qed

section \<open>Well-formed files\<close>

text \<open>
  A mapping with distinct keys; no value is one of the words \<^verbatim>\<open>content\<close> and \<^verbatim>\<open>path\<close>, which the
  reader would take for keys.
\<close>

fun pairs :: "YamlNode list \<Rightarrow> (string \<times> string) list" where
  "pairs (a # b # r) = (yn_Value a, yn_Value b) # pairs r"
| "pairs _ = []"

definition wf_fields :: "YamlNode list \<Rightarrow> bool" where
  "wf_fields c \<longleftrightarrow> even (length c) \<and> distinct (map fst (pairs c)) \<and>
     ''content'' \<notin> snd ` set (pairs c) \<and> ''path'' \<notin> snd ` set (pairs c)"

lemma update_fields_Nil [simp]: "update_fields [] c = (c, [])"
  by (induction c rule: pairs.induct) auto

lemma update_fields_keys: "map fst (pairs (fst (update_fields todo c))) = map fst (pairs c)"
  by (induction todo c rule: update_fields.induct) (auto split: option.splits prod.splits)

text \<open>What is left over are the fields the file does not have.\<close>

lemma update_fields_left:
  "distinct (map fst (pairs c)) \<Longrightarrow>
     snd (update_fields todo c) = filter (\<lambda>(key, _). key \<notin> fst ` set (pairs c)) todo"
proof (induction todo c rule: update_fields.induct)
  case (1 todo a b r)
  show ?case
  proof (cases "map_of todo (yn_Value a)")
    case None
    then have "yn_Value a \<notin> fst ` set todo" by (simp add: map_of_eq_None_iff)
    with 1 None show ?thesis by (force split: prod.splits intro!: filter_cong)
  next
    case (Some v)
    with 1 have "snd (update_fields (map_del (yn_Value a) todo) r) =
        filter (\<lambda>(key, _). key \<notin> fst ` set (pairs r)) (map_del (yn_Value a) todo)" by simp
    with Some show ?thesis
      by (force simp: map_del_def split: prod.splits intro!: filter_cong)
  qed
qed auto

text \<open>The update of one field.\<close>

fun set_field :: "string \<Rightarrow> string \<Rightarrow> YamlNode list \<Rightarrow> YamlNode list" where
  "set_field key v (a # b # r) = (if yn_Value a = key then a # set_Value v b # r else a # b # set_field key v r)"
| "set_field key v c = c"

lemma update_fields_single:
  "update_fields [(key, v)] c =
     (set_field key v c, if key \<in> fst ` set (pairs c) then [] else [(key, v)])"
  by (induction key v c rule: set_field.induct) (auto simp: map_del_def)

lemma length_set_field [simp]: "length (set_field key v c) = length c"
  by (induction key v c rule: set_field.induct) auto

lemma keys_set_field [simp]: "map fst (pairs (set_field key v c)) = map fst (pairs c)"
  by (induction key v c rule: set_field.induct) auto

lemma set_pairs_set_field: "set (pairs (set_field key v c)) \<subseteq> set (pairs c) \<union> {(key, v)}"
  by (induction key v c rule: set_field.induct) auto

lemma pairs_set_field_other: "x \<noteq> key \<Longrightarrow> (x, y) \<in> set (pairs (set_field key v c)) \<longleftrightarrow> (x, y) \<in> set (pairs c)"
  by (induction key v c rule: set_field.induct) auto

lemma wf_fields_set_field:
  assumes "wf_fields c" and "v \<noteq> ''path''" and "v \<noteq> ''content''"
  shows "wf_fields (set_field key v c)"
  using assms set_pairs_set_field[of key v c] by (force simp: wf_fields_def)

lemma parse_contents_absent:
  "\<lbrakk>even (length c); ''content'' \<notin> fst ` set (pairs c); ''content'' \<notin> snd ` set (pairs c)\<rbrakk> \<Longrightarrow>
     parse_contents cd k c = Inr k"
proof (induction c rule: pairs.induct)
  case (1 a b r)
  then have "parse_contents cd k r = Inr k" by simp
  with 1 show ?case by (cases r) auto
qed auto

text \<open>After an update of the content, exactly that content is parsed.\<close>

lemma parse_contents_skip:
  "yn_Value b \<noteq> ''content'' \<Longrightarrow> parse_contents cd k (b # c) = parse_contents cd k c"
  by (cases c) auto

lemma parse_contents_updated:
  assumes "wf_fields c" and "v \<noteq> ''content''" and "''content'' \<in> fst ` set (pairs c)"
  shows "parse_contents cd k (set_field ''content'' v c) = parseKubeadmConfig cd v"
  using assms
proof (induction c rule: pairs.induct)
  case (1 a b r)
  show ?case
  proof (cases "yn_Value a = ''content''")
    case True
    with 1(2) have "''content'' \<notin> fst ` set (pairs r)" "''content'' \<notin> snd ` set (pairs r)" "even (length r)"
      by (auto simp: wf_fields_def)
    then have "parse_contents cd k' r = Inr k'" for k' by (simp add: parse_contents_absent)
    with True 1(3) show ?thesis by (simp add: parse_contents_skip split: sum.splits)
  next
    case False
    from 1(2) have "yn_Value b \<noteq> ''content''" by (auto simp: wf_fields_def)
    with False 1 show ?thesis by (simp add: parse_contents_skip wf_fields_def)
  qed
qed auto

text \<open>Which paths a file answers to does not change with its content.\<close>

lemma has_path_pairs:
  assumes "''path'' \<notin> snd ` set (pairs c)" and "even (length c)"
  shows "has_path path c \<longleftrightarrow> (''path'', path) \<in> set (pairs c)"
  using assms
proof (induction c rule: pairs.induct)
  case (1 a b r)
  then have "has_path path r \<longleftrightarrow> (''path'', path) \<in> set (pairs r)" "yn_Value b \<noteq> ''path''" by auto
  then show ?case by (cases r) auto
qed auto

lemma is_file_set_field:
  assumes "wf_fields (yn_Content n)" and "v \<noteq> ''path''" and "v \<noteq> ''content''"
  shows "is_file path (set_Content (set_field ''content'' v (yn_Content n)) n) = is_file path n"
  using assms wf_fields_set_field[OF assms, of "''content''"]
  by (simp add: is_file_def has_path_pairs wf_fields_def pairs_set_field_other)
lemma update_fields_other:
  "x \<notin> fst ` set todo \<Longrightarrow> (x, y) \<in> set (pairs (fst (update_fields todo c))) \<longleftrightarrow> (x, y) \<in> set (pairs c)"
proof (induction todo c rule: update_fields.induct)
  case (1 todo a b r)
  show ?case
  proof (cases "map_of todo (yn_Value a)")
    case None
    with 1 show ?thesis by (auto split: prod.splits)
  next
    case (Some v)
    then have "x \<noteq> yn_Value a" using 1(3) by (force dest: map_of_SomeD)
    moreover from 1(3) have "x \<notin> fst ` set (map_del (yn_Value a) todo)" by (auto simp: map_del_def)
    ultimately show ?thesis using 1(2)[OF Some] Some by (auto split: prod.splits)
  qed
qed auto

section \<open>Skipping kube-proxy\<close>

lemma update_last_value_Cons: "\<exists>r'. update_last_value key f (b # r) = b # r'"
  by (cases r) auto

lemma last_value_of_head: "yn_Value b' = yn_Value b \<Longrightarrow> last_value_of key (b # r) = None \<longleftrightarrow> last_value_of key (b' # r) = None"
  by (cases r) (auto split: option.splits)

lemma last_value_of_update:
  assumes "\<And>n. yn_Value (f n) = yn_Value n"
  shows "last_value_of key (update_last_value key f ns) = map_option f (last_value_of key ns)"
proof (induction key ns rule: last_value_of.induct)
  case (1 key a b r)
  obtain r' where r': "update_last_value key f (b # r) = b # r'" using update_last_value_Cons by blast
  with 1 last_value_of_head[of "f b" b key r] assms show ?case by (auto split: option.splits)
qed auto

lemma last_runcmd_update:
  assumes "\<And>n. yn_Value (f n) = yn_Value n"
  shows "last_runcmd (update_last_runcmd f ls) = map_option f (last_runcmd ls)"
  by (induction ls) (auto simp: last_value_of_update[OF assms] split: option.splits)

lemma update_last_value_same: "last_value_of key ns = Some n \<Longrightarrow> f n = n \<Longrightarrow> update_last_value key f ns = ns"
  by (induction key f ns rule: update_last_value.induct) (auto split: option.splits if_splits)

lemma update_last_runcmd_same: "last_runcmd ls = Some n \<Longrightarrow> f n = n \<Longrightarrow> update_last_runcmd f ls = ls"
  by (induction ls) (auto simp: update_last_value_same split: option.splits)

lemma Contains_append: "Contains (xs @ p) p"
proof (induction xs)
  case Nil
  then show ?case by (cases p) (auto simp: HasPrefix_def)
qed auto

lemma update_first_same: "find P xs = Some x \<Longrightarrow> f x = x \<Longrightarrow> update_first P f xs = xs"
  by (induction xs) (auto split: if_splits)

lemma HasPrefix_iff: "HasPrefix s p \<longleftrightarrow> (\<exists>r. s = p @ r)"
proof
  assume "HasPrefix s p"
  then have "s = p @ drop (length p) s" by (metis HasPrefix_def append_take_drop_id)
  then show "\<exists>r. s = p @ r" by blast
qed (auto simp: HasPrefix_def)

text \<open>Trimming blanks keeps a prefix that does not end in a blank.\<close>

lemma HasPrefix_TrimRight:
  assumes "HasPrefix s p" and "p \<noteq> []" and "last p \<noteq> c"
  shows "HasPrefix (TrimRight s c) p"
proof -
  obtain r where s: "s = p @ r" using assms(1) by (auto simp: HasPrefix_iff)
  obtain p' l where p: "p = p' @ [l]" "l \<noteq> c" using assms(2,3) by (cases p rule: rev_cases) auto
  have "dropWhile (\<lambda>x. x = c) (rev r @ l # rev p') = dropWhile (\<lambda>x. x = c) (rev r) @ l # rev p'"
    using p(2) by (induction "rev r") (auto simp: dropWhile_append)
  then have "TrimRight s c = p @ rev (dropWhile (\<lambda>x. x = c) (rev r))" by (simp add: TrimRight_def s p(1))
  then show ?thesis by (auto simp: HasPrefix_iff)
qed

lemma add_skip_flag:
  assumes "is_kubeadm_init n"
  shows "is_kubeadm_init (add_skip_flag n)" and "Contains (yn_Value (add_skip_flag n)) skip_flag"
    and "add_skip_flag (add_skip_flag n) = add_skip_flag n"
proof -
  have t: "HasPrefix (TrimRight (yn_Value n) CHR '' '') ''kubeadm init''"
    using assms by (intro HasPrefix_TrimRight) (simp_all add: is_kubeadm_init_def)
  then have "HasPrefix (TrimRight (yn_Value n) CHR '' '' @ '' '' @ skip_flag) ''kubeadm init''"
    unfolding HasPrefix_iff by (metis append_assoc)
  with assms show "is_kubeadm_init (add_skip_flag n)" by (simp add: is_kubeadm_init_def add_skip_flag_def)
  show c: "Contains (yn_Value (add_skip_flag n)) skip_flag"
    using Contains_append[of "TrimRight (yn_Value n) CHR '' '' @ '' ''" skip_flag] by (simp add: add_skip_flag_def)
  then show "add_skip_flag (add_skip_flag n) = add_skip_flag n" by (subst add_skip_flag_def) simp
qed
section \<open>Properties\<close>

lemma add_objects_kubeadm: "add_objects (kubeadm_objects k) empty_config = Inr (k\<lparr>kc_isInit := False\<rparr>)"
  by (cases "kc_ClusterConfiguration k"; cases "kc_InitConfiguration k"; cases "kc_JoinConfiguration k")
    (auto simp: kubeadm_objects_def empty_config_def)

lemma encode_objects_dashes:
  assumes "encode_objects cd obs = Inr content" and "obs \<noteq> []"
  shows "\<exists>r. content = ''---'' @ r"
proof (cases obs)
  case (Cons ob obs')
  with assms(1) show ?thesis
    by (cases "encode_object cd ob"; cases "encode_objects cd obs'") auto
qed (use assms(2) in simp)

definition scalar :: "string \<Rightarrow> YamlNode" where
  "scalar v = YamlNode ''scalar'' v []"

definition example_file_node :: YamlNode where
  "example_file_node = YamlNode ''mapping'' [] [scalar ''path'', scalar ''/tmp/kubeadm.yaml'',
     scalar ''owner'', scalar ''root'', scalar ''content'', scalar ''old'']"

definition example_document :: YamlNode where
  "example_document = YamlNode ''document'' [] [YamlNode ''mapping'' []
     [scalar ''write_files'', YamlNode ''sequence'' [] [example_file_node],
      scalar ''runcmd'', YamlNode ''sequence'' [] [scalar ''kubeadm init --config x '']]]"

definition example_config :: KubeadmConfig where
  "example_config = \<lparr>kc_ClusterConfiguration = None, kc_InitConfiguration = Some ''init'',
     kc_JoinConfiguration = None, kc_isInit = True\<rparr>"

definition example_codec :: Codec where
  "example_codec = \<lparr>decode_yaml = (\<lambda>s. if s = [] then Inl (ErrNew ''EOF'') else Inr example_document),
     encode_yaml = (\<lambda>_. Inr ''doc''), decode_stream = (\<lambda>s. (kubeadm_objects example_config, None)),
     yaml_serializer = True, encode_object = (\<lambda>_. Inr ''kind: InitConfiguration''),
     decode_file = (\<lambda>_. Inl (ErrNew ''unused''))\<rparr>"

text \<open>
  A small codec of its own, one line for each object: a letter for the kind and the rest of
  the object. It refuses what does not fit a line, and its decoder inverts its encoder.
\<close>

definition one_line :: "char \<Rightarrow> string \<Rightarrow> error + string" where
  "one_line kind s = (if CHR 0x0A \<in> set s then Inl (ErrNew ''more than one line'') else Inr (kind # s @ [CHR 0x0A]))"

definition encode_line :: "KubeadmObject \<Rightarrow> error + string" where
  "encode_line ob = (case ob of
      ClusterConfigurationObj c \<Rightarrow>
        if cc_APIServerExtraArgs c = [] \<and> cc_ControllerManagerExtraArgs c = [] \<and> cc_CertSANs c = []
        then one_line CHR ''C'' (cc_Other c) else Inl (ErrNew ''too many fields'')
    | InitConfigurationObj s \<Rightarrow> one_line CHR ''I'' s
    | JoinConfigurationObj j \<Rightarrow>
        if jc_KubeletExtraArgs j = [] then one_line CHR ''J'' (jc_Other j) else Inl (ErrNew ''too many fields'')
    | UnknownObj _ \<Rightarrow> Inl (ErrNew ''unknown kind''))"

definition decode_line :: "string \<Rightarrow> KubeadmObject option" where
  "decode_line l = (case l of
      [] \<Rightarrow> None
    | kind # s \<Rightarrow>
        if kind = CHR ''C'' then Some (ClusterConfigurationObj \<lparr>cc_APIServerExtraArgs = [],
            cc_ControllerManagerExtraArgs = [], cc_CertSANs = [], cc_Other = s\<rparr>)
        else if kind = CHR ''I'' then Some (InitConfigurationObj s)
        else if kind = CHR ''J'' then Some (JoinConfigurationObj \<lparr>jc_KubeletExtraArgs = [], jc_Other = s\<rparr>)
        else None)"

fun lines_of :: "string \<Rightarrow> string list" where
  "lines_of [] = [[]]"
| "lines_of (c # cs) = (if c = CHR 0x0A then [] # lines_of cs else (c # hd (lines_of cs)) # tl (lines_of cs))"

fun decode_lines :: "string list \<Rightarrow> KubeadmObject list \<times> error option" where
  "decode_lines (sep # l # ls) =
     (if sep \<noteq> ''---'' then ([], Some (ErrNew ''no separator''))
      else case decode_line l of
          None \<Rightarrow> ([], Some (ErrNew ''unknown kind''))
        | Some ob \<Rightarrow> (case decode_lines ls of (obs, stop) \<Rightarrow> (ob # obs, stop)))"
| "decode_lines ls = ([], None)"

definition line_codec :: Codec where
  "line_codec = example_codec\<lparr>encode_object := encode_line, decode_stream := \<lambda>s. decode_lines (lines_of s)\<rparr>"

lemma lines_of_append: "CHR 0x0A \<notin> set l \<Longrightarrow> lines_of (l @ CHR 0x0A # s) = l # lines_of s"
  by (induction l) auto

lemma encode_line_cases:
  assumes "encode_line ob = Inr b"
  obtains l where "b = l @ [CHR 0x0A]" "CHR 0x0A \<notin> set l" "decode_line l = Some ob"
proof -
  have "\<exists>l. b = l @ [CHR 0x0A] \<and> CHR 0x0A \<notin> set l \<and> decode_line l = Some ob"
    using assms
    by (cases ob) (auto simp: encode_line_def one_line_def decode_line_def split: if_splits
        intro!: ClusterConfiguration.equality JoinConfiguration.equality)
  then show thesis using that by blast
qed

lemma line_codec_inverts:
  "encode_objects line_codec obs = Inr content \<Longrightarrow> decode_stream line_codec content = (obs, None)"
proof (induction obs arbitrary: content)
  case Nil
  then show ?case by (simp add: line_codec_def)
next
  case (Cons ob obs)
  then obtain b rest where b: "encode_line ob = Inr b" and rest: "encode_objects line_codec obs = Inr rest"
    and content: "content = ''---'' @ [CHR 0x0A] @ b @ rest"
    by (cases "encode_line ob"; cases "encode_objects line_codec obs") (auto simp: line_codec_def)
  from b obtain l where l: "b = l @ [CHR 0x0A]" "CHR 0x0A \<notin> set l" "decode_line l = Some ob"
    by (rule encode_line_cases)
  from Cons.IH[OF rest] have "decode_lines (lines_of rest) = (obs, None)" by (simp add: line_codec_def)
  with l show ?case
    by (simp add: line_codec_def content lines_of_append)
qed

definition example_kubeadm :: KubeadmConfig where
  "example_kubeadm = \<lparr>kc_ClusterConfiguration = Some \<lparr>cc_APIServerExtraArgs = [], cc_ControllerManagerExtraArgs = [],
       cc_CertSANs = [], cc_Other = ''cluster''\<rparr>,
     kc_InitConfiguration = Some ''init'', kc_JoinConfiguration = None, kc_isInit = True\<rparr>"


definition files_of :: "YamlNode \<Rightarrow> YamlNode list option" where
  "files_of u = map_option yn_Content (write_files_of (yn_Content u))"

text \<open>
  Setting a file calls nothing outside. A file that exists is the first with the path: it keeps its
  keys and every field but content, permissions and owner, every other file stays as it is,
  and the operation succeeds exactly when the file has every field that was to be set. A file
  that does not exist is appended or nothing changes. Without \<open>write_files\<close> it fails and
  changes nothing.
\<close>

theorem SetOrUpdateFile_frame:
  "case SetOrUpdateFile cd fl u of (r, t, u') \<Rightarrow> t = [] \<and>
     (case getFile (f_Path fl) u of
        Inl e \<Rightarrow> r = Err e \<and> u' = u
      | Inr None \<Rightarrow> \<not> is_ok r \<and> u' = u \<or> (\<exists>fs c0. r = Ok () \<and> files_of u = Some fs \<and> files_of u' = Some (fs @ [c0]))
      | Inr (Some n) \<Rightarrow> \<exists>us vs n'. files_of u = Some (us @ n # vs) \<and> files_of u' = Some (us @ n' # vs) \<and>
          is_file (f_Path fl) n \<and> (\<forall>x \<in> set us. \<not> is_file (f_Path fl) x) \<and>
          map fst (pairs (yn_Content n')) = map fst (pairs (yn_Content n)) \<and>
          (\<forall>key v. key \<notin> {''content'', ''permissions'', ''owner''} \<longrightarrow>
             ((key, v) \<in> set (pairs (yn_Content n')) \<longleftrightarrow> (key, v) \<in> set (pairs (yn_Content n)))) \<and>
          (distinct (map fst (pairs (yn_Content n))) \<longrightarrow>
             (r = Ok () \<longleftrightarrow> (\<forall>key \<in> fst ` set (file_fields fl). key \<in> fst ` set (pairs (yn_Content n))))))"
proof (cases "getFile (f_Path fl) u")
  case (Inl e)
  then show ?thesis by (simp add: SetOrUpdateFile_def bindM_def getsM_def liftM_def failM_def)
next
  case (Inr found)
  then obtain w where w: "write_files_of (yn_Content u) = Some w" and found: "found = find (is_file (f_Path fl)) (yn_Content w)"
    by (auto simp: getFile_def getWriteFiles_def split: option.splits)
  show ?thesis
  proof (cases found)
    case None
    have up: "\<exists>c0 z. write_files_of (update_write_files (\<lambda>w. set_Content (yn_Content w @ [x]) w) (yn_Content u)) = Some z \<and>
        yn_Content z = yn_Content w @ [c0]" for x
      using w by (simp add: write_files_of_update)
    from None Inr w show ?thesis
      by (cases "decode_file cd fl")
        (auto simp: SetOrUpdateFile_def bindM_def getsM_def liftM_def failM_def ret_def modifyM_def panicM_def
          getWriteFiles_def files_of_def intro: up split: list.splits)
  next
    case (Some n)
    let ?n' = "set_Content (fst (update_fields (file_fields fl) (yn_Content n))) n"
    let ?u' = "updateFile (f_Path fl) (\<lambda>n. set_Content (fst (update_fields (file_fields fl) (yn_Content n))) n) u"
    from Some found have "find (is_file (f_Path fl)) (yn_Content w) = Some n" by simp
    from update_first_split[OF this] obtain us vs where split: "yn_Content w = us @ n # vs"
      "update_first (is_file (f_Path fl)) (\<lambda>n. set_Content (fst (update_fields (file_fields fl) (yn_Content n))) n) (yn_Content w) = us @ ?n' # vs"
      "\<forall>x \<in> set us. \<not> is_file (f_Path fl) x" by blast
    have files: "files_of u = Some (us @ n # vs)" "files_of ?u' = Some (us @ ?n' # vs)"
      using w split by (simp_all add: files_of_def updateFile_def write_files_of_update)
    have isf: "is_file (f_Path fl) n" using Some found by (auto dest: find_Some_mem)
    have others: "fst ` set (file_fields fl) \<subseteq> {''content'', ''permissions'', ''owner''}"
      by (auto simp: file_fields_def)
    have run: "SetOrUpdateFile cd fl u =
        (if snd (update_fields (file_fields fl) (yn_Content n)) = [] then Ok ()
         else Err (ErrNew (''existing file did not have '' @ Join (map_keys (snd (update_fields (file_fields fl) (yn_Content n)))) '', '' @ '' keys'')), [], ?u')"
      using Inr Some by (cases "snd (update_fields (file_fields fl) (yn_Content n)) = []")
        (simp_all add: SetOrUpdateFile_def bindM_def getsM_def liftM_def failM_def ret_def modifyM_def Let_def)
    have ok: "snd (update_fields (file_fields fl) (yn_Content n)) = [] \<longleftrightarrow>
        (\<forall>key \<in> fst ` set (file_fields fl). key \<in> fst ` set (pairs (yn_Content n)))"
      if "distinct (map fst (pairs (yn_Content n)))"
      using update_fields_left[OF that, of "file_fields fl"] by (force simp: filter_empty_conv)
    have keep: "(key, v) \<in> set (pairs (yn_Content ?n')) \<longleftrightarrow> (key, v) \<in> set (pairs (yn_Content n))"
      if "key \<notin> {''content'', ''permissions'', ''owner''}" for key v
      using that others update_fields_other[of key "file_fields fl" v "yn_Content n"] by auto
    show ?thesis
      unfolding run prod.case Inr Some sum.case option.case
      using files isf split(3) ok keep update_fields_keys[of "file_fields fl" "yn_Content n"]
      by (intro conjI refl exI[of _ us] exI[of _ vs] exI[of _ ?n']) auto
  qed
qed

lemma SetOrUpdateFile_frame_witness:
  "\<exists>us vs n'. files_of (snd (snd (SetOrUpdateFile example_codec
       \<lparr>f_Path = ''/tmp/kubeadm.yaml'', f_Content = ''new'', f_Permissions = [], f_Owner = []\<rparr> example_document
         :: unit res \<times> unit list \<times> YamlNode))) = Some (us @ n' # vs) \<and>
     map fst (pairs (yn_Content n')) = [''path'', ''owner'', ''content'']"
proof -
  let ?f = "\<lparr>f_Path = ''/tmp/kubeadm.yaml'', f_Content = ''new'', f_Permissions = [], f_Owner = []\<rparr>"
  have g: "getFile (f_Path ?f) example_document = Inr (Some example_file_node)" by code_simp
  have keys: "map fst (pairs (yn_Content example_file_node)) = [''path'', ''owner'', ''content'']" by code_simp
  obtain r u' and t :: "unit list" where eq: "SetOrUpdateFile example_codec ?f example_document = (r, t, u')"
    by (metis prod_cases3)
  from SetOrUpdateFile_frame[where cd = example_codec and fl = ?f and u = example_document and 'a = unit]
  have "\<exists>us vs n'. files_of u' = Some (us @ n' # vs) \<and>
      map fst (pairs (yn_Content n')) = map fst (pairs (yn_Content example_file_node))"
    unfolding eq prod.case g sum.case option.case by (elim conjE exE) (intro exI conjI)
  then show ?thesis unfolding eq keys by simp
qed

text \<open>
  When skipping kube-proxy succeeds, the last \<^verbatim>\<open>runcmd\<close> has a \<^verbatim>\<open>kubeadm init\<close> command;
  then that command, and it alone, carries the flag, and doing it again changes nothing.
\<close>

theorem SkipKubeProxy_idempotent:
  assumes "SkipKubeProxy u = (Ok (), t, u')"
  shows "t = [] \<and> SkipKubeProxy u' = (Ok (), t, u') \<and>
     (\<exists>n us c vs n'. last_runcmd (yn_Content u) = Some n \<and> yn_Content n = us @ c # vs \<and> is_kubeadm_init c \<and>
        last_runcmd (yn_Content u') = Some n' \<and> yn_Content n' = us @ add_skip_flag c # vs \<and>
        Contains (yn_Value (add_skip_flag c)) skip_flag)"
proof -
  let ?g = "update_first is_kubeadm_init add_skip_flag"
  let ?f = "\<lambda>n. set_Content (?g (yn_Content n)) n"
  from assms obtain n c where n: "last_runcmd (yn_Content u) = Some n"
    and c: "find is_kubeadm_init (yn_Content n) = Some c"
    and u': "u' = set_Content (update_last_runcmd ?f (yn_Content u)) u" and t: "t = []"
    by (auto simp: SkipKubeProxy_def bindM_def getsM_def failM_def modifyM_def split: option.splits)
  from c have ci: "is_kubeadm_init c" by (auto dest: find_Some_mem)
  from update_first_split[OF c] obtain us vs where
    sp: "yn_Content n = us @ c # vs" "?g (yn_Content n) = us @ add_skip_flag c # vs" by blast
  have n': "last_runcmd (yn_Content u') = Some (?f n)"
    using n by (simp add: u' last_runcmd_update)
  have c': "find is_kubeadm_init (yn_Content (?f n)) = Some (add_skip_flag c)"
    using find_update_first[of is_kubeadm_init "yn_Content n" add_skip_flag] c add_skip_flag(1) ci by auto
  have "?g (yn_Content (?f n)) = yn_Content (?f n)"
    using update_first_same[where f = add_skip_flag, OF c'] add_skip_flag(3)[OF ci] by blast
  then have "?f (?f n) = ?f n" by simp
  then have "update_last_runcmd ?f (yn_Content u') = yn_Content u'"
    using update_last_runcmd_same[where f = ?f, OF n'] by blast
  then have "SkipKubeProxy u' = (Ok (), [], u')"
    using n' c' by (simp add: SkipKubeProxy_def bindM_def getsM_def modifyM_def)
  with t n sp ci n' add_skip_flag(2)[OF ci] show ?thesis by auto
qed

lemma SkipKubeProxy_idempotent_witness:
  "\<exists>u' :: YamlNode. \<exists>t :: unit list. SkipKubeProxy example_document = (Ok (), t, u') \<and> SkipKubeProxy u' = (Ok (), t, u')"
proof -
  obtain u' and t :: "unit list" where eq: "SkipKubeProxy example_document = (Ok (), t, u')"
    by (simp add: SkipKubeProxy_def example_document_def scalar_def is_kubeadm_init_def HasPrefix_def
        bindM_def getsM_def modifyM_def)
  from SkipKubeProxy_idempotent[OF eq] eq show ?thesis by blast
qed

section \<open>The shape of the document\<close>

text \<open>The tree of kinds, without the scalars.\<close>

fun shape :: "YamlNode \<Rightarrow> YamlNode" where
  "shape (YamlNode k v c) = YamlNode k [] (map shape c)"

lemma shape_eq: "shape n = YamlNode (yn_Kind n) [] (map shape (yn_Content n))"
  by (cases n) simp

lemma shape_set_Value [simp]: "shape (set_Value v n) = shape n"
  by (simp add: shape_eq[of n] set_Value_def)

lemma shape_set_Content: "map shape c = map shape (yn_Content n) \<Longrightarrow> shape (set_Content c n) = shape n"
  by (simp add: shape_eq[of n] set_Content_def)

lemma shape_update_fields: "map shape (fst (update_fields todo ns)) = map shape ns"
  by (induction todo ns rule: update_fields.induct) (auto split: option.splits prod.splits)

lemma shape_update_first: "(\<And>x. shape (f x) = shape x) \<Longrightarrow> map shape (update_first P f xs) = map shape xs"
  by (induction xs) auto

lemma shape_update_value: "(\<And>x. shape (f x) = shape x) \<Longrightarrow> map shape (update_value key f ns) = map shape ns"
  by (induction key f ns rule: update_value.induct) auto

lemma shape_update_last_value: "(\<And>x. shape (f x) = shape x) \<Longrightarrow> map shape (update_last_value key f ns) = map shape ns"
  by (induction key f ns rule: update_last_value.induct) auto

lemma shape_update_write_files:
  "(\<And>x. shape (f x) = shape x) \<Longrightarrow> map shape (update_write_files f ls) = map shape ls"
  by (induction ls) (auto intro!: shape_set_Content shape_update_value split: option.splits)

lemma shape_update_last_runcmd:
  "(\<And>x. shape (f x) = shape x) \<Longrightarrow> map shape (update_last_runcmd f ls) = map shape ls"
  by (induction ls) (auto intro!: shape_set_Content shape_update_last_value)

lemma shape_updateFile: "(\<And>x. shape (f x) = shape x) \<Longrightarrow> shape (updateFile path f u) = shape u"
  unfolding updateFile_def by (intro shape_set_Content shape_update_write_files shape_update_first)

text \<open>The kinds of all nodes in document order, and a list with another one put in somewhere.\<close>

fun kinds :: "YamlNode \<Rightarrow> string list" where
  "kinds (YamlNode k v c) = k # concat (map kinds c)"

lemma kinds_eq: "kinds n = yn_Kind n # concat (map kinds (yn_Content n))"
  by (cases n) simp

lemma kinds_set_Content: "kinds (set_Content c n) = yn_Kind n # concat (map kinds c)"
  by (simp add: set_Content_def)

definition inserts :: "'a list \<Rightarrow> 'a list \<Rightarrow> 'a list \<Rightarrow> bool" where
  "inserts x before after \<longleftrightarrow> (\<exists>us vs. before = us @ vs \<and> after = us @ x @ vs)"

lemma inserts_Cons: "inserts x a b \<Longrightarrow> inserts x (p # a) (p # b)"
  unfolding inserts_def by (metis append_Cons)

lemma inserts_append: "inserts x a b \<Longrightarrow> inserts x (p @ a) (p @ b)" "inserts x a b \<Longrightarrow> inserts x (a @ q) (b @ q)"
  unfolding inserts_def by (metis append.assoc)+

lemma inserts_end: "inserts x a (a @ x)"
  unfolding inserts_def by (metis append_Nil2)

lemma kinds_append_item: "inserts (kinds item) (kinds w) (kinds (set_Content (yn_Content w @ [item]) w))"
  by (cases w) (simp add: set_Content_def inserts_Cons inserts_end)

lemma kinds_update_value:
  "value_of key ns = Some n \<Longrightarrow> (\<And>w. inserts x (kinds w) (kinds (f w))) \<Longrightarrow>
   inserts x (concat (map kinds ns)) (concat (map kinds (update_value key f ns)))"
  by (induction key f ns rule: update_value.induct) (auto intro!: inserts_append split: if_splits)

lemma kinds_update_write_files:
  "write_files_of ls = Some n \<Longrightarrow> (\<And>w. inserts x (kinds w) (kinds (f w))) \<Longrightarrow>
   inserts x (concat (map kinds ls)) (concat (map kinds (update_write_files f ls)))"
proof (induction ls)
  case (Cons l ls)
  show ?case
  proof (cases "value_of ''write_files'' (yn_Content l)")
    case None
    with Cons show ?thesis by (auto intro: inserts_append)
  next
    case (Some m)
    from inserts_append(2)[OF inserts_Cons[OF kinds_update_value[OF this Cons.prems(2)]]] Some show ?thesis
      by (simp add: kinds_set_Content kinds_eq[of l])
  qed
qed simp

text \<open>
  C38. The edits of a user-data document keep its type. Skipping kube-proxy and updating a file that is there
  change scalars only, whether they succeed or not: every node keeps its kind, its style and its place. A file that
  is missing leaves the document alone or is put into it as a whole, the first node of its own encoding, and the kinds around it stay.
\<close>

theorem edits_keep_shape:
  "(case SkipKubeProxy u of (_, _, u') \<Rightarrow> shape u' = shape u) \<and>
   (case SetOrUpdateFile cd fl u of (r, _, u') \<Rightarrow> (case getFile (f_Path fl) u of
       Inr None \<Rightarrow> (if r = Ok () then \<exists>node item rest. decode_file cd fl = Inr node \<and> yn_Content node = item # rest \<and>
            inserts (kinds item) (kinds u) (kinds u') else u' = u)
     | _ \<Rightarrow> shape u' = shape u))"
proof (intro conjI)
  have skip: "shape (add_skip_flag n) = shape n" for n by (simp add: add_skip_flag_def)
  show "case SkipKubeProxy u of (_, _, u') \<Rightarrow> shape u' = shape u"
    by (auto simp: SkipKubeProxy_def bindM_def getsM_def failM_def modifyM_def skip
        intro!: shape_set_Content shape_update_last_runcmd shape_update_first split: option.splits)
  show "case SetOrUpdateFile cd fl u of (r, _, u') \<Rightarrow> (case getFile (f_Path fl) u of
       Inr None \<Rightarrow> (if r = Ok () then \<exists>node item rest. decode_file cd fl = Inr node \<and> yn_Content node = item # rest \<and>
            inserts (kinds item) (kinds u) (kinds u') else u' = u)
     | _ \<Rightarrow> shape u' = shape u)"
  proof (cases "\<exists>n. getFile (f_Path fl) u = Inr (Some n)")
    case True
    then obtain n where n: "getFile (f_Path fl) u = Inr (Some n)" by blast
    have "shape (updateFile (f_Path fl) (\<lambda>n. set_Content (fst (update_fields (file_fields fl) (yn_Content n))) n) u) = shape u"
      by (intro shape_updateFile shape_set_Content shape_update_fields)
    with n show ?thesis
      by (cases "snd (update_fields (file_fields fl) (yn_Content n)) = []")
        (simp_all add: SetOrUpdateFile_def bindM_def getsM_def liftM_def failM_def ret_def modifyM_def Let_def)
  next
    case False
    let ?u' = "\<lambda>item. set_Content (update_write_files (\<lambda>w. set_Content (yn_Content w @ [item]) w) (yn_Content u)) u"
    have "inserts (kinds item) (kinds u) (kinds (?u' item))" if "write_files_of (yn_Content u) = Some w" for w item
      unfolding kinds_set_Content kinds_eq[of u]
      by (intro inserts_Cons kinds_update_write_files[OF that] kinds_append_item)
    with False show ?thesis
      by (auto simp: SetOrUpdateFile_def bindM_def getsM_def liftM_def failM_def ret_def modifyM_def panicM_def
          getWriteFiles_def split: sum.splits option.splits list.splits)
  qed
qed

end
