(* ===== verification/Server_Service.thy ===== *)
theory Server_Service
  imports Load_Balancer Packer_Builder Userdata
begin

text \<open>
  pkg/cloud/resources/server: the server behind a machine. One definition per function of
  server.go, over the machine scope. A nil result of the service is \<open>None\<close>; an error is an
  error of the program whatever result accompanies it. A nil server and a nil load balancer
  are dereferenced where the code does so, which panics. The labels are an association list in one
  order; the runtime may iterate over the Go map in another, which only permutes the
  requirements in the text of the label selector.

  The lemmas show the whole life of a server: created at most once and only after an empty
  listing, with a ready image and the machine's labels; the machine is ready only when its
  server runs; shut down only when running, deleted only when off and always after it left the
  load balancer.
\<close>

section \<open>Results\<close>

record Result =
  Requeue :: bool
  RequeueAfter :: int

definition Second :: int where "Second = 1000000000"

definition requeue_after :: "int \<Rightarrow> Result" where
  "requeue_after d = \<lparr>Requeue = False, RequeueAfter = d\<rparr>"

definition no_Result :: Result where
  "no_Result = \<lparr>Requeue = False, RequeueAfter = 0\<rparr>"

section \<open>Finding a server\<close>

definition createLabels :: "('w, 'x) MachineScope_scheme \<Rightarrow> (string, string) gomap" where
  "createLabels s =
     [(ClusterTagKey (om_Name (hc_Meta (cs_HcloudCluster s))), ResourceLifecycleOwned),
      (MachineNameTagKey, MachineScope_Name s),
      (''machine_type'', if IsControlPlane s then ''control_plane'' else ''worker'')]"

definition findServer ::
    "'w HcloudClient \<Rightarrow> (('w, 'x) MachineScope_scheme, call, hcloud_Server option) M" where
  "findServer c =
     bindM (getsM createLabels) (\<lambda>labels.
     bindM (ListServers c (LabelsToLabelSelector labels)) (\<lambda>servers.
     if length servers > 1 then
       bindM (Eventf EventTypeWarning ''MultipleInstances'') (\<lambda>_.
       bindM (getsM MachineScope_Name) (\<lambda>name.
       failM (ErrNew (''Found '' @ itoa (int (length servers)) @ '' servers with name '' @ name))))
     else if length servers = 0 then ret None
     else ret (Some (servers ! 0))))"

section \<open>The load balancer attachment\<close>

text \<open>The loop over the targets: it dereferences each and does not stop at a match.\<close>

definition has_target :: "hcloud_LoadBalancer \<Rightarrow> hcloud_Server \<Rightarrow> (('w, 'x) MachineScope_scheme, call, bool) M" where
  "has_target lb server =
     bindM (mapMM (derefM ''target.Server'') (lb_Targets lb)) (\<lambda>ids.
     ret (sv_ID server \<in> set ids))"

definition reconcileLoadBalancerAttachment ::
    "'w HcloudClient \<Rightarrow> hcloud_Server \<Rightarrow> (('w, 'x) MachineScope_scheme, call, unit) M" where
  "reconcileLoadBalancerAttachment c server =
     (let hasPrivateIP = (length (sv_PrivateNet server) > 0) in
      bindM (FindLoadBalancer c) (\<lambda>found.
      bindM (derefM ''lb'' found) (\<lambda>lb.
      if hasPrivateIP \<and> length (lb_PrivateNet lb) = 0 then ret ()
      else
        bindM (has_target lb server) (\<lambda>alreadyAttached.
        if alreadyAttached then ret ()
        else
          bindM (AddTargetServerToLoadBalancer c server hasPrivateIP lb) (\<lambda>_.
          Eventf EventTypeNormal ''AddedAsTargetToLoadBalancer'')))))"

definition deleteServerOfLoadBalancer ::
    "'w HcloudClient \<Rightarrow> hcloud_Server \<Rightarrow> (('w, 'x) MachineScope_scheme, call, unit) M" where
  "deleteServerOfLoadBalancer c server =
     bindM (FindLoadBalancer c) (\<lambda>found.
     bindM (derefM ''lb'' found) (\<lambda>lb.
     bindM (has_target lb server) (\<lambda>stillAttached.
     if \<not> stillAttached then ret ()
     else
       bindM (DeleteTargetServerOfLoadBalancer c lb server) (\<lambda>_.
       Eventf EventTypeNormal ''DeletedTargetOfLoadBalancer''))))"

section \<open>The status\<close>

definition address :: "NodeAddressType \<Rightarrow> string \<Rightarrow> NodeAddress" where
  "address ty a = \<lparr>na_Type = ty, na_Address = a\<rparr>"

definition append_address :: "NodeAddress \<Rightarrow> (('w, 'x) MachineScope_scheme, call, unit) M" where
  "append_address a = modifyM (setMachineStatus (\<lambda>st. st\<lparr>hmt_Addresses := hmt_Addresses st @ [a]\<rparr>))"

text \<open>
  The last byte of the IPv6 network address is incremented in place, so the server the caller
  holds changes too: the result is that server.
\<close>

definition setStatusFromAPI ::
    "hcloud_Server \<Rightarrow> (('w, 'x) MachineScope_scheme, call, hcloud_Server) M" where
  "setStatusFromAPI server =
     bindM (modifyM (setMachineStatus (\<lambda>st. st\<lparr>hmt_ServerState := Some (sv_Status server), hmt_Addresses := []\<rparr>))) (\<lambda>_.
     bindM (let ip = IP_String (sv_IPv4 server) in
            whenM (ip \<noteq> '''') (append_address (address NodeExternalIP ip))) (\<lambda>_.
     bindM (let ip = sv_IPv6 server in
            if IsGlobalUnicast ip then
              (if length ip \<le> 15 then panicM ''index out of range: ip[15]''
               else let ip' = ip[15 := ip ! 15 + 1] in
                 bindM (append_address (address NodeExternalIP (IP_String ip'))) (\<lambda>_.
                 ret (server\<lparr>sv_IPv6 := ip'\<rparr>)))
            else ret server) (\<lambda>server'.
     bindM (forM (\<lambda>net. append_address (address NodeInternalIP (IP_String net))) (sv_PrivateNet server)) (\<lambda>_.
     ret server'))))"

section \<open>Creation\<close>

fun stringSliceContains :: "string list \<Rightarrow> string \<Rightarrow> bool" where
  "stringSliceContains [] e = False"
| "stringSliceContains (a # s) e = (if a = e then True else stringSliceContains s e)"

text \<open>The host part of \<^verbatim>\<open>url.URL.String()\<close>: bytes that may not stand in a host are escaped.\<close>

definition host_char :: "char \<Rightarrow> bool" where
  "host_char c = (let n = (of_char c :: int) in
     48 \<le> n \<and> n \<le> 57 \<or> 65 \<le> n \<and> n \<le> 90 \<or> 97 \<le> n \<and> n \<le> 122 \<or>
     c \<in> set (''-_.~!$&()*+,;=:[]<>'' @ [CHR 0x22, CHR 0x27]))"

definition upper_digit :: "int \<Rightarrow> char" where
  "upper_digit d = char_of (if d < 10 then 48 + d else 55 + d)"

definition escape_host :: "string \<Rightarrow> string" where
  "escape_host h = concat (map (\<lambda>c. if host_char c then [c]
     else let n = (of_char c :: int) in [CHR ''%'', upper_digit (n div 16), upper_digit (n mod 16)]) h)"

definition put_missing :: "string \<Rightarrow> string \<Rightarrow> (string, string) gomap \<Rightarrow> (string, string) gomap" where
  "put_missing k v m = (case map_of m k of None \<Rightarrow> map_put k v m | Some _ \<Rightarrow> m)"

definition add_name :: "string list \<Rightarrow> string \<Rightarrow> string list" where
  "add_name certSANs name = (if \<not> stringSliceContains certSANs name then certSANs @ [name] else certSANs)"

definition configure_apiserver :: "APIEndpoint \<Rightarrow> string \<Rightarrow> ClusterConfiguration \<Rightarrow> ClusterConfiguration" where
  "configure_apiserver endpoint lbHost cc =
     (let issuer = ''https://'' @ escape_host (ep_Host endpoint @ '':'' @ itoa (ep_Port endpoint)) in
      cc\<lparr>cc_APIServerExtraArgs :=
           put_missing ''service-account-signing-key-file'' ''/etc/kubernetes/pki/sa.key''
             (put_missing ''service-account-issuer'' issuer
               (put_missing ''cloud-provider'' ''external'' (cc_APIServerExtraArgs cc))),
         cc_ControllerManagerExtraArgs :=
           put_missing ''cloud-provider'' ''external'' (cc_ControllerManagerExtraArgs cc),
         cc_CertSANs := foldl add_name (cc_CertSANs cc) [''127.0.0.1'', ''localhost'', lbHost]\<rparr>)"

definition configure_kubeadm ::
    "KubeadmConfig \<Rightarrow> (('w, 'x) MachineScope_scheme, call, KubeadmConfig) M" where
  "configure_kubeadm kubeadmConfig =
     bindM (getsM id) (\<lambda>s.
     if IsControlPlane s \<and> IsInit kubeadmConfig then
       (case kc_ClusterConfiguration kubeadmConfig of
          Some cc \<Rightarrow>
            bindM (derefM ''ControlPlaneEndpoint'' (hcs_ControlPlaneEndpoint (hc_Spec (cs_HcloudCluster s)))) (\<lambda>ep.
            ret (kubeadmConfig\<lparr>kc_ClusterConfiguration :=
                   Some (configure_apiserver (cl_ControlPlaneEndpoint (cs_Cluster s)) (ep_Host ep) cc)\<rparr>))
        | None \<Rightarrow>
            bindM (Eventf EventTypeWarning ''UnexpectedUserData'') (\<lambda>_.
            ret kubeadmConfig))
     else ret kubeadmConfig)"

text \<open>
  The volumes of the spec. \<open>None\<close> stands for the early return of a nil server without an
  error: a volume that does not exist, or not yet.
\<close>

fun gather_volumes ::
    "'w KubeClient \<Rightarrow> string \<Rightarrow> HcloudMachineVolume list \<Rightarrow> (('w, 'x) MachineScope_scheme, call, int list option) M" where
  "gather_volumes k ns [] = ret (Some [])"
| "gather_volumes k ns (volume # vs) =
     bindM (tryM (GetHcloudVolume k ns (mv_VolumeRef volume))) (\<lambda>got.
     case got of
       Inl err \<Rightarrow> if IsNotFound err then ret None else failM err
     | Inr hcloudVolume \<Rightarrow>
         (case hvt_VolumeID (hv_Status hcloudVolume) of
            None \<Rightarrow> ret None
          | Some i \<Rightarrow>
              bindM (gather_volumes k ns vs) (\<lambda>rest.
              ret (map_option (\<lambda>is'. i # is') rest))))"

text \<open>A program on the user data, which is local to the call.\<close>

definition on_userdata :: "(YamlNode, call, unit) M \<Rightarrow> YamlNode \<Rightarrow> ('s, call, YamlNode) M" where
  "on_userdata m u = (\<lambda>s. case m u of
      (Ok _, t, u') \<Rightarrow> (Ok u', t, s)
    | (Err e, t, u') \<Rightarrow> (Err e, t, s)
    | (Panic p, t, u') \<Rightarrow> (Panic p, t, s))"

definition prepare_userdata ::
    "Codec \<Rightarrow> 'w KubeClient \<Rightarrow> (('w, 'x) MachineScope_scheme, call, string) M" where
  "prepare_userdata cd k =
     bindM (tryM (GetRawBootstrapData k)) (\<lambda>raw.
     case raw of
       Inl err \<Rightarrow>
         bindM (Eventf EventTypeWarning ''FailedGetBootstrapData'') (\<lambda>_.
         failM (ErrNew (''Failed to get raw bootstrap data: '' @ Error err)))
     | Inr userDataInitial \<Rightarrow>
         bindM (mapErrM (\<lambda>err. ErrNew (''Failed get userdata reader: '' @ Error err))
                  (liftM (NewFromReader cd userDataInitial))) (\<lambda>userData.
         bindM (mapErrM (\<lambda>err. ErrNew (''Failed to get kubeadm config: '' @ Error err))
                  (liftM (GetKubeadmConfig cd userData))) (\<lambda>kubeadmConfig.
         bindM (configure_kubeadm kubeadmConfig) (\<lambda>kubeadmConfig'.
         bindM (on_userdata (SetKubeadmConfig cd kubeadmConfig') userData) (\<lambda>userData'.
         liftM (WriteYAML cd userData'))))))"

definition key_matches :: "hcloud_SSHKey \<Rightarrow> HcloudSSHKeySpec \<Rightarrow> bool" where
  "key_matches sshKey spec = (sks_Name spec = Some (sk_Name sshKey) \<or> sks_ID spec = Some (sk_ID sshKey))"

definition select_keys :: "HcloudSSHKeySpec list \<Rightarrow> hcloud_SSHKey list \<Rightarrow> hcloud_SSHKey list" where
  "select_keys specs keys = filter (\<lambda>k. \<exists>spec \<in> set specs. key_matches k spec) keys"

text \<open>
  The request proper, lines 281 to 346 of the function. The error of listing the SSH keys is
  dropped: the server is then created without keys.
\<close>

definition server_opts ::
    "('w, 'x) MachineScope_scheme \<Rightarrow> string \<Rightarrow> int \<Rightarrow> int list \<Rightarrow> string \<Rightarrow> hcloud_SSHKey list \<Rightarrow> ServerCreateOpts" where
  "server_opts s failureDomain imageID volumes userData sshKeys =
     (let hm = ms_HcloudMachine s;
          sshKeySpecs = (if length (hms_SSHKeys (hm_Spec hm)) = 0
                         then hcs_SSHKeys (hc_Spec (cs_HcloudCluster s)) else hms_SSHKeys (hm_Spec hm)) in
      \<lparr>sco_Name = MachineScope_Name s, sco_Labels = createLabels s, sco_Image = imageID,
       sco_Location = failureDomain, sco_ServerType = hms_Type (hm_Spec hm),
       sco_Automount = False, sco_StartAfterCreate = True, sco_UserData = userData,
       sco_Volumes = volumes, sco_SSHKeys = select_keys sshKeySpecs sshKeys,
       sco_Networks = (case hct_Network (hc_Status (cs_HcloudCluster s)) of
           None \<Rightarrow> [] | Some net \<Rightarrow> [hnt_ID net])\<rparr>)"

definition requestServer ::
    "'w HcloudClient \<Rightarrow> string \<Rightarrow> int \<Rightarrow> int list \<Rightarrow> string
       \<Rightarrow> (('w, 'x) MachineScope_scheme, call, hcloud_Server option) M" where
  "requestServer c failureDomain imageID volumes userData =
     bindM (getsM id) (\<lambda>s.
     bindM (tryM (ListSSHKeys c)) (\<lambda>listed.
     bindM (tryM (CreateServer c (server_opts s failureDomain imageID volumes userData
              (case listed of Inl _ \<Rightarrow> [] | Inr keys \<Rightarrow> keys)))) (\<lambda>created.
     case created of
       Inl err \<Rightarrow>
         bindM (Eventf EventTypeWarning ''FailedCreateHcloudServer'') (\<lambda>_.
         failM (ErrNew (''Error while creating Hcloud server %!s(*string): '' @ Error err)))
     | Inr server \<Rightarrow> ret (Some server))))"

definition createServer ::
    "Codec \<Rightarrow> 'w KubeClient \<Rightarrow> 'w HcloudClient \<Rightarrow> string \<Rightarrow> int
       \<Rightarrow> (('w, 'x) MachineScope_scheme, call, hcloud_Server option) M" where
  "createServer cd k c failureDomain imageID =
     bindM (modifyM (setMachineStatus (\<lambda>st. st\<lparr>hmt_ImageID := Some imageID\<rparr>))) (\<lambda>_.
     bindM (getsM ms_HcloudMachine) (\<lambda>hm.
     bindM (gather_volumes k (om_Namespace (hm_Meta hm)) (hms_Volumes (hm_Spec hm))) (\<lambda>gathered.
     case gathered of
       None \<Rightarrow> ret None
     | Some volumes \<Rightarrow>
         bindM (prepare_userdata cd k) (\<lambda>userData.
         requestServer c failureDomain imageID volumes userData))))"

section \<open>Reconcile and delete\<close>

text \<open>
  The loop over the addresses returns in its first external address, whatever the readiness
  check says; so no error is ever collected when the loop ends.
\<close>

fun address_loop ::
    "'w KubeClient \<Rightarrow> string \<Rightarrow> NodeAddress list \<Rightarrow> (('w, 'x) MachineScope_scheme, call, Result option) M" where
  "address_loop k providerID [] = failM (ErrNew ''Not usable Address found'')"
| "address_loop k providerID (a # as) =
     (if na_Type a \<noteq> NodeExternalIP \<and> na_Type a \<noteq> NodeExternalDNS then address_loop k providerID as
      else
        bindM (ClientConfigWithAPIEndpoint k \<lparr>ep_Host = na_Address a, ep_Port = defaultControlPlaneAPIEndpointPort\<rparr>) (\<lambda>clientConfig.
        bindM (tryM (IsControlPlaneReady k clientConfig)) (\<lambda>_.
        bindM (modifyM (setMachineSpec (\<lambda>sp. sp\<lparr>hms_ProviderID := Some providerID\<rparr>))) (\<lambda>_.
        bindM (modifyM (setMachineStatus (\<lambda>st. st\<lparr>hmt_Ready := True\<rparr>))) (\<lambda>_.
        ret None)))))"

definition server_provider_id :: "hcloud_Server \<Rightarrow> string" where
  "server_provider_id sv = ''hcloud://'' @ itoa (sv_ID sv)"

definition with_instance ::
    "'w KubeClient \<Rightarrow> 'w HcloudClient \<Rightarrow> hcloud_Server \<Rightarrow> (('w, 'x) MachineScope_scheme, call, Result option) M" where
  "with_instance k c instance0 =
     bindM (setStatusFromAPI instance0) (\<lambda>instance.
     if sv_Status instance \<noteq> ServerStatusRunning then ret (Some (requeue_after (2 * Second)))
     else
       let providerID = server_provider_id instance in
       bindM (getsM IsControlPlane) (\<lambda>isControlPlane.
       if \<not> isControlPlane then
         bindM (modifyM (setMachineSpec (\<lambda>sp. sp\<lparr>hms_ProviderID := Some providerID\<rparr>))) (\<lambda>_.
         bindM (modifyM (setMachineStatus (\<lambda>st. st\<lparr>hmt_Ready := True\<rparr>))) (\<lambda>_.
         ret None))
       else
         bindM (wrapM ''failed to add server to load balancer'' (reconcileLoadBalancerAttachment c instance)) (\<lambda>_.
         bindM (getsM (\<lambda>s. hmt_Addresses (hm_Status (ms_HcloudMachine s)))) (\<lambda>addresses.
         address_loop k providerID addresses))))"

definition find_or_create ::
    "Codec \<Rightarrow> 'w KubeClient \<Rightarrow> 'w HcloudClient \<Rightarrow> string \<Rightarrow> int \<Rightarrow> (('w, 'x) MachineScope_scheme, call, hcloud_Server) M" where
  "find_or_create cd k c failureDomain imageID =
     bindM (wrapM ''failed to get server'' (findServer c)) (\<lambda>found.
     case found of
       Some server \<Rightarrow> ret server
     | None \<Rightarrow>
         bindM (wrapM ''failed to create server'' (createServer cd k c failureDomain imageID)) (\<lambda>created.
         bindM (derefM ''instance'' created) (\<lambda>server.
         bindM (Eventf EventTypeNormal ''SuccessfulCreate'') (\<lambda>_.
         ret server))))"

definition image_parameters :: "string \<Rightarrow> ('w, 'x) MachineScope_scheme \<Rightarrow> PackerParameters" where
  "image_parameters version s = \<lparr>KubernetesVersion = Trim version CHR ''v'',
     Image = hms_ImageName (hm_Spec (ms_HcloudMachine s))\<rparr>"

definition server_Reconcile ::
    "Codec \<Rightarrow> 'w OsClient \<Rightarrow> 'w KubeClient \<Rightarrow> 'w HcloudClient \<Rightarrow> (('w, 'x) MachineScope_scheme, call, Result option) M" where
  "server_Reconcile cd o' k c =
     bindM (getsM GetFailureDomain) (\<lambda>fd.
     bindM (liftM fd) (\<lambda>failureDomain.
     bindM (modifyM (setMachineStatus (\<lambda>st. st\<lparr>hmt_Location := failureDomain\<rparr>))) (\<lambda>_.
     bindM (getsM id) (\<lambda>s.
     bindM (derefM ''Machine.Spec.Version'' (m_Version (ms_Machine s))) (\<lambda>version.
     bindM (tryM (EnsureImage c o' (image_parameters version s))) (\<lambda>ensured.
     case ensured of
       Inl err \<Rightarrow>
         bindM (Eventf EventTypeWarning ''FailedEnsuringHcloudImage'') (\<lambda>_.
         failM err)
     | Inr None \<Rightarrow> ret (Some (requeue_after (2 * Second)))
     | Inr (Some imageID) \<Rightarrow>
         if \<not> IsBootstrapDataReady s then ret (Some (requeue_after (15 * Second)))
         else
           bindM (find_or_create cd k c failureDomain imageID) (\<lambda>instance.
           with_instance k c instance)))))))"

definition server_Delete ::
    "'w HcloudClient \<Rightarrow> (('w, 'x) MachineScope_scheme, call, Result option) M" where
  "server_Delete c =
     bindM (wrapM ''failed to refresh server status'' (findServer c)) (\<lambda>found.
     case found of
       None \<Rightarrow>
         bindM (Eventf EventTypeWarning ''NoInstanceFound'') (\<lambda>_.
         ret None)
     | Some server \<Rightarrow>
         bindM (mapErrM (\<lambda>err. ErrNew (''Error while deleting attached server of loadbalancer: '' @ Error err))
                  (deleteServerOfLoadBalancer c server)) (\<lambda>_.
         case sv_Status server of
           ServerStatusRunning \<Rightarrow>
             bindM (wrapM ''failed to shutdown server'' (ShutdownServer c server)) (\<lambda>_.
             ret (Some (requeue_after (5 * Second))))
         | ServerStatusOff \<Rightarrow>
             bindM (tryM (DeleteServer c server)) (\<lambda>deleted.
             case deleted of
               Inl err \<Rightarrow>
                 bindM (Eventf EventTypeWarning ''FailedDeleteHcloudServer'') (\<lambda>_.
                 failM (ErrWrap ''failed to delete server'' err))
             | Inr _ \<Rightarrow>
                 bindM (Eventf ''HcloudServerDeleted'' ''Hcloud server %s deleted'') (\<lambda>_.
                 ret None))
         | ServerStatusOther _ \<Rightarrow> ret (Some (requeue_after (5 * Second)))))"
section \<open>Calls that change a server\<close>

definition changes_server :: "call \<Rightarrow> bool" where
  "changes_server c = (case c of CreateServerC _ \<Rightarrow> True | DeleteServerC _ \<Rightarrow> True | ShutdownServerC _ \<Rightarrow> True | _ \<Rightarrow> False)"

lemma changes_server_simps [simp]:
  "changes_server (CreateServerC opts)" "changes_server (DeleteServerC sv)" "changes_server (ShutdownServerC sv)"
  "\<not> changes_server (KubeGetC x y z)" "\<not> changes_server (EventC a b)" "\<not> changes_server ListSSHKeysC"
  "\<not> changes_server (ListImagesC l)" "\<not> changes_server (StartC p q e h)" "\<not> changes_server (ListServersC l)"
  "\<not> changes_server (ListLoadBalancersC l)" "\<not> changes_server (AddTargetServerToLoadBalancerC sv priv lb)"
  "\<not> changes_server (DeleteTargetServerOfLoadBalancerC lb sv)" "\<not> changes_server (KubeconfigC x y)"
  "\<not> changes_server (ReadyzC cfg)"
  by (simp_all add: changes_server_def)

text \<open>What a program does that changes no server and nothing of the state but the outside world.\<close>

abbreviation reads :: "('w, 'x) sys_scheme \<Rightarrow> call list \<Rightarrow> ('w, 'x) sys_scheme \<Rightarrow> bool" where
  "reads s t s' \<equiv> filter changes_server t = [] \<and> (\<exists>w. s' = s\<lparr>world := w\<rparr>)"

lemma same_world [simp]: "\<exists>w. s = s\<lparr>world := w\<rparr>" for s :: "('w, 'x) sys_scheme"
  by (rule exI[of _ "world s"]) simp

lemma other_world [simp]: "\<exists>w. s\<lparr>world := v\<rparr> = s\<lparr>world := w\<rparr>" for s :: "('w, 'x) sys_scheme"
  by blast

lemma gather_volumes_wp:
  "wp (gather_volumes k ns vs) s (\<lambda>r t s'. reads s t s' \<and> (\<forall>vols. r = Ok (Some vols) \<longrightarrow> length vols = length vs))"
proof (induction vs arbitrary: s)
  case (Cons v vs)
  show ?case
    by (auto simp: wp_simps client_defs wp_extcall ext_post_iff bind_post_def
        intro!: wp_mono[OF Cons.IH] split: option.splits res.splits)
qed (simp add: wp_simps)

lemma userdata_calls [simp]: "fst (snd (SetKubeadmConfig cd k u)) = []"
  by (auto simp: SetKubeadmConfig_def SetOrUpdateFile_def bindM_def liftM_def getsM_def failM_def ret_def
      modifyM_def panicM_def Let_def split: sum.splits option.splits list.splits)

lemma wp_on_userdata:
  "wp (on_userdata (SetKubeadmConfig cd k) u) s Q \<longleftrightarrow>
     (case SetKubeadmConfig cd k u :: unit res \<times> call list \<times> YamlNode of
        (Ok _, t, u') \<Rightarrow> Q (Ok u') [] s | (Err e, t, u') \<Rightarrow> Q (Err e) [] s | (Panic p, t, u') \<Rightarrow> Q (Panic p) [] s)"
proof -
  obtain r u' and t :: "call list" where eq: "SetKubeadmConfig cd k u = (r, t, u')" by (metis prod_cases3)
  moreover have "fst (snd (SetKubeadmConfig cd k u :: unit res \<times> call list \<times> YamlNode)) = []"
    by (rule userdata_calls)
  ultimately show ?thesis by (simp add: wp_def on_userdata_def split: res.splits)
qed

lemma configure_kubeadm_wp: "wp (configure_kubeadm kc) s (\<lambda>r t s'. reads s t s')"
  by (auto simp: configure_kubeadm_def wp_simps split: option.splits)

lemma prepare_userdata_wp: "wp (prepare_userdata cd k) s (\<lambda>r t s'. reads s t s')"
  by (auto simp: prepare_userdata_def GetRawBootstrapData_def wp_simps client_defs wp_extcall ext_post_iff
      bind_post_def wp_on_userdata intro!: wp_mono[OF configure_kubeadm_wp]
      split: option.splits res.splits sum.splits prod.splits)
section \<open>Creation\<close>

definition ssh_specs :: "('w, 'x) MachineScope_scheme \<Rightarrow> HcloudSSHKeySpec list" where
  "ssh_specs s = (if hms_SSHKeys (hm_Spec (ms_HcloudMachine s)) = [] then hcs_SSHKeys (hc_Spec (cs_HcloudCluster s))
     else hms_SSHKeys (hm_Spec (ms_HcloudMachine s)))"

text \<open>The options of a creation, as far as the machine and its cluster fix them.\<close>

definition server_opts_ok :: "('w, 'x) MachineScope_scheme \<Rightarrow> string \<Rightarrow> int \<Rightarrow> ServerCreateOpts \<Rightarrow> bool" where
  "server_opts_ok s fd i opts \<longleftrightarrow>
     sco_Name opts = MachineScope_Name s \<and> sco_Labels opts = createLabels s \<and>
     sco_Image opts = i \<and> sco_Location opts = fd \<and>
     sco_ServerType opts = hms_Type (hm_Spec (ms_HcloudMachine s)) \<and>
     \<not> sco_Automount opts \<and> sco_StartAfterCreate opts \<and>
     length (sco_Volumes opts) = length (hms_Volumes (hm_Spec (ms_HcloudMachine s))) \<and>
     (\<forall>key \<in> set (sco_SSHKeys opts). \<exists>spec \<in> set (ssh_specs s). key_matches key spec) \<and>
     sco_Networks opts = (case status_network s of None \<Rightarrow> [] | Some net \<Rightarrow> [hnt_ID net])"

definition creates ::
    "'w HcloudClient \<Rightarrow> ('w, 'x) MachineScope_scheme \<Rightarrow> string \<Rightarrow> int \<Rightarrow> hcloud_Server option res \<Rightarrow> call list \<Rightarrow> bool" where
  "creates c s fd i r t \<longleftrightarrow>
     filter changes_server t = [] \<and> (\<forall>sv. r \<noteq> Ok (Some sv)) \<or>
     (\<exists>opts. filter changes_server t = [CreateServerC opts] \<and> server_opts_ok s fd i opts \<and>
        (\<forall>x. r = Ok x \<longrightarrow> (\<exists>sv w w'. x = Some sv \<and> h_CreateServer c opts w = (Inr sv, w'))))"

definition with_image :: "int \<Rightarrow> ('w, 'x) MachineScope_scheme \<Rightarrow> ('w, 'x) MachineScope_scheme" where
  "with_image i s = setMachineStatus (\<lambda>st. st\<lparr>hmt_ImageID := Some i\<rparr>) s"

lemma with_image_simps [simp]:
  "MachineScope_Name (with_image i s) = MachineScope_Name s"
  "createLabels (with_image i s) = createLabels s"
  "status_network (with_image i s) = status_network s"
  "hm_Spec (ms_HcloudMachine (with_image i s)) = hm_Spec (ms_HcloudMachine s)"
  "cs_HcloudCluster (with_image i s) = cs_HcloudCluster s"
  by (simp_all add: with_image_def setMachineStatus_def MachineScope_Name_def createLabels_def IsControlPlane_def)

lemma with_image_world [simp]: "(with_image i (s\<lparr>world := v\<rparr>))\<lparr>world := w\<rparr> = (with_image i s)\<lparr>world := w\<rparr>"
  by (simp add: with_image_def setMachineStatus_def)

lemma image_or_same [simp]:
  "\<exists>v. (with_image i s)\<lparr>world := w\<rparr> = s\<lparr>world := v\<rparr> \<or> (with_image i s)\<lparr>world := w\<rparr> = (with_image i s)\<lparr>world := v\<rparr>"
  by blast

lemma server_opts_ok_world [simp]: "server_opts_ok (s\<lparr>world := w\<rparr>) fd i opts = server_opts_ok s fd i opts"
  by (simp add: server_opts_ok_def ssh_specs_def createLabels_def MachineScope_Name_def IsControlPlane_def)

lemma server_opts_ok_image [simp]: "server_opts_ok (with_image j s) fd i opts = server_opts_ok s fd i opts"
  by (simp add: server_opts_ok_def ssh_specs_def)

lemma requestServer_wp:
  assumes "length volumes = length (hms_Volumes (hm_Spec (ms_HcloudMachine s)))"
  shows "wp (requestServer c fd i volumes userData) s
     (\<lambda>r t s'. (\<exists>w. s' = s\<lparr>world := w\<rparr>) \<and> creates c s fd i r t)"
  using assms
  by (auto simp: requestServer_def wp_simps client_defs wp_extcall ext_post_iff Let_def creates_def
      server_opts_ok_def server_opts_def select_keys_def ssh_specs_def)

lemma creates_world [simp]: "creates c (s\<lparr>world := w\<rparr>) fd i r t = creates c s fd i r t"
  by (simp add: creates_def)

lemma creates_image [simp]: "creates c (with_image j s) fd i r t = creates c s fd i r t"
  by (simp add: creates_def)

lemma creates_none: "filter changes_server t = [] \<Longrightarrow> \<forall>sv. r \<noteq> Ok (Some sv) \<Longrightarrow> creates c s fd i r t"
  by (simp add: creates_def)

lemma creates_prepend: "creates c s fd i r t \<Longrightarrow> filter changes_server t0 = [] \<Longrightarrow> creates c s fd i r (t0 @ t)"
  by (simp add: creates_def)

lemma createServer_wp:
  "wp (createServer cd k c fd i) s (\<lambda>r t s'. (\<exists>w. s' = (with_image i s)\<lparr>world := w\<rparr>) \<and> creates c s fd i r t)"
  unfolding createServer_def wp_bindM wp_modifyM bind_post_simps wp_getsM with_image_def[symmetric] append_Nil
  by (rule wp_mono[OF gather_volumes_wp])
    (auto simp: bind_post_def wp_simps creates_none creates_prepend intro!: wp_mono[OF prepare_userdata_wp]
      wp_mono[OF requestServer_wp] split: option.splits res.splits)
section \<open>Finding or creating\<close>

definition server_selector :: "('w, 'x) MachineScope_scheme \<Rightarrow> string" where
  "server_selector s = LabelsToLabelSelector (createLabels s)"

definition found_server :: "hcloud_Server list \<Rightarrow> string \<Rightarrow> hcloud_Server option res" where
  "found_server svs name = (case svs of [] \<Rightarrow> Ok None | [sv] \<Rightarrow> Ok (Some sv)
     | _ \<Rightarrow> Err (ErrNew (''Found '' @ itoa (int (length svs)) @ '' servers with name '' @ name)))"

lemma wp_findServer:
  "wp (findServer c) s Q = ext_post (ListServersC (server_selector s)) s
     (\<lambda>r t s'. case r of
        Ok svs \<Rightarrow> Q (found_server svs (MachineScope_Name s))
           (t @ (if length svs > 1 then [EventC EventTypeWarning ''MultipleInstances''] else [])) s'
      | Err e \<Rightarrow> Q (Err e) t s' | Panic p \<Rightarrow> Q (Panic p) t s')
     (h_ListServers c (server_selector s) (world s))"
  by (auto simp: findServer_def wp_simps client_defs wp_extcall ext_post_def server_selector_def
      found_server_def MachineScope_Name_def split: prod.splits sum.splits list.splits)

lemma server_listing_cases:
  obtains (error) a w where "h_ListServers c l v = (a, w)" "\<And>svs. a = Inr svs \<Longrightarrow> length svs > 1"
  | (one) sv w where "h_ListServers c l v = (Inr [sv], w)"
  | (none) w where "h_ListServers c l v = (Inr [], w)"
proof (cases "h_ListServers c l v")
  case (Pair a w)
  show ?thesis
  proof (cases a)
    case (Inl e)
    with Pair error show ?thesis by simp
  next
    case (Inr svs)
    consider "svs = []" | sv where "svs = [sv]" | "length svs > 1"
      by (cases svs rule: list.exhaust; cases "tl svs") auto
    then show ?thesis using Pair Inr error one none by cases auto
  qed
qed

lemma findServer_error_wp:
  assumes "h_ListServers c (server_selector s) (world s) = (a, w)" and "\<And>svs. a = Inr svs \<Longrightarrow> length svs > 1"
  shows "wp (findServer c) s (\<lambda>r t s'. (\<exists>e. r = Err e) \<and> filter changes_server t = [] \<and> s' = s\<lparr>world := w\<rparr>)"
  using assms
  by (cases a) (auto simp: wp_findServer found_server_def split: list.splits)

definition found_or_created ::
    "'w HcloudClient \<Rightarrow> ('w, 'x) MachineScope_scheme \<Rightarrow> string \<Rightarrow> int \<Rightarrow> hcloud_Server res \<Rightarrow> call list \<Rightarrow> bool" where
  "found_or_created c s fd i r t \<longleftrightarrow>
     filter changes_server t = [] \<and> (\<forall>sv. r = Ok sv \<longrightarrow> (\<exists>w. h_ListServers c (server_selector s) (world s) = (Inr [sv], w))) \<or>
     (\<exists>opts w. filter changes_server t = [CreateServerC opts] \<and> server_opts_ok s fd i opts \<and>
        h_ListServers c (server_selector s) (world s) = (Inr [], w) \<and>
        (\<forall>sv. r = Ok sv \<longrightarrow> (\<exists>w w'. h_CreateServer c opts w = (Inr sv, w'))))"

lemma find_or_create_wp:
  "wp (find_or_create cd k c fd i) s (\<lambda>r t s'. (\<exists>w. s' = s\<lparr>world := w\<rparr> \<or> s' = (with_image i s)\<lparr>world := w\<rparr>) \<and>
     found_or_created c s fd i r t)"
proof (cases c "server_selector s" "world s" rule: server_listing_cases)
  case (error a w)
  then show ?thesis
    by (auto simp: find_or_create_def wp_simps bind_post_def found_or_created_def map_err_def
        intro!: wp_mono[OF findServer_error_wp[OF error]] split: res.splits)
next
  case (one sv w)
  then show ?thesis
    by (auto simp: find_or_create_def wp_simps wp_findServer found_server_def found_or_created_def)
next
  case (none w)
  show ?thesis
    unfolding find_or_create_def wp_bindM wp_mapErrM wp_findServer none ext_post_simps res.case
    by (auto simp: found_server_def wp_simps bind_post_def creates_def found_or_created_def none map_err_def
        intro!: wp_mono[OF createServer_wp] split: res.splits option.splits; blast)
qed
section \<open>Status, attachment, readiness\<close>

definition ipv6_address :: "IP \<Rightarrow> IP" where
  "ipv6_address ip = (if IsGlobalUnicast ip then ip[15 := ip ! 15 + 1] else ip)"

definition api_addresses :: "hcloud_Server \<Rightarrow> NodeAddress list" where
  "api_addresses sv = [address NodeExternalIP (IP_String (sv_IPv4 sv))] @
     (if IsGlobalUnicast (sv_IPv6 sv) then [address NodeExternalIP (IP_String (ipv6_address (sv_IPv6 sv)))] else []) @
     map (\<lambda>net. address NodeInternalIP (IP_String net)) (sv_PrivateNet sv)"

lemma utoa_not_Nil [simp]: "utoa n \<noteq> []"
  by (subst utoa.simps) simp

lemma Join_not_Nil: "length xs \<ge> 2 \<Longrightarrow> sep \<noteq> [] \<Longrightarrow> Join xs sep \<noteq> []"
  by (induction xs sep rule: Join.induct) auto

lemma length_groups: "length (groups ip) = length ip div 2"
  by (induction ip rule: groups.induct) auto

lemma To4_length: "To4 ip \<noteq> [] \<Longrightarrow> length (To4 ip) = 4"
  by (auto simp: To4_def split: if_splits)

text \<open>The text of an address is never empty; that of a missing one is \<^verbatim>\<open><nil>\<close>.\<close>

lemma IP_String_not_Nil [simp]: "IP_String ip \<noteq> []"
proof -
  have 1: "Join (map (\<lambda>b. utoa (uint b)) (To4 ip)) ''.'' \<noteq> []" if "To4 ip \<noteq> []"
    using To4_length[OF that] by (intro Join_not_Nil) auto
  have 2: "Join (map htoa (groups ip)) '':'' \<noteq> []" if "length ip = 16"
    using that by (intro Join_not_Nil) (auto simp: length_groups)
  show ?thesis using 1 2 by (auto simp: IP_String_def Let_def split: prod.splits)
qed

lemma append_address_eq:
  "append_address a s = (Ok (), [], setMachineStatus (\<lambda>st. st\<lparr>hmt_Addresses := hmt_Addresses st @ [a]\<rparr>) s)"
  by (simp add: append_address_def modifyM_def)

lemma append_addresses:
  "forM (\<lambda>net. append_address (f net)) nets s =
     (Ok (), [], setMachineStatus (\<lambda>st. st\<lparr>hmt_Addresses := hmt_Addresses st @ map f nets\<rparr>) s)"
  by (induction nets arbitrary: s)
    (simp_all add: bindM_def append_address_eq ret_def setMachineStatus_def)

definition with_api_status :: "hcloud_Server \<Rightarrow> ('w, 'x) MachineScope_scheme \<Rightarrow> ('w, 'x) MachineScope_scheme" where
  "with_api_status sv = setMachineStatus (\<lambda>st. st\<lparr>hmt_ServerState := Some (sv_Status sv), hmt_Addresses := api_addresses sv\<rparr>)"

lemma setStatusFromAPI_ok:
  assumes "IsGlobalUnicast (sv_IPv6 sv) \<Longrightarrow> length (sv_IPv6 sv) = 16"
  shows "setStatusFromAPI sv s = (Ok (sv\<lparr>sv_IPv6 := ipv6_address (sv_IPv6 sv)\<rparr>), [], with_api_status sv s)"
  using assms
  by (auto simp: setStatusFromAPI_def bindM_def modifyM_def ret_def whenM_def append_addresses append_address_eq
      with_api_status_def setMachineStatus_def api_addresses_def ipv6_address_def Let_def)

lemma setStatusFromAPI_panic:
  assumes "IsGlobalUnicast (sv_IPv6 sv)" and "length (sv_IPv6 sv) \<noteq> 16"
  shows "\<exists>s'. setStatusFromAPI sv s = (Panic ''index out of range: ip[15]'', [], s') \<and>
    hms_ProviderID (hm_Spec (ms_HcloudMachine s')) = hms_ProviderID (hm_Spec (ms_HcloudMachine s)) \<and>
    hmt_Ready (hm_Status (ms_HcloudMachine s')) = hmt_Ready (hm_Status (ms_HcloudMachine s))"
proof -
  have "length (sv_IPv6 sv) = 4" using assms by (auto simp: IsGlobalUnicast_def Let_def)
  with assms show ?thesis
    by (auto simp: setStatusFromAPI_def bindM_def modifyM_def panicM_def whenM_def append_address_eq
        setMachineStatus_def Let_def)
qed

lemma has_target_wp:
  "wp (has_target lb sv) s Q = (if None \<in> set (lb_Targets lb) then Q (Panic ''target.Server'') [] s
     else Q (Ok (Some (sv_ID sv) \<in> set (lb_Targets lb))) [] s)"
proof -
  have "(sv_ID sv \<in> the ` set (lb_Targets lb)) = (Some (sv_ID sv) \<in> set (lb_Targets lb))" if "None \<notin> set (lb_Targets lb)"
  proof
    assume "sv_ID sv \<in> the ` set (lb_Targets lb)"
    then obtain x where "x \<in> set (lb_Targets lb)" "sv_ID sv = the x" by auto
    with that show "Some (sv_ID sv) \<in> set (lb_Targets lb)" by (cases x) auto
  qed force
  then show ?thesis by (simp add: has_target_def wp_simps wp_def mapMM_derefM bindM_def ret_def)
qed

lemma attachment_wp:
  "wp (reconcileLoadBalancerAttachment c sv) s (\<lambda>r t s'. reads s t s' \<and>
     (\<forall>sv' priv lb. AddTargetServerToLoadBalancerC sv' priv lb \<in> set t \<longrightarrow>
        Some (sv_ID sv) \<notin> set (lb_Targets lb) \<and> sv' = sv \<and> priv = (sv_PrivateNet sv \<noteq> []) \<and>
        (priv \<longrightarrow> lb_PrivateNet lb \<noteq> [])))"
  by (auto simp: reconcileLoadBalancerAttachment_def wp_simps wp_FindLoadBalancer has_target_wp client_defs
      wp_extcall ext_post_iff Let_def bind_post_def split: res.splits option.splits)

definition ready_with :: "string \<Rightarrow> ('w, 'x) MachineScope_scheme \<Rightarrow> ('w, 'x) MachineScope_scheme" where
  "ready_with pid s = setMachineStatus (\<lambda>st. st\<lparr>hmt_Ready := True\<rparr>) (setMachineSpec (\<lambda>sp. sp\<lparr>hms_ProviderID := Some pid\<rparr>) s)"

lemma ready_with_world [simp]: "ready_with pid (s\<lparr>world := w\<rparr>) = (ready_with pid s)\<lparr>world := w\<rparr>"
  by (simp add: ready_with_def setMachineStatus_def setMachineSpec_def)

lemma derive_urls_wp:
  "wp (mapMM (\<lambda>(key, _).
       bindM (derefM ''ControlPlaneEndpoint'' ep) (\<lambda>e.
       case svcs of
         [] \<Rightarrow> panicM ''index out of range: Services[0]''
       | svc # _ \<Rightarrow> ret (key, f e svc))) raw) s (\<lambda>r t s'. t = [] \<and> s' = s)"
proof (induction raw)
  case (Cons x raw)
  then show ?case
    by (cases x; cases ep; cases svcs) (auto simp: wp_simps bind_post_def elim!: wp_mono split: res.splits)
qed (simp add: wp_simps)

lemma client_config_wp: "wp (ClientConfigWithAPIEndpoint k ep) s (\<lambda>r t s'. reads s t s')"
  by (auto simp: ClientConfigWithAPIEndpoint_def ClusterScope_ClientConfig_def wp_simps client_defs wp_extcall
      ext_post_iff bind_post_def intro!: wp_mono[OF derive_urls_wp] split: res.splits)

text \<open>The loop ends in readiness, or it changes nothing; it fails for want of an address only without external ones.\<close>

lemma address_loop_wp:
  "wp (address_loop k pid as) s (\<lambda>r t s'. filter changes_server t = [] \<and>
     (r = Ok None \<and> (\<exists>w. s' = (ready_with pid s)\<lparr>world := w\<rparr>) \<or> \<not> is_ok r \<and> (\<exists>w. s' = s\<lparr>world := w\<rparr>)))"
proof (induction "as")
  case (Cons a as)
  show ?case
  proof (cases "na_Type a \<noteq> NodeExternalIP \<and> na_Type a \<noteq> NodeExternalDNS")
    case True
    with Cons show ?thesis by simp
  next
    case False
    then show ?thesis
      by (simp only: address_loop.simps if_False wp_bindM)
        (rule wp_mono[OF client_config_wp], auto simp: bind_post_def wp_simps IsControlPlaneReady_def client_defs
          wp_extcall ext_post_iff ready_with_def[symmetric] split: res.splits)
  qed
qed (simp add: wp_simps)
section \<open>The reconcile\<close>

abbreviation machine_ready :: "('w, 'x) MachineScope_scheme \<Rightarrow> bool" where
  "machine_ready s \<equiv> hmt_Ready (hm_Status (ms_HcloudMachine s))"

abbreviation provider_id :: "('w, 'x) MachineScope_scheme \<Rightarrow> string option" where
  "provider_id s \<equiv> hms_ProviderID (hm_Spec (ms_HcloudMachine s))"

lemma status_updates [simp]:
  "machine_ready (with_api_status sv s) = machine_ready s" "provider_id (with_api_status sv s) = provider_id s"
  "machine_ready (with_image i s) = machine_ready s" "provider_id (with_image i s) = provider_id s"
  "machine_ready (ready_with pid s)" "provider_id (ready_with pid s) = Some pid"
  "hmt_ServerState (hm_Status (ms_HcloudMachine (ready_with pid (with_api_status sv s)))) = Some (sv_Status sv)"
  "hmt_Addresses (hm_Status (ms_HcloudMachine (ready_with pid (with_api_status sv s)))) = api_addresses sv"
  by (simp_all add: with_api_status_def with_image_def ready_with_def setMachineStatus_def setMachineSpec_def)

lemma with_instance_wp:
  "wp (with_instance k c sv) s (\<lambda>r t s'. filter changes_server t = [] \<and>
     (if r = Ok None
      then sv_Status sv = ServerStatusRunning \<and>
        (\<exists>w. s' = (ready_with (server_provider_id sv) (with_api_status sv s))\<lparr>world := w\<rparr>)
      else machine_ready s' = machine_ready s \<and> provider_id s' = provider_id s \<and>
        (\<forall>res. r = Ok (Some res) \<longrightarrow> sv_Status sv \<noteq> ServerStatusRunning \<and> res = requeue_after (2 * Second))))"
proof (cases "IsGlobalUnicast (sv_IPv6 sv) \<and> length (sv_IPv6 sv) \<noteq> 16")
  case True
  with setStatusFromAPI_panic[of sv s] obtain s' where
    st: "setStatusFromAPI sv s = (Panic ''index out of range: ip[15]'', [], s')"
      "machine_ready s' = machine_ready s" "provider_id s' = provider_id s" by blast
  then show ?thesis by (simp add: with_instance_def wp_def bindM_def)
next
  case False
  let ?sv = "sv\<lparr>sv_IPv6 := ipv6_address (sv_IPv6 sv)\<rparr>"
  from False have st: "setStatusFromAPI sv s = (Ok ?sv, [], with_api_status sv s)"
    by (intro setStatusFromAPI_ok) simp
  have pid: "server_provider_id ?sv = server_provider_id sv" by (simp add: server_provider_id_def)
  show ?thesis
  proof (cases "sv_Status sv = ServerStatusRunning \<and> IsControlPlane (with_api_status sv s)")
    case True
    then show ?thesis
      unfolding with_instance_def wp_bind_ok[where m = "setStatusFromAPI sv" and s = s, OF st]
      by (simp add: wp_simps Let_def pid)
        (rule wp_mono[OF attachment_wp], auto simp: bind_post_def wp_simps map_err_def
          intro!: wp_mono[OF address_loop_wp] split: res.splits)
  next
    case False
    then show ?thesis
      unfolding with_instance_def wp_bind_ok[where m = "setStatusFromAPI sv" and s = s, OF st]
      by (auto simp: wp_simps Let_def pid ready_with_def[symmetric])
  qed
qed
lemma EnsureImage_reads:
  "wp (EnsureImage c o' p) s (\<lambda>r t s'. filter changes_server t = [] \<and> (\<exists>w pk. s' = s\<lparr>world := w, packer := pk\<rparr>))"
proof (cases s p rule: EnsureImage_cases)
  case (running b)
  then show ?thesis by (simp add: wp_def EnsureImage_running) (metis (no_types) sys.surjective sys.update_convs)
next
  case (failed b e)
  then show ?thesis by (simp add: wp_def EnsureImage_failed) (metis (no_types) sys.surjective sys.update_convs)
next
  case query
  let ?s0 = "s\<lparr>packer := (packer s)\<lparr>builds := (builds (packer s))(Hash p := None)\<rparr>\<rparr>"
  obtain r t s' where eq: "EnsureImage c o' p s = (r, t, s')" by (metis prod_cases3)
  then have "query_or_build c o' p ?s0 = (r, t, s')" by (simp add: EnsureImage_query[OF query])
  from wpD[OF query_or_build_wp this] obtain w where "s' = ?s0\<lparr>world := w, packer := packer s'\<rparr>"
    and "filter changes_server t = []" by auto
  then have "s' = s\<lparr>world := w, packer := packer s'\<rparr>" by simp
  with \<open>filter changes_server t = []\<close> show ?thesis unfolding wp_def eq by auto
qed

lemma wp_run: "m s = (r, t, s1) \<Longrightarrow> wp m s Q = Q r t s1"
  by (simp add: wp_def)

definition located :: "string \<Rightarrow> ('w, 'x) MachineScope_scheme \<Rightarrow> ('w, 'x) MachineScope_scheme" where
  "located fd s = setMachineStatus (\<lambda>st. st\<lparr>hmt_Location := fd\<rparr>) s"

lemma located_simps [simp]:
  "machine_ready (located fd s) = machine_ready s" "provider_id (located fd s) = provider_id s"
  "server_selector ((located fd s)\<lparr>world := w, packer := pk\<rparr>) = server_selector s"
  "server_opts_ok ((located fd s)\<lparr>world := w, packer := pk\<rparr>) fd' i opts = server_opts_ok s fd' i opts"
  "image_parameters v (located fd s) = image_parameters v s"
  "ms_Machine (located fd s) = ms_Machine s" "IsBootstrapDataReady (located fd s) = IsBootstrapDataReady s"
  by (simp_all add: located_def setMachineStatus_def server_selector_def createLabels_def MachineScope_Name_def
      IsControlPlane_def server_opts_ok_def ssh_specs_def image_parameters_def IsBootstrapDataReady_def)

text \<open>
  The server of a reconcile: the one listed, in the world the image was ensured in, by the labels
  of the machine, or, when that listing was empty, the one that the only creation returned.
\<close>

definition its_server ::
    "'w HcloudClient \<Rightarrow> ('w, 'x) MachineScope_scheme \<Rightarrow> 'w \<Rightarrow> call list \<Rightarrow> hcloud_Server \<Rightarrow> bool" where
  "its_server c s w t sv \<longleftrightarrow>
     fst (h_ListServers c (server_selector s) w) = Inr [sv] \<and> filter changes_server t = [] \<or>
     fst (h_ListServers c (server_selector s) w) = Inr [] \<and>
       (\<exists>opts w1 w2. filter changes_server t = [CreateServerC opts] \<and> h_CreateServer c opts w1 = (Inr sv, w2))"

definition ready_as :: "hcloud_Server \<Rightarrow> ('w, 'x) MachineScope_scheme \<Rightarrow> bool" where
  "ready_as sv s' \<longleftrightarrow> machine_ready s' \<and> sv_Status sv = ServerStatusRunning \<and>
     provider_id s' = Some (server_provider_id sv) \<and>
     hmt_ServerState (hm_Status (ms_HcloudMachine s')) = Some (sv_Status sv) \<and>
     hmt_Addresses (hm_Status (ms_HcloudMachine s')) = api_addresses sv"

definition unready_kept :: "('w, 'x) MachineScope_scheme \<Rightarrow> ('w, 'x) MachineScope_scheme \<Rightarrow> bool" where
  "unready_kept s s' \<longleftrightarrow> machine_ready s' = machine_ready s \<and> provider_id s' = provider_id s"

definition ready_post ::
    "'w HcloudClient \<Rightarrow> 'w OsClient \<Rightarrow> ('w, 'x) MachineScope_scheme \<Rightarrow> Result option res \<Rightarrow> call list
       \<Rightarrow> ('w, 'x) MachineScope_scheme \<Rightarrow> bool" where
  "ready_post c o' s r t s' \<longleftrightarrow>
     (if r = Ok None
      then \<exists>fd version i t1 s1 sv. GetFailureDomain s = Inr fd \<and> m_Version (ms_Machine s) = Some version \<and>
        EnsureImage c o' (image_parameters version s) (located fd s) = (Ok (Some i), t1, s1) \<and>
        its_server c s (world s1) t sv \<and> ready_as sv s'
      else unready_kept s s')"

definition create_post ::
    "'w HcloudClient \<Rightarrow> 'w OsClient \<Rightarrow> ('w, 'x) MachineScope_scheme \<Rightarrow> call list \<Rightarrow> bool" where
  "create_post c o' s t \<longleftrightarrow> filter changes_server t = [] \<or>
     (\<exists>fd version i t1 s1 opts w.
        GetFailureDomain s = Inr fd \<and> m_Version (ms_Machine s) = Some version \<and>
        EnsureImage c o' (image_parameters version s) (located fd s) = (Ok (Some i), t1, s1) \<and>
        IsBootstrapDataReady s \<and> h_ListServers c (server_selector s) (world s1) = (Inr [], w) \<and>
        server_opts_ok s fd i opts \<and> filter changes_server t = [CreateServerC opts])"

definition after_image_post ::
    "'w HcloudClient \<Rightarrow> ('w, 'x) MachineScope_scheme \<Rightarrow> 'w \<Rightarrow> Result option res \<Rightarrow> call list
       \<Rightarrow> ('w, 'x) MachineScope_scheme \<Rightarrow> bool" where
  "after_image_post c s w r t s' \<longleftrightarrow>
     (if r = Ok None then \<exists>sv. its_server c s w t sv \<and> ready_as sv s' else unready_kept s s')"

lemma after_image_wp:
  assumes "s1 = (located fd s)\<lparr>world := w, packer := pk\<rparr>"
  shows "wp (bindM (find_or_create cd k c fd i) (with_instance k c)) s1 (\<lambda>r t s'. after_image_post c s (world s1) r t s' \<and>
     (filter changes_server t = [] \<or>
      (\<exists>opts w. h_ListServers c (server_selector s) (world s1) = (Inr [], w) \<and> server_opts_ok s fd i opts \<and>
         filter changes_server t = [CreateServerC opts])))"
  unfolding wp_bindM
proof (rule wp_mono[OF find_or_create_wp], elim conjE)
  fix r t s2
  assume s2: "\<exists>w. s2 = s1\<lparr>world := w\<rparr> \<or> s2 = (with_image i s1)\<lparr>world := w\<rparr>"
    and fc: "found_or_created c s1 fd i r t"
  have keep: "machine_ready s2 = machine_ready s" "provider_id s2 = provider_id s"
    using s2 assms by (auto simp: with_image_def located_def setMachineStatus_def)
  have sel: "filter changes_server t = [] \<or>
      (\<exists>opts w. h_ListServers c (server_selector s) (world s1) = (Inr [], w) \<and> server_opts_ok s fd i opts \<and>
         filter changes_server t = [CreateServerC opts])"
    using fc assms by (auto simp: found_or_created_def)
  show "bind_post (with_instance k c) (\<lambda>r t s'. after_image_post c s (world s1) r t s' \<and>
     (filter changes_server t = [] \<or>
      (\<exists>opts w. h_ListServers c (server_selector s) (world s1) = (Inr [], w) \<and> server_opts_ok s fd i opts \<and>
         filter changes_server t = [CreateServerC opts]))) r t s2"
  proof (cases r)
    case (Ok sv)
    have its: "its_server c s (world s1) (t @ t') sv" if "filter changes_server t' = []" for t'
      using fc assms that unfolding Ok by (auto simp: found_or_created_def its_server_def)
    have "wp (with_instance k c sv) s2 (\<lambda>r' t' s'. (if r' = Ok None then ready_as sv s' else unready_kept s s') \<and>
        filter changes_server t' = [])"
      by (rule wp_mono[OF with_instance_wp]) (auto simp: ready_as_def unready_kept_def keep split: if_splits)
    then show ?thesis
      unfolding Ok bind_post_simps
      by (rule wp_mono) (use sel its in \<open>auto simp: after_image_post_def intro!: exI[of _ sv]\<close>)
  qed (use keep sel in \<open>auto simp: after_image_post_def unready_kept_def\<close>)
qed

lemma ready_post_fail: "r \<noteq> Ok None \<Longrightarrow> unready_kept s s' \<Longrightarrow> ready_post c o' s r t s'"
  by (simp add: ready_post_def)

lemma ready_post_after:
  assumes "after_image_post c s (world s1) r t s'" and "GetFailureDomain s = Inr fd"
    and "m_Version (ms_Machine s) = Some version"
    and "EnsureImage c o' (image_parameters version s) (located fd s) = (Ok (Some i), t1, s1)"
    and "filter changes_server t1 = []"
  shows "ready_post c o' s r (t1 @ t) s'"
  using assms by (fastforce simp: after_image_post_def ready_post_def its_server_def)

lemma server_Reconcile_wp:
  "wp (server_Reconcile cd o' k c) s (\<lambda>r t s'. ready_post c o' s r t s' \<and> create_post c o' s t)"
proof (cases "GetFailureDomain s")
  case (Inl e)
  then show ?thesis by (simp add: server_Reconcile_def wp_simps ready_post_def unready_kept_def create_post_def)
next
  case (Inr fd)
  note fd = this
  show ?thesis
  proof (cases "m_Version (ms_Machine s)")
    case None
    with fd show ?thesis
      by (simp add: server_Reconcile_def wp_simps ready_post_def unready_kept_def create_post_def located_def[symmetric])
  next
    case (Some version)
    obtain re t1 s1 where en: "EnsureImage c o' (image_parameters version s) (located fd s) = (re, t1, s1)"
      by (metis prod_cases3)
    from wpD[OF EnsureImage_reads en] obtain w pk where
      t1: "filter changes_server t1 = []" and s1: "s1 = (located fd s)\<lparr>world := w, packer := pk\<rparr>" by blast
    have keep: "machine_ready s1 = machine_ready s" "provider_id s1 = provider_id s" by (simp_all add: s1)
    note run = wp_run[where m = "EnsureImage c o' (image_parameters version s)" and s = "located fd s", OF en]
    consider (fail) "\<not> is_ok re" | (building) "re = Ok None" | (early) i where "re = Ok (Some i)" "\<not> IsBootstrapDataReady s"
      | (go) i where "re = Ok (Some i)" "IsBootstrapDataReady s"
    proof (cases re)
      case (Ok x)
      then show ?thesis using that by (cases x) blast+
    qed (use that(1) in simp_all)
    then show ?thesis
    proof cases
      case fail
      then show ?thesis
        by (cases re) (simp_all add: server_Reconcile_def wp_simps fd Some located_def[symmetric] run t1 keep
            ready_post_def unready_kept_def create_post_def)
    next
      case building
      then show ?thesis
        by (simp add: server_Reconcile_def wp_simps fd Some located_def[symmetric] run t1 keep
            ready_post_def unready_kept_def create_post_def)
    next
      case early
      then show ?thesis
        by (simp add: server_Reconcile_def wp_simps fd Some located_def[symmetric] run t1 keep
            ready_post_def unready_kept_def create_post_def)
    next
      case go
      have "wp (server_Reconcile cd o' k c) s Q =
          wp (bindM (find_or_create cd k c fd i) (with_instance k c)) s1 (\<lambda>r t s'. Q r (t1 @ t) s')" for Q
        using go by (simp add: server_Reconcile_def wp_simps fd Some located_def[symmetric] run)
      then show ?thesis
        by (simp only:) (rule wp_mono[OF after_image_wp[OF s1]],
            use go en fd Some t1 in \<open>auto simp: create_post_def intro: ready_post_after\<close>)
    qed
  qed
qed
section \<open>The deletion\<close>

definition leave_lb :: "hcloud_LoadBalancer \<Rightarrow> hcloud_Server \<Rightarrow> call list" where
  "leave_lb lb sv = (if Some (sv_ID sv) \<in> set (lb_Targets lb)
     then [DeleteTargetServerOfLoadBalancerC lb sv, EventC EventTypeNormal ''DeletedTargetOfLoadBalancer''] else [])"

definition delete_post ::
    "'w HcloudClient \<Rightarrow> ('w, 'x) MachineScope_scheme \<Rightarrow> Result option res \<Rightarrow> call list \<Rightarrow> bool" where
  "delete_post c s r t \<longleftrightarrow>
     (\<forall>x \<in> set t. changes_server x \<longrightarrow>
        (\<exists>sv w lb w' post. h_ListServers c (server_selector s) (world s) = (Inr [sv], w) \<and>
           h_ListLoadBalancers c (lb_selector s) w = (Inr [lb], w') \<and>
           t = [ListServersC (server_selector s), ListLoadBalancersC (lb_selector s)] @ leave_lb lb sv @ x # post \<and>
           filter changes_server post = [] \<and>
           (x = ShutdownServerC sv \<and> sv_Status sv = ServerStatusRunning \<or>
            x = DeleteServerC sv \<and> sv_Status sv = ServerStatusOff))) \<and>
     (r = Ok None \<longrightarrow> (\<exists>w. h_ListServers c (server_selector s) (world s) = (Inr [], w)) \<or>
        (\<exists>sv v v'. DeleteServerC sv \<in> set t \<and> h_DeleteServer c sv v = (Inr (), v')))"

lemma delete_post_none: "filter changes_server t = [] \<Longrightarrow> r \<noteq> Ok None \<Longrightarrow> delete_post c s r t"
  by (auto simp: delete_post_def filter_empty_conv)

lemma lb_selector_world [simp]: "lb_selector (s\<lparr>world := w\<rparr>) = lb_selector s"
  by (simp add: lb_selector_def lb_labels_def)

text \<open>Leaving the load balancer: what was called when it succeeds.\<close>

lemma leave_wp:
  "wp (deleteServerOfLoadBalancer c sv) s (\<lambda>r t s'. filter changes_server t = [] \<and> (\<exists>w. s' = s\<lparr>world := w\<rparr>) \<and>
     (r = Ok () \<longrightarrow> (\<exists>lb w. h_ListLoadBalancers c (lb_selector s) (world s) = (Inr [lb], w) \<and>
        t = ListLoadBalancersC (lb_selector s) # leave_lb lb sv)))"
proof (cases c "lb_selector s" "world s" rule: lb_listing_cases)
  case (error a w)
  then show ?thesis
    by (cases a) (auto simp: deleteServerOfLoadBalancer_def wp_simps wp_FindLoadBalancer found_lb_def split: list.splits)
next
  case (one lb w)
  then show ?thesis
    by (auto simp: deleteServerOfLoadBalancer_def wp_simps wp_FindLoadBalancer found_lb_def has_target_wp
        leave_lb_def client_defs wp_extcall ext_post_iff)
next
  case (none w)
  then show ?thesis
    by (auto simp: deleteServerOfLoadBalancer_def wp_simps wp_FindLoadBalancer found_lb_def)
qed

lemma filter_leave_lb [simp]: "filter changes_server (leave_lb lb sv) = []"
  by (simp add: leave_lb_def)

lemma delete_post_act:
  assumes "h_ListServers c (server_selector s) (world s) = (Inr [sv], w)"
    and "h_ListLoadBalancers c (lb_selector s) w = (Inr [lb], w')"
    and "filter changes_server post = []"
    and "x = ShutdownServerC sv \<and> sv_Status sv = ServerStatusRunning \<or> x = DeleteServerC sv \<and> sv_Status sv = ServerStatusOff"
    and "r = Ok None \<Longrightarrow> x = DeleteServerC sv \<and> (\<exists>v v'. h_DeleteServer c sv v = (Inr (), v'))"
  shows "delete_post c s r (ListServersC (server_selector s) # ListLoadBalancersC (lb_selector s) # leave_lb lb sv @ x # post)"
proof -
  let ?t = "ListServersC (server_selector s) # ListLoadBalancersC (lb_selector s) # leave_lb lb sv @ x # post"
  have "\<forall>y \<in> set (leave_lb lb sv). \<not> changes_server y" by (auto simp: leave_lb_def)
  then have only: "y = x" if "y \<in> set ?t" "changes_server y" for y
    using that assms(3) by (auto simp: filter_empty_conv)
  show ?thesis
    unfolding delete_post_def
  proof (intro conjI ballI impI)
    fix y
    assume "y \<in> set ?t" "changes_server y"
    then have "y = x" by (rule only)
    with assms(1-4) show "\<exists>sv w lb w' post. h_ListServers c (server_selector s) (world s) = (Inr [sv], w) \<and>
        h_ListLoadBalancers c (lb_selector s) w = (Inr [lb], w') \<and>
        ?t = [ListServersC (server_selector s), ListLoadBalancersC (lb_selector s)] @ leave_lb lb sv @ y # post \<and>
        filter changes_server post = [] \<and>
        (y = ShutdownServerC sv \<and> sv_Status sv = ServerStatusRunning \<or> y = DeleteServerC sv \<and> sv_Status sv = ServerStatusOff)"
      by (intro exI[of _ sv] exI[of _ w] exI[of _ lb] exI[of _ w'] exI[of _ post]) auto
  next
    assume "r = Ok None"
    from assms(5)[OF this] show "(\<exists>w. h_ListServers c (server_selector s) (world s) = (Inr [], w)) \<or>
        (\<exists>sv v v'. DeleteServerC sv \<in> set ?t \<and> h_DeleteServer c sv v = (Inr (), v'))" by auto
  qed
qed

lemma server_Delete_wp: "wp (server_Delete c) s (\<lambda>r t s'. delete_post c s r t \<and> ms_HcloudMachine s' = ms_HcloudMachine s)"
proof (cases c "server_selector s" "world s" rule: server_listing_cases)
  case (error a w)
  then show ?thesis
    by (auto simp: server_Delete_def wp_simps bind_post_def map_err_def delete_post_none
        intro!: wp_mono[OF findServer_error_wp[OF error]] split: res.splits)
next
  case (none w)
  then show ?thesis
    by (auto simp: server_Delete_def wp_simps wp_findServer found_server_def delete_post_def)
next
  case (one sv w)
  then show ?thesis
    by (simp add: server_Delete_def wp_simps wp_findServer found_server_def)
      (rule wp_mono[OF leave_wp], auto simp: bind_post_def wp_simps client_defs wp_extcall ext_post_iff
        delete_post_none intro!: delete_post_act split: res.splits ServerStatus.splits; blast)
qed
section \<open>The API server configuration\<close>

lemma map_of_put_missing [simp]:
  "map_of (put_missing k v m) = (map_of m)(k \<mapsto> (case map_of m k of None \<Rightarrow> v | Some v' \<Rightarrow> v'))"
  by (auto simp: put_missing_def split: option.splits)

lemma stringSliceContains_iff [simp]: "stringSliceContains s e \<longleftrightarrow> e \<in> set s"
  by (induction s) auto

lemma put_missing_again: "map_of m k \<noteq> None \<Longrightarrow> put_missing k v m = m"
  by (auto simp: put_missing_def)

lemma add_names:
  "\<exists>added. foldl add_name ns xs = ns @ added \<and> set added \<subseteq> set xs \<and> set xs \<subseteq> set ns \<union> set added \<and>
     distinct added \<and> set added \<inter> set ns = {}"
proof (induction xs arbitrary: ns)
  case (Cons x xs)
  from Cons[of "add_name ns x"] obtain added where *:
    "foldl add_name (add_name ns x) xs = add_name ns x @ added" "set added \<subseteq> set xs"
    "set xs \<subseteq> set (add_name ns x) \<union> set added" "distinct added" "set added \<inter> set (add_name ns x) = {}" by blast
  show ?case
  proof (cases "x \<in> set ns")
    case True
    then have "add_name ns x = ns" by (simp add: add_name_def)
    with * True show ?thesis by (intro exI[of _ added]) auto
  next
    case False
    then have "add_name ns x = ns @ [x]" by (simp add: add_name_def)
    with * False show ?thesis by (intro exI[of _ "x # added"]) auto
  qed
qed simp

lemma add_names_again: "set xs \<subseteq> set ns \<Longrightarrow> foldl add_name ns xs = ns"
  by (induction xs) (auto simp: add_name_def)

section \<open>Properties\<close>

text \<open>
  C2. Deleting a machine's server asks for a shutdown only when the server runs and for a
  deletion only when it is off; either happens at most once, to the one server found by the
  machine's labels, and only after the cluster's load balancer was found and, if it had the server as a target,
  had let go of it. The service reports that nothing is left to do only when no server was found
  or the cloud accepted the deletion.
\<close>

theorem server_Delete_order:
  "case server_Delete c s of (r, t, s') \<Rightarrow>
     (\<forall>x \<in> set t. changes_server x \<longrightarrow>
        (\<exists>sv w lb w' post. h_ListServers c (server_selector s) (world s) = (Inr [sv], w) \<and>
           h_ListLoadBalancers c (lb_selector s) w = (Inr [lb], w') \<and>
           t = [ListServersC (server_selector s), ListLoadBalancersC (lb_selector s)] @ leave_lb lb sv @ x # post \<and>
           filter changes_server post = [] \<and>
           (x = ShutdownServerC sv \<and> sv_Status sv = ServerStatusRunning \<or>
            x = DeleteServerC sv \<and> sv_Status sv = ServerStatusOff))) \<and>
     (r = Ok None \<longrightarrow> (\<exists>w. h_ListServers c (server_selector s) (world s) = (Inr [], w)) \<or>
        (\<exists>sv v v'. DeleteServerC sv \<in> set t \<and> h_DeleteServer c sv v = (Inr (), v')))"
proof -
  obtain r t s' where eq: "server_Delete c s = (r, t, s')" by (metis prod_cases3)
  from wpD[OF server_Delete_wp eq] have "delete_post c s r t" by simp
  then show ?thesis unfolding eq prod.case delete_post_def .
qed

definition example_server :: "ServerStatus \<Rightarrow> hcloud_Server" where
  "example_server st = \<lparr>sv_ID = 3, sv_Name = ''m'', sv_Status = st, sv_IPv4 = [1, 2, 3, 4], sv_IPv6 = [], sv_PrivateNet = []\<rparr>"

definition example_server_client :: "hcloud_Server list \<Rightarrow> unit HcloudClient" where
  "example_server_client svs = offline_hcloud
     \<lparr>h_ListServers := \<lambda>_ w. (Inr svs, w), h_ListLoadBalancers := \<lambda>_ w. (Inr [example_lb], w),
      h_ListImages := \<lambda>_ w. (Inr [\<lparr>im_ID = 9, im_Status = ImageStatusAvailable, im_Created = 1\<rparr>], w),
      h_CreateServer := \<lambda>_ w. (Inr (example_server ServerStatusRunning), w),
      h_DeleteServer := \<lambda>_ w. (Inr (), w), h_ShutdownServer := \<lambda>_ w. (Inr (), w),
      h_DeleteTargetServerOfLoadBalancer := \<lambda>_ _ w. (Inr (), w)\<rparr>"

lemma server_Delete_order_witness:
  "\<exists>x. calls (server_Delete (example_server_client [example_server ServerStatusOff]) (zero_MachineScope ())) =
     [ListServersC (server_selector (zero_MachineScope ())), ListLoadBalancersC (lb_selector (zero_MachineScope ()))] @
       leave_lb example_lb (example_server ServerStatusOff) @ [DeleteServerC (example_server ServerStatusOff), x]"
proof -
  let ?c = "example_server_client [example_server ServerStatusOff]"
  have len: "length (calls (server_Delete ?c (zero_MachineScope ()))) = 6" by code_simp
  have mem: "DeleteServerC (example_server ServerStatusOff) \<in> set (calls (server_Delete ?c (zero_MachineScope ())))"
    by code_simp
  have "leave_lb example_lb (example_server ServerStatusOff) = [DeleteTargetServerOfLoadBalancerC example_lb (example_server ServerStatusOff),
      EventC EventTypeNormal ''DeletedTargetOfLoadBalancer'']"
    by (simp add: leave_lb_def example_lb_def example_server_def)
  with server_Delete_order[where c = ?c and s = "zero_MachineScope ()"] mem len show ?thesis
    by (fastforce simp: calls_def example_server_client_def length_Suc_conv split: prod.splits)
qed

text \<open>
  C1. A reconcile makes at most one call that changes a server, and it is a creation, made
  only when an available image was found for the machine's version, the bootstrap data is
  ready, and the listing by the machine's labels was empty; the options carry those labels, the image, the
  failure domain, the machine's type and only SSH keys that a spec names.
\<close>

theorem server_Reconcile_creates_once:
  assumes "changes_server x" and "x \<in> set (calls (server_Reconcile cd o' k c s))"
  shows "\<exists>fd version i t1 s1 opts w.
     x = CreateServerC opts \<and> filter changes_server (calls (server_Reconcile cd o' k c s)) = [x] \<and>
     GetFailureDomain s = Inr fd \<and> m_Version (ms_Machine s) = Some version \<and>
     EnsureImage c o' (image_parameters version s) (located fd s) = (Ok (Some i), t1, s1) \<and>
     IsBootstrapDataReady s \<and> h_ListServers c (server_selector s) (world s1) = (Inr [], w) \<and>
     server_opts_ok s fd i opts"
proof -
  from server_Reconcile_wp[of cd o' k c s] have post: "create_post c o' s (calls (server_Reconcile cd o' k c s))"
    unfolding wp_iff by simp
  from assms have mem: "x \<in> set (filter changes_server (calls (server_Reconcile cd o' k c s)))" by simp
  then have "filter changes_server (calls (server_Reconcile cd o' k c s)) \<noteq> []" by (metis empty_iff list.set(1))
  with post obtain fd version i t1 s1 opts w where *:
    "GetFailureDomain s = Inr fd" "m_Version (ms_Machine s) = Some version"
    "EnsureImage c o' (image_parameters version s) (located fd s) = (Ok (Some i), t1, s1)"
    "IsBootstrapDataReady s" "h_ListServers c (server_selector s) (world s1) = (Inr [], w)"
    "server_opts_ok s fd i opts" "filter changes_server (calls (server_Reconcile cd o' k c s)) = [CreateServerC opts]"
    unfolding create_post_def by blast
  with mem have "x = CreateServerC opts" by simp
  with * show ?thesis by blast
qed

definition example_worker :: "string option \<Rightarrow> unit MachineScope" where
  "example_worker secret = (zero_MachineScope ())
     \<lparr>ms_Machine := zero_Machine\<lparr>m_FailureDomain := Some ''fsn1'', m_Version := Some ''v1.18.3'',
        m_DataSecretName := secret\<rparr>\<rparr>"

lemma example_image:
  "EnsureImage (example_server_client svs) o' p s = (Ok (Some 9), [ListImagesC (image_selector p)], s)"
  if "builds (packer s) = Map.empty" for s :: "(unit, 'x) sys_scheme"
  using that
  by (simp add: EnsureImage_def query_or_build_def image_selector_def example_server_client_def
      offline_hcloud_def Let_def bindM_def getsM_def ret_def ListImages_def extcall_def)

lemma example_worker_simps [simp]:
  "GetFailureDomain (example_worker secret) = Inr ''fsn1''"
  "m_Version (ms_Machine (example_worker secret)) = Some ''v1.18.3''"
  "builds (packer (located fd (example_worker secret))) = Map.empty"
  by (simp_all add: example_worker_def GetFailureDomain_def zero_defs fresh_packer_def located_def setMachineStatus_def
      MachineScope.defs ClusterScope.defs)

lemmas run_defs = bindM_def getsM_def ret_def liftM_def modifyM_def tryM_def mapErrM_def derefM_def extcall_def

definition example_server_kube :: "unit KubeClient" where
  "example_server_kube = offline_kube\<lparr>k_GetSecret := \<lambda>_ _ w. (Inr [(''value'', ''data'')], w)\<rparr>"

lemma server_Reconcile_creates_once_witness:
  "\<exists>opts. CreateServerC opts \<in> set (calls (server_Reconcile example_codec example_os example_server_kube
       (example_server_client []) (example_worker (Some ''secret'')))) \<and>
     server_opts_ok (example_worker (Some ''secret'')) ''fsn1'' 9 opts"
proof -
  let ?c = "example_server_client []" and ?w = "example_worker (Some ''secret'')"
  let ?s = "located ''fsn1'' ?w"
  have boot: "IsBootstrapDataReady ?w" by (simp add: IsBootstrapDataReady_def example_worker_def)
  obtain r t s2 where found: "find_or_create example_codec example_server_kube ?c ''fsn1'' 9 ?s = (r, t, s2)"
    by (metis prod_cases3)
  have "list_ex changes_server (calls (find_or_create example_codec example_server_kube ?c ''fsn1'' 9 ?s))"
    by code_simp
  then obtain x where x: "changes_server x" "x \<in> set t" by (auto simp: list_ex_iff calls_def found)
  then have mem: "x \<in> set (calls (server_Reconcile example_codec example_os example_server_kube ?c ?w))"
    by (simp add: server_Reconcile_def run_defs located_def[symmetric] example_image boot found calls_def
        split: res.splits prod.splits)
  from server_Reconcile_creates_once[OF x(1) mem] obtain fd version i t1 s1 opts where
    o: "x = CreateServerC opts" "GetFailureDomain ?w = Inr fd" "m_Version (ms_Machine ?w) = Some version"
    "EnsureImage ?c example_os (image_parameters version ?w) (located fd ?w) = (Ok (Some i), t1, s1)"
    "server_opts_ok ?w fd i opts" by blast
  from o(2-4) have "fd = ''fsn1''" "i = 9" by (auto simp: example_image)
  with o(1,5) mem show ?thesis by blast
qed

text \<open>
  C21. A machine becomes ready only through a reconcile that returns no result and no error.
  Then its server runs: the one server that the labels of the machine list, in the world in
  which the image was ensured, or, when none was listed, the server that the one creation of this
  reconcile returned; and the provider identifier, the state and the addresses of the
  machine are those of that server. Any other reconcile leaves readiness and provider identifier as they
  were.
\<close>

theorem server_Reconcile_ready:
  "case server_Reconcile cd o' k c s of (r, t, s') \<Rightarrow>
     if r = Ok None
     then \<exists>fd version i t1 s1 sv. GetFailureDomain s = Inr fd \<and> m_Version (ms_Machine s) = Some version \<and>
        EnsureImage c o' (image_parameters version s) (located fd s) = (Ok (Some i), t1, s1) \<and>
        its_server c s (world s1) t sv \<and> machine_ready s' \<and> sv_Status sv = ServerStatusRunning \<and>
        provider_id s' = Some (server_provider_id sv) \<and>
        hmt_ServerState (hm_Status (ms_HcloudMachine s')) = Some (sv_Status sv) \<and>
        hmt_Addresses (hm_Status (ms_HcloudMachine s')) = api_addresses sv
     else machine_ready s' = machine_ready s \<and> provider_id s' = provider_id s"
proof -
  obtain r t s' where eq: "server_Reconcile cd o' k c s = (r, t, s')" by (metis prod_cases3)
  from wpD[OF server_Reconcile_wp eq] have "ready_post c o' s r t s'" by simp
  then show ?thesis
    unfolding eq prod.case ready_post_def ready_as_def unready_kept_def .
qed

lemma server_Reconcile_ready_witness:
  "provider_id (final (server_Reconcile example_codec example_os offline_kube
     (example_server_client [example_server ServerStatusRunning]) (example_worker (Some ''secret'')))) = Some ''hcloud://3''"
proof -
  let ?c = "example_server_client [example_server ServerStatusRunning]"
  have list: "h_ListServers ?c l w = (Inr [example_server ServerStatusRunning], w)" for l w
    by (simp add: example_server_client_def)
  have boot: "IsBootstrapDataReady (example_worker (Some ''secret''))"
    by (simp add: IsBootstrapDataReady_def example_worker_def)
  have worker: "\<not> IsControlPlane (with_api_status sv (located fd (example_worker (Some ''secret''))))" for sv fd
    by (simp add: IsControlPlane_def example_worker_def located_def with_api_status_def setMachineStatus_def zero_defs)
  have st: "setStatusFromAPI (example_server ServerStatusRunning) s =
      (Ok ((example_server ServerStatusRunning)\<lparr>sv_IPv6 := ipv6_address []\<rparr>), [], with_api_status (example_server ServerStatusRunning) s)"
    for s :: "unit MachineScope"
    using setStatusFromAPI_ok[of "example_server ServerStatusRunning" s]
    by (simp add: IsGlobalUnicast_def example_server_def)
  have runs: "sv_Status (example_server st) = st" for st by (simp add: example_server_def)
  let ?s = "located ''fsn1'' (example_worker (Some ''secret''))"
  have found: "find_or_create example_codec offline_kube ?c ''fsn1'' 9 ?s =
      (Ok (example_server ServerStatusRunning), [ListServersC (server_selector ?s)], ?s)"
    by (simp add: find_or_create_def findServer_def ListServers_def run_defs list server_selector_def)
  have "fst (with_instance offline_kube ?c (example_server ServerStatusRunning) ?s) = Ok None"
    by (simp add: with_instance_def run_defs st worker Let_def runs)
  then obtain t2 s2 where ready: "with_instance offline_kube ?c (example_server ServerStatusRunning) ?s = (Ok None, t2, s2)"
    by (metis fst_conv prod_cases3)
  have out: "outcome (server_Reconcile example_codec example_os offline_kube ?c (example_worker (Some ''secret''))) = Ok None"
    by (simp add: server_Reconcile_def run_defs located_def[symmetric] example_image boot found ready outcome_def)
  from server_Reconcile_ready[where cd = example_codec and o' = example_os and k = offline_kube and c = ?c
      and s = "example_worker (Some ''secret'')"] out
  have pid: "provider_id (final (server_Reconcile example_codec example_os offline_kube ?c
      (example_worker (Some ''secret'')))) = Some (server_provider_id (example_server ServerStatusRunning))"
    by (auto simp: outcome_def final_def its_server_def list split: prod.splits)
  have "server_provider_id (example_server ServerStatusRunning) = ''hcloud://3''" by code_simp
  with pid show ?thesis by simp
qed

text \<open>
  Taking over the API's view of a server: the machine then has the server's state and
  exactly its addresses, in order: the public IPv4 address as an external one, the first host
  address of a global IPv6 network as an external one, every private address as an internal one. So a machine with a
  server has an external address. It panics exactly for a global IPv6 address that is not 16 bytes long.
\<close>

theorem setStatusFromAPI_correct:
  "case setStatusFromAPI sv s of (r, t, s') \<Rightarrow> t = [] \<and>
     (if IsGlobalUnicast (sv_IPv6 sv) \<and> length (sv_IPv6 sv) \<noteq> 16 then is_panic r
      else r = Ok (sv\<lparr>sv_IPv6 := ipv6_address (sv_IPv6 sv)\<rparr>) \<and>
        hmt_ServerState (hm_Status (ms_HcloudMachine s')) = Some (sv_Status sv) \<and>
        hmt_Addresses (hm_Status (ms_HcloudMachine s')) = api_addresses sv)"
proof (cases "IsGlobalUnicast (sv_IPv6 sv) \<and> length (sv_IPv6 sv) \<noteq> 16")
  case True
  with setStatusFromAPI_panic[of sv s] show ?thesis by auto
next
  case False
  then have "setStatusFromAPI sv s = (Ok (sv\<lparr>sv_IPv6 := ipv6_address (sv_IPv6 sv)\<rparr>), [], with_api_status sv s)"
    by (intro setStatusFromAPI_ok) simp
  with False show ?thesis by (simp add: with_api_status_def setMachineStatus_def)
qed

text \<open>
  When a volume of the machine does not exist, creating its server returns neither a
  server nor an error, and the service dereferences the missing server: it panics.
\<close>

theorem missing_volume_panics:
  assumes "h_ListServers c (server_selector s) (world s) = (Inr [], w)"
    and "hms_Volumes (hm_Spec (ms_HcloudMachine s)) = volume # vs"
    and "k_GetHcloudVolume k (om_Namespace (hm_Meta (ms_HcloudMachine s))) (mv_VolumeRef volume) w = (Inl (ErrNotFound m), w')"
  shows "outcome (find_or_create cd k c fd i s) = Panic ''instance''"
proof -
  have "wp (find_or_create cd k c fd i) s (\<lambda>r t s'. r = Panic ''instance'')"
    using assms
    by (simp add: find_or_create_def wp_simps wp_findServer found_server_def createServer_def
        setMachineStatus_def client_defs wp_extcall)
  then show ?thesis by (simp add: wp_iff)
qed

lemma missing_volume_panics_witness:
  "outcome (find_or_create example_codec
      (offline_kube\<lparr>k_GetHcloudVolume := \<lambda>_ n w. (Inl (ErrNotFound n), w)\<rparr>) (example_server_client []) ''fsn1'' 9
      ((zero_MachineScope ())\<lparr>ms_HcloudMachine := zero_HcloudMachine\<lparr>hm_Spec := (hm_Spec zero_HcloudMachine)
         \<lparr>hms_Volumes := [\<lparr>mv_Name = ''v'', mv_VolumeRef = ''data'', mv_MountPath = ''/d''\<rparr>]\<rparr>\<rparr>\<rparr>)) = Panic ''instance''"
  by (rule missing_volume_panics[where w = "()" and w' = "()"])
    (simp_all add: example_server_client_def, (rule refl)?)

text \<open>
  Configuring the API server of a new cluster keeps every argument and certificate name
  the user data already has, adds the missing ones (external cloud provider for API server and controller
  manager, issuer and signing key of service account tokens, local names and the load
  balancer's), and no name twice; a second configuration changes nothing.
\<close>

theorem configure_apiserver_correct:
  assumes "cc' = configure_apiserver endpoint lbHost cc"
  shows "(\<forall>key v. map_of (cc_APIServerExtraArgs cc) key = Some v \<longrightarrow> map_of (cc_APIServerExtraArgs cc') key = Some v) \<and>
    (\<forall>key v. map_of (cc_ControllerManagerExtraArgs cc) key = Some v \<longrightarrow> map_of (cc_ControllerManagerExtraArgs cc') key = Some v) \<and>
    dom (map_of (cc_APIServerExtraArgs cc')) = dom (map_of (cc_APIServerExtraArgs cc)) \<union>
      {''cloud-provider'', ''service-account-issuer'', ''service-account-signing-key-file''} \<and>
    dom (map_of (cc_ControllerManagerExtraArgs cc')) = insert ''cloud-provider'' (dom (map_of (cc_ControllerManagerExtraArgs cc))) \<and>
    (\<exists>added. cc_CertSANs cc' = cc_CertSANs cc @ added \<and> distinct added \<and> set added \<inter> set (cc_CertSANs cc) = {}) \<and>
    {''127.0.0.1'', ''localhost'', lbHost} \<subseteq> set (cc_CertSANs cc') \<and>
    configure_apiserver endpoint lbHost cc' = cc'"
proof -
  obtain added where added: "foldl add_name (cc_CertSANs cc) [''127.0.0.1'', ''localhost'', lbHost] = cc_CertSANs cc @ added"
    "distinct added" "set added \<inter> set (cc_CertSANs cc) = {}"
    "{''127.0.0.1'', ''localhost'', lbHost} \<subseteq> set (cc_CertSANs cc @ added)"
    using add_names[of "cc_CertSANs cc" "[''127.0.0.1'', ''localhost'', lbHost]"] by auto
  have sans: "cc_CertSANs cc' = cc_CertSANs cc @ added" 
    unfolding assms configure_apiserver_def Let_def added(1) by simp
  have again: "foldl add_name (cc_CertSANs cc') [''127.0.0.1'', ''localhost'', lbHost] = cc_CertSANs cc'"
    using added(4) by (intro add_names_again) (simp add: sans)
  have args: "map_of (cc_APIServerExtraArgs cc') ''cloud-provider'' \<noteq> None"
    "map_of (cc_APIServerExtraArgs cc') ''service-account-issuer'' \<noteq> None"
    "map_of (cc_APIServerExtraArgs cc') ''service-account-signing-key-file'' \<noteq> None"
    "map_of (cc_ControllerManagerExtraArgs cc') ''cloud-provider'' \<noteq> None"
    by (simp_all add: assms configure_apiserver_def Let_def)
  have stable: "configure_apiserver endpoint lbHost cc' = cc'"
    unfolding configure_apiserver_def Let_def again by (simp add: put_missing_again args)
  have doms: "dom (map_of (cc_APIServerExtraArgs cc')) = dom (map_of (cc_APIServerExtraArgs cc)) \<union>
      {''cloud-provider'', ''service-account-issuer'', ''service-account-signing-key-file''}"
    "dom (map_of (cc_ControllerManagerExtraArgs cc')) = insert ''cloud-provider'' (dom (map_of (cc_ControllerManagerExtraArgs cc)))"
    by (auto simp: assms configure_apiserver_def Let_def)
  have kept: "\<forall>key v. map_of (cc_APIServerExtraArgs cc) key = Some v \<longrightarrow> map_of (cc_APIServerExtraArgs cc') key = Some v"
    "\<forall>key v. map_of (cc_ControllerManagerExtraArgs cc) key = Some v \<longrightarrow> map_of (cc_ControllerManagerExtraArgs cc') key = Some v"
    by (auto simp: assms configure_apiserver_def Let_def)
  have ex: "\<exists>added. cc_CertSANs cc' = cc_CertSANs cc @ added \<and> distinct added \<and> set added \<inter> set (cc_CertSANs cc) = {}"
    using sans added(2,3) by blast
  have sub: "{''127.0.0.1'', ''localhost'', lbHost} \<subseteq> set (cc_CertSANs cc')" using added(4) unfolding sans .
  show ?thesis
    by (rule conjI[OF kept(1) conjI[OF kept(2) conjI[OF doms(1) conjI[OF doms(2) conjI[OF ex conjI[OF sub stable]]]]]])
qed

lemma configure_apiserver_correct_witness:
  "set [''127.0.0.1'', ''localhost'', ''lb''] \<subseteq> set (cc_CertSANs (configure_apiserver \<lparr>ep_Host = ''1.2.3.4'', ep_Port = 6443\<rparr> ''lb''
     \<lparr>cc_APIServerExtraArgs = [(''cloud-provider'', ''x'')], cc_ControllerManagerExtraArgs = [],
      cc_CertSANs = [''localhost''], cc_Other = []\<rparr>))"
  using configure_apiserver_correct[OF refl, where endpoint = "\<lparr>ep_Host = ''1.2.3.4'', ep_Port = 6443\<rparr>" and lbHost = "''lb''"
    and cc = "\<lparr>cc_APIServerExtraArgs = [(''cloud-provider'', ''x'')], cc_ControllerManagerExtraArgs = [],
      cc_CertSANs = [''localhost''], cc_Other = []\<rparr>"] by simp

end
