(* ===== verification/Scope_Build.thy ===== *)
theory Scope_Build
  imports Scope
begin

text \<open>
  How a reconcile iteration is set up and torn down: the constructors of pkg/scope, which read
  the secrets with the API tokens and take the snapshot that the patch helper compares with,
  and the frame in which the controllers run a service.

  \<open>Env\<close> collects what a controller process is configured with: the Kubernetes client, the
  functions that make a client of the Hetzner Cloud and of the Robot API from credentials,
  the operating system, and three helpers of the controller libraries (the two finalizer
  operations and the making of a patch helper, which may fail). Scopes are made for the
  default client factories; only tests set others.
\<close>

section \<open>The environment of a controller\<close>

record 'w Env =
  e_kube :: "'w KubeClient"
  e_hcloud :: "string \<Rightarrow> 'w HcloudClient"
  e_hrobot :: "string \<Rightarrow> string \<Rightarrow> 'w HrobotClient"
  e_os :: "'w OsClient"
  e_generateName :: "string \<Rightarrow> string"
  e_AddFinalizer :: "string \<Rightarrow> string list \<Rightarrow> string list"
  e_RemoveFinalizer :: "string \<Rightarrow> string list \<Rightarrow> string list"
  e_NewHelper :: "string \<Rightarrow> ObjectMeta \<Rightarrow> error option"

text \<open>
  What the documentation of \<^verbatim>\<open>controllerutil\<close> says of the finalizer operations: one adds the
  finalizer if it is not there, the other removes it, and neither touches another one.
\<close>

definition documented_finalizers :: "'w Env \<Rightarrow> bool" where
  "documented_finalizers env \<longleftrightarrow>
     (\<forall>f fs. set (e_AddFinalizer env f fs) = insert f (set fs) \<and>
             set (e_RemoveFinalizer env f fs) = set fs - {f})"

lemma documented_finalizersD:
  assumes "documented_finalizers env"
  shows "set (e_AddFinalizer env f fs) = insert f (set fs)"
    and "set (e_RemoveFinalizer env f fs) = set fs - {f}"
  using assms by (simp_all add: documented_finalizers_def)

definition AddFinalizer :: "'w Env \<Rightarrow> string \<Rightarrow> ObjectMeta \<Rightarrow> ObjectMeta" where
  "AddFinalizer env f meta = meta\<lparr>om_Finalizers := e_AddFinalizer env f (om_Finalizers meta)\<rparr>"

definition RemoveFinalizer :: "'w Env \<Rightarrow> string \<Rightarrow> ObjectMeta \<Rightarrow> ObjectMeta" where
  "RemoveFinalizer env f meta = meta\<lparr>om_Finalizers := e_RemoveFinalizer env f (om_Finalizers meta)\<rparr>"

section \<open>Constructors\<close>

definition secret_key :: "string \<Rightarrow> (string, string) gomap \<Rightarrow> string \<Rightarrow> error + string" where
  "secret_key secretName data key = (case map_of data key of
      None \<Rightarrow> Inl (ErrNew (''error key '' @ key @ '' does not exist in secret/'' @ secretName))
    | Some v \<Rightarrow> Inr v)"

definition token_secret ::
    "'w KubeClient \<Rightarrow> string \<Rightarrow> string \<Rightarrow> (('w, 'x) sys_scheme, call, (string, string) gomap) M" where
  "token_secret k ns name =
     mapErrM (\<lambda>err. ErrNew (''error getting referenced token secret/'' @ ns @ ''/'' @ name @ '': '' @ Error err))
       (GetSecret k ns name)"

definition HcloudClientFactory ::
    "'w KubeClient \<Rightarrow> HcloudCluster \<Rightarrow> (('w, 'x) sys_scheme, call, string) M" where
  "HcloudClientFactory k hc =
     (let ns = om_Namespace (hc_Meta hc) in
      bindM (derefM ''Spec.HcloudTokenRef'' (hcs_HcloudTokenRef (hc_Spec hc))) (\<lambda>ref.
      bindM (token_secret k ns (sel_Name ref)) (\<lambda>data.
      liftM (secret_key (ns @ ''/'' @ sel_Name ref) data (sel_Key ref)))))"

definition HrobotClientFactory ::
    "'w KubeClient \<Rightarrow> HcloudCluster \<Rightarrow> HrobotTokenRef \<Rightarrow> (('w, 'x) sys_scheme, call, string \<times> string) M" where
  "HrobotClientFactory k hc ref =
     (let ns = om_Namespace (hc_Meta hc) in
      bindM (token_secret k ns (hrt_TokenName ref)) (\<lambda>data.
      bindM (liftM (secret_key (ns @ ''/'' @ hrt_TokenName ref) data (hrt_PasswordKey ref))) (\<lambda>password.
      bindM (liftM (secret_key (ns @ ''/'' @ hrt_TokenName ref) data (hrt_UserNameKey ref))) (\<lambda>userName.
      ret (userName, password)))))"

definition NewHelper :: "'w Env \<Rightarrow> string \<Rightarrow> ObjectMeta \<Rightarrow> ('s, 'c, unit) M" where
  "NewHelper env kind meta = (case e_NewHelper env kind meta of
      Some e \<Rightarrow> failM (ErrWrap ''failed to init patch helper'' e)
    | None \<Rightarrow> ret ())"

text \<open>
  The Robot API's client is made first, and only when the cluster refers to its token.
\<close>

definition NewClusterScope ::
    "'w Env \<Rightarrow> Cluster option \<Rightarrow> HcloudCluster option \<Rightarrow> ('w sys, call, 'w ClusterScope) M" where
  "NewClusterScope env pc phc =
     (case pc of
        None \<Rightarrow> failM (ErrNew ''failed to generate new scope from nil Cluster'')
      | Some cluster \<Rightarrow> (case phc of
          None \<Rightarrow> failM (ErrNew ''failed to generate new scope from nil HcloudCluster'')
        | Some hc \<Rightarrow>
            bindM (case hcs_HrobotTokenRef (hc_Spec hc) of
                None \<Rightarrow> ret ([], [])
              | Some ref \<Rightarrow> HrobotClientFactory (e_kube env) hc ref) (\<lambda>robot.
            bindM (HcloudClientFactory (e_kube env) hc) (\<lambda>hcloudToken.
            bindM (NewHelper env ''HcloudCluster'' (hc_Meta hc)) (\<lambda>_.
            bindM (getsM id) (\<lambda>s.
            ret (sys.extend s (ClusterScope.fields cluster hc hc hcloudToken (fst robot) (snd robot)))))))))"

definition NewMachineScope ::
    "'w Env \<Rightarrow> Cluster option \<Rightarrow> HcloudCluster option \<Rightarrow> Machine option \<Rightarrow> HcloudMachine option
       \<Rightarrow> ('w sys, call, 'w MachineScope) M" where
  "NewMachineScope env pc phc pm phm =
     (case pm of
        None \<Rightarrow> failM (ErrNew ''failed to generate new scope from nil Machine'')
      | Some machine \<Rightarrow> (case phm of
          None \<Rightarrow> failM (ErrNew ''failed to generate new scope from nil HcloudMachine'')
        | Some hm \<Rightarrow>
            bindM (wrapM ''failed to init patch helper'' (NewClusterScope env pc phc)) (\<lambda>cs.
            bindM (NewHelper env ''HcloudMachine'' (hm_Meta hm)) (\<lambda>_.
            ret (ClusterScope.extend cs (MachineScope.fields machine hm hm))))))"

definition NewVolumeScope ::
    "'w Env \<Rightarrow> Cluster option \<Rightarrow> HcloudCluster option \<Rightarrow> HcloudVolume option
       \<Rightarrow> ('w sys, call, 'w VolumeScope) M" where
  "NewVolumeScope env pc phc phv =
     (case phv of
        None \<Rightarrow> failM (ErrNew ''failed to generate new scope from nil HcloudVolume'')
      | Some hv \<Rightarrow>
          bindM (wrapM ''failed to init patch helper'' (NewClusterScope env pc phc)) (\<lambda>cs.
          bindM (NewHelper env ''HcloudVolume'' (hv_Meta hv)) (\<lambda>_.
          ret (ClusterScope.extend cs (VolumeScope.fields hv hv)))))"

text \<open>The client that a scope holds.\<close>

definition ClusterScope_HcloudClient :: "'w Env \<Rightarrow> ('w, 'x) ClusterScope_scheme \<Rightarrow> 'w HcloudClient" where
  "ClusterScope_HcloudClient env s = e_hcloud env (cs_hcloudToken s)"

definition ClusterScope_HrobotClient :: "'w Env \<Rightarrow> ('w, 'x) ClusterScope_scheme \<Rightarrow> 'w HrobotClient" where
  "ClusterScope_HrobotClient env s = e_hrobot env (cs_robotUserName s) (cs_robotPassword s)"

section \<open>Running a service in a scope\<close>

text \<open>
  \<open>in_scope\<close> runs a program on a scope whose outside world and image builder are the current
  ones, and forgets the scope afterwards. \<open>deferM\<close> is the deferred closing of a scope: it
  runs in every case, also when the body panics, and its error is reported only when the
  body has none.
\<close>

definition in_scope ::
    "('w, 'x) sys_scheme \<Rightarrow> (('w, 'x) sys_scheme, call, 'a) M \<Rightarrow> ('w sys, call, 'a) M" where
  "in_scope scope m = (\<lambda>s. case m (scope\<lparr>world := world s, packer := packer s\<rparr>) of
     (r, t, s') \<Rightarrow> (r, t, sys.truncate s'))"

fun defer_result :: "'a res \<Rightarrow> unit res \<Rightarrow> 'a res" where
  "defer_result r (Panic p) = Panic p"
| "defer_result (Ok a) (Err e) = Err e"
| "defer_result r _ = r"

definition deferM :: "('s, 'c, 'a) M \<Rightarrow> ('s, 'c, unit) M \<Rightarrow> ('s, 'c, 'a) M" where
  "deferM body close = (\<lambda>s. case body s of (r, t, s1) \<Rightarrow>
     (case close s1 of (r', t', s2) \<Rightarrow> (defer_result r r', t @ t', s2)))"

lemma sys_update_same: "world x = w \<Longrightarrow> packer x = p \<Longrightarrow> x\<lparr>world := w, packer := p\<rparr> = x"
  for x :: "('w, 'x) sys_scheme"
  by simp

lemma wp_in_scope [wp_simps]:
  "wp (in_scope scope m) s Q =
     wp m (scope\<lparr>world := world s, packer := packer s\<rparr>) (\<lambda>r t s'. Q r t (sys.truncate s'))"
  by (simp add: wp_def in_scope_def split: prod.splits)

lemma wp_deferM [wp_simps]:
  "wp (deferM body close) s Q = wp body s (\<lambda>r t s1. wp close s1 (\<lambda>r' t' s2. Q (defer_result r r') (t @ t') s2))"
  by (simp add: wp_def deferM_def split: prod.splits)

lemma defer_result_Ok: "defer_result r r' = Ok a \<longleftrightarrow> r = Ok a \<and> r' = Ok ()"
  by (cases r; cases r') auto

section \<open>What the constructors read and return\<close>

text \<open>The calls that only read an object of the API server.\<close>

fun is_read :: "call \<Rightarrow> bool" where
  "is_read (KubeGetC _ _ _) = True"
| "is_read (KubeListC _ _) = True"
| "is_read _ = False"

definition only_reads :: "call list \<Rightarrow> bool" where
  "only_reads t \<longleftrightarrow> (\<forall>x \<in> set t. is_read x)"

lemma only_reads_simps [simp]:
  "only_reads []" "only_reads (x # t) \<longleftrightarrow> is_read x \<and> only_reads t"
  "only_reads (t @ t') \<longleftrightarrow> only_reads t \<and> only_reads t'"
  by (auto simp: only_reads_def)

text \<open>A trace that ends in \<open>t'\<close> after calls that only read.\<close>

definition reads_then :: "call list \<Rightarrow> call list \<Rightarrow> bool" where
  "reads_then t' t \<longleftrightarrow> (\<exists>t0. only_reads t0 \<and> t = t0 @ t')"

lemma reads_then_append [simp]: "only_reads t0 \<Longrightarrow> reads_then t' (t0 @ t')"
  by (auto simp: reads_then_def)

lemma reads_then_Cons [simp]: "is_read x \<Longrightarrow> reads_then t' t \<Longrightarrow> reads_then t' (x # t)"
  unfolding reads_then_def by (metis append_Cons only_reads_simps(2))

lemma token_secret_wp:
  "wp (token_secret k ns name) s (\<lambda>r t s'. only_reads t \<and> \<not> is_panic r \<and> packer s' = packer s)"
  by (auto simp: token_secret_def wp_simps client_defs wp_extcall ext_post_iff)

lemma HcloudClientFactory_wp:
  "wp (HcloudClientFactory k hc) s (\<lambda>r t s'. only_reads t \<and> packer s' = packer s \<and>
     (is_panic r \<longrightarrow> hcs_HcloudTokenRef (hc_Spec hc) = None))"
  by (auto simp: HcloudClientFactory_def Let_def wp_simps bind_post_def
      intro!: wp_mono[OF token_secret_wp] split: res.splits option.splits sum.splits)

lemma HrobotClientFactory_wp:
  "wp (HrobotClientFactory k hc ref) s (\<lambda>r t s'. only_reads t \<and> packer s' = packer s \<and> \<not> is_panic r)"
  by (auto simp: HrobotClientFactory_def Let_def wp_simps bind_post_def
      intro!: wp_mono[OF token_secret_wp] split: res.splits option.splits sum.splits)

lemma NewClusterScope_wp:
  fixes s :: "'w sys"
  shows "wp (NewClusterScope env (Some cluster) (Some hc)) s (\<lambda>r t s'. only_reads t \<and> packer s' = packer s \<and>
     (is_panic r \<longrightarrow> hcs_HcloudTokenRef (hc_Spec hc) = None) \<and>
     (\<forall>cs. r = Ok cs \<longrightarrow> cs_Cluster cs = cluster \<and> cs_HcloudCluster cs = hc \<and> cs_patchHelper cs = hc \<and>
        world cs = world s' \<and> packer cs = packer s'))"
proof -
  have rest: "wp (bindM (HcloudClientFactory (e_kube env) hc) (\<lambda>hcloudToken.
            bindM (NewHelper env ''HcloudCluster'' (hc_Meta hc)) (\<lambda>_.
            bindM (getsM id) (\<lambda>s.
            ret (sys.extend s (ClusterScope.fields cluster hc hc hcloudToken (fst robot) (snd robot)))))))
     s0 (\<lambda>r t s'. only_reads t \<and> packer s' = packer s0 \<and>
     (is_panic r \<longrightarrow> hcs_HcloudTokenRef (hc_Spec hc) = None) \<and>
     (\<forall>cs. r = Ok cs \<longrightarrow> cs_Cluster cs = cluster \<and> cs_HcloudCluster cs = hc \<and> cs_patchHelper cs = hc \<and>
        world cs = world s' \<and> packer cs = packer s'))" for robot and s0 :: "'w sys"
    by (auto simp: NewHelper_def wp_simps bind_post_def sys.defs ClusterScope.defs
        intro!: wp_mono[OF HcloudClientFactory_wp] split: res.splits option.splits)
  show ?thesis
  proof (cases "hcs_HrobotTokenRef (hc_Spec hc)")
    case None
    then show ?thesis using rest[of "([], [])" s] by (simp add: NewClusterScope_def wp_bindM wp_ret)
  next
    case (Some ref)
    show ?thesis
      unfolding NewClusterScope_def Some option.case wp_bindM[of "HrobotClientFactory _ _ _"]
      apply (rule wp_mono[OF HrobotClientFactory_wp])
      apply (auto simp: bind_post_def split: res.splits)
      subgoal for t s' a b using rest[of "(a, b)" s'] by simp
      done
  qed
qed

lemma NewMachineScope_wp:
  "wp (NewMachineScope env (Some cluster) (Some hc) (Some m) (Some hm)) s
     (\<lambda>r t s'. only_reads t \<and> packer s' = packer s \<and>
     (\<forall>ms. r = Ok ms \<longrightarrow> cs_Cluster ms = cluster \<and> cs_HcloudCluster ms = hc \<and>
        ms_Machine ms = m \<and> ms_HcloudMachine ms = hm \<and> ms_patchHelper ms = hm \<and>
        world ms = world s' \<and> packer ms = packer s'))"
  by (auto simp: NewMachineScope_def NewHelper_def wp_simps bind_post_def ClusterScope.defs MachineScope.defs
      intro!: wp_mono[OF NewClusterScope_wp] split: res.splits option.splits)

lemma NewVolumeScope_wp:
  "wp (NewVolumeScope env (Some cluster) (Some hc) (Some hv)) s
     (\<lambda>r t s'. only_reads t \<and> packer s' = packer s \<and>
     (\<forall>vs. r = Ok vs \<longrightarrow> cs_Cluster vs = cluster \<and> cs_HcloudCluster vs = hc \<and>
        vs_HcloudVolume vs = hv \<and> vs_patchHelper vs = hv \<and>
        world vs = world s' \<and> packer vs = packer s'))"
  by (auto simp: NewVolumeScope_def NewHelper_def wp_simps bind_post_def ClusterScope.defs VolumeScope.defs
      intro!: wp_mono[OF NewClusterScope_wp] split: res.splits option.splits)

section \<open>An environment for concrete runs\<close>

definition offline_env :: "'w Env" where
  "offline_env = \<lparr>e_kube = offline_kube, e_hcloud = (\<lambda>token. offline_hcloud\<lparr>h_Token := token\<rparr>),
     e_hrobot = (\<lambda>_ _. offline_robot), e_os = offline_os, e_generateName = (\<lambda>p. p @ ''x''),
     e_AddFinalizer = (\<lambda>f fs. if f \<in> set fs then fs else fs @ [f]),
     e_RemoveFinalizer = removeAll, e_NewHelper = (\<lambda>_ _. None)\<rparr>"

lemma documented_offline_env: "documented_finalizers offline_env"
  by (auto simp: documented_finalizers_def offline_env_def)

text \<open>A management cluster with one HcloudCluster, whose token is in a secret.\<close>

definition example_HcloudCluster :: HcloudCluster where
  "example_HcloudCluster = zero_HcloudCluster\<lparr>hc_Meta := zero_ObjectMeta\<lparr>om_Name := ''c1'', om_Namespace := ''default''\<rparr>,
     hc_Spec := (hc_Spec zero_HcloudCluster)\<lparr>hcs_HcloudTokenRef := Some \<lparr>sel_Name = ''token'', sel_Key = ''hcloud''\<rparr>\<rparr>\<rparr>"

definition example_cluster_kube :: "'w KubeClient" where
  "example_cluster_kube = offline_kube
     \<lparr>k_GetClusterFromMetadata := \<lambda>_ w. (Inr (zero_Cluster\<lparr>cl_Name := ''c1'', cl_InfrastructureRefName := Some ''c1''\<rparr>), w),
      k_GetOwnerCluster := \<lambda>_ w. (Inr (Some (zero_Cluster\<lparr>cl_Name := ''c1'', cl_InfrastructureRefName := Some ''c1''\<rparr>)), w),
      k_GetHcloudCluster := \<lambda>_ _ w. (Inr example_HcloudCluster, w),
      k_GetSecret := \<lambda>_ _ w. (Inr [(''hcloud'', ''t0ken'')], w)\<rparr>"

end
