(* ===== verification/Frames.thy ===== *)
theory Frames
  imports Clients
begin

text \<open>
  What a program leaves alone. \<open>frame P f m\<close> says that, from every state, every call of \<open>m\<close>
  satisfies \<open>P\<close> and the part \<open>f\<close> of the state is the same afterwards, whatever the outcome.
  The collection \<open>frame_intros\<close> has one rule per combinator, so that the frame of a
  service follows from its text.
\<close>

named_theorems frame_intros "frames of the program combinators"

definition frame :: "('c \<Rightarrow> bool) \<Rightarrow> ('s \<Rightarrow> 'f) \<Rightarrow> ('s, 'c, 'a) M \<Rightarrow> bool" where
  "frame P f m \<longleftrightarrow> (\<forall>s. wp m s (\<lambda>r t s'. (\<forall>x \<in> set t. P x) \<and> f s' = f s))"

lemma frameI: "(\<And>s. wp m s (\<lambda>r t s'. (\<forall>x \<in> set t. P x) \<and> f s' = f s)) \<Longrightarrow> frame P f m"
  by (simp add: frame_def)

lemma frame_wp: "frame P f m \<Longrightarrow> wp m s (\<lambda>r t s'. (\<forall>x \<in> set t. P x) \<and> f s' = f s)"
  by (simp add: frame_def)

lemma frame_mono: "frame P f m \<Longrightarrow> (\<And>x. P x \<Longrightarrow> P' x) \<Longrightarrow> frame P' f m"
  by (auto simp: frame_def wp_def split: prod.splits)

lemma frame_part: "frame P f m \<Longrightarrow> (\<And>s s'. f s' = f s \<Longrightarrow> g s' = g s) \<Longrightarrow> frame P g m"
  unfolding frame_def by (blast intro: wp_mono)

lemma frame_pure [frame_intros]:
  "frame P f (ret a)" "frame P f (failM e)" "frame P f (panicM p)" "frame P f (getsM g)"
  by (auto simp: frame_def wp_simps)

lemma frame_lifts [frame_intros]: "frame P f (liftM x)" "frame P f (derefM what p)"
  by (auto simp: frame_def wp_simps split: sum.splits option.splits)

lemma frame_tellM [frame_intros]: "P c \<Longrightarrow> frame P f (tellM c)"
  by (simp add: frame_def wp_simps)

lemma frame_Eventf [frame_intros]: "P (EventC ty reason) \<Longrightarrow> frame P f (Eventf ty reason)"
  by (simp add: frame_def wp_simps)

lemma frame_modifyM [frame_intros]: "(\<And>s. f (g s) = f s) \<Longrightarrow> frame P f (modifyM g)"
  by (simp add: frame_def wp_simps)

lemma frame_bindM [frame_intros]:
  assumes "frame P f m" and "\<And>a. frame P f (k a)"
  shows "frame P f (bindM m k)"
  unfolding frame_def
proof
  fix s
  show "wp (bindM m k) s (\<lambda>r t s'. (\<forall>x \<in> set t. P x) \<and> f s' = f s)"
    unfolding wp_bindM
  proof (rule wp_mono[OF frame_wp[OF assms(1)]])
    fix r t s1
    assume *: "(\<forall>x \<in> set t. P x) \<and> f s1 = f s"
    show "bind_post k (\<lambda>r t s'. (\<forall>x \<in> set t. P x) \<and> f s' = f s) r t s1"
    proof (cases r)
      case (Ok a)
      with * show ?thesis by (auto intro!: wp_mono[OF frame_wp[OF assms(2)]])
    qed (use * in auto)
  qed
qed

lemma frame_tryM [frame_intros]: "frame P f m \<Longrightarrow> frame P f (tryM m)"
  unfolding frame_def wp_tryM by (auto simp: wp_def try_post_def split: res.splits prod.splits)

lemma frame_mapErrM [frame_intros]: "frame P f m \<Longrightarrow> frame P f (mapErrM g m)"
  by (simp add: frame_def wp_mapErrM)

lemma frame_whenM [frame_intros]: "frame P f m \<Longrightarrow> frame P f (whenM b m)"
  by (simp add: whenM_def frame_intros)

lemma frame_cases [frame_intros]:
  "frame P f m \<Longrightarrow> frame P f m' \<Longrightarrow> frame P f (if b then m else m')"
  "frame P f m \<Longrightarrow> (\<And>a. frame P f (k a)) \<Longrightarrow> frame P f (case x of None \<Rightarrow> m | Some a \<Rightarrow> k a)"
  "(\<And>a. frame P f (k1 a)) \<Longrightarrow> (\<And>a. frame P f (k2 a)) \<Longrightarrow> frame P f (case y of Inl a \<Rightarrow> k1 a | Inr a \<Rightarrow> k2 a)"
  "frame P f m \<Longrightarrow> (\<And>a as. frame P f (k3 a as)) \<Longrightarrow> frame P f (case xs of [] \<Rightarrow> m | a # as \<Rightarrow> k3 a as)"
  "(\<And>a b. frame P f (k4 a b)) \<Longrightarrow> frame P f (case p of (a, b) \<Rightarrow> k4 a b)"
  by (auto split: option.splits sum.splits list.splits prod.splits)

lemma frame_Let [frame_intros]: "(\<And>a. frame P f (k a)) \<Longrightarrow> frame P f (let a = x in k a)"
  by (simp add: Let_def)

lemma frame_extcall [frame_intros]:
  "P c \<Longrightarrow> (\<And>s w. f (s\<lparr>world := w\<rparr>) = f s) \<Longrightarrow> frame P f (extcall c g)"
  by (simp add: frame_def wp_extcall ext_post_iff)

lemma frame_forM [frame_intros]: "(\<And>x. frame P f (g x)) \<Longrightarrow> frame P f (forM g xs)"
  by (induction xs) (auto intro!: frame_intros)

lemma frame_mapMM [frame_intros]: "(\<And>x. frame P f (g x)) \<Longrightarrow> frame P f (mapMM g xs)"
  by (induction xs) (auto intro!: frame_intros)

lemma frame_run:
  assumes "frame P f m" and "m s = (r, t, s')"
  shows "\<forall>x \<in> set t. P x" and "f s' = f s"
  using wpD[OF frame_wp[OF assms(1)] assms(2)] by auto

text \<open>The state and calls together with another postcondition.\<close>

lemma wp_frame:
  assumes "frame P f m" and "wp m s (\<lambda>r t s'. (\<forall>x \<in> set t. P x) \<longrightarrow> f s' = f s \<longrightarrow> Q r t s')"
  shows "wp m s Q"
  using frame_wp[OF assms(1), of s] assms(2) by (auto simp: wp_def split: prod.splits)

end
