(* ===== verification/Webhooks.thy ===== *)
theory Webhooks
  imports Location_Service
begin

text \<open>
  The validating webhooks of api/v1alpha3: what the API server asks before it stores a new or
  changed HcloudCluster or HcloudMachine. The webhook of bare metal machines is commented out in the source
  and has no model. A rejected field is its path and the detail of the error; the rejected
  value and the group and kind are part of the message text only.

  The lemmas show what a chain of admitted updates can never change, and which of the
  controller's own writes the webhook admits.
\<close>

section \<open>Decisions\<close>

datatype runtime_Object =
    ObjHcloudCluster HcloudCluster
  | ObjHcloudMachine HcloudMachine
  | ObjOther string

datatype field_error = FieldInvalid "string list" string

datatype admission = Allowed | BadRequest string | NewInvalid string "field_error list"

fun type_name :: "runtime_Object \<Rightarrow> string" where
  "type_name (ObjHcloudCluster _) = ''*v1alpha3.HcloudCluster''"
| "type_name (ObjHcloudMachine _) = ''*v1alpha3.HcloudMachine''"
| "type_name (ObjOther ty) = ty"

definition aggregateObjErrors :: "string \<Rightarrow> field_error list \<Rightarrow> admission" where
  "aggregateObjErrors name allErrs = (if length allErrs = 0 then Allowed else NewInvalid name allErrs)"

section \<open>Clusters\<close>

definition HcloudCluster_ValidateCreate :: "HcloudCluster \<Rightarrow> admission" where
  "HcloudCluster_ValidateCreate r = Allowed"

definition HcloudCluster_ValidateDelete :: "HcloudCluster \<Rightarrow> admission" where
  "HcloudCluster_ValidateDelete r = Allowed"

definition string_set :: "string list \<Rightarrow> string set" where
  "string_set ls = foldl (\<lambda>ss l. insert l ss) {} ls"

definition HcloudCluster_ValidateUpdate :: "HcloudCluster \<Rightarrow> runtime_Object \<Rightarrow> admission" where
  "HcloudCluster_ValidateUpdate r old = (case old of
      ObjHcloudCluster oldC \<Rightarrow>
        let oldLocations = string_set (hcs_Locations (hc_Spec oldC));
            newLocations = string_set (hcs_Locations (hc_Spec r));
            allErrs = (if oldLocations \<noteq> newLocations
              then [FieldInvalid [''spec'', ''locations''] ''field is immutable''] else [])
        in aggregateObjErrors (om_Name (hc_Meta r)) allErrs
    | _ \<Rightarrow> BadRequest (''expected an HcloudCluster but got a '' @ type_name old))"

section \<open>Machines\<close>

definition validateHcloudMachineSpec :: "HcloudMachine \<Rightarrow> admission" where
  "validateHcloudMachineSpec r =
     (let allErrs = (if length (hms_Type (hm_Spec r)) = 0
          then [FieldInvalid [''spec'', ''type''] ''field cannot be empty''] else [])
      in aggregateObjErrors (om_Name (hm_Meta r)) allErrs)"

definition HcloudMachine_ValidateCreate :: "HcloudMachine \<Rightarrow> admission" where
  "HcloudMachine_ValidateCreate r = validateHcloudMachineSpec r"

definition HcloudMachine_ValidateUpdate :: "HcloudMachine \<Rightarrow> runtime_Object \<Rightarrow> admission" where
  "HcloudMachine_ValidateUpdate r old = (case old of
      ObjHcloudMachine oldM \<Rightarrow>
        let allErrs = (if hms_Type (hm_Spec r) \<noteq> hms_Type (hm_Spec oldM)
              then [FieldInvalid [''spec'', ''type''] ''field is immutable''] else [])
        in aggregateObjErrors (om_Name (hm_Meta r)) allErrs
    | _ \<Rightarrow> BadRequest (''expected an HcloudMachine but got a '' @ type_name old))"

definition HcloudMachine_ValidateDelete :: "HcloudMachine \<Rightarrow> admission" where
  "HcloudMachine_ValidateDelete r = Allowed"

section \<open>The objects the API server can come to store\<close>

text \<open>
  An object comes into being by an admitted creation and changes by admitted updates; the
  webhook gets the stored object as the old one.
\<close>

fun history :: "('a \<Rightarrow> bool) \<Rightarrow> ('a \<Rightarrow> 'a \<Rightarrow> bool) \<Rightarrow> 'a list \<Rightarrow> bool" where
  "history create update [] = False"
| "history create update [x] = create x"
| "history create update (y # x # xs) = (update y x \<and> history create update (x # xs))"

definition machine_history :: "HcloudMachine list \<Rightarrow> bool" where
  "machine_history = history (\<lambda>m. HcloudMachine_ValidateCreate m = Allowed)
     (\<lambda>new old. HcloudMachine_ValidateUpdate new (ObjHcloudMachine old) = Allowed)"

definition cluster_history :: "HcloudCluster list \<Rightarrow> bool" where
  "cluster_history = history (\<lambda>c. HcloudCluster_ValidateCreate c = Allowed)
     (\<lambda>new old. HcloudCluster_ValidateUpdate new (ObjHcloudCluster old) = Allowed)"

text \<open>
  The contract of a validator that guards a field: an admitted creation has a legal value
  there, an admitted update has the old one. It is enough for every stored version to have
  the value of the first.
\<close>

locale immutable_field =
  fixes create :: "'a \<Rightarrow> bool" and update :: "'a \<Rightarrow> 'a \<Rightarrow> bool"
    and key :: "'a \<Rightarrow> 'k" and legal :: "'k \<Rightarrow> bool"
  assumes create_legal: "create x \<Longrightarrow> legal (key x)"
    and update_keeps: "update y x \<Longrightarrow> key y = key x"
begin

lemma history_key: "history create update (x # xs) \<Longrightarrow> legal (key x) \<and> (\<forall>y \<in> set xs. key y = key x)"
  by (induction xs arbitrary: x) (auto simp: create_legal dest: update_keeps)

lemma history_constant: "history create update xs \<Longrightarrow> \<exists>v. legal v \<and> (\<forall>y \<in> set xs. key y = v)"
  by (cases xs) (use history_key in fastforce)+

end

lemma aggregateObjErrors_Allowed [simp]: "aggregateObjErrors name es = Allowed \<longleftrightarrow> es = []"
  by (simp add: aggregateObjErrors_def)

lemma string_set [simp]: "string_set ls = set ls"
proof -
  have "foldl (\<lambda>ss l. insert l ss) A ls = A \<union> set ls" for A
    by (induction ls arbitrary: A) auto
  then show ?thesis by (simp add: string_set_def)
qed

lemma HcloudCluster_ValidateUpdate_Allowed:
  "HcloudCluster_ValidateUpdate r old = Allowed \<longleftrightarrow>
     (\<exists>c. old = ObjHcloudCluster c \<and> set (hcs_Locations (hc_Spec c)) = set (hcs_Locations (hc_Spec r)))"
  by (auto simp: HcloudCluster_ValidateUpdate_def Let_def split: runtime_Object.splits)

lemma HcloudMachine_ValidateUpdate_Allowed:
  "HcloudMachine_ValidateUpdate r old = Allowed \<longleftrightarrow>
     (\<exists>m. old = ObjHcloudMachine m \<and> hms_Type (hm_Spec m) = hms_Type (hm_Spec r))"
  by (auto simp: HcloudMachine_ValidateUpdate_def Let_def split: runtime_Object.splits)

interpretation machine_type: immutable_field "\<lambda>m. HcloudMachine_ValidateCreate m = Allowed"
    "\<lambda>new old. HcloudMachine_ValidateUpdate new (ObjHcloudMachine old) = Allowed"
    "\<lambda>m. hms_Type (hm_Spec m)" "\<lambda>ty. ty \<noteq> []"
  by unfold_locales (auto simp: HcloudMachine_ValidateCreate_def validateHcloudMachineSpec_def Let_def
      HcloudMachine_ValidateUpdate_Allowed split: if_splits)

interpretation cluster_locations: immutable_field "\<lambda>c. HcloudCluster_ValidateCreate c = Allowed"
    "\<lambda>new old. HcloudCluster_ValidateUpdate new (ObjHcloudCluster old) = Allowed"
    "\<lambda>c. set (hcs_Locations (hc_Spec c))" "\<lambda>_. True"
  by unfold_locales (auto simp: HcloudCluster_ValidateUpdate_Allowed)

section \<open>Properties\<close>

text \<open>
  C26. Every version of a machine that the API server ever stores has the same type, which is
  not empty, and every version of a cluster the same set of locations, whatever else the
  updates in between changed.
\<close>

theorem webhooks_keep_immutable:
  assumes "machine_history ms" and "cluster_history cs"
  shows "(\<exists>ty. ty \<noteq> [] \<and> (\<forall>m \<in> set ms. hms_Type (hm_Spec m) = ty)) \<and>
    (\<exists>L. \<forall>c \<in> set cs. set (hcs_Locations (hc_Spec c)) = L)"
  using machine_type.history_constant assms(1)[unfolded machine_history_def]
    cluster_locations.history_constant[OF assms(2)[unfolded cluster_history_def]] by blast

definition example_typed :: "string \<Rightarrow> HcloudMachine" where
  "example_typed image_name = zero_HcloudMachine\<lparr>hm_Spec := (hm_Spec zero_HcloudMachine)
     \<lparr>hms_Type := ''cx21'', hms_ImageName := image_name\<rparr>\<rparr>"

definition example_located :: "HcloudLocation list \<Rightarrow> HcloudCluster" where
  "example_located ls = zero_HcloudCluster\<lparr>hc_Spec := (hc_Spec zero_HcloudCluster)\<lparr>hcs_Locations := ls\<rparr>\<rparr>"

lemma webhooks_keep_immutable_witness:
  "\<exists>ty. ty \<noteq> [] \<and> hms_Type (hm_Spec (example_typed ''b'')) = ty \<and> hms_Type (hm_Spec (example_typed ''a'')) = ty"
proof -
  have m: "machine_history [example_typed ''b'', example_typed ''a'']"
    by (simp add: machine_history_def HcloudMachine_ValidateCreate_def validateHcloudMachineSpec_def
        HcloudMachine_ValidateUpdate_Allowed example_typed_def)
  have c: "cluster_history [example_located [''nbg1'', ''fsn1''], example_located [''fsn1'', ''nbg1'']]"
    by (auto simp: cluster_history_def HcloudCluster_ValidateCreate_def
        HcloudCluster_ValidateUpdate_Allowed example_located_def)
  from webhooks_keep_immutable[OF m c] show ?thesis by simp
qed

text \<open>
  The webhook admits what a successful reconcile of the locations writes to the cluster
  exactly when the cluster named its locations: sorting them keeps the set. The defaults
  that the reconcile fills in for a cluster that names none are rejected, since the webhook
  takes the empty list for a value that is immutable like any other.
\<close>

theorem location_write_admitted:
  assumes "outcome (cluster_location_Reconcile c s) = Ok ()"
  shows "HcloudCluster_ValidateUpdate (cs_HcloudCluster (final (cluster_location_Reconcile c s)))
      (ObjHcloudCluster (cs_HcloudCluster s)) =
    (if hcs_Locations (hc_Spec (cs_HcloudCluster s)) \<noteq> [] then Allowed
     else NewInvalid (om_Name (hc_Meta (cs_HcloudCluster s)))
       [FieldInvalid [''spec'', ''locations''] ''field is immutable''])"
proof -
  let ?spec = "hcs_Locations (hc_Spec (cs_HcloudCluster s))"
  from assms obtain all w ls z where l: "h_ListLocation c (world s) = (Inr all, w)"
    and sel: "select_locations all ?spec = Inr (ls, z)"
    by (auto simp: cluster_location_Reconcile_eq outcome_def split: prod.splits sum.splits)
  have new: "cs_HcloudCluster (final (cluster_location_Reconcile c s)) =
      cs_HcloudCluster (with_locations ls z (s\<lparr>world := w\<rparr>))"
    using l sel by (simp add: cluster_location_Reconcile_eq final_def)
  have meta: "hc_Meta (cs_HcloudCluster (with_locations ls z (s\<lparr>world := w\<rparr>))) = hc_Meta (cs_HcloudCluster s)"
    by (simp add: with_locations_def scope_update_defs)
  show ?thesis
  proof (cases "?spec = []")
    case True
    then show ?thesis using select_locations_props(1)[OF sel] new meta
      by (simp add: HcloudCluster_ValidateUpdate_def Let_def aggregateObjErrors_def)
  next
    case False
    then have "set ls = set ?spec"
      using select_locations_props(4)[OF sel] by (metis set_mset_mset)
    then show ?thesis using False new by (simp add: HcloudCluster_ValidateUpdate_Allowed)
  qed
qed

lemma location_write_admitted_witness:
  "HcloudCluster_ValidateUpdate
     (cs_HcloudCluster (final (cluster_location_Reconcile example_location_client (zero_ClusterScope ()))))
     (ObjHcloudCluster zero_HcloudCluster) \<noteq> Allowed"
proof -
  have "outcome (cluster_location_Reconcile example_location_client (zero_ClusterScope ())) = Ok ()"
    by code_simp
  from location_write_admitted[OF this] show ?thesis by (simp add: zero_ClusterScope_def zero_HcloudCluster_def)
qed

end
