(* ===== verification/Csr.thy ===== *)
theory Csr
  imports Scope
begin

text \<open>
  The certificates of kubelets: pkg/csr/csr.go decides whether a certificate request is the one that
  the kubelet of a given HcloudMachine would make, and the controller of
  controllers/cluster\_csr\_controller.go runs in the target cluster and approves or denies the requests
  of nodes accordingly.

  Parsing (PEM blocks, ASN.1) and the check of the signature are parameters, \<open>X509\<close>. A parsed
  request has the fields the program reads: of the subject, all fields that the comparison
  with the expected subject looks at. An aggregate of errors is the list of its parts, so a nil
  error is the empty list; their texts are not modelled.

  The lemmas show that only a request for the machine's own name and addresses is approved, and that a
  decided request is never touched.
\<close>

section \<open>Certificate requests\<close>

datatype attribute_value = AttrString string | AttrOther string

record pkix_Name =
  pn_Country :: "string list"
  pn_Organization :: "string list"
  pn_OrganizationalUnit :: "string list"
  pn_Locality :: "string list"
  pn_Province :: "string list"
  pn_StreetAddress :: "string list"
  pn_PostalCode :: "string list"
  pn_SerialNumber :: string
  pn_CommonName :: string
  pn_Names :: "(nat list \<times> attribute_value) list"
  pn_ExtraNames :: "(nat list \<times> attribute_value) list"

record CertificateRequest =
  cr_Subject :: pkix_Name
  cr_DNSNames :: "string list"
  cr_EmailAddresses :: "string list"
  cr_IPAddresses :: "IP list"
  cr_Signature :: string

record X509 =
  x_Decode :: "string \<Rightarrow> string option"
  x_ParseCertificateRequest :: "string \<Rightarrow> error + CertificateRequest"
  x_CheckSignature :: "CertificateRequest \<Rightarrow> error option"

section \<open>Validation: pkg/csr/csr.go\<close>

definition NodesPrefix :: string where "NodesPrefix = ''system:node:''"

definition NodesGroup :: string where "NodesGroup = ''system:nodes''"

datatype csr_error =
    CSRSignature error | CSRSubject | CSREmails "string list" | CSRDNSName string | CSRIPAddress string

definition subjectExpected :: "string \<Rightarrow> pkix_Name" where
  "subjectExpected username = \<lparr>pn_Country = [], pn_Organization = [NodesGroup],
     pn_OrganizationalUnit = [], pn_Locality = [], pn_Province = [], pn_StreetAddress = [],
     pn_PostalCode = [], pn_SerialNumber = [], pn_CommonName = username,
     pn_Names = [([2, 5, 4, 10], AttrString NodesGroup), ([2, 5, 4, 3], AttrString username)],
     pn_ExtraNames = []\<rparr>"

fun allowed_addresses :: "NodeAddress list \<Rightarrow> string set" where
  "allowed_addresses [] = {}"
| "allowed_addresses (a # as) =
     (case na_Type a of
        NodeInternalIP \<Rightarrow> insert (na_Address a) (allowed_addresses as)
      | NodeExternalIP \<Rightarrow> insert (na_Address a) (allowed_addresses as)
      | _ \<Rightarrow> allowed_addresses as)"

definition ValidateKubeletCSR :: "X509 \<Rightarrow> CertificateRequest \<Rightarrow> HcloudMachine \<Rightarrow> csr_error list" where
  "ValidateKubeletCSR x csr machine = (case x_CheckSignature x csr of
      Some err \<Rightarrow> [CSRSignature err]
    | None \<Rightarrow>
        let username = NodesPrefix @ om_Name (hm_Meta machine);
            allowedDNSNames = {om_Name (hm_Meta machine)};
            allowedIPAddresses = allowed_addresses (hmt_Addresses (hm_Status machine))
        in (if subjectExpected username \<noteq> cr_Subject csr then [CSRSubject] else []) @
           (if length (cr_EmailAddresses csr) > 0 then [CSREmails (cr_EmailAddresses csr)] else []) @
           map CSRDNSName (filter (\<lambda>name. name \<notin> allowedDNSNames) (cr_DNSNames csr)) @
           map CSRIPAddress (filter (\<lambda>ip. ip \<notin> allowedIPAddresses) (map IP_String (cr_IPAddresses csr))))"

section \<open>The controller: controllers/cluster\_csr\_controller.go\<close>

text \<open>
  The API server of the target cluster. \<open>ns\<close> is the namespace of the HcloudCluster in the
  management cluster, whose client is \<open>k\<close>.
\<close>

record 'w GuestClient =
  g_GetCSR :: "string \<Rightarrow> 'w \<Rightarrow> (error + CertificateSigningRequest) \<times> 'w"
  g_UpdateApproval :: "CertificateSigningRequest \<Rightarrow> 'w \<Rightarrow> (error + unit) \<times> 'w"

definition GetCSR :: "'w GuestClient \<Rightarrow> string \<Rightarrow> (('w, 'x) sys_scheme, call, CertificateSigningRequest) M" where
  "GetCSR g name = extcall (GetCSRC name) (g_GetCSR g name)"

definition UpdateApproval :: "'w GuestClient \<Rightarrow> CertificateSigningRequest \<Rightarrow> (('w, 'x) sys_scheme, call, unit) M" where
  "UpdateApproval g csr = extcall (UpdateApprovalC csr) (g_UpdateApproval g csr)"

definition csr_condition :: "csr_error list \<Rightarrow> CSRCondition" where
  "csr_condition err = (if err \<noteq> []
     then \<lparr>cnd_Type = CertificateDenied, cnd_Reason = ''CSRValidationFailed''\<rparr>
     else \<lparr>cnd_Type = CertificateApproved, cnd_Reason = ''CSRValidationSucceed''\<rparr>)"

definition decide ::
    "X509 \<Rightarrow> 'w GuestClient \<Rightarrow> CertificateSigningRequest \<Rightarrow> HcloudMachine \<Rightarrow> (('w, 'x) sys_scheme, call, unit) M" where
  "decide x g csr hcloudMachine =
     bindM (derefM ''csrBlock'' (x_Decode x (csr_Request csr))) (\<lambda>csrBlock.
     case x_ParseCertificateRequest x csrBlock of
       Inl err \<Rightarrow>
         bindM (Eventf EventTypeWarning ''CSRParsingError'') (\<lambda>_.
         failM err)
     | Inr csrRequest \<Rightarrow>
         let condition = csr_condition (ValidateKubeletCSR x csrRequest hcloudMachine) in
         bindM (tryM (UpdateApproval g (csr\<lparr>csr_Conditions := csr_Conditions csr @ [condition]\<rparr>))) (\<lambda>_.
         ret ()))"

definition GuestCSR_Reconcile ::
    "X509 \<Rightarrow> 'w KubeClient \<Rightarrow> 'w GuestClient \<Rightarrow> string \<Rightarrow> string \<Rightarrow> (('w, 'x) sys_scheme, call, unit) M" where
  "GuestCSR_Reconcile x k g ns name =
     bindM (tryM (GetCSR g name)) (\<lambda>got.
     case got of
       Inl err \<Rightarrow> if IsNotFound err then ret () else failM err
     | Inr csr \<Rightarrow>
         if length (csr_Conditions csr) > 0 then ret ()
         else if \<not> HasPrefix (csr_Username csr) NodesPrefix then ret ()
         else
           bindM (GetHcloudMachine k ns (TrimPrefix (csr_Username csr) NodesPrefix)) (\<lambda>hcloudMachine.
           decide x g csr hcloudMachine))"

section \<open>What a valid request is\<close>

text \<open>
  The specification: the request is signed with its own key, its subject is the node's user in the
  nodes' group and nothing else, it asks for no e-mail address, for no DNS name but the
  machine's and for no IP address that is not an internal or external one of the machine.
\<close>

definition kubelet_request_ok :: "X509 \<Rightarrow> CertificateRequest \<Rightarrow> HcloudMachine \<Rightarrow> bool" where
  "kubelet_request_ok x csr m \<longleftrightarrow>
     x_CheckSignature x csr = None \<and>
     cr_Subject csr = subjectExpected (NodesPrefix @ om_Name (hm_Meta m)) \<and>
     cr_EmailAddresses csr = [] \<and>
     set (cr_DNSNames csr) \<subseteq> {om_Name (hm_Meta m)} \<and>
     (\<forall>ip \<in> set (cr_IPAddresses csr). \<exists>a \<in> set (hmt_Addresses (hm_Status m)).
        na_Type a \<in> {NodeInternalIP, NodeExternalIP} \<and> na_Address a = IP_String ip)"

lemma allowed_addresses_iff:
  "ip \<in> allowed_addresses as \<longleftrightarrow>
     (\<exists>a \<in> set as. na_Type a \<in> {NodeInternalIP, NodeExternalIP} \<and> na_Address a = ip)"
  by (induction as) (auto split: NodeAddressType.splits)

lemma ValidateKubeletCSR_ok: "ValidateKubeletCSR x csr m = [] \<longleftrightarrow> kubelet_request_ok x csr m"
  by (auto simp: ValidateKubeletCSR_def kubelet_request_ok_def Let_def filter_empty_conv
      allowed_addresses_iff split: option.splits)

lemma csr_condition_type:
  "cnd_Type (csr_condition (ValidateKubeletCSR x csr m)) =
     (if kubelet_request_ok x csr m then CertificateApproved else CertificateDenied)"
  by (simp add: csr_condition_def flip: ValidateKubeletCSR_ok)

lemma HasPrefix_take_iff: "HasPrefix s p \<longleftrightarrow> (\<exists>r. s = p @ r)"
  by (auto simp: HasPrefix_def) (metis append_take_drop_id)

lemma TrimPrefix_append [simp]: "TrimPrefix (p @ r) p = r"
  by (simp add: TrimPrefix_def HasPrefix_def)

definition decided ::
    "X509 \<Rightarrow> CertificateSigningRequest \<Rightarrow> CertificateRequest \<Rightarrow> HcloudMachine \<Rightarrow> CertificateSigningRequest" where
  "decided x csr req m = csr\<lparr>csr_Conditions := [csr_condition (ValidateKubeletCSR x req m)]\<rparr>"

text \<open>All that a reconcile can do once the request is known to be an undecided one of a node.\<close>

lemma GuestCSR_Reconcile_cases:
  "wp (GuestCSR_Reconcile x k g ns name) s (\<lambda>r t s'.
     (\<exists>e w. g_GetCSR g name (world s) = (Inl e, w) \<and> t = [GetCSRC name] \<and> \<not> is_panic r) \<or>
     (\<exists>csr w. g_GetCSR g name (world s) = (Inr csr, w) \<and>
        ((csr_Conditions csr \<noteq> [] \<or> (\<forall>n. csr_Username csr \<noteq> NodesPrefix @ n)) \<and> t = [GetCSRC name] \<and> r = Ok () \<or>
         (\<exists>n. csr_Conditions csr = [] \<and> csr_Username csr = NodesPrefix @ n \<and>
           ((\<exists>e w'. k_GetHcloudMachine k ns n w = (Inl e, w') \<and>
               t = [GetCSRC name, KubeGetC ''HcloudMachine'' ns n] \<and> r = Err e) \<or>
            (\<exists>m w'. k_GetHcloudMachine k ns n w = (Inr m, w') \<and>
              (x_Decode x (csr_Request csr) = None \<and> is_panic r \<and>
                 t = [GetCSRC name, KubeGetC ''HcloudMachine'' ns n] \<or>
               (\<exists>block. x_Decode x (csr_Request csr) = Some block \<and>
                 ((\<exists>e. x_ParseCertificateRequest x block = Inl e \<and> r = Err e \<and>
                     t = [GetCSRC name, KubeGetC ''HcloudMachine'' ns n, EventC EventTypeWarning ''CSRParsingError'']) \<or>
                  (\<exists>req. x_ParseCertificateRequest x block = Inr req \<and> r = Ok () \<and>
                     t = [GetCSRC name, KubeGetC ''HcloudMachine'' ns n,
                          UpdateApprovalC (decided x csr req m)]))))))))))"
  apply (simp add: GuestCSR_Reconcile_def decide_def GetCSR_def UpdateApproval_def wp_simps client_defs
      wp_extcall ext_post_iff Let_def decided_def)
  apply (intro conjI allI impI)
     apply (auto simp: HasPrefix_take_iff UpdateApproval_def wp_simps wp_extcall ext_post_iff
      split: option.splits sum.splits)
  done

section \<open>Properties\<close>


definition example_x509 :: X509 where
  "example_x509 = \<lparr>x_Decode = (\<lambda>s. if s = ''pem'' then Some ''der'' else None),
     x_ParseCertificateRequest = (\<lambda>_. Inr \<lparr>cr_Subject = subjectExpected ''system:node:worker-0'',
       cr_DNSNames = [''worker-0''], cr_EmailAddresses = [], cr_IPAddresses = [[10, 0, 0, 7]],
       cr_Signature = []\<rparr>),
     x_CheckSignature = (\<lambda>_. None)\<rparr>"

definition example_node :: HcloudMachine where
  "example_node = zero_HcloudMachine\<lparr>hm_Meta := zero_ObjectMeta\<lparr>om_Name := ''worker-0''\<rparr>,
     hm_Status := (hm_Status zero_HcloudMachine)\<lparr>hmt_Addresses := [\<lparr>na_Type = NodeInternalIP, na_Address = ''10.0.0.7''\<rparr>]\<rparr>\<rparr>"

definition example_guest :: "string \<Rightarrow> unit GuestClient" where
  "example_guest request = \<lparr>g_GetCSR = (\<lambda>n w. (Inr \<lparr>csr_Name = n, csr_Username = ''system:node:worker-0'',
       csr_Request = request, csr_Conditions = []\<rparr>, w)),
     g_UpdateApproval = (\<lambda>_ w. (Inr (), w))\<rparr>"

definition example_mgmt :: "unit KubeClient" where
  "example_mgmt = offline_kube\<lparr>k_GetHcloudMachine := \<lambda>_ _ w. (Inr example_node, w)\<rparr>"

definition approved_csr :: CertificateSigningRequest where
  "approved_csr = \<lparr>csr_Name = ''csr-1'', csr_Username = ''system:node:worker-0'', csr_Request = ''pem'',
     csr_Conditions = [\<lparr>cnd_Type = CertificateApproved, cnd_Reason = ''CSRValidationSucceed''\<rparr>]\<rparr>"


text \<open>
  Reconciling a request panics exactly when an undecided request of a node whose
  machine exists is not PEM, and if it can be parsed, a decision is always sent.
\<close>

theorem GuestCSR_always_decides:
  assumes "g_GetCSR g name (world s) = (Inr csr, w)" and "csr_Conditions csr = []"
    and "csr_Username csr = NodesPrefix @ n" and "k_GetHcloudMachine k ns n w = (Inr m, w')"
  shows "case GuestCSR_Reconcile x k g ns name s of (r, t, s') \<Rightarrow>
     (is_panic r \<longleftrightarrow> x_Decode x (csr_Request csr) = None) \<and>
     (r = Ok () \<longleftrightarrow> (\<exists>block req. x_Decode x (csr_Request csr) = Some block \<and>
        x_ParseCertificateRequest x block = Inr req)) \<and>
     (r = Ok () \<longrightarrow> (\<exists>csr'. UpdateApprovalC csr' \<in> set t \<and> length (csr_Conditions csr') = 1))"
proof -
  obtain r t s' where eq: "GuestCSR_Reconcile x k g ns name s = (r, t, s')" by (metis prod_cases3)
  from wpD[OF GuestCSR_Reconcile_cases eq] assms show ?thesis
    unfolding eq prod.case by (auto simp: decided_def)
qed

lemma GuestCSR_always_decides_witness:
  "is_panic (outcome (GuestCSR_Reconcile example_x509 example_mgmt (example_guest ''junk'')
       ''default'' ''csr-1'' \<lparr>world = (), packer = fresh_packer\<rparr>))"
proof -
  let ?csr = "\<lparr>csr_Name = ''csr-1'', csr_Username = ''system:node:worker-0'', csr_Request = ''junk'', csr_Conditions = []\<rparr>"
  have "g_GetCSR (example_guest ''junk'') ''csr-1'' () = (Inr ?csr, ())"
    and "csr_Conditions ?csr = []" and "csr_Username ?csr = NodesPrefix @ ''worker-0''"
    and "k_GetHcloudMachine example_mgmt ''default'' ''worker-0'' () = (Inr example_node, ())"
    by (simp_all add: example_guest_def example_mgmt_def NodesPrefix_def)
  from GuestCSR_always_decides[where s = "\<lparr>world = (), packer = fresh_packer\<rparr>" and x = example_x509, OF _ this(2-4), simplified, OF this(1)]
  show ?thesis by (auto simp: outcome_def example_x509_def split: prod.splits)
qed

end
