(* ===== verification/Finalizers.thy ===== *)
theory Finalizers
  imports Scope_Build Frames
begin

text \<open>
  The protocol that the controllers follow for the finalizer of their object (controllers/*\_controller.go): a
  reconcile works on the object of a scope and closes the scope with a patch of that object; the finalizer is added
  when the object is not being deleted, and removed after the services have deleted what belongs to
  it. The locales state what a controller's model provides, each assumption about one reconcile in one scope, and the
  lemmas what follows for all calls of the reconcile. The controllers interpret them.
\<close>

section \<open>The object of a scope\<close>

text \<open>
  \<open>obj\<close> is the object in the scope, \<open>written\<close> the call that patches it, \<open>close\<close> the deferred closing of the scope.
\<close>

locale written_object =
  fixes obj :: "'s \<Rightarrow> 'o" and meta :: "'o \<Rightarrow> ObjectMeta" and written :: "'o \<Rightarrow> call" and writes :: "call \<Rightarrow> bool"
    and set_meta :: "(ObjectMeta \<Rightarrow> ObjectMeta) \<Rightarrow> 's \<Rightarrow> 's" and close :: "('s, call, unit) M"
  assumes writes_iff: "writes x \<longleftrightarrow> x \<in> range written"
    and written_inject: "written a = written b \<Longrightarrow> a = b"
    and meta_set_meta: "meta (obj (set_meta f s)) = f (meta (obj s))"
    and close: "wp close s (\<lambda>r t s'. t = [written (obj s)])"
begin

lemma writes_written: "writes (written a)"
  by (simp add: writes_iff)

lemma written_eq: "written a = written b \<longleftrightarrow> a = b"
  using written_inject by blast

lemma no_writes: "\<forall>x \<in> set t. \<not> writes x \<Longrightarrow> written a \<notin> set t"
  using writes_written by blast

text \<open>A reconcile ends with the patch of the object that its body leaves.\<close>

lemma closed:
  assumes "wp m s (\<lambda>r t s'. Q t (obj s'))"
  shows "wp (deferM m close) s (\<lambda>r t s'. \<exists>t1 ob. t = t1 @ [written ob] \<and> Q t1 ob)"
  unfolding wp_deferM by (rule wp_mono[OF assms], rule wp_mono[OF close]) blast

lemma last_write:
  assumes "\<forall>x \<in> set t1. \<not> writes x" and "written a \<in> set (t1 @ [written b])"
  shows "a = b"
  using assms(2) no_writes[OF assms(1)] by (simp add: written_eq)

end

text \<open>
  Some controllers store the object before they call a service: \<open>patch\<close> does, and \<open>accepted s ob\<close> says that
  the API server accepted \<open>ob\<close> in place of the object that the scope \<open>s\<close> was made with.
\<close>

locale stored_object = written_object obj meta written writes set_meta close
  for obj :: "'s \<Rightarrow> 'o" and meta written writes set_meta close +
  fixes patch :: "('s, call, unit) M" and accepted :: "'s \<Rightarrow> 'o \<Rightarrow> bool"
  assumes patch: "wp patch s (\<lambda>r t s'. t = [written (obj s)] \<and> obj s' = obj s \<and> (r = Ok () \<longrightarrow> accepted s (obj s)))"
    and accepted_set_meta: "accepted (set_meta f s) = accepted s"
begin

lemma stored_then_served:
  assumes services: "\<And>s1. wp rest s1 (\<lambda>r t s'. R t \<and> meta (obj s') = meta (obj s1))" and "R []"
  shows "wp (deferM (bindM (modifyM (set_meta f)) (\<lambda>_. bindM patch (\<lambda>_. rest))) close) s
    (\<lambda>r t s'. \<exists>a t1 b. t = written a # t1 @ [written b] \<and> R t1 \<and> meta a = f (meta (obj s)) \<and> meta b = meta a \<and>
       (t1 \<noteq> [] \<longrightarrow> accepted s a))"
proof -
  let ?s = "set_meta f s"
  have "wp (bindM (modifyM (set_meta f)) (\<lambda>_. bindM patch (\<lambda>_. rest))) s
      (\<lambda>r t s'. \<exists>t1. t = written (obj ?s) # t1 \<and> R t1 \<and> meta (obj s') = meta (obj ?s) \<and> (t1 \<noteq> [] \<longrightarrow> accepted s (obj ?s)))"
    unfolding wp_bindM[of "modifyM _"] wp_modifyM bind_post_simps append_Nil wp_bindM[of patch]
    by (rule wp_mono[OF patch]) (auto simp: bind_post_def accepted_set_meta assms(2) intro!: wp_mono[OF services] split: res.splits)
  note end_written = closed[OF this]
  show ?thesis
  proof (rule wp_mono[OF end_written], elim exE conjE)
    fix t t1 b t2
    assume "t = t1 @ [written b]" "t1 = written (obj ?s) # t2" "R t2" "meta b = meta (obj ?s)" "t2 \<noteq> [] \<longrightarrow> accepted s (obj ?s)"
    then show "\<exists>a t1 b. t = written a # t1 @ [written b] \<and> R t1 \<and> meta a = f (meta (obj s)) \<and> meta b = meta a \<and>
        (t1 \<noteq> [] \<longrightarrow> accepted s a)"
      by (intro exI[of _ "obj ?s"] exI[of _ t2] exI[of _ b]) (simp add: meta_set_meta)
  qed
qed

end

section \<open>Giving the finalizer up\<close>

text \<open>
  \<open>body\<close> is the reconcile in the scope of an object, and \<open>gone\<close> says of the calls of a reconcile that what belongs to the
  object does not exist any more. \<open>quiet\<close> are the calls that come before the scope is made.
\<close>

locale deleted_object = written_object obj meta written writes set_meta close
  for obj :: "'s \<Rightarrow> 'o" and meta written writes set_meta close +
  fixes env :: "'w Env" and fin :: string and body :: "'o \<Rightarrow> ('s, call, 'r) M"
    and gone :: "'s \<Rightarrow> call list \<Rightarrow> bool" and quiet :: "call \<Rightarrow> bool"
  assumes quiet_writes: "quiet x \<Longrightarrow> \<not> writes x"
    and gone_after: "\<forall>x \<in> set t0. quiet x \<Longrightarrow> gone s t \<Longrightarrow> gone s (t0 @ t)"
    and delete: "om_DeletionTimestamp (meta (obj s)) \<noteq> None \<Longrightarrow>
      wp (body (obj s)) s (\<lambda>r t s'. \<exists>t1 ob. t = t1 @ [written ob] \<and> (\<forall>x \<in> set t1. \<not> writes x) \<and>
        (meta ob = meta (obj s) \<or> meta ob = RemoveFinalizer env fin (meta (obj s)) \<and> gone s t1))"

text \<open>Every patch of an object that is not being deleted carries the finalizer.\<close>

locale finalized_object = deleted_object obj meta written writes set_meta close env fin body gone quiet
  for obj :: "'s \<Rightarrow> 'o" and meta written writes set_meta close and env :: "'w Env" and fin
    and body :: "'o \<Rightarrow> ('s, call, 'r) M" and gone quiet +
  assumes normal: "om_DeletionTimestamp (meta (obj s)) = None \<Longrightarrow>
      wp (body (obj s)) s (\<lambda>r t s'. \<forall>ob. written ob \<in> set t \<longrightarrow> meta ob = AddFinalizer env fin (meta (obj s)))"
begin

text \<open>What follows for a reconcile that runs the body after quiet calls.\<close>

lemma given_up_last:
  assumes doc: "documented_finalizers env" and run: "body (obj s) s = (r, t', s')" and quiet: "\<forall>x \<in> set t0. quiet x"
    and had: "fin \<in> set (om_Finalizers (meta (obj s)))"
    and mem: "written ob \<in> set (t0 @ t')" and lost: "fin \<notin> set (om_Finalizers (meta ob))"
  shows "om_DeletionTimestamp (meta (obj s)) \<noteq> None \<and> (\<exists>pre. t0 @ t' = pre @ [written ob] \<and> gone s pre)"
proof -
  have mem': "written ob \<in> set t'" using mem quiet quiet_writes writes_written by auto
  have del: "om_DeletionTimestamp (meta (obj s)) \<noteq> None"
  proof
    assume "om_DeletionTimestamp (meta (obj s)) = None"
    from wpD[OF normal[OF this] run] mem' have "meta ob = AddFinalizer env fin (meta (obj s))" by blast
    with lost show False by (simp add: AddFinalizer_def documented_finalizersD(1)[OF doc])
  qed
  from wpD[OF delete[OF del] run] obtain t1 a where t': "t' = t1 @ [written a]" "\<forall>x \<in> set t1. \<not> writes x"
    and a: "meta a = meta (obj s) \<or> gone s t1" by blast
  have "ob = a" using last_write[OF t'(2)] mem' t'(1) by blast
  with a had lost have "gone s t1" by auto
  with gone_after[OF quiet] have "gone s (t0 @ t1)" .
  with del t'(1) \<open>ob = a\<close> show ?thesis by auto
qed

end

section \<open>Storing the finalizer first\<close>

text \<open>
  The reconcile of an object that is not being deleted patches it first and last, and the API server has accepted the first
  patch when anything happens in between; what happens there satisfies \<open>served\<close>.
\<close>

locale finalized_first = deleted_object obj meta written writes set_meta close env fin body gone quiet
  for obj :: "'s \<Rightarrow> 'o" and meta written writes set_meta close and env :: "'w Env" and fin
    and body :: "'o \<Rightarrow> ('s, call, 'r) M" and gone quiet +
  fixes accepted :: "'s \<Rightarrow> 'o \<Rightarrow> bool" and served :: "call list \<Rightarrow> bool"
  assumes normal_first: "om_DeletionTimestamp (meta (obj s)) = None \<Longrightarrow>
      wp (body (obj s)) s (\<lambda>r t s'. \<exists>a t1 b. t = written a # t1 @ [written b] \<and> (\<forall>x \<in> set t1. \<not> writes x) \<and> served t1 \<and>
        meta a = AddFinalizer env fin (meta (obj s)) \<and> meta b = meta a \<and> (t1 \<noteq> [] \<longrightarrow> accepted s a))"

sublocale finalized_first \<subseteq> finalized_object
proof
  fix s
  assume "om_DeletionTimestamp (meta (obj s)) = None"
  from normal_first[OF this]
  show "wp (body (obj s)) s (\<lambda>r t s'. \<forall>ob. written ob \<in> set t \<longrightarrow> meta ob = AddFinalizer env fin (meta (obj s)))"
    by (rule wp_mono) (auto simp: written_eq no_writes)
qed

context finalized_first
begin

text \<open>A call that is not quiet and writes no object comes after a patch with the finalizer, which was accepted.\<close>

lemma stored_before:
  assumes doc: "documented_finalizers env" and none: "om_DeletionTimestamp (meta (obj s)) = None"
    and run: "body (obj s) s = (r, t', s')" and quiet: "\<forall>x \<in> set t0. quiet x"
    and mem: "x \<in> set (t0 @ t')" and acts: "\<not> quiet x" "\<not> writes x"
  shows "\<exists>a t1 b. t0 @ t' = t0 @ written a # t1 @ [written b] \<and> x \<in> set t1 \<and> served t1 \<and>
    fin \<in> set (om_Finalizers (meta a)) \<and> accepted s a"
proof -
  from wpD[OF normal_first[OF none] run] obtain a t1 b where t': "t' = written a # t1 @ [written b]" and served: "served t1"
    and a: "meta a = AddFinalizer env fin (meta (obj s))" "t1 \<noteq> [] \<longrightarrow> accepted s a" by blast
  have x: "x \<in> set t1" using mem quiet acts writes_written by (auto simp: t')
  then have "t1 \<noteq> []" by auto
  with t' served a x show ?thesis by (auto simp: written_eq AddFinalizer_def documented_finalizersD(1)[OF doc])
qed

end

end
