(* ===== verification/Volume_Controller.thy ===== *)
theory Volume_Controller
  imports Finalizers Location_Service Volume_Service
begin

text \<open>
  controllers/hcloudvolume\_controller.go: one reconcile of an HcloudVolume, from the request to the patch of
  the object. The result of the reconcile is always the zero \<^verbatim>\<open>Result\<close>, so only the error
  is modelled.

  The lemmas show the protocol of the finalizer: it leaves the object only after the deletion
  of the volume is settled, and every other reconcile writes it.
\<close>

section \<open>Reconciling\<close>

definition setVolumeMeta ::
    "(ObjectMeta \<Rightarrow> ObjectMeta) \<Rightarrow> ('w, 'x) VolumeScope_scheme \<Rightarrow> ('w, 'x) VolumeScope_scheme" where
  "setVolumeMeta f s = s\<lparr>vs_HcloudVolume := (vs_HcloudVolume s)\<lparr>hv_Meta := f (hv_Meta (vs_HcloudVolume s))\<rparr>\<rparr>"

definition in_volume :: "string \<Rightarrow> (('w, 'x) VolumeScope_scheme, call, unit) M \<Rightarrow> (('w, 'x) VolumeScope_scheme, call, unit) M" where
  "in_volume msg m =
     bindM (getsM (\<lambda>s. hv_Meta (vs_HcloudVolume s))) (\<lambda>meta.
     wrapM (msg @ '' for HcloudVolume '' @ om_Namespace meta @ ''/'' @ om_Name meta) m)"

definition volume_reconcileDelete :: "'w Env \<Rightarrow> (('w, 'x) VolumeScope_scheme, call, unit) M" where
  "volume_reconcileDelete env =
     bindM (getsM (ClusterScope_HcloudClient env)) (\<lambda>c.
     bindM (in_volume ''failed to delete volume'' (vol_Delete c)) (\<lambda>_.
     modifyM (setVolumeMeta (RemoveFinalizer env VolumeFinalizer))))"

definition volume_reconcileNormal :: "'w Env \<Rightarrow> (('w, 'x) VolumeScope_scheme, call, unit) M" where
  "volume_reconcileNormal env =
     bindM (modifyM (setVolumeMeta (AddFinalizer env VolumeFinalizer))) (\<lambda>_.
     bindM (getsM (ClusterScope_HcloudClient env)) (\<lambda>c.
     bindM (in_volume ''failed to reconcile location'' (volume_location_Reconcile c)) (\<lambda>_.
     in_volume ''failed to reconcile volume'' (vol_Reconcile c))))"

definition volume_body :: "'w Env \<Rightarrow> HcloudVolume \<Rightarrow> (('w, 'x) VolumeScope_scheme, call, unit) M" where
  "volume_body env hcloudVolume =
     deferM
       (if om_DeletionTimestamp (hv_Meta hcloudVolume) \<noteq> None then volume_reconcileDelete env
        else volume_reconcileNormal env)
       (VolumeScope_Close (e_kube env))"

definition HcloudVolume_Reconcile :: "'w Env \<Rightarrow> string \<Rightarrow> string \<Rightarrow> ('w sys, call, unit) M" where
  "HcloudVolume_Reconcile env ns name =
     bindM (tryM (GetHcloudVolume (e_kube env) ns name)) (\<lambda>got.
     case got of
       Inl err \<Rightarrow> if IsNotFound err then ret () else failM err
     | Inr hcloudVolume \<Rightarrow>
         bindM (tryM (GetClusterFromMetadata (e_kube env) (hv_Meta hcloudVolume))) (\<lambda>found.
         case found of
           Inl _ \<Rightarrow> ret ()
         | Inr cluster \<Rightarrow>
             bindM (derefM ''cluster.Spec.InfrastructureRef'' (cl_InfrastructureRefName cluster)) (\<lambda>refName.
             bindM (tryM (GetHcloudCluster (e_kube env) (om_Namespace (hv_Meta hcloudVolume)) refName)) (\<lambda>gotCluster.
             case gotCluster of
               Inl _ \<Rightarrow> ret ()
             | Inr hcloudCluster \<Rightarrow>
                 bindM (mapErrM (\<lambda>err. ErrNew (''failed to create scope: '' @ Error err))
                          (NewVolumeScope env (Some cluster) (Some hcloudCluster) (Some hcloudVolume))) (\<lambda>volumeScope.
                 in_scope volumeScope (volume_body env hcloudVolume))))))"

section \<open>The frame of the volume service\<close>

fun deletes_volume :: "call \<Rightarrow> bool" where
  "deletes_volume (DeleteVolumeC _) = True"
| "deletes_volume _ = False"

fun patches_volume :: "call \<Rightarrow> bool" where
  "patches_volume (PatchHcloudVolumeC _) = True"
| "patches_volume _ = False"

lemmas volume_frame_defs = vol_Reconcile_def createVolume_def vol_actualStatus_def vol_Delete_def
  deleteVolume_def volume_location_Reconcile_def location_Reconcile_def VolumeScope_SetStatusLocations_def
  setVolumeStatus_def setVolumeSpec_def client_defs

lemma vol_Delete_frame:
  "frame (\<lambda>x. \<not> patches_volume x) (\<lambda>s. (vs_HcloudVolume s, vs_patchHelper s)) (vol_Delete c)"
  unfolding volume_frame_defs by (intro frame_intros) simp_all

lemma vol_Reconcile_frame:
  "frame (\<lambda>x. \<not> patches_volume x \<and> \<not> deletes_volume x) (\<lambda>s. hv_Meta (vs_HcloudVolume s)) (vol_Reconcile c)"
  unfolding volume_frame_defs by (intro frame_intros) simp_all

lemma volume_location_frame:
  "frame (\<lambda>x. \<not> patches_volume x \<and> \<not> deletes_volume x) (\<lambda>s. hv_Meta (vs_HcloudVolume s)) (volume_location_Reconcile c)"
  unfolding volume_frame_defs by (intro frame_intros) simp_all
section \<open>One reconcile\<close>

lemma vol_Delete_Ok:
  "wp (vol_Delete c) s (\<lambda>r t s'. r = Ok () \<longrightarrow>
     hvs_ReclaimPolicy (hv_Spec (vs_HcloudVolume s)) \<noteq> HcloudVolumeReclaimDelete \<or>
     (\<exists>vs w. h_ListVolumes c (vol_selector s) (world s) = (Inr vs, w) \<and>
        ((\<forall>v \<in> set vs. vo_Name v \<noteq> vol_name s) \<or>
         (\<exists>i w'. DeleteVolumeC i \<in> set t \<and> h_DeleteVolume c i w = (Inr (), w')))))"
  by (auto simp: vol_Delete_def wp_simps wp_vol_actualStatus ext_post_iff deleteVolume_def client_defs
      wp_extcall vol_apiToStatus_def find_None_iff split: option.splits)

text \<open>A reconcile that gets as far as a scope runs the body in it, after calls that only read.\<close>

definition volume_run ::
    "'w Env \<Rightarrow> string \<Rightarrow> string \<Rightarrow> 'w sys \<Rightarrow> HcloudVolume \<Rightarrow> 'w VolumeScope \<Rightarrow> unit res \<Rightarrow> call list \<Rightarrow> bool" where
  "volume_run env ns name s hv scope r t \<longleftrightarrow>
     (\<exists>w s''. k_GetHcloudVolume (e_kube env) ns name (world s) = (Inr hv, w) \<and>
        vs_HcloudVolume scope = hv \<and> vs_patchHelper scope = hv \<and>
        volume_body env hv scope = (r, t, s''))"

lemma volume_run_trace:
  "k_GetHcloudVolume (e_kube env) ns name (world s) = (Inr hv, w) \<Longrightarrow> vs_HcloudVolume (scope :: 'w VolumeScope) = hv \<Longrightarrow>
   vs_patchHelper scope = hv \<Longrightarrow> volume_body env hv scope = (r, t', s'') \<Longrightarrow> reads_then t' t \<Longrightarrow>
   \<exists>hv scope t'. volume_run env ns name s hv scope r t' \<and> reads_then t' t"
  unfolding volume_run_def by blast

lemma HcloudVolume_Reconcile_run:
  "wp (HcloudVolume_Reconcile env ns name) s (\<lambda>r t s'. only_reads t \<or>
     (\<exists>hv scope t'. volume_run env ns name s hv scope r t' \<and> reads_then t' t))"
proof -
  have body: "wp (volume_body env hv) scope (\<lambda>r t s'. \<exists>s''. volume_body env hv scope = (r, t, s''))" for hv scope
    by (auto simp: wp_def split: prod.splits)
  show ?thesis
    apply (simp add: HcloudVolume_Reconcile_def wp_simps client_defs wp_extcall ext_post_iff)
    apply (auto simp: wp_simps wp_extcall ext_post_iff split: option.splits sum.splits)
    apply (rule wp_mono[OF NewVolumeScope_wp])
    apply (auto simp: bind_post_def wp_simps split: res.splits)
    apply (rule wp_mono[OF body])
    apply (rule disjI2)
    apply (clarsimp simp: sys_update_same)
    apply (erule volume_run_trace, simp, simp, assumption, simp)
    done
qed
text \<open>
  The deletion of a volume is settled when the reclaim policy keeps it, when the listing by the
  cluster's label has no volume of its name, or when the cloud accepted its deletion.
\<close>

definition volume_settled :: "'w HcloudClient \<Rightarrow> 'w VolumeScope \<Rightarrow> call list \<Rightarrow> bool" where
  "volume_settled c s t \<longleftrightarrow>
     hvs_ReclaimPolicy (hv_Spec (vs_HcloudVolume s)) \<noteq> HcloudVolumeReclaimDelete \<or>
     (\<exists>vs w. h_ListVolumes c (vol_selector s) (world s) = (Inr vs, w) \<and>
        ((\<forall>v \<in> set vs. vo_Name v \<noteq> vol_name s) \<or>
         (\<exists>i w'. DeleteVolumeC i \<in> set t \<and> h_DeleteVolume c i w = (Inr (), w'))))"

interpretation volume_object: written_object "vs_HcloudVolume :: ('w, 'x) VolumeScope_scheme \<Rightarrow> HcloudVolume" hv_Meta PatchHcloudVolumeC
  patches_volume setVolumeMeta "VolumeScope_Close k" for k
proof
  show "patches_volume x \<longleftrightarrow> x \<in> range PatchHcloudVolumeC" for x by (cases x) auto
  show "wp (VolumeScope_Close k) s (\<lambda>r t s'. t = [PatchHcloudVolumeC (vs_HcloudVolume s)])" for s :: "('w, 'x) VolumeScope_scheme"
    by (simp add: VolumeScope_Close_def wp_def PatchHcloudVolume_def extcall_def split: prod.splits sum.splits)
qed (simp_all add: setVolumeMeta_def)

lemma volume_delete_body:
  assumes "om_DeletionTimestamp (hv_Meta (vs_HcloudVolume s)) \<noteq> None"
  shows "wp (volume_body env (vs_HcloudVolume s)) s (\<lambda>r t s'. \<exists>t1 obj. t = t1 @ [PatchHcloudVolumeC obj] \<and>
     (\<forall>x \<in> set t1. \<not> patches_volume x) \<and>
     (hv_Meta obj = hv_Meta (vs_HcloudVolume s) \<or>
        hv_Meta obj = RemoveFinalizer env VolumeFinalizer (hv_Meta (vs_HcloudVolume s)) \<and>
        volume_settled (ClusterScope_HcloudClient env s) s t1))"
proof -
  have "wp (volume_reconcileDelete env) s (\<lambda>r t s'. (\<forall>x \<in> set t. \<not> patches_volume x) \<and>
     (hv_Meta (vs_HcloudVolume s') = hv_Meta (vs_HcloudVolume s) \<or>
        hv_Meta (vs_HcloudVolume s') = RemoveFinalizer env VolumeFinalizer (hv_Meta (vs_HcloudVolume s)) \<and>
        volume_settled (ClusterScope_HcloudClient env s) s t))"
    apply (simp add: volume_reconcileDelete_def in_volume_def wp_simps)
    apply (rule wp_frame[OF vol_Delete_frame])
    apply (rule wp_mono[OF vol_Delete_Ok])
    apply (auto simp: bind_post_def map_err_def wp_simps setVolumeMeta_def volume_settled_def split: res.splits)
    done
  from volume_object.closed[OF this] assms show ?thesis by (simp add: volume_body_def)
qed

lemma volume_normal_body:
  fixes s :: "('w, 'x) VolumeScope_scheme"
  assumes "om_DeletionTimestamp (hv_Meta (vs_HcloudVolume s)) = None"
  shows "wp (volume_body env (vs_HcloudVolume s)) s (\<lambda>r t s'. \<exists>t1 obj. t = t1 @ [PatchHcloudVolumeC obj] \<and>
     (\<forall>x \<in> set t1. \<not> patches_volume x \<and> \<not> deletes_volume x) \<and>
     hv_Meta obj = AddFinalizer env VolumeFinalizer (hv_Meta (vs_HcloudVolume s)))"
proof -
  have services: "frame (\<lambda>x. \<not> patches_volume x \<and> \<not> deletes_volume x)
     (\<lambda>s :: ('w, 'x) VolumeScope_scheme. hv_Meta (vs_HcloudVolume s))
     (bindM (getsM (ClusterScope_HcloudClient env)) (\<lambda>c.
      bindM (in_volume ''failed to reconcile location'' (volume_location_Reconcile c)) (\<lambda>_.
      in_volume ''failed to reconcile volume'' (vol_Reconcile c))))"
    unfolding in_volume_def by (intro frame_intros vol_Reconcile_frame volume_location_frame)
  have "wp (volume_reconcileNormal env) s (\<lambda>r t s'. (\<forall>x \<in> set t. \<not> patches_volume x \<and> \<not> deletes_volume x) \<and>
     hv_Meta (vs_HcloudVolume s') = AddFinalizer env VolumeFinalizer (hv_Meta (vs_HcloudVolume s)))"
    unfolding volume_reconcileNormal_def wp_bindM[of "modifyM _"] wp_modifyM bind_post_simps append_Nil
    by (rule wp_mono[OF frame_wp[OF services]]) (simp add: setVolumeMeta_def)
  from volume_object.closed[OF this] assms show ?thesis by (simp add: volume_body_def)
qed

interpretation volume_finalizer: finalized_object "vs_HcloudVolume :: 'w VolumeScope \<Rightarrow> HcloudVolume" hv_Meta PatchHcloudVolumeC
  patches_volume setVolumeMeta "VolumeScope_Close (e_kube env)" env VolumeFinalizer "volume_body env"
  "\<lambda>s. volume_settled (ClusterScope_HcloudClient env s) s" is_read for env
proof
  show "is_read x \<Longrightarrow> \<not> patches_volume x" for x by (auto elim: is_read.elims)
  show "volume_settled c s t \<Longrightarrow> volume_settled c s (t0 @ t)" for c s t0 t by (auto simp: volume_settled_def)
  show "wp (volume_body env (vs_HcloudVolume s)) s (\<lambda>r t s'. \<forall>ob. PatchHcloudVolumeC ob \<in> set t \<longrightarrow>
      hv_Meta ob = AddFinalizer env VolumeFinalizer (hv_Meta (vs_HcloudVolume s)))"
    if "om_DeletionTimestamp (hv_Meta (vs_HcloudVolume s)) = None" for s :: "'w VolumeScope"
    by (rule wp_mono[OF volume_normal_body[OF that]]) (auto simp: volume_object.no_writes)
qed (rule wp_mono[OF volume_delete_body], assumption, blast)

section \<open>Properties\<close>

text \<open>
  C20. A reconcile writes an HcloudVolume at most once, as its last call. Unless the object is being
  deleted, what it writes carries the finalizer, and no volume is deleted. For an object that is
  being deleted, a finalizer it had is gone only when the deletion of the volume is
  settled.
\<close>

theorem HcloudVolume_finalizer:
  fixes env :: "'w Env"
  assumes "documented_finalizers env"
    and "PatchHcloudVolumeC obj \<in> set (calls (HcloudVolume_Reconcile env ns name s))"
  shows "\<exists>hv w pre scope. k_GetHcloudVolume (e_kube env) ns name (world s) = (Inr hv, w) \<and>
     calls (HcloudVolume_Reconcile env ns name s) = pre @ [PatchHcloudVolumeC obj] \<and>
     filter patches_volume pre = [] \<and>
     (if om_DeletionTimestamp (hv_Meta hv) = None
      then VolumeFinalizer \<in> set (om_Finalizers (hv_Meta obj)) \<and> filter deletes_volume pre = []
      else VolumeFinalizer \<in> set (om_Finalizers (hv_Meta hv)) - set (om_Finalizers (hv_Meta obj)) \<longrightarrow>
        vs_HcloudVolume scope = hv \<and> volume_settled (ClusterScope_HcloudClient env scope) scope pre)"
proof -
  obtain r t s' where eq: "HcloudVolume_Reconcile env ns name s = (r, t, s')" by (metis prod_cases3)
  have mem: "PatchHcloudVolumeC obj \<in> set t" using assms(2) by (simp add: eq calls_def)
  then have reads: "\<not> only_reads t" by (force simp: only_reads_def intro: bexI[of _ "PatchHcloudVolumeC obj"])
  from wpD[OF HcloudVolume_Reconcile_run eq] reads obtain hv t' t0 w s'' and scope :: "'w VolumeScope" where
    got: "k_GetHcloudVolume (e_kube env) ns name (world s) = (Inr hv, w)"
    and hv: "vs_HcloudVolume scope = hv" and body: "volume_body env (vs_HcloudVolume scope) scope = (r, t', s'')"
    and t: "t = t0 @ t'" and t0: "\<forall>x \<in> set t0. is_read x"
    unfolding volume_run_def reads_then_def only_reads_def by blast
  have no: "filter patches_volume t0 = []" "filter deletes_volume t0 = []"
    using t0 by (auto simp: filter_empty_conv elim!: is_read.elims dest!: bspec)
  have one: "t' = t1 @ [PatchHcloudVolumeC obj]" if "t' = t1 @ [PatchHcloudVolumeC ob]" "\<forall>x \<in> set t1. \<not> patches_volume x" for t1 ob
    using that mem no(1) by (auto simp: t filter_empty_conv)
  show ?thesis
  proof (cases "om_DeletionTimestamp (hv_Meta (vs_HcloudVolume scope))")
    case None
    from wpD[OF volume_normal_body[OF None] body] obtain t1 ob where t': "t' = t1 @ [PatchHcloudVolumeC ob]"
      and t1: "\<forall>x \<in> set t1. \<not> patches_volume x \<and> \<not> deletes_volume x"
      and ob: "hv_Meta ob = AddFinalizer env VolumeFinalizer (hv_Meta hv)" using hv by auto
    with one have "ob = obj" by blast
    with got no None hv t' t1 ob show ?thesis using documented_finalizersD(1)[OF assms(1)]
      by (auto simp: eq calls_def t AddFinalizer_def filter_empty_conv intro!: exI[of _ "t0 @ t1"])
  next
    case (Some d)
    then have "om_DeletionTimestamp (hv_Meta (vs_HcloudVolume scope)) \<noteq> None" by simp
    from wpD[OF volume_delete_body[OF this] body] one obtain t1 where t': "t' = t1 @ [PatchHcloudVolumeC obj]"
      and t1: "\<forall>x \<in> set t1. \<not> patches_volume x" by blast
    have "volume_settled (ClusterScope_HcloudClient env scope) scope (t0 @ t1)"
      if "VolumeFinalizer \<in> set (om_Finalizers (hv_Meta hv)) - set (om_Finalizers (hv_Meta obj))"
      using volume_finalizer.given_up_last[OF assms(1) body t0 _ mem[unfolded t]] that hv t' by auto
    with got no Some hv t1 show ?thesis
      by (auto simp: eq calls_def t t' filter_empty_conv intro!: exI[of _ "t0 @ t1"] exI[of _ scope])
  qed
qed

definition example_deleted_volume :: HcloudVolume where
  "example_deleted_volume = zero_HcloudVolume\<lparr>
     hv_Meta := zero_ObjectMeta\<lparr>om_Name := ''v1'', om_Namespace := ''default'', om_Finalizers := [VolumeFinalizer],
       om_DeletionTimestamp := Some 1\<rparr>,
     hv_Spec := (hv_Spec zero_HcloudVolume)\<lparr>hvs_ReclaimPolicy := HcloudVolumeReclaimDelete\<rparr>\<rparr>"

definition example_volume_env :: "unit Env" where
  "example_volume_env = offline_env
     \<lparr>e_kube := example_cluster_kube\<lparr>k_GetHcloudVolume := \<lambda>_ _ w. (Inr example_deleted_volume, w),
        k_PatchHcloudVolume := \<lambda>_ _ w. (Inr (), w)\<rparr>,
      e_hcloud := \<lambda>token. offline_hcloud\<lparr>h_ListVolumes := \<lambda>_ w. (Inr [], w)\<rparr>\<rparr>"

lemma documented_example_volume_env: "documented_finalizers example_volume_env"
  using documented_offline_env by (simp add: example_volume_env_def documented_finalizers_def)

lemma HcloudVolume_finalizer_witness:
  "\<exists>scope. volume_settled (ClusterScope_HcloudClient example_volume_env scope) scope
     (butlast (calls (HcloudVolume_Reconcile example_volume_env ''default'' ''v1'' \<lparr>world = (), packer = fresh_packer\<rparr>)))"
proof -
  let ?obj = "example_deleted_volume\<lparr>hv_Meta := (hv_Meta example_deleted_volume)\<lparr>om_Finalizers := []\<rparr>\<rparr>"
  have "PatchHcloudVolumeC ?obj \<in> set (calls (HcloudVolume_Reconcile example_volume_env ''default'' ''v1''
      \<lparr>world = (), packer = fresh_packer\<rparr>))"
    by code_simp
  from HcloudVolume_finalizer[OF documented_example_volume_env this] show ?thesis
    by (auto simp: example_volume_env_def example_deleted_volume_def)
qed

end
