(* ===== verification/Machine_Controller.thy ===== *)
theory Machine_Controller
  imports Finalizers Server_Service
begin

text \<open>
  controllers/hcloudmachine\_controller.go: one reconcile of an HcloudMachine, and the requests that a
  change of an HcloudCluster triggers. The image builder is initialised first, for a machine whose
  status does not say that it was; then the owner, the cluster and the HcloudCluster are
  looked up, and a missing one ends the reconcile without an error.

  The lemmas show the protocol of the finalizer: it is stored before the first server can be
  created, and removed only after the server is gone.
\<close>

section \<open>Reconciling\<close>

definition setMachineMeta ::
    "(ObjectMeta \<Rightarrow> ObjectMeta) \<Rightarrow> ('w, 'x) MachineScope_scheme \<Rightarrow> ('w, 'x) MachineScope_scheme" where
  "setMachineMeta f s = s\<lparr>ms_HcloudMachine := (ms_HcloudMachine s)\<lparr>hm_Meta := f (hm_Meta (ms_HcloudMachine s))\<rparr>\<rparr>"

definition in_machine :: "string \<Rightarrow> (('w, 'x) MachineScope_scheme, call, 'a) M \<Rightarrow> (('w, 'x) MachineScope_scheme, call, 'a) M" where
  "in_machine msg m =
     bindM (getsM (\<lambda>s. hm_Meta (ms_HcloudMachine s))) (\<lambda>meta.
     wrapM (msg @ '' for HcloudMachine '' @ om_Namespace meta @ ''/'' @ om_Name meta) m)"

text \<open>A service that returns a result or an error ends the reconcile with it.\<close>

definition breakReconcile :: "('s, 'c, Result option) M \<Rightarrow> ('s, 'c, Result) M \<Rightarrow> ('s, 'c, Result) M" where
  "breakReconcile service rest = bindM service (\<lambda>result.
     case result of Some c \<Rightarrow> ret c | None \<Rightarrow> rest)"

definition machine_reconcileDelete :: "'w Env \<Rightarrow> (('w, 'x) MachineScope_scheme, call, Result) M" where
  "machine_reconcileDelete env =
     bindM (getsM (ClusterScope_HcloudClient env)) (\<lambda>c.
     breakReconcile (in_machine ''failed to delete servers'' (server_Delete c))
       (bindM (modifyM (setMachineMeta (RemoveFinalizer env MachineFinalizer))) (\<lambda>_.
        ret no_Result)))"

definition machine_reconcileNormal :: "Codec \<Rightarrow> 'w Env \<Rightarrow> (('w, 'x) MachineScope_scheme, call, Result) M" where
  "machine_reconcileNormal cd env =
     bindM (modifyM (setMachineMeta (AddFinalizer env MachineFinalizer))) (\<lambda>_.
     bindM (PatchObject (e_kube env)) (\<lambda>_.
     bindM (getsM (ClusterScope_HcloudClient env)) (\<lambda>c.
     breakReconcile (in_machine ''failed to reconcile server'' (server_Reconcile cd (e_os env) (e_kube env) c))
       (ret no_Result))))"

definition machine_body :: "Codec \<Rightarrow> 'w Env \<Rightarrow> HcloudMachine \<Rightarrow> (('w, 'x) MachineScope_scheme, call, Result) M" where
  "machine_body cd env hcloudMachine =
     deferM
       (if om_DeletionTimestamp (hm_Meta hcloudMachine) \<noteq> None then machine_reconcileDelete env
        else machine_reconcileNormal cd env)
       (MachineScope_Close (e_kube env))"

definition initialize_image :: "'w Env \<Rightarrow> HcloudMachine \<Rightarrow> ('w sys, call, HcloudMachine) M" where
  "initialize_image env hcloudMachine =
     (if hmt_ImageInitialized (hm_Status hcloudMachine) = False then
        bindM (Initialize (e_os env) hcloudMachine) (\<lambda>_.
        ret (hcloudMachine\<lparr>hm_Status := (hm_Status hcloudMachine)\<lparr>hmt_ImageInitialized := True\<rparr>\<rparr>))
      else ret hcloudMachine)"

definition machine_in_cluster ::
    "Codec \<Rightarrow> 'w Env \<Rightarrow> HcloudMachine \<Rightarrow> Machine \<Rightarrow> Cluster \<Rightarrow> ('w sys, call, Result) M" where
  "machine_in_cluster cd env hcloudMachine machine cluster =
     (if k_IsPaused (e_kube env) cluster (hm_Meta hcloudMachine) then ret no_Result
      else
        bindM (derefM ''cluster.Spec.InfrastructureRef'' (cl_InfrastructureRefName cluster)) (\<lambda>refName.
        bindM (tryM (GetHcloudCluster (e_kube env) (om_Namespace (hm_Meta hcloudMachine)) refName)) (\<lambda>gotCluster.
        case gotCluster of
          Inl _ \<Rightarrow> ret no_Result
        | Inr hcloudCluster \<Rightarrow>
            bindM (mapErrM (\<lambda>err. ErrNew (''failed to create scope: '' @ Error err))
                     (NewMachineScope env (Some cluster) (Some hcloudCluster) (Some machine) (Some hcloudMachine))) (\<lambda>machineScope.
            in_scope machineScope (machine_body cd env hcloudMachine)))))"

definition machine_owned :: "Codec \<Rightarrow> 'w Env \<Rightarrow> HcloudMachine \<Rightarrow> ('w sys, call, Result) M" where
  "machine_owned cd env hcloudMachine =
     bindM (GetOwnerMachine (e_kube env) (hm_Meta hcloudMachine)) (\<lambda>owner.
     case owner of
       None \<Rightarrow> ret no_Result
     | Some machine \<Rightarrow>
         bindM (tryM (GetClusterOfMachine (e_kube env) machine)) (\<lambda>found.
         case found of
           Inl _ \<Rightarrow> ret no_Result
         | Inr cluster \<Rightarrow> machine_in_cluster cd env hcloudMachine machine cluster))"

definition HcloudMachine_Reconcile :: "Codec \<Rightarrow> 'w Env \<Rightarrow> string \<Rightarrow> string \<Rightarrow> ('w sys, call, Result) M" where
  "HcloudMachine_Reconcile cd env ns name =
     bindM (tryM (GetHcloudMachine (e_kube env) ns name)) (\<lambda>got.
     case got of
       Inl err \<Rightarrow> if IsNotFound err then ret no_Result else failM err
     | Inr hcloudMachine \<Rightarrow>
         bindM (initialize_image env hcloudMachine) (machine_owned cd env))"

section \<open>The requests of a changed HcloudCluster\<close>

text \<open>
  The event handler's watched object is a cluster or something else; errors of the lookups
  are logged and give no request. A request is a namespace and a name.
\<close>

definition machine_requests :: "Machine list \<Rightarrow> (string \<times> string) list" where
  "machine_requests ms = map (\<lambda>m. (m_Namespace m, m_InfrastructureRefName m))
     (filter (\<lambda>m. m_InfrastructureRefName m \<noteq> []) ms)"

definition ClusterToMachines ::
    "string \<Rightarrow> 'w KubeClient \<Rightarrow> HcloudCluster option \<Rightarrow> (('w, 'x) sys_scheme, call, (string \<times> string) list) M" where
  "ClusterToMachines nodepool k watched = (case watched of
      None \<Rightarrow> ret []
    | Some c \<Rightarrow>
        bindM (tryM (GetOwnerCluster k (hc_Meta c))) (\<lambda>owner.
        case owner of
          Inl _ \<Rightarrow> ret []
        | Inr None \<Rightarrow> ret []
        | Inr (Some cluster) \<Rightarrow>
            bindM (tryM (ListMachinesLabelled k (om_Namespace (hc_Meta c))
               [(''cluster.x-k8s.io/cluster-name'', cl_Name cluster), (''nodepool'', nodepool)])) (\<lambda>listed.
            case listed of
              Inl _ \<Rightarrow> ret []
            | Inr machineList \<Rightarrow> ret (machine_requests machineList))))"

definition HcloudClusterToHcloudMachines ::
    "'w KubeClient \<Rightarrow> HcloudCluster option \<Rightarrow> (('w, 'x) sys_scheme, call, (string \<times> string) list) M" where
  "HcloudClusterToHcloudMachines = ClusterToMachines ''worker''"
section \<open>The frame of the server service\<close>

fun patches_machine :: "call \<Rightarrow> bool" where
  "patches_machine (PatchHcloudMachineC _) = True"
| "patches_machine _ = False"

abbreviation machine_meta :: "('w, 'x) MachineScope_scheme \<Rightarrow> ObjectMeta" where
  "machine_meta s \<equiv> hm_Meta (ms_HcloudMachine s)"

text \<open>The service leaves alone the metadata, the flag of the image builder, and the object that patches are computed from.\<close>

abbreviation machine_frame :: "('w, 'x) MachineScope_scheme \<Rightarrow> ObjectMeta \<times> bool \<times> HcloudMachine" where
  "machine_frame s \<equiv> (machine_meta s, hmt_ImageInitialized (hm_Status (ms_HcloudMachine s)), ms_patchHelper s)"

lemma frame_on_userdata: "frame P f (on_userdata (SetKubeadmConfig cd k) u)"
  by (auto simp: frame_def wp_on_userdata split: prod.splits res.splits)

lemma frame_gather_volumes: "frame (\<lambda>x. \<not> patches_machine x) machine_frame (gather_volumes k ns vs)"
proof (induction vs)
  case (Cons v vs)
  then show ?case unfolding gather_volumes.simps client_defs by (intro frame_intros) simp_all
qed (auto intro: frame_intros)

lemma frame_address_loop: "frame (\<lambda>x. \<not> patches_machine x) machine_frame (address_loop k p as)"
proof (induction as)
  case (Cons a as)
  then show ?case
    unfolding address_loop.simps ClientConfigWithAPIEndpoint_def ClusterScope_ClientConfig_def
      IsControlPlaneReady_def client_defs
    by (intro frame_intros) (simp_all add: setMachineSpec_def setMachineStatus_def)
qed (auto intro: frame_intros)

lemma frame_add_targets: "frame P f (has_target lb sv)"
  unfolding has_target_def by (intro frame_intros)

lemma frame_EnsureImage: "frame (\<lambda>x. \<not> patches_machine x) machine_frame (EnsureImage c o' p)"
  unfolding EnsureImage_def query_or_build_def setPacker_def client_defs by (intro frame_intros) simp_all

lemma frame_findServer: "frame (\<lambda>x. \<not> patches_machine x) f (findServer c)"
  if "\<And>s w. f (s\<lparr>world := w\<rparr>) = f s"
  unfolding findServer_def client_defs by (intro frame_intros) (simp_all add: that)

lemma frame_FindLoadBalancer: "frame (\<lambda>x. \<not> patches_machine x) f (FindLoadBalancer c)"
  if "\<And>s w. f (s\<lparr>world := w\<rparr>) = f s"
  unfolding FindLoadBalancer_def client_defs by (intro frame_intros) (simp_all add: that)

lemma frame_setStatusFromAPI: "frame (\<lambda>x. \<not> patches_machine x) machine_frame (setStatusFromAPI sv)"
  unfolding setStatusFromAPI_def append_address_def Let_def by (intro frame_intros) (simp_all add: setMachineStatus_def)
lemma frame_case_status:
  "frame P f m1 \<Longrightarrow> frame P f m2 \<Longrightarrow> (\<And>x. frame P f (m3 x)) \<Longrightarrow>
   frame P f (case st of ServerStatusRunning \<Rightarrow> m1 | ServerStatusOff \<Rightarrow> m2 | ServerStatusOther x \<Rightarrow> m3 x)"
  by (cases st) auto

lemmas server_frames = frame_on_userdata frame_gather_volumes frame_address_loop frame_add_targets
  frame_EnsureImage frame_findServer frame_FindLoadBalancer frame_setStatusFromAPI frame_case_status

lemma server_Delete_frame:
  "frame (\<lambda>x. \<not> patches_machine x) (\<lambda>s. (ms_HcloudMachine s, ms_patchHelper s)) (server_Delete c)"
  unfolding server_Delete_def deleteServerOfLoadBalancer_def client_defs
  by (intro frame_intros server_frames) (simp_all add: client_defs)

lemma server_Reconcile_frame:
  "frame (\<lambda>x. \<not> patches_machine x) machine_frame (server_Reconcile cd o' k c)"
  unfolding server_Reconcile_def find_or_create_def createServer_def prepare_userdata_def GetRawBootstrapData_def
    configure_kubeadm_def requestServer_def with_instance_def reconcileLoadBalancerAttachment_def Let_def
  by (intro frame_intros server_frames)
    (simp_all add: client_defs setMachineSpec_def setMachineStatus_def frame_extcall)
section \<open>One reconcile\<close>

text \<open>The calls before the scope exists: they change no server and write no object.\<close>

definition quiet :: "call \<Rightarrow> bool" where
  "quiet x \<longleftrightarrow> \<not> patches_machine x \<and> \<not> changes_server x"

definition quiet_then :: "call list \<Rightarrow> call list \<Rightarrow> bool" where
  "quiet_then t' t \<longleftrightarrow> (\<exists>t0. (\<forall>x \<in> set t0. quiet x) \<and> t = t0 @ t')"

lemma quiet_then_simps:
  "\<forall>x \<in> set t0. quiet x \<Longrightarrow> quiet_then t' (t0 @ t')"
  "\<forall>x \<in> set t0. quiet x \<Longrightarrow> quiet_then t' t \<Longrightarrow> quiet_then t' (t0 @ t)"
  "quiet x \<Longrightarrow> quiet_then t' t \<Longrightarrow> quiet_then t' (x # t)"
  unfolding quiet_then_def
  by (blast, metis Un_iff append.assoc set_append, metis append_Cons set_ConsD)

lemma quiet_simps [simp]:
  "quiet (KubeGetC a b d)" "quiet (StatC p)" "quiet (HttpGetC u)" "quiet (MkdirC p)" "quiet (CreateFileC p d)"
  "quiet (LookPathC p)" "quiet (RunC p as es)"
  by (simp_all add: quiet_def changes_server_def)

lemma only_reads_quiet: "only_reads t \<Longrightarrow> \<forall>x \<in> set t. quiet x"
  by (auto simp: only_reads_def quiet_def changes_server_def elim!: is_read.elims dest!: bspec)

lemma Initialize_frame: "frame quiet (\<lambda>_. ()) (Initialize o' m)"
proof -
  have entry: "frame quiet (\<lambda>_. ()) (extract_entry o' e)" for e
    by (cases e) (auto simp: extract_entry_def intro!: frame_intros)
  have outp: "frame quiet (\<lambda>_. ()) (Output o' p as es)" for p as es
    unfolding Output_def by (intro frame_intros) simp_all
  show ?thesis
    unfolding Initialize_def locate_config_def DownloadFile_def ExtractTarGz_def initializePacker_def
      initializeConfig_def setPacker_def HttpGet_def StatNotExist_def
    by (intro frame_intros entry outp) simp_all
qed
definition machine_run ::
    "Codec \<Rightarrow> 'w Env \<Rightarrow> string \<Rightarrow> string \<Rightarrow> 'w sys \<Rightarrow> HcloudMachine \<Rightarrow> 'w MachineScope \<Rightarrow> Result res \<Rightarrow> call list \<Rightarrow> bool" where
  "machine_run cd env ns name s fetched scope r t \<longleftrightarrow>
     (\<exists>w s''. k_GetHcloudMachine (e_kube env) ns name (world s) = (Inr fetched, w) \<and>
        hm_Meta (ms_HcloudMachine scope) = hm_Meta fetched \<and> hm_Spec (ms_HcloudMachine scope) = hm_Spec fetched \<and>
        ms_patchHelper scope = ms_HcloudMachine scope \<and>
        machine_body cd env (ms_HcloudMachine scope) scope = (r, t, s''))"

lemma initialize_image_wp:
  "wp (initialize_image env hm) s (\<lambda>r t s'. (\<forall>x \<in> set t. quiet x) \<and>
     (\<forall>hm'. r = Ok hm' \<longrightarrow> hm_Meta hm' = hm_Meta hm \<and> hm_Spec hm' = hm_Spec hm))"
  by (auto simp: initialize_image_def wp_simps bind_post_def intro!: wp_mono[OF frame_wp[OF Initialize_frame]]
      split: res.splits)

lemma machine_in_cluster_wp:
  fixes s :: "'w sys"
  shows "wp (machine_in_cluster cd env hm m cluster) s (\<lambda>r t s'. (\<forall>x \<in> set t. quiet x) \<or>
     (\<exists>t' s'' scope :: 'w MachineScope. ms_HcloudMachine scope = hm \<and> ms_patchHelper scope = hm \<and>
        machine_body cd env hm scope = (r, t', s'') \<and> quiet_then t' t))"
proof -
  have body: "wp (machine_body cd env hm) scope (\<lambda>r t s'. \<exists>s''. machine_body cd env hm scope = (r, t, s''))"
    for hm and scope :: "'w MachineScope"
    by (auto simp: wp_def split: prod.splits)
  show ?thesis
    apply (simp add: machine_in_cluster_def wp_simps client_defs wp_extcall ext_post_iff)
    apply (auto simp: wp_simps wp_extcall ext_post_iff split: option.splits sum.splits)
    apply (rule wp_mono[OF NewMachineScope_wp])
    apply (auto simp: bind_post_def wp_simps only_reads_quiet split: res.splits)
    apply (rule wp_mono[OF body])
    apply (rule disjI2)
    apply (clarsimp simp: sys_update_same)
    subgoal for x2 w t s' sc r t1 s1
      by (rule exI[of _ t1], rule exI[of _ s1], rule exI[of _ sc])
        (simp add: quiet_then_simps only_reads_quiet)
    done
qed

lemma machine_owned_wp:
  fixes s :: "'w sys"
  shows "wp (machine_owned cd env hm) s (\<lambda>r t s'. (\<forall>x \<in> set t. quiet x) \<or>
     (\<exists>t' s'' scope :: 'w MachineScope. ms_HcloudMachine scope = hm \<and> ms_patchHelper scope = hm \<and>
        machine_body cd env hm scope = (r, t', s'') \<and> quiet_then t' t))"
  apply (simp add: machine_owned_def wp_simps client_defs wp_extcall ext_post_iff)
  apply (auto simp: wp_simps wp_extcall ext_post_iff split: option.splits)
  apply (rule wp_mono[OF machine_in_cluster_wp])
  apply (erule disjE)
   apply simp
  apply (rule disjI2)
  apply (elim exE conjE)
  subgoal for m w cl v r t s' t1 s1 sc
    by (rule exI[of _ t1], rule exI[of _ s1], rule exI[of _ sc]) (simp add: quiet_then_simps)
  done

lemma machine_run_trace:
  fixes scope :: "'w MachineScope"
  shows "k_GetHcloudMachine (e_kube env) ns name (world s) = (Inr fetched, w) \<Longrightarrow>
   ms_HcloudMachine scope = hm \<Longrightarrow> ms_patchHelper scope = hm \<Longrightarrow> hm_Meta hm = hm_Meta fetched \<Longrightarrow>
   hm_Spec hm = hm_Spec fetched \<Longrightarrow> machine_body cd env hm scope = (r, t', s'') \<Longrightarrow> quiet_then t' t \<Longrightarrow>
   \<exists>fetched scope t'. machine_run cd env ns name s fetched scope r t' \<and> quiet_then t' t"
  unfolding machine_run_def by blast

lemma HcloudMachine_Reconcile_run:
  fixes s :: "'w sys"
  shows "wp (HcloudMachine_Reconcile cd env ns name) s (\<lambda>r t s'. (\<forall>x \<in> set t. quiet x) \<or>
     (\<exists>fetched scope t'. machine_run cd env ns name s fetched scope r t' \<and> quiet_then t' t))"
  unfolding HcloudMachine_Reconcile_def
  apply (simp only: wp_simps client_defs wp_extcall ext_post_iff)
  apply (intro conjI allI impI)
   apply (simp add: wp_simps)
  apply (simp add: wp_bindM)
  apply (rule wp_mono[OF initialize_image_wp])
  subgoal for hm w r t s1
  proof (cases r)
    case (Ok hm')
    assume got: "k_GetHcloudMachine (e_kube env) ns name (world s) = (Inr hm, w)"
      and *: "(\<forall>x \<in> set t. quiet x) \<and> (\<forall>hm'. r = Ok hm' \<longrightarrow> hm_Meta hm' = hm_Meta hm \<and> hm_Spec hm' = hm_Spec hm)"
    show ?thesis
      unfolding Ok bind_post_simps
    proof (rule wp_mono[OF machine_owned_wp], erule disjE)
      fix r' t' s2
      assume "\<exists>t'a s''. \<exists>scope :: 'w MachineScope. ms_HcloudMachine scope = hm' \<and> ms_patchHelper scope = hm' \<and>
        machine_body cd env hm' scope = (r', t'a, s'') \<and> quiet_then t'a t'"
      then obtain t'' s'' and scope :: "'w MachineScope" where "ms_HcloudMachine scope = hm'" "ms_patchHelper scope = hm'"
        "machine_body cd env hm' scope = (r', t'', s'')" "quiet_then t'' t'" by blast
      moreover from this * have "quiet_then t'' (KubeGetC ''HcloudMachine'' ns name # t @ t')"
        by (simp add: quiet_then_simps)
      ultimately show "(\<forall>x \<in> set (t @ t'). quiet x) \<or> (\<exists>fetched scope t'a.
          machine_run cd env ns name s fetched scope r' t'a \<and> quiet_then t'a (KubeGetC ''HcloudMachine'' ns name # t @ t'))"
        using machine_run_trace[OF got] * Ok by blast
    qed (use * in auto)
  qed auto
  done
text \<open>The machine's servers are gone: none is listed by its labels, or the cloud accepted a deletion.\<close>

definition servers_gone :: "'w HcloudClient \<Rightarrow> 'w MachineScope \<Rightarrow> call list \<Rightarrow> bool" where
  "servers_gone c s t \<longleftrightarrow> (\<exists>w. h_ListServers c (server_selector s) (world s) = (Inr [], w)) \<or>
     (\<exists>sv v v'. DeleteServerC sv \<in> set t \<and> h_DeleteServer c sv v = (Inr (), v'))"

interpretation machine_object: stored_object ms_HcloudMachine hm_Meta PatchHcloudMachineC patches_machine
  setMachineMeta "MachineScope_Close k" "PatchObject k"
  "\<lambda>s ob. \<exists>v v'. k_PatchHcloudMachine k (ms_patchHelper s) ob v = (Inr (), v')" for k
proof
  show "patches_machine x \<longleftrightarrow> x \<in> range PatchHcloudMachineC" for x by (cases x) auto
  show "wp (MachineScope_Close k) s (\<lambda>r t s'. t = [PatchHcloudMachineC (ms_HcloudMachine s)])" for s
    by (simp add: MachineScope_Close_def wp_def PatchHcloudMachine_def extcall_def split: prod.splits sum.splits)
  show "wp (PatchObject k) s (\<lambda>r t s'. t = [PatchHcloudMachineC (ms_HcloudMachine s)] \<and> ms_HcloudMachine s' = ms_HcloudMachine s \<and>
      (r = Ok () \<longrightarrow> (\<exists>v v'. k_PatchHcloudMachine k (ms_patchHelper s) (ms_HcloudMachine s) v = (Inr (), v'))))" for s
    by (auto simp: PatchObject_def wp_def PatchHcloudMachine_def extcall_def split: prod.splits sum.splits)
qed (simp_all add: setMachineMeta_def)

lemma machine_delete_body:
  assumes "om_DeletionTimestamp (hm_Meta (ms_HcloudMachine s)) \<noteq> None"
  shows "wp (machine_body cd env (ms_HcloudMachine s)) s (\<lambda>r t s'. \<exists>t1 obj. t = t1 @ [PatchHcloudMachineC obj] \<and>
     (\<forall>x \<in> set t1. \<not> patches_machine x) \<and> (\<forall>opts. CreateServerC opts \<notin> set t1) \<and>
     (hm_Meta obj = hm_Meta (ms_HcloudMachine s) \<or>
        hm_Meta obj = RemoveFinalizer env MachineFinalizer (hm_Meta (ms_HcloudMachine s)) \<and>
        servers_gone (ClusterScope_HcloudClient env s) s t1))"
proof -
  let ?c = "ClusterScope_HcloudClient env s"
  have svc: "wp (server_Delete ?c) s (\<lambda>r t s'. (\<forall>x \<in> set t. \<not> patches_machine x) \<and>
      (\<forall>opts. CreateServerC opts \<notin> set t) \<and> ms_HcloudMachine s' = ms_HcloudMachine s \<and> (r = Ok None \<longrightarrow> servers_gone ?c s t))"
    by (rule wp_frame[OF server_Delete_frame], rule wp_mono[OF server_Delete_wp])
      (fastforce simp: delete_post_def servers_gone_def)
  have "wp (machine_reconcileDelete env) s (\<lambda>r t s'. (\<forall>x \<in> set t. \<not> patches_machine x) \<and>
     (\<forall>opts. CreateServerC opts \<notin> set t) \<and>
     (machine_meta s' = machine_meta s \<or> machine_meta s' = RemoveFinalizer env MachineFinalizer (machine_meta s) \<and>
        servers_gone ?c s t))"
    by (auto simp: machine_reconcileDelete_def breakReconcile_def in_machine_def wp_simps bind_post_def map_err_def
        setMachineMeta_def intro!: wp_mono[OF svc] split: res.splits option.splits)
  from machine_object.closed[OF this] assms show ?thesis by (simp add: machine_body_def)
qed

text \<open>What the service does for a machine that is not being deleted: it creates at most one server.\<close>

definition at_most_created :: "call list \<Rightarrow> bool" where
  "at_most_created t \<longleftrightarrow> (\<exists>opts. filter changes_server t \<in> {[], [CreateServerC opts]})"

lemma machine_normal_body:
  assumes "om_DeletionTimestamp (hm_Meta (ms_HcloudMachine s)) = None"
  shows "wp (machine_body cd env (ms_HcloudMachine s)) s (\<lambda>r t s'. \<exists>a t1 b.
     t = PatchHcloudMachineC a # t1 @ [PatchHcloudMachineC b] \<and> ((\<forall>x \<in> set t1. \<not> patches_machine x) \<and> at_most_created t1) \<and>
     hm_Meta a = AddFinalizer env MachineFinalizer (machine_meta s) \<and> hm_Meta b = hm_Meta a \<and>
     (t1 \<noteq> [] \<longrightarrow> (\<exists>v v'. k_PatchHcloudMachine (e_kube env) (ms_patchHelper s) a v = (Inr (), v'))))"
proof -
  have svc: "wp (server_Reconcile cd o' k c) s1 (\<lambda>r t s'. ((\<forall>x \<in> set t. \<not> patches_machine x) \<and> at_most_created t) \<and>
      machine_meta s' = machine_meta s1)"
    for o' and k :: "'a KubeClient" and c and s1 :: "('a, 'b) MachineScope_scheme"
    by (rule wp_frame[OF server_Reconcile_frame], rule wp_mono[OF server_Reconcile_wp])
      (auto simp: create_post_def at_most_created_def)
  have rest: "wp (bindM (getsM (ClusterScope_HcloudClient env)) (\<lambda>c.
      breakReconcile (in_machine ''failed to reconcile server'' (server_Reconcile cd (e_os env) (e_kube env) c))
       (ret no_Result))) s1
     (\<lambda>r t s'. ((\<forall>x \<in> set t. \<not> patches_machine x) \<and> at_most_created t) \<and> machine_meta s' = machine_meta s1)"
    for s1 :: "('a, 'b) MachineScope_scheme"
    by (auto simp: breakReconcile_def in_machine_def wp_simps bind_post_def map_err_def
        intro!: wp_mono[OF svc] split: res.splits option.splits)
  have "(\<forall>x \<in> set ([] :: call list). \<not> patches_machine x) \<and> at_most_created []" by (simp add: at_most_created_def)
  from machine_object.stored_then_served[OF rest this] assms show ?thesis
    by (simp add: machine_body_def machine_reconcileNormal_def)
qed

interpretation machine_finalizer: finalized_first ms_HcloudMachine hm_Meta PatchHcloudMachineC patches_machine
  setMachineMeta "MachineScope_Close (e_kube env)" env MachineFinalizer "machine_body cd env"
  "\<lambda>s. servers_gone (ClusterScope_HcloudClient env s) s" quiet
  "\<lambda>s ob. \<exists>v v'. k_PatchHcloudMachine (e_kube env) (ms_patchHelper s) ob v = (Inr (), v')" at_most_created
  for cd env
proof
  show "quiet x \<Longrightarrow> \<not> patches_machine x" for x by (simp add: quiet_def)
  show "servers_gone c s t \<Longrightarrow> servers_gone c s (t0 @ t)" for c s t0 t by (auto simp: servers_gone_def)
qed (rule wp_mono[OF machine_delete_body] wp_mono[OF machine_normal_body], assumption, blast)+

section \<open>Properties\<close>

text \<open>
  C4. Before a reconcile asks for a server, it has stored the finalizer: the API server accepted a
  patch of the machine that carries it, and no server was changed until then. Then exactly one
  server is requested, and only for a machine that is not being deleted.
\<close>

theorem HcloudMachine_finalizer_first:
  fixes env :: "'w Env"
  assumes "documented_finalizers env"
    and "CreateServerC opts \<in> set (calls (HcloudMachine_Reconcile cd env ns name s))"
  shows "\<exists>hm w pre obj post before v v'. k_GetHcloudMachine (e_kube env) ns name (world s) = (Inr hm, w) \<and>
     om_DeletionTimestamp (hm_Meta hm) = None \<and>
     calls (HcloudMachine_Reconcile cd env ns name s) = pre @ PatchHcloudMachineC obj # post \<and>
     filter changes_server pre = [] \<and> filter changes_server post = [CreateServerC opts] \<and>
     MachineFinalizer \<in> set (om_Finalizers (hm_Meta obj)) \<and>
     k_PatchHcloudMachine (e_kube env) before obj v = (Inr (), v')"
proof -
  obtain r t s' where eq: "HcloudMachine_Reconcile cd env ns name s = (r, t, s')" by (metis prod_cases3)
  have mem: "CreateServerC opts \<in> set t" using assms(2) by (simp add: eq calls_def)
  have loud: "\<not> quiet (CreateServerC opts)" "\<not> patches_machine (CreateServerC opts)" by (simp_all add: quiet_def)
  from wpD[OF HcloudMachine_Reconcile_run eq] mem loud obtain fetched t' t0 w s'' and scope :: "'w MachineScope" where
    got: "k_GetHcloudMachine (e_kube env) ns name (world s) = (Inr fetched, w)"
    and meta: "hm_Meta (ms_HcloudMachine scope) = hm_Meta fetched"
    and body: "machine_body cd env (ms_HcloudMachine scope) scope = (r, t', s'')"
    and t: "t = t0 @ t'" and t0: "\<forall>x \<in> set t0. quiet x"
    unfolding machine_run_def quiet_then_def by blast
  have "CreateServerC opts \<in> set t'" using mem t t0 loud by auto
  then have none: "om_DeletionTimestamp (machine_meta scope) = None"
    using wpD[OF machine_delete_body body] by fastforce
  from machine_finalizer.stored_before[OF assms(1) none body t0 mem[unfolded t] loud] obtain a t1 b v v' where
    split: "t0 @ t' = t0 @ PatchHcloudMachineC a # t1 @ [PatchHcloudMachineC b]"
    and t1: "CreateServerC opts \<in> set t1" "at_most_created t1"
    and fin: "MachineFinalizer \<in> set (om_Finalizers (hm_Meta a))"
    and acc: "k_PatchHcloudMachine (e_kube env) (ms_patchHelper scope) a v = (Inr (), v')" by blast
  have "CreateServerC opts \<in> set (filter changes_server t1)" using t1(1) by simp
  with t1(2) have one: "filter changes_server t1 = [CreateServerC opts]"
    by (auto simp: at_most_created_def simp del: set_filter filter_eq_Cons_iff)
  have none0: "filter changes_server t0 = []" using t0 by (auto simp: quiet_def filter_empty_conv)
  show ?thesis
  proof (intro exI conjI)
    show "calls (HcloudMachine_Reconcile cd env ns name s) = t0 @ PatchHcloudMachineC a # (t1 @ [PatchHcloudMachineC b])"
      using split by (simp add: eq calls_def t)
    show "filter changes_server (t1 @ [PatchHcloudMachineC b]) = [CreateServerC opts]"
      by (simp add: one changes_server_def)
    show "om_DeletionTimestamp (hm_Meta fetched) = None" using none meta by simp
  qed (rule got none0 fin acc)+
qed

text \<open>
  C13. A finalizer that an HcloudMachine had is given up only by the last call of a reconcile, and only
  when the machine is being deleted and its server is gone: none was listed by the machine's
  labels, or the cloud accepted the deletion in this reconcile.
\<close>

theorem HcloudMachine_finalizer_last:
  fixes env :: "'w Env"
  assumes "documented_finalizers env"
    and "k_GetHcloudMachine (e_kube env) ns name (world s) = (Inr hm, w)"
    and "MachineFinalizer \<in> set (om_Finalizers (hm_Meta hm))"
    and "PatchHcloudMachineC obj \<in> set (calls (HcloudMachine_Reconcile cd env ns name s))"
    and "MachineFinalizer \<notin> set (om_Finalizers (hm_Meta obj))"
  shows "om_DeletionTimestamp (hm_Meta hm) \<noteq> None \<and>
    (\<exists>pre scope. calls (HcloudMachine_Reconcile cd env ns name s) = pre @ [PatchHcloudMachineC obj] \<and>
       hm_Meta (ms_HcloudMachine scope) = hm_Meta hm \<and>
       servers_gone (ClusterScope_HcloudClient env scope) scope pre)"
proof -
  obtain r t s' where eq: "HcloudMachine_Reconcile cd env ns name s = (r, t, s')" by (metis prod_cases3)
  have mem: "PatchHcloudMachineC obj \<in> set t" using assms(4) by (simp add: eq calls_def)
  have loud: "\<not> quiet (PatchHcloudMachineC obj)" by (simp add: quiet_def)
  from wpD[OF HcloudMachine_Reconcile_run eq] mem loud obtain fetched t' t0 w' s'' and scope :: "'w MachineScope" where
    got: "k_GetHcloudMachine (e_kube env) ns name (world s) = (Inr fetched, w')"
    and scope: "hm_Meta (ms_HcloudMachine scope) = hm_Meta fetched"
    and body: "machine_body cd env (ms_HcloudMachine scope) scope = (r, t', s'')"
    and t: "t = t0 @ t'" and t0: "\<forall>x \<in> set t0. quiet x"
    unfolding machine_run_def quiet_then_def by blast
  have meta: "machine_meta scope = hm_Meta hm" using scope got assms(2) by simp
  from machine_finalizer.given_up_last[OF assms(1) body t0 _ mem[unfolded t] assms(5)] assms(3) meta show ?thesis
    by (simp add: eq calls_def t) blast
qed

section \<open>Concrete runs\<close>

definition example_owned_machine :: "int option \<Rightarrow> HcloudMachine" where
  "example_owned_machine deleted = zero_HcloudMachine
     \<lparr>hm_Meta := zero_ObjectMeta\<lparr>om_Name := ''m1'', om_Namespace := ''default'', om_Finalizers := [MachineFinalizer],
        om_DeletionTimestamp := deleted\<rparr>,
      hm_Status := (hm_Status zero_HcloudMachine)\<lparr>hmt_ImageInitialized := True\<rparr>\<rparr>"

definition example_machine :: Machine where
  "example_machine = zero_Machine\<lparr>m_FailureDomain := Some ''fsn1'', m_Version := Some ''v1.18.3'',
     m_DataSecretName := Some ''secret''\<rparr>"

definition example_capi_cluster :: Cluster where
  "example_capi_cluster = zero_Cluster\<lparr>cl_Name := ''c1'', cl_InfrastructureRefName := Some ''c1''\<rparr>"

definition example_machine_kube :: "HcloudMachine \<Rightarrow> unit KubeClient" where
  "example_machine_kube hm = example_cluster_kube\<lparr>k_GetHcloudMachine := \<lambda>_ _ w. (Inr hm, w),
      k_GetSecret := \<lambda>_ _ w. (Inr [(''hcloud'', ''t0ken''), (''value'', ''data'')], w),
      k_GetOwnerMachine := \<lambda>_ w. (Inr (Some example_machine), w),
      k_GetClusterOfMachine := \<lambda>_ w. (Inr example_capi_cluster, w),
      k_PatchHcloudMachine := \<lambda>_ _ w. (Inr (), w)\<rparr>"

definition example_machine_env :: "HcloudMachine \<Rightarrow> unit Env" where
  "example_machine_env hm = offline_env
     \<lparr>e_kube := example_machine_kube hm, e_hcloud := \<lambda>token. example_server_client [], e_os := example_os\<rparr>"

lemma documented_example_machine_env: "documented_finalizers (example_machine_env hm)"
  using documented_offline_env by (simp add: example_machine_env_def documented_finalizers_def)

text \<open>The scope of the run for a machine that is not being deleted, after the first patch.\<close>

definition example_machine_scope :: "unit MachineScope" where
  "example_machine_scope = ClusterScope.extend
     (sys.extend \<lparr>world = (), packer = fresh_packer\<rparr>
       (ClusterScope.fields example_capi_cluster example_HcloudCluster example_HcloudCluster ''t0ken'' [] []))
     (MachineScope.fields example_machine (example_owned_machine None) (example_owned_machine None))"

lemma example_machine_run:
  "set (calls (server_Reconcile example_codec example_os (example_machine_kube (example_owned_machine None))
       (example_server_client []) example_machine_scope)) \<subseteq>
   set (calls (HcloudMachine_Reconcile example_codec (example_machine_env (example_owned_machine None)) ''default'' ''m1''
     \<lparr>world = (), packer = fresh_packer\<rparr>))"
proof -
  obtain r t s' where svc: "server_Reconcile example_codec example_os (example_machine_kube (example_owned_machine None))
       (example_server_client []) example_machine_scope = (r, t, s')" by (metis prod_cases3)
  have refetch: "setMachineMeta (AddFinalizer (example_machine_env (example_owned_machine None)) MachineFinalizer)
      example_machine_scope = example_machine_scope"
    by (simp add: setMachineMeta_def AddFinalizer_def example_machine_env_def offline_env_def example_machine_scope_def
        MachineScope.defs ClusterScope.defs sys.defs example_owned_machine_def zero_HcloudMachine_def zero_ObjectMeta_def)
  let ?env = "example_machine_env (example_owned_machine None)"
  have hm: "ms_HcloudMachine example_machine_scope = example_owned_machine None"
    "ms_patchHelper example_machine_scope = example_owned_machine None" "world example_machine_scope = ()"
    and client: "ClusterScope_HcloudClient ?env s0 = example_server_client []" for s0 :: "(unit, 'x) ClusterScope_scheme"
    by (simp_all add: example_machine_scope_def MachineScope.defs ClusterScope.defs sys.defs
        ClusterScope_HcloudClient_def example_machine_env_def)
  have patch: "PatchObject (e_kube ?env) example_machine_scope =
      (Ok (), [PatchHcloudMachineC (example_owned_machine None)], example_machine_scope)"
    by (simp add: PatchObject_def PatchHcloudMachine_def extcall_def hm example_machine_env_def example_machine_kube_def)
  have env: "e_os ?env = example_os" "e_kube ?env = example_machine_kube (example_owned_machine None)"
    by (simp_all add: example_machine_env_def)
  have normal: "\<exists>r' s''. machine_reconcileNormal example_codec ?env example_machine_scope =
      (r', PatchHcloudMachineC (example_owned_machine None) # t, s'')"
    by (cases r) (simp_all add: machine_reconcileNormal_def breakReconcile_def in_machine_def bindM_def modifyM_def
        getsM_def mapErrM_def ret_def refetch patch[unfolded env] client env svc split: option.splits)
  have body: "set t \<subseteq> set (calls (machine_body example_codec ?env (example_owned_machine None) example_machine_scope))"
  proof -
    have "om_DeletionTimestamp (hm_Meta (example_owned_machine None)) = None" by (simp add: example_owned_machine_def)
    with normal show ?thesis by (auto simp: machine_body_def deferM_def calls_def split: prod.splits)
  qed
  obtain r1 t1 s1 where run: "machine_body example_codec ?env (example_owned_machine None) example_machine_scope = (r1, t1, s1)"
    by (metis prod_cases3)
  have scope: "NewMachineScope ?env (Some example_capi_cluster) (Some example_HcloudCluster) (Some example_machine)
      (Some (example_owned_machine None)) \<lparr>world = (), packer = fresh_packer\<rparr> =
      (Ok example_machine_scope, [KubeGetC ''Secret'' ''default'' ''token''], \<lparr>world = (), packer = fresh_packer\<rparr>)"
    by (simp add: NewMachineScope_def NewClusterScope_def HcloudClientFactory_def token_secret_def NewHelper_def
        secret_key_def run_defs GetSecret_def example_machine_env_def example_machine_kube_def offline_env_def
        example_HcloudCluster_def zero_HcloudCluster_def zero_ObjectMeta_def example_machine_scope_def Let_def)
  have flag: "hmt_ImageInitialized (hm_Status (example_owned_machine None))" by (simp add: example_owned_machine_def)
  have cl: "cl_InfrastructureRefName example_capi_cluster = Some ''c1''" by (simp add: example_capi_cluster_def)
  have same: "in_scope example_machine_scope m \<lparr>world = (), packer = fresh_packer\<rparr> =
      (case m example_machine_scope of (r, t, s') \<Rightarrow> (r, t, sys.truncate s'))" for m :: "(unit MachineScope, call, Result) M"
    by (simp add: in_scope_def example_machine_scope_def MachineScope.defs ClusterScope.defs sys.defs)
  have "t1 = drop 5 (calls (HcloudMachine_Reconcile example_codec ?env ''default'' ''m1'' \<lparr>world = (), packer = fresh_packer\<rparr>))"
    by (simp add: HcloudMachine_Reconcile_def machine_owned_def machine_in_cluster_def initialize_image_def client_defs
        run_defs env example_machine_kube_def example_cluster_kube_def flag offline_kube_def cl
        scope[unfolded env] same run calls_def)
  with body svc run show ?thesis by (auto simp: calls_def dest: in_set_dropD)
qed

lemma HcloudMachine_finalizer_last_witness:
  "\<exists>pre obj. MachineFinalizer \<notin> set (om_Finalizers (hm_Meta obj)) \<and>
     calls (HcloudMachine_Reconcile example_codec (example_machine_env (example_owned_machine (Some 1))) ''default'' ''m1''
       \<lparr>world = (), packer = fresh_packer\<rparr>) = pre @ [PatchHcloudMachineC obj]"
proof -
  let ?env = "example_machine_env (example_owned_machine (Some 1))"
  let ?obj = "example_owned_machine (Some 1)\<lparr>hm_Meta := (hm_Meta (example_owned_machine (Some 1)))\<lparr>om_Finalizers := []\<rparr>\<rparr>"
  have mem: "PatchHcloudMachineC ?obj \<in> set (calls (HcloudMachine_Reconcile example_codec ?env ''default'' ''m1''
      \<lparr>world = (), packer = fresh_packer\<rparr>))"
    by code_simp
  have got: "k_GetHcloudMachine (e_kube ?env) ''default'' ''m1'' () = (Inr (example_owned_machine (Some 1)), ())"
    by (simp add: example_machine_env_def example_machine_kube_def)
  from HcloudMachine_finalizer_last[where s = "\<lparr>world = (), packer = fresh_packer\<rparr>", OF documented_example_machine_env,
      simplified, OF got _ mem]
  show ?thesis by (auto simp: example_owned_machine_def intro!: exI[of _ ?obj])
qed
lemma HcloudMachine_finalizer_first_witness:
  "\<exists>opts pre obj post. calls (HcloudMachine_Reconcile example_codec (example_machine_env (example_owned_machine None))
       ''default'' ''m1'' \<lparr>world = (), packer = fresh_packer\<rparr>) = pre @ PatchHcloudMachineC obj # post \<and>
     filter changes_server post = [CreateServerC opts]"
proof -
  let ?k = "example_machine_kube (example_owned_machine None)" and ?c = "example_server_client []"
  let ?s = "located ''fsn1'' example_machine_scope"
  have s: "GetFailureDomain example_machine_scope = Inr ''fsn1''" "m_Version (ms_Machine example_machine_scope) = Some ''v1.18.3''"
    "IsBootstrapDataReady example_machine_scope" "builds (packer ?s) = Map.empty"
    by (simp_all add: example_machine_scope_def MachineScope.defs ClusterScope.defs sys.defs GetFailureDomain_def
        IsBootstrapDataReady_def example_machine_def zero_defs located_def setMachineStatus_def fresh_packer_def)
  obtain r t s2 where found: "find_or_create example_codec ?k ?c ''fsn1'' 9 ?s = (r, t, s2)"
    by (metis prod_cases3)
  have "list_ex changes_server (calls (find_or_create example_codec ?k ?c ''fsn1'' 9 ?s))"
    by code_simp
  then obtain x where x: "changes_server x" "x \<in> set t" by (auto simp: list_ex_iff calls_def found)
  then have "x \<in> set (calls (server_Reconcile example_codec example_os ?k ?c example_machine_scope))"
    by (simp add: server_Reconcile_def run_defs located_def[symmetric] example_image s found calls_def
        split: res.splits prod.splits)
  then have mem: "x \<in> set (calls (HcloudMachine_Reconcile example_codec (example_machine_env (example_owned_machine None))
       ''default'' ''m1'' \<lparr>world = (), packer = fresh_packer\<rparr>))"
    using example_machine_run by blast
  have "\<not> list_ex (\<lambda>x. case x of DeleteServerC _ \<Rightarrow> True | ShutdownServerC _ \<Rightarrow> True | _ \<Rightarrow> False)
      (calls (find_or_create example_codec ?k ?c ''fsn1'' 9 ?s))"
    by code_simp
  with x obtain opts where "x = CreateServerC opts"
    by (auto simp: list_ex_iff calls_def found changes_server_def split: call.splits)
  with HcloudMachine_finalizer_first[OF documented_example_machine_env mem[unfolded this]] show ?thesis by blast
qed

end
