(* ===== verification/Manifests.thy ===== *)
theory Manifests
  imports Scope_Build
begin

text \<open>
  pkg/manifests: the jsonnet program with the manifests of a cluster is evaluated with the cluster's
  parameters, its result is a JSON value in which every Kubernetes object becomes one YAML
  document, and the documents are hashed or piped into kubectl.

  The jsonnet interpreter (which reads further files), the JSON parser, the YAML text of a
  document and SHA-256 of a stream of documents are parameters, \<open>ManifestsLib\<close>, as are the
  file, pipe and process operations. A parsed JSON object is a Go map: an association list in the
  order in which the runtime happens to iterate over it.

  The lemmas show that neither the documents nor their order depend on that order, and what is
  done before kubectl is asked to apply them.
\<close>

section \<open>JSON values\<close>

datatype json =
    JNull | JBool bool | JNumber string | JString string
  | JArray "json list" | JObject "(string \<times> json) list"

fun go_type :: "json \<Rightarrow> string" where
  "go_type JNull = ''<nil>''"
| "go_type (JBool _) = ''bool''"
| "go_type (JNumber _) = ''float64''"
| "go_type (JString _) = ''string''"
| "go_type (JArray _) = ''[]interface {}''"
| "go_type (JObject _) = ''map[string]interface {}''"

section \<open>The documents: pkg/manifests/config.go\<close>

lemma forM_cong [fundef_cong]:
  "xs = ys \<Longrightarrow> (\<And>x. x \<in> set ys \<Longrightarrow> f x = g x) \<Longrightarrow> forM f xs = forM g ys"
  by (induction ys arbitrary: xs) auto

lemma size_map_of: "map_of m k = Some v \<Longrightarrow> size v \<le> size_list (size_prod (\<lambda>_. 0) size) m"
  by (induction m) (auto split: if_splits)

text \<open>
  \<open>enc\<close> is \<^verbatim>\<open>enc.Encode\<close>. An object with a kind and an API version is a document; any other
  one is searched in the order of its keys, a list in its own order.
\<close>

function dumpYAML :: "(json \<Rightarrow> ('s, 'c, unit) M) \<Rightarrow> json \<Rightarrow> ('s, 'c, unit) M" where
  "dumpYAML enc (JObject v) =
     (let apiVersionExists = map_of v ''apiVersion'' \<noteq> None;
          kindExists = map_of v ''kind'' \<noteq> None in
      if kindExists \<and> apiVersionExists then enc (JObject v)
      else forM (\<lambda>k. case map_of v k of Some e \<Rightarrow> dumpYAML enc e | None \<Rightarrow> ret ()) (sort (map fst v)))"
| "dumpYAML enc (JArray v) = forM (dumpYAML enc) v"
| "dumpYAML enc JNull = failM (ErrNew (''unexpected type '' @ go_type JNull))"
| "dumpYAML enc (JBool b) = failM (ErrNew (''unexpected type '' @ go_type (JBool b)))"
| "dumpYAML enc (JNumber n) = failM (ErrNew (''unexpected type '' @ go_type (JNumber n)))"
| "dumpYAML enc (JString s) = failM (ErrNew (''unexpected type '' @ go_type (JString s)))"
  by pat_completeness auto
termination
  by (relation "measure (\<lambda>(enc, i). size i)")
    (auto simp: size_map_of less_Suc_eq_le size_list_estimation' dest: size_map_of)

text \<open>
  The YAML encoder counts the documents it has written, for it writes a separator before every
  document but the first. \<open>enc n d\<close> writes the document \<open>d\<close> as the \<open>n\<close>-th.
\<close>

definition encoder :: "(nat \<Rightarrow> json \<Rightarrow> ('s, 'c, unit) M) \<Rightarrow> json \<Rightarrow> ('s \<times> nat, 'c, unit) M" where
  "encoder enc d = (\<lambda>(s, n). case enc n d s of (r, t, s') \<Rightarrow> (r, t, (s', Suc n)))"

definition with_encoder :: "('s \<times> nat, 'c, unit) M \<Rightarrow> ('s, 'c, unit) M" where
  "with_encoder m = (\<lambda>s. case m (s, 0) of (r, t, (s', _)) \<Rightarrow> (r, t, s'))"

record 'w ManifestsLib =
  ml_ReadFile :: "string \<Rightarrow> 'w \<Rightarrow> (error + string) \<times> 'w"
  ml_EvaluateSnippet :: "string \<Rightarrow> string \<Rightarrow> (string, string) gomap \<Rightarrow> 'w \<Rightarrow> (error + string) \<times> 'w"
  ml_Unmarshal :: "string \<Rightarrow> error + json"
  ml_Text :: "json \<Rightarrow> string"
  ml_Sha256 :: "json list \<Rightarrow> string"
  ml_RawConfig :: "ClientConfig \<Rightarrow> error + ClientConfig"
  ml_ClientcmdWrite :: "ClientConfig \<Rightarrow> error + string"
  ml_TempFile :: "'w \<Rightarrow> (error + string) \<times> 'w"
  ml_WriteTemp :: "string \<Rightarrow> string \<Rightarrow> 'w \<Rightarrow> (error + unit) \<times> 'w"
  ml_CloseTemp :: "string \<Rightarrow> 'w \<Rightarrow> (error + unit) \<times> 'w"
  ml_RemoveTemp :: "string \<Rightarrow> 'w \<Rightarrow> (error + unit) \<times> 'w"
  ml_StdinPipe :: "'w \<Rightarrow> (error + unit) \<times> 'w"
  ml_Kubectl :: "string \<Rightarrow> string list \<Rightarrow> string list \<Rightarrow> 'w \<Rightarrow> (error + unit) \<times> 'w"
  ml_Stdin :: "string \<Rightarrow> 'w \<Rightarrow> (error + unit) \<times> 'w"
  ml_CloseStdin :: "'w \<Rightarrow> (error + unit) \<times> 'w"
  ml_Wait :: "'w \<Rightarrow> (error + unit) \<times> 'w"

record Manifests =
  manifestConfigPath :: string
  kubectlPath :: string

definition New_Manifests :: "string \<Rightarrow> Manifests" where
  "New_Manifests path = \<lparr>manifestConfigPath = path, kubectlPath = []\<rparr>"

text \<open>The evaluation up to the parsed object, and with the documents written by \<open>enc\<close>.\<close>

definition load_manifests ::
    "'w ManifestsLib \<Rightarrow> string \<Rightarrow> (string, string) gomap \<Rightarrow> (('w, 'x) sys_scheme, call, json) M" where
  "load_manifests ml path extVars =
     bindM (extcall (ReadFileC path) (ml_ReadFile ml path)) (\<lambda>bytes.
     bindM (extcall (JsonnetC path) (ml_EvaluateSnippet ml path bytes extVars)) (\<lambda>jsonText.
     liftM (ml_Unmarshal ml jsonText)))"

definition evaluateJsonnet ::
    "'w ManifestsLib \<Rightarrow> (nat \<Rightarrow> json \<Rightarrow> (('w, 'x) sys_scheme, call, unit) M) \<Rightarrow> string \<Rightarrow> (string, string) gomap
       \<Rightarrow> (('w, 'x) sys_scheme, call, unit) M" where
  "evaluateJsonnet ml enc path extVars =
     bindM (load_manifests ml path extVars) (\<lambda>object. with_encoder (dumpYAML (encoder enc) object))"

text \<open>What the encoder writes for the \<open>n\<close>-th document.\<close>

definition document_text :: "'w ManifestsLib \<Rightarrow> nat \<Rightarrow> json \<Rightarrow> string" where
  "document_text ml n d = (if n = 0 then [] else ''---'' @ [CHR 0x0A]) @ ml_Text ml d"

definition write_document ::
    "'w ManifestsLib \<Rightarrow> nat \<Rightarrow> json \<Rightarrow> (('w, 'x) sys_scheme, call, unit) M" where
  "write_document ml n d = extcall (StdinC (document_text ml n d)) (ml_Stdin ml (document_text ml n d))"

section \<open>Hash and apply: pkg/manifests/kubectl.go\<close>

text \<open>The documents that an encoder with an empty buffer has written at the end, or the error.\<close>

definition documents :: "json \<Rightarrow> error + json list" where
  "documents i = (case (dumpYAML (\<lambda>d. modifyM (\<lambda>out. out @ [d])) i :: (json list, call, unit) M) [] of
      (Ok _, _, out) \<Rightarrow> Inr out
    | (Err e, _, _) \<Rightarrow> Inl e
    | (Panic p, _, _) \<Rightarrow> Inl (ErrNew p))"

definition Manifests_Hash ::
    "'w ManifestsLib \<Rightarrow> Manifests \<Rightarrow> (string, string) gomap \<Rightarrow> (('w, 'x) sys_scheme, call, string) M" where
  "Manifests_Hash ml m extVar =
     wrapM ''error generating manifests''
       (bindM (load_manifests ml (manifestConfigPath m) extVar) (\<lambda>object.
        bindM (liftM (documents object)) (\<lambda>docs.
        ret (ml_Sha256 ml docs))))"

definition kubectl_apply ::
    "'w ManifestsLib \<Rightarrow> Manifests \<Rightarrow> string \<Rightarrow> (string, string) gomap \<Rightarrow> (('w, 'x) sys_scheme, call, unit) M" where
  "kubectl_apply ml m kubeconfigFile extVar =
     (let args = [''apply'', ''-f'', ''-'']; env = [''KUBECONFIG='' @ kubeconfigFile] in
      bindM (wrapM ''error creating stdin pipe'' (extcall StdinPipeC (ml_StdinPipe ml))) (\<lambda>_.
      bindM (wrapM ''error starting kubectl''
               (extcall (KubectlC (kubectlPath m) args env) (ml_Kubectl ml (kubectlPath m) args env))) (\<lambda>_.
      bindM (wrapM ''error generating manifests''
               (evaluateJsonnet ml (write_document ml) (manifestConfigPath m) extVar)) (\<lambda>_.
      bindM (wrapM ''error closing stdin pipe'' (extcall CloseStdinC (ml_CloseStdin ml))) (\<lambda>_.
      wrapM ''error kubectl apply failed'' (extcall WaitC (ml_Wait ml)))))))"

text \<open>The temporary file is removed when the function returns, and an error of that is ignored.\<close>

definition Manifests_Apply ::
    "'w ManifestsLib \<Rightarrow> Manifests \<Rightarrow> ClientConfig \<Rightarrow> (string, string) gomap \<Rightarrow> (('w, 'x) sys_scheme, call, unit) M" where
  "Manifests_Apply ml m client extVar =
     bindM (wrapM ''error creating rawConfig'' (liftM (ml_RawConfig ml client))) (\<lambda>rawConfig.
     bindM (wrapM ''error creating kubeconfig'' (liftM (ml_ClientcmdWrite ml rawConfig))) (\<lambda>kubeconfigBytes.
     bindM (wrapM ''error creating kubeconfig'' (extcall TempFileC (ml_TempFile ml))) (\<lambda>kubeconfigFile.
     deferM
       (bindM (wrapM ''error writing to kubeconfig''
                 (extcall (WriteTempC kubeconfigBytes) (ml_WriteTemp ml kubeconfigFile kubeconfigBytes))) (\<lambda>_.
        bindM (wrapM ''error closing kubeconfig'' (extcall CloseTempC (ml_CloseTemp ml kubeconfigFile))) (\<lambda>_.
        kubectl_apply ml m kubeconfigFile extVar)))
       (bindM (tryM (extcall RemoveTempC (ml_RemoveTemp ml kubeconfigFile))) (\<lambda>_. ret ())))))"

section \<open>Initialising: pkg/manifests/manifests.go\<close>

definition sampleParameters :: ManifestParameters where
  "sampleParameters = \<lparr>mp_HcloudToken = Some ''my-token'', mp_RobotUserName = Some ''my-user'',
     mp_RobotPassword = Some ''invalid-password'', mp_HcloudNetwork = Some (FromString ''cluster-dev''),
     mp_KubeAPIServerIPv4 = None, mp_KubeAPIServerDomain = Some '''', mp_Port = Some ''6443'',
     mp_CAcrt = Some ''no-crt'', mp_CAkey = Some ''no-key''\<rparr>"

text \<open>The configuration is validated by generating the documents into nothing.\<close>

definition initializeConfig :: "'w ManifestsLib \<Rightarrow> Manifests \<Rightarrow> (('w, 'x) sys_scheme, call, unit) M" where
  "initializeConfig ml m =
     evaluateJsonnet ml (\<lambda>_ _. ret ()) (manifestConfigPath m) (ExtVar sampleParameters)"

text \<open>
  The object with the path of kubectl is the result. In the code the path is also kept in the
  object when running kubectl fails, but then the program ends.
\<close>

definition initializeKubectl ::
    "'w OsClient \<Rightarrow> Manifests \<Rightarrow> (('w, 'x) sys_scheme, call, Manifests) M" where
  "initializeKubectl os m =
     bindM (mapErrM (\<lambda>err. ErrNew (''error finding kubectl: '' @ Error err))
              (extcall (LookPathC ''kubectl'') (os_LookPath os ''kubectl''))) (\<lambda>path.
     let args = [''version'', ''--client'', ''--short''] in
     bindM (extcall (RunC path args []) (\<lambda>w. case os_Output os path args [] w of (x, w') \<Rightarrow> (Inr x, w'))) (\<lambda>(version, err).
     case err of
       Some e \<Rightarrow> failM (ErrNew (''error executing kubectl version: '' @ Error e))
     | None \<Rightarrow> ret (m\<lparr>kubectlPath := path\<rparr>)))"

definition Manifests_Initialize ::
    "'w OsClient \<Rightarrow> 'w ManifestsLib \<Rightarrow> Manifests \<Rightarrow> (('w, 'x) sys_scheme, call, Manifests) M" where
  "Manifests_Initialize os ml m =
     (if manifestConfigPath m = [] then ret m
      else bindM (initializeKubectl os m) (\<lambda>m'.
           bindM (initializeConfig ml m') (\<lambda>_. ret m')))"

section \<open>Iteration order\<close>

text \<open>
  The values that a JSON parser returns have no key twice. \<open>canon\<close> is a value with every object
  in the order of its keys: two parsed values that differ only in the iteration order of
  their maps have the same one.
\<close>

primrec distinct_keys :: "json \<Rightarrow> bool" where
  "distinct_keys JNull = True"
| "distinct_keys (JBool b) = True"
| "distinct_keys (JNumber n) = True"
| "distinct_keys (JString v) = True"
| "distinct_keys (JArray xs) = list_all id (map distinct_keys xs)"
| "distinct_keys (JObject v) = (distinct (map fst v) \<and> list_all id (map snd (map (map_prod id distinct_keys) v)))"

primrec canon :: "json \<Rightarrow> json" where
  "canon JNull = JNull"
| "canon (JBool b) = JBool b"
| "canon (JNumber n) = JNumber n"
| "canon (JString v) = JString v"
| "canon (JArray xs) = JArray (map canon xs)"
| "canon (JObject v) = JObject (sort_key fst (map (map_prod id canon) v))"

text \<open>A loop over related elements in related states goes through related states.\<close>

lemma forM_related:
  assumes "\<And>x s. x \<in> set xs \<Longrightarrow> g (h x) (F s) = map_prod id (map_prod id F) (f x s)"
  shows "forM g (map h xs) (F s) = map_prod id (map_prod id F) (forM f xs s)"
  using assms
proof (induction xs arbitrary: s)
  case (Cons x xs)
  then show ?case by (auto simp: bindM_def map_prod_def split: prod.splits res.splits)
qed (simp add: ret_def)

lemma map_of_sort_key:
  assumes "distinct (map fst v)"
  shows "map_of (sort_key fst v) = map_of v"
  using assms by (subst map_of_inject_set) (simp_all add: distinct_map)

abbreviation append_doc :: "json \<Rightarrow> (json list, call, unit) M" where
  "append_doc d \<equiv> modifyM (\<lambda>out. out @ [d])"

lemma map_of_canon: "map_of (map (map_prod id canon) v) k = map_option canon (map_of v k)"
  by (induction v) (auto simp: map_prod_def)

lemma dumpYAML_canon:
  "distinct_keys i \<Longrightarrow> dumpYAML append_doc (canon i) (map canon out) =
     map_prod id (map_prod id (map canon)) (dumpYAML append_doc i out)"
proof (induction i arbitrary: out rule: measure_induct_rule[of size])
  case (less i)
  show ?case
  proof (cases i)
    case (JArray xs)
    then have "\<And>x out. x \<in> set xs \<Longrightarrow> dumpYAML append_doc (canon x) (map canon out) =
        map_prod id (map_prod id (map canon)) (dumpYAML append_doc x out)"
      using less.prems by (intro less.IH) (auto simp: list_all_iff less_Suc_eq_le size_list_estimation')
    from forM_related[of xs "dumpYAML append_doc" canon "map canon", OF this] JArray show ?thesis by (simp add: id_def)
  next
    case (JObject v)
    let ?v = "sort_key fst (map (map_prod id canon) v)"
    have d: "distinct (map fst v)" using less.prems JObject by simp
    then have m: "map_of ?v = (\<lambda>k. map_option canon (map_of v k))"
      using map_of_sort_key[of "map (map_prod id canon) v"] by (auto simp: map_of_canon)
    have keys: "sort (map fst ?v) = map id (sort (map fst v))"
      using sort_cong_mset[of "map fst ?v" "map fst v"] by (simp add: multiset.map_comp comp_def)
    have each: "(case map_of ?v (id k) of Some e \<Rightarrow> dumpYAML append_doc e | None \<Rightarrow> ret ()) (map canon s) =
        map_prod id (map_prod id (map canon)) ((case map_of v k of Some e \<Rightarrow> dumpYAML append_doc e | None \<Rightarrow> ret ()) s)"
      for k s
    proof (cases "map_of v k")
      case (Some e)
      then have "size e < size i" "distinct_keys e"
        using size_map_of[OF Some] less.prems JObject map_of_SomeD[OF Some]
        by (auto simp: list_all_iff)
      from less.IH[OF this] Some m show ?thesis by (simp add: id_def)
    qed (simp add: m ret_def)
    have loop: "forM (\<lambda>k. case map_of ?v k of Some e \<Rightarrow> dumpYAML append_doc e | None \<Rightarrow> ret ()) (map id (sort (map fst v))) (map canon out) =
        map_prod id (map_prod id (map canon))
          (forM (\<lambda>k. case map_of v k of Some e \<Rightarrow> dumpYAML append_doc e | None \<Rightarrow> ret ()) (sort (map fst v)) out)"
      by (rule forM_related) (rule each)
    have yaml: "dumpYAML append_doc (JObject ?v) (map canon out) =
        map_prod id (map_prod id (map canon)) (dumpYAML append_doc (JObject v) out)"
      using loop unfolding dumpYAML.simps Let_def keys
      by (auto simp: m modifyM_def)
    show ?thesis using yaml by (simp only: JObject canon.simps)
  qed (simp_all add: failM_def)
qed

section \<open>What is sent to kubectl\<close>

text \<open>
  A program that makes, for every document \<open>d\<close> that another one appends, in that order, the call
  \<open>C n d\<close> with the number of the document.
\<close>

definition numbered :: "(nat \<Rightarrow> json \<Rightarrow> 'c) \<Rightarrow> nat \<Rightarrow> json list \<Rightarrow> 'c list" where
  "numbered C n docs = map (\<lambda>(i, d). C i d) (enumerate n docs)"

lemma numbered_simps [simp]:
  "numbered C n [] = []" "numbered C n (xs @ ys) = numbered C n xs @ numbered C (n + length xs) ys"
  "numbered C n [d] = [C n d]"
  by (simp_all add: numbered_def enumerate_append_eq)

definition emits :: "(nat \<Rightarrow> json \<Rightarrow> 'c) \<Rightarrow> ('s \<times> nat, 'c, unit) M \<Rightarrow> (json list, call, unit) M \<Rightarrow> bool" where
  "emits C m a \<longleftrightarrow> (\<forall>s n. wp m (s, n) (\<lambda>r t s'. r = Ok () \<longrightarrow>
     (\<exists>docs. (\<forall>out. a out = (Ok (), [], out @ docs)) \<and> t = numbered C n docs \<and> snd s' = n + length docs)))"

lemma emits_ret: "emits C (ret ()) (ret ())"
  unfolding emits_def wp_ret by (auto simp: ret_def)

lemma emits_failM: "emits C (failM e) a"
  by (simp add: emits_def wp_simps)

lemma emits_bindM:
  fixes m m' :: "('s \<times> nat, 'c, unit) M"
  assumes "emits C m a" and "emits C m' a'"
  shows "emits C (bindM m (\<lambda>_. m')) (bindM a (\<lambda>_. a'))"
  unfolding emits_def
proof (intro allI)
  fix s n
  let ?Q = "\<lambda>r t s'. r = Ok () \<longrightarrow> (\<exists>docs. (\<forall>out. bindM a (\<lambda>_. a') out = (Ok (), [], out @ docs)) \<and>
     t = numbered C n docs \<and> snd s' = n + length docs)"
  show "wp (bindM m (\<lambda>_. m')) (s, n) ?Q"
    unfolding wp_bindM
  proof (rule wp_mono[OF assms(1)[unfolded emits_def, rule_format]])
    fix r t and s1 :: "'s \<times> nat"
    assume *: "r = Ok () \<longrightarrow> (\<exists>docs. (\<forall>out. a out = (Ok (), [], out @ docs)) \<and> t = numbered C n docs \<and>
      snd s1 = n + length docs)"
    show "bind_post (\<lambda>_. m') ?Q r t s1"
    proof (cases r)
      case (Ok u)
      with * obtain docs where docs: "\<And>out. a out = (Ok (), [], out @ docs)" "t = numbered C n docs"
        "snd s1 = n + length docs" by auto
      obtain s2 where s1: "s1 = (s2, n + length docs)" using docs(3) by (cases s1) simp
      show ?thesis
        unfolding Ok bind_post_simps s1
        by (rule wp_mono[OF assms(2)[unfolded emits_def, rule_format]])
          (auto simp: bindM_def docs intro: exI[of _ "docs @ _"])
    qed simp_all
  qed
qed

lemma emits_forM: "(\<And>x. x \<in> set xs \<Longrightarrow> emits C (f x) (g x)) \<Longrightarrow> emits C (forM f xs) (forM g xs)"
  by (induction xs) (auto intro: emits_ret emits_bindM)

lemma emits_dumpYAML:
  assumes "\<And>d. emits C (enc d) (append_doc d)"
  shows "emits C (dumpYAML enc i) (dumpYAML append_doc i)"
proof (induction i rule: measure_induct_rule[of size])
  case (less i)
  show ?case
  proof (cases i)
    case (JArray xs)
    then show ?thesis
      by (auto intro!: emits_forM less.IH simp: less_Suc_eq_le size_list_estimation')
  next
    case (JObject v)
    have "emits C (case map_of v k of Some e \<Rightarrow> dumpYAML enc e | None \<Rightarrow> ret ())
        (case map_of v k of Some e \<Rightarrow> dumpYAML append_doc e | None \<Rightarrow> ret ())" for k
      using less.IH size_map_of[of v k] JObject
      by (cases "map_of v k") (auto intro: emits_ret simp: less_Suc_eq_le)
    with JObject assms show ?thesis by (auto simp: Let_def intro: emits_forM)
  qed (simp_all add: emits_failM)
qed

lemma emits_documents:
  assumes "emits C m (dumpYAML append_doc i)"
  shows "wp (with_encoder m) s (\<lambda>r t s'. r = Ok () \<longrightarrow> (\<exists>docs. documents i = Inr docs \<and> t = numbered C 0 docs))"
proof -
  have "wp m (s, 0) (\<lambda>r t s'. r = Ok () \<longrightarrow>
     (\<exists>docs. (\<forall>out. dumpYAML append_doc i out = (Ok (), [], out @ docs)) \<and> t = numbered C 0 docs \<and> snd s' = 0 + length docs))"
    using assms unfolding emits_def by blast
  then have "wp m (s, 0) (\<lambda>r t s'. r = Ok () \<longrightarrow> (\<exists>docs. documents i = Inr docs \<and> t = numbered C 0 docs))"
    by (rule wp_mono) (auto simp: documents_def)
  then show ?thesis by (auto simp: wp_def with_encoder_def split: prod.splits)
qed

lemma emits_stdin:
  "emits (\<lambda>n d. StdinC (document_text ml n d)) (encoder (write_document ml) d) (append_doc d)"
  by (auto simp: emits_def encoder_def write_document_def wp_def extcall_def modifyM_def split: prod.splits sum.splits)

text \<open>Documents that the configuration gives for the variables \<open>ev\<close>.\<close>

definition generated :: "'w ManifestsLib \<Rightarrow> Manifests \<Rightarrow> (string, string) gomap \<Rightarrow> json list \<Rightarrow> bool" where
  "generated ml m ev docs \<longleftrightarrow> (\<exists>bytes jsonText object v w v' w'.
     ml_ReadFile ml (manifestConfigPath m) v = (Inr bytes, w) \<and>
     ml_EvaluateSnippet ml (manifestConfigPath m) bytes ev v' = (Inr jsonText, w') \<and>
     ml_Unmarshal ml jsonText = Inr object \<and> documents object = Inr docs)"

lemma generatedI:
  "ml_ReadFile ml (manifestConfigPath m) v = (Inr bytes, w) \<Longrightarrow>
   ml_EvaluateSnippet ml (manifestConfigPath m) bytes ev v' = (Inr jsonText, w') \<Longrightarrow>
   ml_Unmarshal ml jsonText = Inr object \<Longrightarrow> documents object = Inr docs \<Longrightarrow> generated ml m ev docs"
  unfolding generated_def by blast

lemma evaluateJsonnet_wp:
  "wp (evaluateJsonnet ml (write_document ml) (manifestConfigPath m) ev) s
     (\<lambda>r t s'. r = Ok () \<longrightarrow> (\<exists>docs. generated ml m ev docs \<and>
        t = [ReadFileC (manifestConfigPath m), JsonnetC (manifestConfigPath m)] @
          numbered (\<lambda>n d. StdinC (document_text ml n d)) 0 docs))"
  by (auto simp: evaluateJsonnet_def load_manifests_def wp_simps wp_extcall ext_post_iff split: sum.splits
      intro: generatedI intro!: wp_mono[OF emits_documents[OF emits_dumpYAML[OF emits_stdin]]])

text \<open>The calls of an apply that succeeds, in order.\<close>

definition pipeline :: "'w ManifestsLib \<Rightarrow> Manifests \<Rightarrow> string \<Rightarrow> json list \<Rightarrow> call list" where
  "pipeline ml m file docs =
     [StdinPipeC, KubectlC (kubectlPath m) [''apply'', ''-f'', ''-''] [''KUBECONFIG='' @ file],
      ReadFileC (manifestConfigPath m), JsonnetC (manifestConfigPath m)] @
     numbered (\<lambda>n d. StdinC (document_text ml n d)) 0 docs @ [CloseStdinC, WaitC]"

lemma kubectl_apply_wp:
  "wp (kubectl_apply ml m file ev) s (\<lambda>r t s'. r = Ok () \<longrightarrow>
     (\<exists>docs. generated ml m ev docs \<and> t = pipeline ml m file docs))"
  by (simp add: kubectl_apply_def Let_def wp_simps wp_extcall ext_post_iff)
    (auto simp: bind_post_def wp_simps wp_extcall ext_post_iff map_err_def pipeline_def split: res.splits
      intro!: wp_mono[OF evaluateJsonnet_wp])

text \<open>A whole run of an apply that succeeds: the documents generated and piped, and the file removed.\<close>

definition apply_run ::
    "'w ManifestsLib \<Rightarrow> Manifests \<Rightarrow> ClientConfig \<Rightarrow> (string, string) gomap \<Rightarrow> 'w \<Rightarrow> call list \<Rightarrow> bool" where
  "apply_run ml m client ev w0 t \<longleftrightarrow> (\<exists>raw kubeconfigBytes file w docs. ml_RawConfig ml client = Inr raw \<and>
     ml_ClientcmdWrite ml raw = Inr kubeconfigBytes \<and> ml_TempFile ml w0 = (Inr file, w) \<and> generated ml m ev docs \<and>
     t = [TempFileC, WriteTempC kubeconfigBytes, CloseTempC] @ pipeline ml m file docs @ [RemoveTempC])"

lemma Manifests_Apply_wp:
  "wp (Manifests_Apply ml m client ev) s (\<lambda>r t s'. (r = Ok () \<longrightarrow> apply_run ml m client ev (world s) t) \<and>
     (\<forall>file w. ml_TempFile ml (world s) = (Inr file, w) \<and> t \<noteq> [] \<longrightarrow> last t = RemoveTempC))"
  by (simp add: Manifests_Apply_def wp_simps wp_extcall ext_post_iff split: sum.splits)
    (auto simp: bind_post_def wp_simps wp_extcall ext_post_iff map_err_def defer_result_Ok apply_run_def
      intro!: wp_mono[OF kubectl_apply_wp] split: res.splits)

section \<open>Properties\<close>

text \<open>
  C34. The documents of a configuration, and the error when there are none, do not depend on the
  order in which the runtime iterates over the maps of the parsed value: two values that
  are the same but for that order give the same documents, in the same order, but for that
  order.
\<close>

theorem documents_order:
  assumes "distinct_keys i" and "distinct_keys j" and "canon i = canon j"
  shows "map_sum id (map canon) (documents i) = map_sum id (map canon) (documents j)"
proof -
  have "map_sum id (map canon) (documents i) = documents (canon i)" if "distinct_keys i" for i
    using dumpYAML_canon[OF that, of "[]"]
    by (auto simp: documents_def split: prod.splits res.splits)
  with assms show ?thesis by metis
qed

definition example_object :: "string \<Rightarrow> json" where
  "example_object kind = JObject [(''kind'', JString kind), (''apiVersion'', JString ''v1'')]"

lemma documents_order_witness:
  "documents (JObject [(''b'', example_object ''Pod''), (''a'', JArray [example_object ''Secret''])]) =
     Inr [example_object ''Secret'', example_object ''Pod''] \<and>
   map_sum id (map canon) (documents (JObject [(''a'', JArray [JObject (rev [(''kind'', JString ''Secret''), (''apiVersion'', JString ''v1'')])]),
     (''b'', example_object ''Pod'')])) = Inr [canon (example_object ''Secret''), canon (example_object ''Pod'')]"
proof -
  let ?i = "JObject [(''b'', example_object ''Pod''), (''a'', JArray [example_object ''Secret''])]"
  let ?j = "JObject [(''a'', JArray [JObject (rev [(''kind'', JString ''Secret''), (''apiVersion'', JString ''v1'')])]),
     (''b'', example_object ''Pod'')]"
  have docs: "documents ?i = Inr [example_object ''Secret'', example_object ''Pod'']" by code_simp
  have "map_sum id (map canon) (documents ?i) = map_sum id (map canon) (documents ?j)"
    by (rule documents_order) (code_simp, code_simp, code_simp)
  with docs show ?thesis by simp
qed

text \<open>
  C33. Applying manifests that succeeds writes the kubeconfig to a temporary file, starts kubectl with
  that file and nothing else in its environment, sends it the generated documents in their order,
  closes the pipe and waits for it. Whatever happens after the temporary file was made, removing it
  is the last call.
\<close>

theorem Manifests_Apply_pipes:
  assumes "Manifests_Apply ml m client ev s = (r, t, s')"
  shows "(r = Ok () \<longrightarrow> (\<exists>raw kubeconfigBytes file w docs. ml_RawConfig ml client = Inr raw \<and> ml_ClientcmdWrite ml raw = Inr kubeconfigBytes \<and>
       ml_TempFile ml (world s) = (Inr file, w) \<and> generated ml m ev docs \<and>
       t = [TempFileC, WriteTempC kubeconfigBytes, CloseTempC] @ pipeline ml m file docs @ [RemoveTempC])) \<and>
     (\<forall>file w. ml_TempFile ml (world s) = (Inr file, w) \<and> t \<noteq> [] \<longrightarrow> last t = RemoveTempC)"
  using wpD[OF Manifests_Apply_wp assms] unfolding apply_run_def .

definition example_manifests_lib :: "unit ManifestsLib" where
  "example_manifests_lib = \<lparr>ml_ReadFile = (\<lambda>_ w. (Inr ''{}'', w)), ml_EvaluateSnippet = (\<lambda>_ b _ w. (Inr b, w)),
     ml_Unmarshal = (\<lambda>_. Inr (JArray [example_object ''Secret'', example_object ''Pod''])), ml_Text = go_type,
     ml_Sha256 = (\<lambda>docs. itoa (int (length docs))), ml_RawConfig = Inr, ml_ClientcmdWrite = (\<lambda>_. Inr ''config''), ml_TempFile = (\<lambda>w. (Inr ''/tmp/k'', w)),
     ml_WriteTemp = (\<lambda>_ _ w. (Inr (), w)), ml_CloseTemp = (\<lambda>_ w. (Inr (), w)), ml_RemoveTemp = (\<lambda>_ w. (Inr (), w)),
     ml_StdinPipe = (\<lambda>w. (Inr (), w)), ml_Kubectl = (\<lambda>_ _ _ w. (Inr (), w)), ml_Stdin = (\<lambda>_ w. (Inr (), w)),
     ml_CloseStdin = (\<lambda>w. (Inr (), w)), ml_Wait = (\<lambda>w. (Inr (), w))\<rparr>"

lemma Manifests_Apply_pipes_witness:
  "\<exists>docs. generated example_manifests_lib (New_Manifests ''m.jsonnet'') [] docs"
proof -
  let ?run = "Manifests_Apply example_manifests_lib (New_Manifests ''m.jsonnet'') [] [] \<lparr>world = (), packer = fresh_packer\<rparr>"
  obtain r t s' where run: "?run = (r, t, s')" by (metis prod_cases3)
  moreover have "fst ?run = Ok ()" by code_simp
  ultimately show ?thesis using Manifests_Apply_pipes[OF run] by auto
qed

end
