(* ===== verification/Target_Managers.thy ===== *)
theory Target_Managers
  imports Scope_Build
begin

text \<open>
  The managers of the guest clusters, controllers/hcloudcluster\_controller.go: for every HcloudCluster
  the reconciler keeps in a map, under a lock, the channel whose closing stops the manager that
  handles the certificate requests of that cluster. A manager runs in a goroutine of its own, which
  reads the map when it starts, without the lock, serves until its channel is closed or it
  fails, and then deletes the map's entry of its cluster under the lock.

  \<open>reconcileTargetClusterManager\<close> is the reconciler's operation, \<open>manager_step\<close> one step of the
  reconciler or of a goroutine. The lemmas show that the operation is a step of that machine, that no
  channel is closed twice and no cluster's channel stops another cluster's manager, and that the
  machine can get to a state with a manager that nothing stops any more.
\<close>

section \<open>The state\<close>

text \<open>
  Channels are numbered in the order of \<^verbatim>\<open>make\<close>. A goroutine that has read the map holds the
  channel it found there, \<open>None\<close> for the nil channel of a missing entry, which is never closed.
\<close>

type_synonym NamespacedName = "string \<times> string"

datatype goroutine = Spawned | Serving "nat option" | Returned | Gone

record Managers =
  targetClusterManagersStopCh :: "NamespacedName \<rightharpoonup> nat"
  mg_made :: nat
  mg_closed :: "nat list"
  mg_goroutines :: "(NamespacedName \<times> goroutine) list"

definition no_managers :: Managers where
  "no_managers = \<lparr>targetClusterManagersStopCh = Map.empty, mg_made = 0, mg_closed = [], mg_goroutines = []\<rparr>"

definition start_manager :: "NamespacedName \<Rightarrow> Managers \<Rightarrow> Managers" where
  "start_manager key mg = mg
     \<lparr>targetClusterManagersStopCh := (targetClusterManagersStopCh mg)(key \<mapsto> mg_made mg),
      mg_made := Suc (mg_made mg),
      mg_goroutines := mg_goroutines mg @ [(key, Spawned)]\<rparr>"

definition stop_manager :: "NamespacedName \<Rightarrow> nat \<Rightarrow> Managers \<Rightarrow> Managers" where
  "stop_manager key ch mg = mg
     \<lparr>mg_closed := ch # mg_closed mg,
      targetClusterManagersStopCh := (targetClusterManagersStopCh mg)(key := None)\<rparr>"

definition goroutine_to :: "nat \<Rightarrow> goroutine \<Rightarrow> Managers \<Rightarrow> Managers" where
  "goroutine_to i g mg = mg\<lparr>mg_goroutines := (mg_goroutines mg)[i := (fst (mg_goroutines mg ! i), g)]\<rparr>"

definition cleanup :: "NamespacedName \<Rightarrow> Managers \<Rightarrow> Managers" where
  "cleanup key mg = mg\<lparr>targetClusterManagersStopCh := (targetClusterManagersStopCh mg)(key := None)\<rparr>"

section \<open>The reconciler's operation\<close>

record 'w ReconcilerScope = "'w ClusterScope" +
  rs_managers :: Managers

definition in_cluster :: "string \<Rightarrow> (('w, 'x) ClusterScope_scheme, call, 'a) M \<Rightarrow> (('w, 'x) ClusterScope_scheme, call, 'a) M" where
  "in_cluster msg m =
     bindM (getsM (\<lambda>s. hc_Meta (cs_HcloudCluster s))) (\<lambda>meta.
     wrapM (msg @ '' for HcloudCluster '' @ om_Namespace meta @ ''/'' @ om_Name meta) m)"

text \<open>
  The REST configuration, the client set and the manager are made of the kubeconfig by the client
  libraries. An error of registering the controller with the manager is dropped.
\<close>

definition newTargetClusterManager :: "'w KubeClient \<Rightarrow> (('w, 'x) ClusterScope_scheme, call, unit) M" where
  "newTargetClusterManager k =
     bindM (getsM (\<lambda>s. hc_Meta (cs_HcloudCluster s))) (\<lambda>meta.
     let of_cluster = '' for the API of HcloudCluster '' @ om_Namespace meta @ ''/'' @ om_Name meta in
     bindM (wrapM (''failed to get a clientConfig'' @ of_cluster) (ClusterScope_ClientConfig k)) (\<lambda>clientConfig.
     bindM (wrapM (''failed to get a restConfig'' @ of_cluster) (liftM (k_RestConfig k clientConfig))) (\<lambda>_.
     bindM (wrapM (''failed to get a clientSet'' @ of_cluster) (liftM (k_NewForConfig k clientConfig))) (\<lambda>_.
     wrapM ''failed to setup guest cluster manager'' (NewManager k clientConfig)))))"

definition closeM :: "NamespacedName \<Rightarrow> nat \<Rightarrow> (('w, 'x) ReconcilerScope_scheme, call, unit) M" where
  "closeM key ch =
     bindM (getsM (\<lambda>s. mg_closed (rs_managers s))) (\<lambda>closed.
     if ch \<in> set closed then panicM ''close of closed channel''
     else modifyM (\<lambda>s. s\<lparr>rs_managers := stop_manager key ch (rs_managers s)\<rparr>))"

definition manager_key :: "('w, 'x) ClusterScope_scheme \<Rightarrow> NamespacedName" where
  "manager_key s = (om_Namespace (hc_Meta (cs_HcloudCluster s)), om_Name (hc_Meta (cs_HcloudCluster s)))"

definition reconcileTargetClusterManager :: "'w KubeClient \<Rightarrow> (('w, 'x) ReconcilerScope_scheme, call, unit) M" where
  "reconcileTargetClusterManager k =
     bindM (getsM id) (\<lambda>s.
     let deleted = (om_DeletionTimestamp (hc_Meta (cs_HcloudCluster s)) \<noteq> None); key = manager_key s in
     case targetClusterManagersStopCh (rs_managers s) key of
       None \<Rightarrow>
         if \<not> deleted then
           bindM (in_cluster ''failed to create a clusterManager'' (newTargetClusterManager k)) (\<lambda>_.
           modifyM (\<lambda>s. s\<lparr>rs_managers := start_manager key (rs_managers s)\<rparr>))
         else ret ()
     | Some stopCh \<Rightarrow> if deleted then closeM key stopCh else ret ())"

section \<open>The steps of the reconciler and the goroutines\<close>

text \<open>
  Between two steps under the lock any other may happen; the read of the map at the start of a
  goroutine takes no lock. A goroutine returns from serving when its channel is closed, or, with an
  error, at any time.
\<close>

datatype manager_label =
    Starts NamespacedName | Stops NamespacedName
  | Begins nat | IsStopped nat | Fails nat | CleansUp nat

inductive manager_step :: "Managers \<Rightarrow> manager_label \<Rightarrow> Managers \<Rightarrow> bool" where
  starts: "targetClusterManagersStopCh mg key = None \<Longrightarrow> manager_step mg (Starts key) (start_manager key mg)"
| stops: "targetClusterManagersStopCh mg key = Some ch \<Longrightarrow> ch \<notin> set (mg_closed mg) \<Longrightarrow>
    manager_step mg (Stops key) (stop_manager key ch mg)"
| begins: "i < length (mg_goroutines mg) \<Longrightarrow> mg_goroutines mg ! i = (key, Spawned) \<Longrightarrow>
    manager_step mg (Begins i) (goroutine_to i (Serving (targetClusterManagersStopCh mg key)) mg)"
| is_stopped: "i < length (mg_goroutines mg) \<Longrightarrow> mg_goroutines mg ! i = (key, Serving (Some ch)) \<Longrightarrow> ch \<in> set (mg_closed mg) \<Longrightarrow>
    manager_step mg (IsStopped i) (goroutine_to i Returned mg)"
| fails: "i < length (mg_goroutines mg) \<Longrightarrow> mg_goroutines mg ! i = (key, Serving c) \<Longrightarrow>
    manager_step mg (Fails i) (goroutine_to i Returned mg)"
| cleans_up: "i < length (mg_goroutines mg) \<Longrightarrow> mg_goroutines mg ! i = (key, Returned) \<Longrightarrow>
    manager_step mg (CleansUp i) (goroutine_to i Gone (cleanup key mg))"

inductive manager_steps :: "Managers \<Rightarrow> manager_label list \<Rightarrow> Managers \<Rightarrow> bool" where
  stay: "manager_steps mg [] mg"
| go: "manager_step mg l mg' \<Longrightarrow> manager_steps mg' ls mg'' \<Longrightarrow> manager_steps mg (l # ls) mg''"

inductive_cases manager_stepE: "manager_step mg l mg'"
inductive_simps manager_steps_simps [simp]: "manager_steps mg [] mg'" "manager_steps mg (l # ls) mg'"

definition reachable_managers :: "Managers \<Rightarrow> bool" where
  "reachable_managers mg \<longleftrightarrow> (\<exists>ls. manager_steps no_managers ls mg)"

lemma manager_steps_append:
  "manager_steps mg ls mg' \<Longrightarrow> manager_steps mg' ls' mg'' \<Longrightarrow> manager_steps mg (ls @ ls') mg''"
  by (induction rule: manager_steps.induct) (auto intro: manager_steps.intros)

lemma reachable_step: "reachable_managers mg \<Longrightarrow> manager_step mg l mg' \<Longrightarrow> reachable_managers mg'"
  unfolding reachable_managers_def
  using manager_steps_append manager_steps.intros by metis

section \<open>The invariant\<close>

text \<open>
  The channels in the map were made, are open, and belong to one cluster each; a goroutine that holds
  the channel of a cluster in the map serves that cluster.
\<close>

definition managers_ok :: "Managers \<Rightarrow> bool" where
  "managers_ok mg \<longleftrightarrow>
     (\<forall>key ch. targetClusterManagersStopCh mg key = Some ch \<longrightarrow> ch < mg_made mg \<and> ch \<notin> set (mg_closed mg)) \<and>
     (\<forall>key key' ch. targetClusterManagersStopCh mg key = Some ch \<longrightarrow> targetClusterManagersStopCh mg key' = Some ch \<longrightarrow> key = key') \<and>
     (\<forall>ch \<in> set (mg_closed mg). ch < mg_made mg) \<and>
     (\<forall>key ch. (key, Serving (Some ch)) \<in> set (mg_goroutines mg) \<longrightarrow> ch < mg_made mg \<and>
        (\<forall>key'. targetClusterManagersStopCh mg key' = Some ch \<longrightarrow> key' = key))"

lemma managers_ok_init: "managers_ok no_managers"
  by (simp add: managers_ok_def no_managers_def)

lemma set_goroutine_to:
  assumes "i < length (mg_goroutines mg)" and "mg_goroutines mg ! i = (key, g0)"
  shows "set (mg_goroutines (goroutine_to i g mg)) \<subseteq> insert (key, g) (set (mg_goroutines mg))"
  using assms by (auto simp: goroutine_to_def dest: set_update_subset_insert[THEN subsetD])

lemma goroutine_to_simps [simp]:
  "targetClusterManagersStopCh (goroutine_to i g mg) = targetClusterManagersStopCh mg"
  "mg_made (goroutine_to i g mg) = mg_made mg" "mg_closed (goroutine_to i g mg) = mg_closed mg"
  by (simp_all add: goroutine_to_def)

lemma managers_ok_goroutine:
  assumes "managers_ok mg" and "i < length (mg_goroutines mg)" and "mg_goroutines mg ! i = (key, g0)"
    and "\<And>ch. g = Serving (Some ch) \<Longrightarrow> targetClusterManagersStopCh mg key = Some ch"
  shows "managers_ok (goroutine_to i g mg)"
proof -
  have serves: "(k, Serving (Some ch)) \<in> set (mg_goroutines mg) \<or> k = key \<and> targetClusterManagersStopCh mg key = Some ch"
    if "(k, Serving (Some ch)) \<in> set (mg_goroutines (goroutine_to i g mg))" for k ch
    using set_goroutine_to[OF assms(2,3), of g] that assms(4) by auto
  have holds: "ch < mg_made mg \<and> (\<forall>key'. targetClusterManagersStopCh mg key' = Some ch \<longrightarrow> key' = k)"
    if "(k, Serving (Some ch)) \<in> set (mg_goroutines (goroutine_to i g mg))" for k ch
    using serves[OF that]
  proof
    assume "k = key \<and> targetClusterManagersStopCh mg key = Some ch"
    with assms(1) show ?thesis unfolding managers_ok_def by blast
  qed (use assms(1) in \<open>unfold managers_ok_def, blast\<close>)
  from assms(1) holds show ?thesis unfolding managers_ok_def goroutine_to_simps by blast
qed

lemma managers_ok_cleanup: "managers_ok mg \<Longrightarrow> managers_ok (cleanup key mg)"
  by (simp add: managers_ok_def cleanup_def)

lemma managers_ok_start:
  assumes "managers_ok mg" and "targetClusterManagersStopCh mg key = None"
  shows "managers_ok (start_manager key mg)"
  using assms unfolding managers_ok_def
  by (auto simp: start_manager_def less_Suc_eq simp del: split_paired_All)

lemma managers_ok_stop:
  assumes "managers_ok mg" and "targetClusterManagersStopCh mg key = Some ch"
  shows "managers_ok (stop_manager key ch mg)"
  unfolding managers_ok_def
  using assms by (auto simp: managers_ok_def stop_manager_def simp del: split_paired_All)

lemma managers_ok_step: "manager_step mg l mg' \<Longrightarrow> managers_ok mg \<Longrightarrow> managers_ok mg'"
proof (induction rule: manager_step.induct)
  case (cleans_up i mg key)
  then have "i < length (mg_goroutines (cleanup key mg))" "mg_goroutines (cleanup key mg) ! i = (key, Returned)"
    by (simp_all add: cleanup_def)
  with managers_ok_goroutine[OF managers_ok_cleanup[OF cleans_up.prems] this, of Gone] show ?case by simp
qed (auto intro: managers_ok_start managers_ok_stop managers_ok_goroutine)

lemma managers_ok_steps: "manager_steps mg ls mg' \<Longrightarrow> managers_ok mg \<Longrightarrow> managers_ok mg'"
  by (induction rule: manager_steps.induct) (auto intro: managers_ok_step)

lemma reachable_managers_ok: "reachable_managers mg \<Longrightarrow> managers_ok mg"
  using managers_ok_steps managers_ok_init by (auto simp: reachable_managers_def)

section \<open>Managers that nothing stops\<close>

text \<open>
  A channel that was made, is open and is in no entry of the map stays open: the reconciler only closes
  channels it finds in the map, and new entries get new channels.
\<close>

definition orphaned :: "Managers \<Rightarrow> nat \<Rightarrow> bool" where
  "orphaned mg ch \<longleftrightarrow> ch < mg_made mg \<and> ch \<notin> set (mg_closed mg) \<and> (\<forall>key. targetClusterManagersStopCh mg key \<noteq> Some ch)"

lemma orphaned_step: "manager_step mg l mg' \<Longrightarrow> orphaned mg ch \<Longrightarrow> orphaned mg' ch"
  by (induction rule: manager_step.induct)
    (auto simp: orphaned_def start_manager_def stop_manager_def cleanup_def simp del: split_paired_All)

lemma orphaned_steps: "manager_steps mg ls mg' \<Longrightarrow> orphaned mg ch \<Longrightarrow> orphaned mg' ch"
  by (induction rule: manager_steps.induct) (auto intro: orphaned_step)

section \<open>Properties\<close>

lemma newTargetClusterManager_wp:
  "wp (newTargetClusterManager k) s (\<lambda>r t s'. \<not> is_panic r \<and> (\<exists>w. s' = s\<lparr>world := w\<rparr>) \<and>
     (\<forall>x \<in> set t. (\<exists>ns n. x = KubeconfigC ns n) \<or> (\<exists>cfg. x = NewManagerC cfg)))"
  by (auto simp: newTargetClusterManager_def ClusterScope_ClientConfig_def wp_simps client_defs Let_def
      wp_extcall ext_post_iff split: sum.splits)

lemma starting_wp:
  assumes "targetClusterManagersStopCh (rs_managers s) key = None"
  shows "wp (bindM (in_cluster msg (newTargetClusterManager k)) (\<lambda>_.
           modifyM (\<lambda>s. s\<lparr>rs_managers := start_manager key (rs_managers s)\<rparr>))) s
     (\<lambda>r t s'. \<not> is_panic r \<and>
        (if r = Ok () then manager_step (rs_managers s) (Starts key) (rs_managers s') else rs_managers s' = rs_managers s))"
  unfolding in_cluster_def wp_bindM wp_getsM bind_post_simps wp_mapErrM
proof (rule wp_mono[OF newTargetClusterManager_wp], elim conjE exE)
  fix r :: "unit res" and t s' w
  assume "\<not> is_panic r" and "s' = s\<lparr>world := w\<rparr>"
  with manager_step.starts[OF assms]
  show "bind_post (\<lambda>_. modifyM (\<lambda>s. s\<lparr>rs_managers := start_manager key (rs_managers s)\<rparr>))
      (\<lambda>r t s'. \<not> is_panic r \<and>
        (if r = Ok () then manager_step (rs_managers s) (Starts key) (rs_managers s') else rs_managers s' = rs_managers s))
      (map_err (ErrWrap (msg @ '' for HcloudCluster '' @ om_Namespace (hc_Meta (cs_HcloudCluster s)) @ ''/'' @ om_Name (hc_Meta (cs_HcloudCluster s)))) r)
      ([] @ t) s'"
    by (cases r) (simp_all add: wp_simps)
qed

text \<open>
  C7. Reconciling the manager of a cluster is a step of the machine or leaves the managers as they are: it
  starts one exactly when the cluster is not being deleted, has no entry, and a manager could be
  made; it stops the one of the entry exactly when the cluster is being deleted. From a
  reachable state it does not panic, so no channel is closed twice.
\<close>

theorem reconcileTargetClusterManager_refines:
  assumes "reachable_managers (rs_managers s)"
    and "reconcileTargetClusterManager k s = (r, t, s')"
  shows "\<not> is_panic r \<and> reachable_managers (rs_managers s') \<and>
     (let key = manager_key s; entry = targetClusterManagersStopCh (rs_managers s) key;
          deleted = (om_DeletionTimestamp (hc_Meta (cs_HcloudCluster s)) \<noteq> None) in
      if deleted then
        r = Ok () \<and> t = [] \<and>
        (if entry = None then rs_managers s' = rs_managers s
         else manager_step (rs_managers s) (Stops key) (rs_managers s'))
      else if entry = None \<and> r = Ok () then manager_step (rs_managers s) (Starts key) (rs_managers s')
      else rs_managers s' = rs_managers s)"
proof -
  have ok: "managers_ok (rs_managers s)" by (rule reachable_managers_ok[OF assms(1)])
  have "wp (reconcileTargetClusterManager k) s (\<lambda>r t s'. \<not> is_panic r \<and>
     (let key = manager_key s; entry = targetClusterManagersStopCh (rs_managers s) key;
          deleted = (om_DeletionTimestamp (hc_Meta (cs_HcloudCluster s)) \<noteq> None) in
      if deleted then
        r = Ok () \<and> t = [] \<and>
        (if entry = None then rs_managers s' = rs_managers s
         else manager_step (rs_managers s) (Stops key) (rs_managers s'))
      else if entry = None \<and> r = Ok () then manager_step (rs_managers s) (Starts key) (rs_managers s')
      else rs_managers s' = rs_managers s))"
  proof (cases "targetClusterManagersStopCh (rs_managers s) (manager_key s)")
    case None
    then show ?thesis
      by (auto simp: reconcileTargetClusterManager_def wp_getsM wp_bindM[of "getsM _"] wp_if wp_ret Let_def
          intro!: wp_mono[OF starting_wp] split: if_splits)
  next
    case (Some ch)
    with ok have "ch \<notin> set (mg_closed (rs_managers s))"
      unfolding managers_ok_def by blast
    with Some show ?thesis
      by (auto simp: reconcileTargetClusterManager_def closeM_def wp_simps Let_def intro: manager_step.stops)
  qed
  from wpD[OF this assms(2)] assms(1) show ?thesis
    by (auto simp: Let_def intro: reachable_step split: if_splits)
qed

definition example_managed_scope :: "int option \<Rightarrow> Managers \<Rightarrow> unit ReconcilerScope" where
  "example_managed_scope deleted mg = ClusterScope.extend
     ((zero_ClusterScope ())\<lparr>cs_HcloudCluster := zero_HcloudCluster\<lparr>hc_Meta := zero_ObjectMeta\<lparr>om_Name := ''c1'', om_DeletionTimestamp := deleted\<rparr>\<rparr>\<rparr>)
     (ReconcilerScope.fields mg)"

lemma reconcileTargetClusterManager_refines_witness:
  "rs_managers (final (reconcileTargetClusterManager offline_kube
     (example_managed_scope (Some 1) (start_manager ([], ''c1'') no_managers)))) =
   stop_manager ([], ''c1'') 0 (start_manager ([], ''c1'') no_managers)"
proof -
  let ?mg = "start_manager ([], ''c1'') no_managers"
  let ?s = "example_managed_scope (Some 1) ?mg"
  obtain r t s' where run: "reconcileTargetClusterManager (offline_kube :: unit KubeClient) ?s = (r, t, s')" by (metis prod_cases3)
  have key: "manager_key ?s = ([], ''c1'')" and mgs: "rs_managers ?s = ?mg"
    and del: "om_DeletionTimestamp (hc_Meta (cs_HcloudCluster ?s)) = Some 1"
    by (simp_all add: example_managed_scope_def manager_key_def zero_defs ClusterScope.defs ReconcilerScope.defs)
  have "reachable_managers ?mg"
    by (rule reachable_step[of no_managers]) (auto simp: reachable_managers_def no_managers_def intro: manager_step.starts exI[of _ "[]"])
  then have "reachable_managers (rs_managers ?s)" by (simp only: mgs)
  from reconcileTargetClusterManager_refines[OF this run]
  have "manager_step ?mg (Stops ([], ''c1'')) (rs_managers s')"
    unfolding key mgs del Let_def by (simp add: start_manager_def)
  then have "rs_managers s' = stop_manager ([], ''c1'') 0 ?mg"
    by (auto elim: manager_stepE simp: start_manager_def no_managers_def)
  then show ?thesis by (simp only: run final_def prod.sel)
qed

text \<open>
  C28. In every reachable state a goroutine that serves with a channel of the map serves the cluster
  of that entry, so that stopping a cluster's manager stops no other's; the channel is open, and every
  channel belongs to one entry.
\<close>

theorem managers_stop_own_cluster:
  assumes "reachable_managers mg" and "targetClusterManagersStopCh mg key = Some ch"
  shows "ch \<notin> set (mg_closed mg) \<and>
     (\<forall>key'. targetClusterManagersStopCh mg key' = Some ch \<longrightarrow> key' = key) \<and>
     (\<forall>key'. (key', Serving (Some ch)) \<in> set (mg_goroutines mg) \<longrightarrow> key' = key)"
  using reachable_managers_ok[OF assms(1)] assms(2) unfolding managers_ok_def by blast

text \<open>
  The history of an HcloudCluster that is deleted and made again before its first manager has
  cleaned up: the first manager's goroutine deletes the second one's entry, and a third is started.
\<close>

definition recreated :: "NamespacedName \<Rightarrow> manager_label list" where
  "recreated key = [Starts key, Begins 0, Stops key, Starts key, Begins 1, IsStopped 0, CleansUp 0, Starts key, Begins 2]"

definition recreated_state :: "NamespacedName \<Rightarrow> Managers" where
  "recreated_state key = \<lparr>targetClusterManagersStopCh = [key \<mapsto> 2], mg_made = 3, mg_closed = [0],
     mg_goroutines = [(key, Gone), (key, Serving (Some 1)), (key, Serving (Some 2))]\<rparr>"

lemma manager_step_eqI: "manager_step mg l mg1 \<Longrightarrow> mg1 = mg' \<Longrightarrow> manager_step mg l mg'"
  by simp

lemma recreated_steps: "manager_steps no_managers (recreated key) (recreated_state key)"
proof -
  let ?M = "\<lambda>m n c g. \<lparr>targetClusterManagersStopCh = m, mg_made = n, mg_closed = c, mg_goroutines = g\<rparr>"
  note op = start_manager_def stop_manager_def cleanup_def goroutine_to_def no_managers_def recreated_state_def
  have "manager_step no_managers (Starts key) (?M [key \<mapsto> 0] 1 [] [(key, Spawned)])"
    by (rule manager_step_eqI[OF manager_step.starts]) (simp_all add: op)
  moreover have "manager_step (?M [key \<mapsto> 0] 1 [] [(key, Spawned)]) (Begins 0) (?M [key \<mapsto> 0] 1 [] [(key, Serving (Some 0))])"
    by (rule manager_step_eqI[OF manager_step.begins[of _ _ key]]) (simp_all add: op)
  moreover have "manager_step (?M [key \<mapsto> 0] 1 [] [(key, Serving (Some 0))]) (Stops key) (?M Map.empty 1 [0] [(key, Serving (Some 0))])"
    by (rule manager_step_eqI[OF manager_step.stops]) (auto simp: op)
  moreover have "manager_step (?M Map.empty 1 [0] [(key, Serving (Some 0))]) (Starts key)
      (?M [key \<mapsto> 1] 2 [0] [(key, Serving (Some 0)), (key, Spawned)])"
    by (rule manager_step_eqI[OF manager_step.starts]) (simp_all add: op)
  moreover have "manager_step (?M [key \<mapsto> 1] 2 [0] [(key, Serving (Some 0)), (key, Spawned)]) (Begins 1)
      (?M [key \<mapsto> 1] 2 [0] [(key, Serving (Some 0)), (key, Serving (Some 1))])"
    by (rule manager_step_eqI[OF manager_step.begins[of _ _ key]]) (simp_all add: op)
  moreover have "manager_step (?M [key \<mapsto> 1] 2 [0] [(key, Serving (Some 0)), (key, Serving (Some 1))]) (IsStopped 0)
      (?M [key \<mapsto> 1] 2 [0] [(key, Returned), (key, Serving (Some 1))])"
    by (rule manager_step_eqI[OF manager_step.is_stopped[of _ _ key 0]]) (simp_all add: op)
  moreover have "manager_step (?M [key \<mapsto> 1] 2 [0] [(key, Returned), (key, Serving (Some 1))]) (CleansUp 0)
      (?M Map.empty 2 [0] [(key, Gone), (key, Serving (Some 1))])"
    by (rule manager_step_eqI[OF manager_step.cleans_up[of _ _ key]]) (simp_all add: op)
  moreover have "manager_step (?M Map.empty 2 [0] [(key, Gone), (key, Serving (Some 1))]) (Starts key)
      (?M [key \<mapsto> 2] 3 [0] [(key, Gone), (key, Serving (Some 1)), (key, Spawned)])"
    by (rule manager_step_eqI[OF manager_step.starts]) (simp_all add: op)
  moreover have "manager_step (?M [key \<mapsto> 2] 3 [0] [(key, Gone), (key, Serving (Some 1)), (key, Spawned)]) (Begins 2) (recreated_state key)"
    by (rule manager_step_eqI[OF manager_step.begins[of _ _ key]]) (simp_all add: op)
  ultimately show ?thesis unfolding recreated_def manager_steps_simps by blast
qed

lemma managers_stop_own_cluster_witness:
  "2 \<notin> set (mg_closed (recreated_state ([], ''c1'')))"
proof -
  have "reachable_managers (recreated_state ([], ''c1''))" using recreated_steps reachable_managers_def by blast
  moreover have "targetClusterManagersStopCh (recreated_state ([], ''c1'')) ([], ''c1'') = Some 2"
    by (simp add: recreated_state_def)
  ultimately show ?thesis using managers_stop_own_cluster by blast
qed

text \<open>
  A cluster that is deleted and made again can end up with two managers that serve it, one of
  which no reconcile can ever stop: without any failure the machine reaches a state where two
  goroutines serve the same cluster with different open channels, and in no later state is the
  first one's channel closed.
\<close>

theorem manager_leaks:
  "\<exists>mg ch ch'. reachable_managers mg \<and> ch \<noteq> ch' \<and>
     {(key, Serving (Some ch)), (key, Serving (Some ch'))} \<subseteq> set (mg_goroutines mg) \<and>
     ch' \<notin> set (mg_closed mg) \<and>
     {mg'. \<exists>ls. manager_steps mg ls mg'} \<subseteq> {mg'. ch \<notin> set (mg_closed mg')}"
proof (rule exI[of _ "recreated_state key"], rule exI[of _ 1], rule exI[of _ 2], intro conjI)
  show "reachable_managers (recreated_state key)"
    using recreated_steps reachable_managers_def by blast
  have "orphaned (recreated_state key) 1" by (simp add: orphaned_def recreated_state_def)
  then show "{mg'. \<exists>ls. manager_steps (recreated_state key) ls mg'} \<subseteq> {mg'. 1 \<notin> set (mg_closed mg')}"
    using orphaned_steps unfolding orphaned_def by blast
qed (simp_all add: recreated_state_def)

end
