(* ===== verification/Cluster_Controller.thy ===== *)
theory Cluster_Controller
  imports Target_Managers Manifests Frames Location_Service Network_Service Load_Balancer Server_Service
begin

text \<open>
  controllers/hcloudcluster\_controller.go: one reconcile of an HcloudCluster, from the request to the patch
  of the object: the locations, the network, the load balancer, the control plane endpoint, the
  manifests and the manager of the guest cluster, or their deletion.

  The lemmas show the order of a deletion, what the endpoint becomes, when manifests are applied and
  through which API server.
\<close>

section \<open>Manifests of a cluster: pkg/scope/cluster.go\<close>

definition ManifestsHash ::
    "'w KubeClient \<Rightarrow> 'w ManifestsLib \<Rightarrow> Manifests \<Rightarrow> (('w, 'x) ClusterScope_scheme, call, string) M" where
  "ManifestsHash k ml mf = bindM (manifestParameters k) (\<lambda>p. Manifests_Hash ml mf (ExtVar p))"

definition ApplyManifestsWithClientConfig ::
    "'w KubeClient \<Rightarrow> 'w ManifestsLib \<Rightarrow> Manifests \<Rightarrow> ClientConfig \<Rightarrow> (('w, 'x) ClusterScope_scheme, call, unit) M" where
  "ApplyManifestsWithClientConfig k ml mf c =
     bindM (manifestParameters k) (\<lambda>p. Manifests_Apply ml mf c (ExtVar p))"

section \<open>Applying the manifests\<close>

text \<open>
  The loops over machines and addresses: the client configuration found and the errors of the
  health checks. An external address of a ready machine ends both loops.
\<close>

fun address_search ::
    "'w KubeClient \<Rightarrow> HcloudMachine \<Rightarrow> NodeAddress list \<Rightarrow> (('w, 'x) ClusterScope_scheme, call, ClientConfig option \<times> error list) M" where
  "address_search k hm [] = ret (None, [])"
| "address_search k hm (a # as) =
     (if na_Type a \<noteq> NodeExternalIP \<and> na_Type a \<noteq> NodeExternalDNS then address_search k hm as
      else
        bindM (ClientConfigWithAPIEndpoint k \<lparr>ep_Host = na_Address a, ep_Port = defaultControlPlaneAPIEndpointPort\<rparr>) (\<lambda>c.
        bindM (tryM (IsControlPlaneReady k c)) (\<lambda>ready.
        ret (Some c, case ready of
            Inl err \<Rightarrow> [ErrWrap (''APIserver '' @ [CHR 0x27] @ om_Name (hm_Meta hm) @ [CHR 0x27]) err]
          | Inr _ \<Rightarrow> []))))"

fun machine_search ::
    "'w KubeClient \<Rightarrow> error list \<Rightarrow> (Machine \<times> HcloudMachine) list
       \<Rightarrow> (('w, 'x) ClusterScope_scheme, call, ClientConfig option \<times> error list) M" where
  "machine_search k readyErrors [] = ret (None, readyErrors)"
| "machine_search k readyErrors ((m, hm) # ms) =
     (if \<not> m_ControlPlane m then machine_search k readyErrors ms
      else if \<not> m_InfrastructureReady m then machine_search k readyErrors ms
      else
        bindM (address_search k hm (hmt_Addresses (hm_Status hm))) (\<lambda>(c, errs).
        if c \<noteq> None then ret (c, readyErrors @ errs)
        else machine_search k (readyErrors @ errs) ms))"

definition set_applied :: "string \<Rightarrow> HcloudClusterStatus \<Rightarrow> HcloudClusterStatus" where
  "set_applied expectedHash st = st\<lparr>hct_Manifests := Some \<lparr>cm_Initialized = Some True, cm_AppliedHash = Some expectedHash\<rparr>\<rparr>"

definition applyManifests ::
    "'w KubeClient \<Rightarrow> 'w ManifestsLib \<Rightarrow> Manifests \<Rightarrow> string \<Rightarrow> (('w, 'x) ClusterScope_scheme, call, unit) M" where
  "applyManifests k ml mf expectedHash =
     bindM (in_cluster ''failed to list machines'' (ListMachines k)) (\<lambda>machines.
     bindM (machine_search k [] machines) (\<lambda>(found, readyErrors).
     case found of
       None \<Rightarrow>
         if readyErrors \<noteq> [] then
           bindM (Eventf EventTypeWarning ''APIServerNotReady'') (\<lambda>_. failM ErrNoReadyAPIServer)
         else failM ErrNoReadyAPIServer
     | Some clientConfig \<Rightarrow>
         bindM (wrapM ''error applying manifests to first API server'' (ApplyManifestsWithClientConfig k ml mf clientConfig)) (\<lambda>_.
         modifyM (setClusterStatus (set_applied expectedHash)))))"

definition must_initialize :: "HcloudClusterStatusManifests option \<Rightarrow> bool" where
  "must_initialize m = (case m of
      None \<Rightarrow> True
    | Some st \<Rightarrow> cm_Initialized st = None \<or> cm_Initialized st = Some False \<or> cm_AppliedHash st = None)"

definition reconcileManifests ::
    "'w KubeClient \<Rightarrow> 'w ManifestsLib \<Rightarrow> Manifests \<Rightarrow> (('w, 'x) ClusterScope_scheme, call, unit) M" where
  "reconcileManifests k ml mf =
     bindM (ManifestsHash k ml mf) (\<lambda>expectedHash.
     bindM (getsM (\<lambda>s. hct_Manifests (hc_Status (cs_HcloudCluster s)))) (\<lambda>m.
     if must_initialize m then
       bindM (applyManifests k ml mf expectedHash) (\<lambda>_. Eventf EventTypeNormal ''ManifestsApplied'')
     else if Some expectedHash \<noteq> Option.bind m cm_AppliedHash then
       bindM (applyManifests k ml mf expectedHash) (\<lambda>_. Eventf EventTypeNormal ''ManifestsApplied'')
     else ret ()))"

section \<open>Reconciling\<close>

definition setClusterMeta ::
    "(ObjectMeta \<Rightarrow> ObjectMeta) \<Rightarrow> ('w, 'x) ClusterScope_scheme \<Rightarrow> ('w, 'x) ClusterScope_scheme" where
  "setClusterMeta f s = s\<lparr>cs_HcloudCluster := (cs_HcloudCluster s)\<lparr>hc_Meta := f (hc_Meta (cs_HcloudCluster s))\<rparr>\<rparr>"

definition cluster_reconcileDelete :: "'w Env \<Rightarrow> (('w, 'x) ReconcilerScope_scheme, call, Result) M" where
  "cluster_reconcileDelete env =
     bindM (reconcileTargetClusterManager (e_kube env)) (\<lambda>_.
     bindM (in_cluster ''failed to list machines'' (ListMachines (e_kube env))) (\<lambda>machines.
     if length machines > 0 then
       bindM (Eventf EventTypeNormal ''WaitingForMachineDeletion'') (\<lambda>_. ret (requeue_after (10 * Second)))
     else
       bindM (getsM (ClusterScope_HcloudClient env)) (\<lambda>c.
       bindM (in_cluster ''failed to delete load balancers'' (lb_Delete c)) (\<lambda>_.
       bindM (in_cluster ''failed to delete network'' (network_Delete c)) (\<lambda>_.
       bindM (modifyM (setClusterMeta (RemoveFinalizer env ClusterFinalizer))) (\<lambda>_.
       ret no_Result))))))"

text \<open>The endpoint of the control plane, and the readiness, once the load balancer has an address.\<close>

definition default_endpoint :: "string \<Rightarrow> int \<Rightarrow> APIEndpoint option \<Rightarrow> APIEndpoint" where
  "default_endpoint defaultHost defaultPort e = (case e of
      None \<Rightarrow> \<lparr>ep_Host = defaultHost, ep_Port = defaultPort\<rparr>
    | Some ep \<Rightarrow>
        let ep1 = (if ep_Host ep = [] then ep\<lparr>ep_Host := defaultHost\<rparr> else ep) in
        (if ep_Port ep1 = 0 then ep1\<lparr>ep_Port := defaultPort\<rparr> else ep1))"

definition set_endpoint :: "(('w, 'x) ClusterScope_scheme, call, unit) M" where
  "set_endpoint =
     bindM (getsM cs_HcloudCluster) (\<lambda>hc.
     let ipv4 = lbt_IPv4 (hct_ControlPlaneLoadBalancer (hc_Status hc)) in
     if ipv4 \<noteq> ''<nil>'' then
       (case lbs_Services (hcs_ControlPlaneLoadBalancer (hc_Spec hc)) of
          [] \<Rightarrow> panicM ''index out of range: Services[0]''
        | svc # _ \<Rightarrow>
            bindM (modifyM (setClusterSpec (\<lambda>sp. sp\<lparr>hcs_ControlPlaneEndpoint :=
                Some (default_endpoint ipv4 (int32 (lss_DestinationPort svc)) (hcs_ControlPlaneEndpoint sp))\<rparr>))) (\<lambda>_.
            modifyM (setClusterStatus (\<lambda>st. st\<lparr>hct_Ready := True\<rparr>))))
     else ret ())"

definition reconcile_infrastructure :: "'w Env \<Rightarrow> (('w, 'x) ClusterScope_scheme, call, unit) M" where
  "reconcile_infrastructure env =
     bindM (getsM (ClusterScope_HcloudClient env)) (\<lambda>c.
     bindM (in_cluster ''failed to reconcile location'' (cluster_location_Reconcile c)) (\<lambda>_.
     bindM (in_cluster ''failed to reconcile network'' (network_Reconcile c)) (\<lambda>_.
     in_cluster ''failed to reconcile load balancers'' (lb_Reconcile (e_generateName env) c))))"

definition cluster_reconcileNormal ::
    "'w Env \<Rightarrow> 'w ManifestsLib \<Rightarrow> Manifests \<Rightarrow> (('w, 'x) ReconcilerScope_scheme, call, Result) M" where
  "cluster_reconcileNormal env ml mf =
     bindM (modifyM (setClusterMeta (AddFinalizer env ClusterFinalizer))) (\<lambda>_.
     bindM (reconcile_infrastructure env) (\<lambda>_.
     bindM set_endpoint (\<lambda>_.
     bindM (getsM (\<lambda>s. hc_Meta (cs_HcloudCluster s))) (\<lambda>meta.
     bindM (tryM (reconcileManifests (e_kube env) ml mf)) (\<lambda>manifests.
     case manifests of
       Inl err \<Rightarrow>
         if err = ErrNoReadyAPIServer then
           bindM (Eventf EventTypeNormal ''APIServerNotReady'') (\<lambda>_. ret (requeue_after (10 * Second)))
         else failM (ErrWrap (''failed to reconcile manifests for HcloudCluster '' @ om_Namespace meta @ ''/'' @ om_Name meta) err)
     | Inr _ \<Rightarrow>
         bindM (reconcileTargetClusterManager (e_kube env)) (\<lambda>_. ret no_Result))))))"

definition cluster_body ::
    "'w Env \<Rightarrow> 'w ManifestsLib \<Rightarrow> Manifests \<Rightarrow> HcloudCluster \<Rightarrow> (('w, 'x) ReconcilerScope_scheme, call, Result) M" where
  "cluster_body env ml mf hcloudCluster =
     deferM
       (if om_DeletionTimestamp (hc_Meta hcloudCluster) \<noteq> None then cluster_reconcileDelete env
        else cluster_reconcileNormal env ml mf)
       (ClusterScope_Close (e_kube env))"

text \<open>
  The reconciler keeps the managers between reconciles; a scope is made of the outside world alone.
\<close>

record 'w Reconciler = "'w sys" +
  rc_managers :: Managers

definition on_sys :: "('w sys, call, 'a) M \<Rightarrow> ('w Reconciler, call, 'a) M" where
  "on_sys m = (\<lambda>s. case m (sys.truncate s) of
     (r, t, s') \<Rightarrow> (r, t, s\<lparr>world := world s', packer := packer s'\<rparr>))"

definition in_reconciler :: "'w ClusterScope \<Rightarrow> ('w ReconcilerScope, call, 'a) M \<Rightarrow> ('w Reconciler, call, 'a) M" where
  "in_reconciler scope m = (\<lambda>s.
     case m (ClusterScope.extend (scope\<lparr>world := world s, packer := packer s\<rparr>) (ReconcilerScope.fields (rc_managers s))) of
       (r, t, s') \<Rightarrow> (r, t, s\<lparr>world := world s', packer := packer s', rc_managers := rs_managers s'\<rparr>))"

definition HcloudCluster_Reconcile ::
    "'w Env \<Rightarrow> 'w ManifestsLib \<Rightarrow> Manifests \<Rightarrow> string \<Rightarrow> string \<Rightarrow> ('w Reconciler, call, Result) M" where
  "HcloudCluster_Reconcile env ml mf ns name =
     bindM (tryM (GetHcloudCluster (e_kube env) ns name)) (\<lambda>got.
     case got of
       Inl err \<Rightarrow> if IsNotFound err then ret no_Result else failM err
     | Inr hcloudCluster \<Rightarrow>
         bindM (GetOwnerCluster (e_kube env) (hc_Meta hcloudCluster)) (\<lambda>owner.
         case owner of
           None \<Rightarrow> ret no_Result
         | Some cluster \<Rightarrow>
             if k_IsPaused (e_kube env) cluster (hc_Meta hcloudCluster) then ret no_Result
             else
               bindM (mapErrM (\<lambda>err. ErrNew (''failed to create scope: '' @ Error err))
                        (on_sys (NewClusterScope env (Some cluster) (Some hcloudCluster)))) (\<lambda>clusterScope.
               in_reconciler clusterScope (cluster_body env ml mf hcloudCluster))))"

section \<open>Deleting\<close>

fun patches_cluster :: "call \<Rightarrow> bool" where
  "patches_cluster (PatchHcloudClusterC _) = True"
| "patches_cluster _ = False"

fun lb_call :: "call \<Rightarrow> bool" where
  "lb_call (ListLoadBalancersC _) = True"
| "lb_call (DeleteLoadBalancerC _) = True"
| "lb_call (EventC _ _) = True"
| "lb_call _ = False"

fun network_call :: "call \<Rightarrow> bool" where
  "network_call (ListNetworksC _) = True"
| "network_call (DeleteNetworkC _) = True"
| "network_call _ = False"

fun read_or_event :: "call \<Rightarrow> bool" where
  "read_or_event (EventC _ _) = True"
| "read_or_event x = is_read x"

text \<open>
  The machines of the cluster are gone when, in the world of the scope, no listed HcloudMachine has a
  listed Machine of the cluster; \<open>w'\<close> is the world after the two listings. From a world \<open>w\<close>, the calls
  \<open>t\<close> settle the load balancer when they list by the cluster's label and find none, or find
  one whose deletion the cloud accepted; they settle the network when the listing by its
  label is empty, or starts with one the cluster does not own, or with one whose deletion was accepted.
\<close>

definition machines_gone :: "'w KubeClient \<Rightarrow> ('w, 'x) ClusterScope_scheme \<Rightarrow> 'w \<Rightarrow> bool" where
  "machines_gone k s w' \<longleftrightarrow> (\<exists>ms hms w.
     k_ListMachinesRaw k (ClusterScope_Namespace s) (world s) = (Inr ms, w) \<and>
     k_ListHcloudMachinesRaw k (ClusterScope_Namespace s) w = (Inr hms, w') \<and>
     (\<forall>hm \<in> set hms. \<forall>m \<in> set ms. \<not> belongs (cl_Name (cs_Cluster s)) m hm))"

definition lb_settled ::
    "'w HcloudClient \<Rightarrow> ('w, 'x) ClusterScope_scheme \<Rightarrow> call list \<Rightarrow> 'w \<Rightarrow> 'w \<Rightarrow> bool" where
  "lb_settled c s t w w' \<longleftrightarrow>
     h_ListLoadBalancers c (lb_selector s) w = (Inr [], w') \<and>
       t = [ListLoadBalancersC (lb_selector s), EventC EventTypeNormal ''UnknownLoadBalancer''] \<or>
     (\<exists>lb w1. h_ListLoadBalancers c (lb_selector s) w = (Inr [lb], w1) \<and> h_DeleteLoadBalancer c lb w1 = (Inr (), w') \<and>
       t = [ListLoadBalancersC (lb_selector s), DeleteLoadBalancerC lb, EventC EventTypeNormal ''DeleteLoadBalancer''])"

definition network_selector :: "('w, 'x) ClusterScope_scheme \<Rightarrow> string" where
  "network_selector s = LabelsToLabelSelector (network_labels s)"

definition owned :: "('w, 'x) ClusterScope_scheme \<Rightarrow> hcloud_Network \<Rightarrow> bool" where
  "owned s n \<longleftrightarrow> map_of (nw_Labels n) (ClusterTagKey (om_Name (hc_Meta (cs_HcloudCluster s)))) = Some ResourceLifecycleOwned"

definition network_settled :: "'w HcloudClient \<Rightarrow> ('w, 'x) ClusterScope_scheme \<Rightarrow> call list \<Rightarrow> 'w \<Rightarrow> bool" where
  "network_settled c s t w \<longleftrightarrow> (\<exists>nets w1. h_ListNetworks c (network_selector s) w = (Inr nets, w1) \<and>
     (case nets of
        [] \<Rightarrow> t = [ListNetworksC (network_selector s)]
      | n # _ \<Rightarrow>
          if owned s n
          then t = [ListNetworksC (network_selector s), DeleteNetworkC (nw_ID n)] \<and>
            fst (h_DeleteNetwork c (nw_ID n) w1) = Inr ()
          else t = [ListNetworksC (network_selector s)]))"

lemma settled_cong:
  assumes "cs_HcloudCluster s' = cs_HcloudCluster s"
  shows "lb_settled c s' t w w' = lb_settled c s t w w'" "network_settled c s' t w = network_settled c s t w"
proof -
  have "lb_selector s' = lb_selector s" "network_selector s' = network_selector s" "owned s' = owned s"
    using assms by (auto simp: lb_selector_def lb_labels_def network_labels_def network_selector_def owned_def)
  then have eq: "lb_selector s' = lb_selector s" "network_selector s' = network_selector s" "owned s' = owned s" .
  show "lb_settled c s' t w w' = lb_settled c s t w w'" "network_settled c s' t w = network_settled c s t w"
    unfolding lb_settled_def network_settled_def eq by (rule refl)+
qed

lemma settled_calls:
  assumes "network_settled c s t w"
  shows "t \<noteq> []"
proof -
  from assms obtain nets w1 where "case nets of
        [] \<Rightarrow> t = [ListNetworksC (network_selector s)]
      | n # _ \<Rightarrow>
          if owned s n
          then t = [ListNetworksC (network_selector s), DeleteNetworkC (nw_ID n)] \<and>
            fst (h_DeleteNetwork c (nw_ID n) w1) = Inr ()
          else t = [ListNetworksC (network_selector s)]"
    unfolding network_settled_def by blast
  then show ?thesis by (cases nets) (simp_all split: if_splits)
qed

lemma lb_settled_calls: "lb_settled c s t w w' \<Longrightarrow> t \<noteq> []"
  by (auto simp: lb_settled_def)

lemma lb_Delete_wp:
  "wp (lb_Delete c) s (\<lambda>r t s'. cs_HcloudCluster s' = cs_HcloudCluster s \<and> (\<forall>x \<in> set t. lb_call x) \<and>
     (r = Ok () \<longrightarrow> lb_settled c s t (world s) (world s')))"
  by (auto simp: lb_Delete_def wp_simps wp_FindLoadBalancer found_lb_def client_defs lb_settled_def
        wp_extcall ext_post_iff split: list.splits)

lemma network_Delete_wp:
  "wp (network_Delete c) s (\<lambda>r t s'. cs_HcloudCluster s' = cs_HcloudCluster s \<and> (\<forall>x \<in> set t. network_call x) \<and>
     (r = Ok () \<longrightarrow> network_settled c s t (world s)))"
proof -
  obtain a w where l: "h_ListNetworks c (network_selector s) (world s) = (a, w)" by fastforce
  show ?thesis
  proof (cases a)
    case (Inl e)
    with l show ?thesis
      by (auto simp: network_Delete_def wp_simps network_actualStatus_wp network_selector_def)
  next
    case (Inr nets)
    show ?thesis
    proof (cases nets)
      case Nil
      with l Inr show ?thesis
        by (auto simp: network_Delete_def wp_simps network_actualStatus_wp network_selector_def network_settled_def)
    next
      case (Cons n ns)
      with l Inr show ?thesis
        by (auto simp: network_Delete_def network_deleteNetwork_def wp_simps network_actualStatus_wp network_settled_def
            network_selector_def owned_def client_defs wp_extcall ext_post_iff network_apiToStatus_def)
    qed
  qed
qed

lemma ListMachines_gone_wp:
  "wp (ListMachines k) s (\<lambda>r t s'. cs_HcloudCluster s' = cs_HcloudCluster s \<and> only_reads t \<and>
     (r = Ok [] \<longrightarrow> machines_gone k s (world s')))"
proof -
  have "match_machines idx hms = [] \<longleftrightarrow> (\<forall>hm \<in> set hms. idx (om_Name (hm_Meta hm)) = None)" for idx hms
    by (induction hms) (auto split: option.splits)
  then show ?thesis
    by (auto simp: ListMachines_def wp_simps client_defs wp_extcall ext_post_iff machines_gone_def
        index_machines_None)
qed

text \<open>
  The phases of a deletion: reads and events; then, with the machines gone, calls on load
  balancers; then, with the load balancer settled, calls on networks; and the finalizer is given up
  only with the network settled. Each phase starts in the world the one before it left.
\<close>

definition without_finalizer :: "'w Env \<Rightarrow> HcloudCluster \<Rightarrow> HcloudCluster" where
  "without_finalizer env hc = hc\<lparr>hc_Meta := RemoveFinalizer env ClusterFinalizer (hc_Meta hc)\<rparr>"

definition deletion_phases ::
    "'w Env \<Rightarrow> ('w, 'x) ClusterScope_scheme \<Rightarrow> call list \<Rightarrow> HcloudCluster \<Rightarrow> bool" where
  "deletion_phases env s t obj \<longleftrightarrow> (\<exists>t0 t1 t2 wm wl. t = t0 @ t1 @ t2 \<and>
     (\<forall>x \<in> set t0. read_or_event x) \<and> (\<forall>x \<in> set t1. lb_call x) \<and> (\<forall>x \<in> set t2. network_call x) \<and>
     (t1 \<noteq> [] \<longrightarrow> machines_gone (e_kube env) s wm) \<and>
     (t2 \<noteq> [] \<longrightarrow> lb_settled (ClusterScope_HcloudClient env s) s t1 wm wl) \<and>
     (obj = cs_HcloudCluster s \<or>
        obj = without_finalizer env (cs_HcloudCluster s) \<and> network_settled (ClusterScope_HcloudClient env s) s t2 wl))"

text \<open>From the load balancer on: the phases of a deletion after the machines are gone.\<close>

definition delete_infrastructure :: "'w Env \<Rightarrow> 'w HcloudClient \<Rightarrow> (('w, 'x) ClusterScope_scheme, call, Result) M" where
  "delete_infrastructure env c =
     bindM (in_cluster ''failed to delete load balancers'' (lb_Delete c)) (\<lambda>_.
     bindM (in_cluster ''failed to delete network'' (network_Delete c)) (\<lambda>_.
     bindM (modifyM (setClusterMeta (RemoveFinalizer env ClusterFinalizer))) (\<lambda>_.
     ret no_Result)))"

lemma delete_network_wp:
  "wp (bindM (in_cluster msg (network_Delete c)) (\<lambda>_.
     bindM (modifyM (setClusterMeta (RemoveFinalizer env ClusterFinalizer))) (\<lambda>_. ret no_Result))) s
   (\<lambda>r t s'. (\<forall>x \<in> set t. network_call x) \<and>
     (cs_HcloudCluster s' = cs_HcloudCluster s \<or>
      cs_HcloudCluster s' = without_finalizer env (cs_HcloudCluster s) \<and> network_settled c s t (world s)))"
  unfolding in_cluster_def wp_bindM wp_getsM bind_post_simps wp_mapErrM
  by (rule wp_mono[OF network_Delete_wp])
    (auto simp: bind_post_def wp_simps map_err_def setClusterMeta_def without_finalizer_def split: res.splits)

definition infrastructure_phases ::
    "'w Env \<Rightarrow> 'w HcloudClient \<Rightarrow> ('w, 'x) ClusterScope_scheme \<Rightarrow> call list \<Rightarrow> HcloudCluster \<Rightarrow> bool" where
  "infrastructure_phases env c s t obj \<longleftrightarrow> (\<exists>t1 t2 wl. t = t1 @ t2 \<and>
     (\<forall>x \<in> set t1. lb_call x) \<and> (\<forall>x \<in> set t2. network_call x) \<and>
     (t2 \<noteq> [] \<longrightarrow> lb_settled c s t1 (world s) wl) \<and>
     (obj = cs_HcloudCluster s \<or>
      obj = without_finalizer env (cs_HcloudCluster s) \<and> network_settled c s t2 wl))"

lemma delete_infrastructure_wp:
  "wp (delete_infrastructure env c) s (\<lambda>r t s'. infrastructure_phases env c s t (cs_HcloudCluster s'))"
  unfolding delete_infrastructure_def in_cluster_def[of "''failed to delete load balancers''"] wp_bindM[of "bindM _ _"]
    wp_bindM[of "getsM _"] wp_getsM bind_post_simps wp_mapErrM
proof (rule wp_mono[OF lb_Delete_wp], elim conjE)
  fix r and t and s1 :: "('a, 'b) ClusterScope_scheme"
  assume hc: "cs_HcloudCluster s1 = cs_HcloudCluster s" and t: "\<forall>x \<in> set t. lb_call x"
    and ok: "r = Ok () \<longrightarrow> lb_settled c s t (world s) (world s1)"
  let ?Q = "\<lambda>r t s'. infrastructure_phases env c s t (cs_HcloudCluster s')"
  have stop: "infrastructure_phases env c s t (cs_HcloudCluster s1)"
    unfolding infrastructure_phases_def hc by (intro exI[of _ t] exI[of _ "[]"]) (simp add: t)
  let ?meta = "hc_Meta (cs_HcloudCluster s)"
  show "bind_post (\<lambda>_. bindM (in_cluster ''failed to delete network'' (network_Delete c)) (\<lambda>_.
      bindM (modifyM (setClusterMeta (RemoveFinalizer env ClusterFinalizer))) (\<lambda>_. ret no_Result))) ?Q
      (map_err (ErrWrap (''failed to delete load balancers'' @ '' for HcloudCluster '' @ om_Namespace ?meta @ ''/'' @ om_Name ?meta)) r) ([] @ t) s1"
  proof (cases r)
    case (Ok u)
    show ?thesis
      unfolding Ok map_err_simps bind_post_simps
    proof (rule wp_mono[OF delete_network_wp])
      fix r' and t' and s2 :: "('a, 'b) ClusterScope_scheme"
      assume "(\<forall>x \<in> set t'. network_call x) \<and>
        (cs_HcloudCluster s2 = cs_HcloudCluster s1 \<or>
         cs_HcloudCluster s2 = without_finalizer env (cs_HcloudCluster s1) \<and> network_settled c s1 t' (world s1))"
      with t ok Ok hc settled_cong(2)[OF hc] show "?Q r' (([] @ t) @ t') s2"
        unfolding infrastructure_phases_def
        by (intro exI[of _ t] exI[of _ t'] exI[of _ "world s1"]) simp
    qed
  qed (use stop in simp_all)
qed

lemma stop_manager_wp:
  assumes "om_DeletionTimestamp (hc_Meta (cs_HcloudCluster s)) \<noteq> None"
  shows "wp (reconcileTargetClusterManager k) s (\<lambda>r t s'. t = [] \<and> ClusterScope.truncate s' = ClusterScope.truncate s)"
  using assms by (auto simp: reconcileTargetClusterManager_def closeM_def wp_simps Let_def ClusterScope.defs split: option.splits)

definition wait_or_delete :: "'w Env \<Rightarrow> (('w, 'x) ClusterScope_scheme, call, Result) M" where
  "wait_or_delete env =
     bindM (in_cluster ''failed to list machines'' (ListMachines (e_kube env))) (\<lambda>machines.
     if length machines > 0 then
       bindM (Eventf EventTypeNormal ''WaitingForMachineDeletion'') (\<lambda>_. ret (requeue_after (10 * Second)))
     else bindM (getsM (ClusterScope_HcloudClient env)) (delete_infrastructure env))"

lemma ListMachines_truncate_wp:
  "wp (ListMachines k) s (\<lambda>r t s'. cs_HcloudCluster s' = cs_HcloudCluster s \<and> cs_hcloudToken s' = cs_hcloudToken s \<and>
     only_reads t \<and> (r = Ok [] \<longrightarrow> machines_gone k s (world s')))"
  using wp_conj[OF ListMachines_gone_wp[of k s] ListMachines_wp[of k s]]
  by (auto simp: ListMachines_def wp_simps client_defs wp_extcall ext_post_iff elim!: wp_mono)

lemma wait_or_delete_wp: "wp (wait_or_delete env) s (\<lambda>r t s'. deletion_phases env s t (cs_HcloudCluster s'))"
  unfolding wait_or_delete_def in_cluster_def wp_bindM[of "bindM _ _"] wp_bindM[of "getsM _"] wp_getsM bind_post_simps wp_mapErrM
proof (rule wp_mono[OF ListMachines_truncate_wp], elim conjE)
  fix r and t and s1 :: "('a, 'b) ClusterScope_scheme"
  assume hc: "cs_HcloudCluster s1 = cs_HcloudCluster s" and tok: "cs_hcloudToken s1 = cs_hcloudToken s"
    and t: "only_reads t" and ok: "r = Ok [] \<longrightarrow> machines_gone (e_kube env) s (world s1)"
  let ?meta = "hc_Meta (cs_HcloudCluster s)"
  have reads: "\<forall>x \<in> set t. read_or_event x"
    using t by (auto simp: only_reads_def elim!: is_read.elims dest!: bspec)
  have client: "ClusterScope_HcloudClient env s1 = ClusterScope_HcloudClient env s"
    by (simp add: ClusterScope_HcloudClient_def tok)
  have stay: "deletion_phases env s t' (cs_HcloudCluster s1)" if "\<forall>x \<in> set t'. read_or_event x" for t'
    unfolding deletion_phases_def using that hc by (intro exI[of _ t'] exI[of _ "[]"]) simp
  show "bind_post (\<lambda>machines. if length machines > 0 then
          bindM (Eventf EventTypeNormal ''WaitingForMachineDeletion'') (\<lambda>_. ret (requeue_after (10 * Second)))
        else bindM (getsM (ClusterScope_HcloudClient env)) (delete_infrastructure env))
      (\<lambda>r t s'. deletion_phases env s t (cs_HcloudCluster s'))
      (map_err (ErrWrap (''failed to list machines'' @ '' for HcloudCluster '' @ om_Namespace ?meta @ ''/'' @ om_Name ?meta)) r) ([] @ t) s1"
  proof (cases r)
    case (Ok machines)
    show ?thesis
    proof (cases machines)
      case Nil
      have "wp (delete_infrastructure env (ClusterScope_HcloudClient env s1)) s1
          (\<lambda>r' t' s'. deletion_phases env s (t @ t') (cs_HcloudCluster s'))"
      proof (rule wp_mono[OF delete_infrastructure_wp])
        fix r' t' s2
        assume "infrastructure_phases env (ClusterScope_HcloudClient env s1) s1 t' (cs_HcloudCluster s2)"
        then obtain t1 t2 wl where "t' = t1 @ t2" "\<forall>x \<in> set t1. lb_call x" "\<forall>x \<in> set t2. network_call x"
          "t2 \<noteq> [] \<longrightarrow> lb_settled (ClusterScope_HcloudClient env s1) s1 t1 (world s1) wl"
          "cs_HcloudCluster s2 = cs_HcloudCluster s1 \<or>
           cs_HcloudCluster s2 = without_finalizer env (cs_HcloudCluster s1) \<and>
           network_settled (ClusterScope_HcloudClient env s1) s1 t2 wl"
          unfolding infrastructure_phases_def by blast
        with reads ok Ok Nil show "deletion_phases env s (t @ t') (cs_HcloudCluster s2)"
          unfolding deletion_phases_def client settled_cong[OF hc] hc
          by (intro exI[of _ t] exI[of _ t1] exI[of _ t2] exI[of _ "world s1"] exI[of _ wl]) simp
      qed
      then show ?thesis by (simp add: Ok Nil wp_simps)
    qed (use stay[of "t @ [EventC EventTypeNormal ''WaitingForMachineDeletion'']"] reads in \<open>simp add: Ok wp_simps\<close>)
  qed (use stay[OF reads] in simp_all)
qed

lemma truncate_eqD:
  assumes "ClusterScope.truncate s' = ClusterScope.truncate s"
  shows "world s' = world s" "cs_Cluster s' = cs_Cluster s" "cs_HcloudCluster s' = cs_HcloudCluster s"
    "ClusterScope_HcloudClient env s' = ClusterScope_HcloudClient env s"
  using assms by (simp_all add: ClusterScope.defs ClusterScope_HcloudClient_def)

lemma deletion_phases_cong:
  assumes "ClusterScope.truncate s' = ClusterScope.truncate s"
  shows "deletion_phases env s' t obj = deletion_phases env s t obj"
  unfolding deletion_phases_def machines_gone_def ClusterScope_Namespace_def
    settled_cong[OF truncate_eqD(3)[OF assms]] truncate_eqD[OF assms] by (rule refl)

lemma reconcileDelete_wp:
  assumes "om_DeletionTimestamp (hc_Meta (cs_HcloudCluster s)) \<noteq> None"
  shows "wp (cluster_reconcileDelete env) s (\<lambda>r t s'. deletion_phases env s t (cs_HcloudCluster s'))"
  unfolding cluster_reconcileDelete_def delete_infrastructure_def[symmetric] wait_or_delete_def[symmetric]
    wp_bindM[of "reconcileTargetClusterManager _"]
proof (rule wp_mono[OF stop_manager_wp[OF assms]], elim conjE)
  fix r :: "unit res" and t :: "call list" and s1
  assume t: "t = []" and eq: "ClusterScope.truncate s1 = ClusterScope.truncate s"
  have none: "deletion_phases env s [] (cs_HcloudCluster s1)"
    using truncate_eqD(3)[OF eq] by (simp add: deletion_phases_def)
  show "bind_post (\<lambda>_. wait_or_delete env) (\<lambda>r t s'. deletion_phases env s t (cs_HcloudCluster s')) r t s1"
    using wait_or_delete_wp[of env s1] none deletion_phases_cong[OF eq]
    by (cases r) (simp_all add: t)
qed

section \<open>What the services leave alone\<close>

text \<open>
  The services of the infrastructure delete nothing, write no object, and leave alone the metadata, the
  endpoint, the load balancer's specification, the readiness and the manifests.
\<close>

definition normal_call :: "call \<Rightarrow> bool" where
  "normal_call x \<longleftrightarrow> \<not> patches_cluster x \<and> (\<forall>lb. x \<noteq> DeleteLoadBalancerC lb) \<and> (\<forall>i. x \<noteq> DeleteNetworkC i)"

definition cluster_frame :: "('w, 'x) ClusterScope_scheme \<Rightarrow>
    ObjectMeta \<times> APIEndpoint option \<times> HcloudLoadBalancerSpec \<times> bool \<times> HcloudClusterStatusManifests option" where
  "cluster_frame s = (let hc = cs_HcloudCluster s in
     (hc_Meta hc, hcs_ControlPlaneEndpoint (hc_Spec hc), hcs_ControlPlaneLoadBalancer (hc_Spec hc), hct_Ready (hc_Status hc),
      hct_Manifests (hc_Status hc)))"

lemma cluster_frame_simps [simp]:
  "cluster_frame (s\<lparr>world := w\<rparr>) = cluster_frame s"
  "cluster_frame s' = cluster_frame s \<longleftrightarrow>
     hc_Meta (cs_HcloudCluster s') = hc_Meta (cs_HcloudCluster s) \<and>
     hcs_ControlPlaneEndpoint (hc_Spec (cs_HcloudCluster s')) = hcs_ControlPlaneEndpoint (hc_Spec (cs_HcloudCluster s)) \<and>
     hcs_ControlPlaneLoadBalancer (hc_Spec (cs_HcloudCluster s')) = hcs_ControlPlaneLoadBalancer (hc_Spec (cs_HcloudCluster s)) \<and>
     hct_Ready (hc_Status (cs_HcloudCluster s')) = hct_Ready (hc_Status (cs_HcloudCluster s)) \<and>
     hct_Manifests (hc_Status (cs_HcloudCluster s')) = hct_Manifests (hc_Status (cs_HcloudCluster s))"
  by (auto simp: cluster_frame_def Let_def)

lemma location_frame: "frame normal_call cluster_frame (cluster_location_Reconcile c)"
  unfolding cluster_location_Reconcile_def location_Reconcile_def ClusterScope_SetStatusLocations_def client_defs
  by (intro frame_intros) (simp_all add: scope_update_defs normal_call_def)

lemma network_frame: "frame normal_call cluster_frame (network_Reconcile c)"
  unfolding network_Reconcile_def network_createNetwork_def network_actualStatus_def client_defs
  by (intro frame_intros) (simp_all add: scope_update_defs normal_call_def)

lemma lb_frame: "frame normal_call cluster_frame (lb_Reconcile g c)"
  unfolding lb_Reconcile_def FindLoadBalancer_def lb_apiToStatus_def set_lb_status_def attachLoadBalancerToNetwork_def
    find_network_def createLoadBalancer_def submitLoadBalancer_def add_services_def Let_def client_defs
  by (intro frame_intros) (simp_all add: scope_update_defs normal_call_def)

lemma infrastructure_frame: "frame normal_call cluster_frame (reconcile_infrastructure env)"
  unfolding reconcile_infrastructure_def in_cluster_def
  by (intro frame_intros location_frame network_frame lb_frame)

text \<open>The manifests: until they are applied only the outside world changes.\<close>

lemma frame_dumpYAML [frame_intros]: "(\<And>d. frame P f (enc d)) \<Longrightarrow> frame P f (dumpYAML enc i)"
proof (induction i rule: measure_induct_rule[of size])
  case (less i)
  show ?case
  proof (cases i)
    case (JArray xs)
    have "frame P f (forM (dumpYAML enc) ys)" if "set ys \<subseteq> set xs" for ys
      using that less JArray
      by (induction ys) (auto intro!: frame_intros less.IH less.prems simp: less_Suc_eq_le size_list_estimation')
    with JArray show ?thesis by simp
  next
    case (JObject v)
    have "frame P f (case map_of v k of Some e \<Rightarrow> dumpYAML enc e | None \<Rightarrow> ret ())" for k
      using less JObject size_map_of[of v k]
      by (cases "map_of v k") (auto intro!: frame_intros less.IH less.prems simp: less_Suc_eq_le)
    then have "frame P f (forM (\<lambda>k. case map_of v k of Some e \<Rightarrow> dumpYAML enc e | None \<Rightarrow> ret ()) (sort (map fst v)))"
      by (rule frame_forM)
    with less.prems show ?thesis
      unfolding JObject dumpYAML.simps Let_def by simp
  qed (auto intro: frame_intros)
qed

lemma frame_encoder:
  fixes enc :: "nat \<Rightarrow> json \<Rightarrow> ('s, 'c, unit) M"
  assumes "\<And>n d. frame P f (enc n d)"
  shows "frame P f (with_encoder (dumpYAML (encoder enc) i))"
proof -
  have "frame P (\<lambda>s. f (fst s)) (encoder enc d)" for d
    unfolding frame_def
  proof
    fix s :: "'s \<times> nat"
    obtain r t s' where run: "enc (snd s) d (fst s) = (r, t, s')" by (metis prod_cases3)
    from frame_run[OF assms run] show "wp (encoder enc d) s (\<lambda>r t s'. (\<forall>x \<in> set t. P x) \<and> f (fst s') = f (fst s))"
      by (cases s) (use run in \<open>simp add: wp_def encoder_def\<close>)
  qed
  then have all: "frame P (\<lambda>s. f (fst s)) (dumpYAML (encoder enc) i)" by (rule frame_dumpYAML)
  show ?thesis
    unfolding frame_def
  proof
    fix s
    obtain r t s' where run: "dumpYAML (encoder enc) i (s, 0) = (r, t, s')" by (metis prod_cases3)
    from frame_run[OF all run] show "wp (with_encoder (dumpYAML (encoder enc) i)) s (\<lambda>r t s'. (\<forall>x \<in> set t. P x) \<and> f s' = f s)"
      by (cases s') (use run in \<open>simp add: wp_def with_encoder_def\<close>)
  qed
qed

lemma frame_deferM [frame_intros]:
  assumes "frame P f body" and "frame P f close"
  shows "frame P f (deferM body close)"
  unfolding frame_def wp_deferM
proof
  fix s
  show "wp body s (\<lambda>r t s1. wp close s1 (\<lambda>r' t' s2. (\<forall>x \<in> set (t @ t'). P x) \<and> f s2 = f s))"
  proof (rule wp_mono[OF frame_wp[OF assms(1)]])
    fix r t s1
    assume *: "(\<forall>x \<in> set t. P x) \<and> f s1 = f s"
    show "wp close s1 (\<lambda>r' t' s2. (\<forall>x \<in> set (t @ t'). P x) \<and> f s2 = f s)"
      by (rule wp_mono[OF frame_wp[OF assms(2)]]) (use * in auto)
  qed
qed

fun is_event :: "call \<Rightarrow> bool" where
  "is_event (EventC _ _) = True"
| "is_event _ = False"

definition manifests_call :: "call \<Rightarrow> bool" where
  "manifests_call x \<longleftrightarrow> normal_call x \<and> \<not> is_event x"

lemma manifestParameters_frame: "frame manifests_call cs_HcloudCluster (manifestParameters k)"
  unfolding manifestParameters_def Let_def client_defs
  by (intro frame_intros) (simp_all add: manifests_call_def normal_call_def)

lemma ManifestsHash_frame: "frame manifests_call cs_HcloudCluster (ManifestsHash k ml mf)"
  unfolding ManifestsHash_def Manifests_Hash_def load_manifests_def
  by (intro frame_intros manifestParameters_frame) (simp_all add: manifests_call_def normal_call_def)

lemma Apply_frame: "frame manifests_call cs_HcloudCluster (ApplyManifestsWithClientConfig k ml mf c)"
  unfolding ApplyManifestsWithClientConfig_def Manifests_Apply_def kubectl_apply_def evaluateJsonnet_def load_manifests_def Let_def
  by (intro frame_intros manifestParameters_frame frame_encoder)
    (simp_all add: manifests_call_def normal_call_def write_document_def frame_extcall)

lemma config_frame: "frame manifests_call cs_HcloudCluster (ClientConfigWithAPIEndpoint k e)"
  unfolding ClientConfigWithAPIEndpoint_def ClusterScope_ClientConfig_def client_defs
  by (intro frame_intros) (simp_all add: manifests_call_def normal_call_def)

lemma address_search_frame: "frame manifests_call cs_HcloudCluster (address_search k hm as)"
proof (induction as)
  case (Cons a as)
  then show ?case unfolding address_search.simps IsControlPlaneReady_def client_defs
    by (intro frame_intros config_frame) (simp_all add: manifests_call_def normal_call_def)
qed (auto intro: frame_intros)

lemma machine_search_frame: "frame manifests_call cs_HcloudCluster (machine_search k errs ms)"
proof (induction ms arbitrary: errs)
  case (Cons p ms)
  then show ?case
    by (cases p) (auto intro!: frame_intros address_search_frame)
qed (auto intro: frame_intros)

lemma ListMachines_frame: "frame manifests_call cs_HcloudCluster (ListMachines k)"
  unfolding ListMachines_def client_defs
  by (intro frame_intros) (simp_all add: manifests_call_def normal_call_def)

section \<open>The API server that is used\<close>

definition external :: "NodeAddress \<Rightarrow> bool" where
  "external a \<longleftrightarrow> na_Type a = NodeExternalIP \<or> na_Type a = NodeExternalDNS"

definition api_server :: "Machine \<times> HcloudMachine \<Rightarrow> bool" where
  "api_server p \<longleftrightarrow> m_ControlPlane (fst p) \<and> m_InfrastructureReady (fst p) \<and>
     (\<exists>a \<in> set (hmt_Addresses (hm_Status (snd p))). external a)"

lemma address_search_none: "\<forall>a \<in> set as. \<not> external a \<Longrightarrow> address_search k hm as = ret (None, [])"
  by (induction as) (auto simp: external_def)

lemma address_search_some:
  "\<exists>a \<in> set as. external a \<Longrightarrow>
   wp (address_search k hm as) s (\<lambda>r t s'. \<forall>p. r = Ok p \<longrightarrow> fst p \<noteq> None)"
proof (induction as)
  case (Cons a as)
  have true: "wp m s (\<lambda>_ _ _. True)" for m :: "(('a, 'b) ClusterScope_scheme, call, ClientConfig) M" and s
    by (simp add: wp_def split: prod.splits)
  show ?case
  proof (cases "external a")
    case True
    then show ?thesis
      by (auto simp: external_def wp_simps IsControlPlaneReady_def client_defs wp_extcall ext_post_iff bind_post_def
          intro!: wp_mono[OF true] split: res.splits)
  next
    case False
    with Cons show ?thesis by (auto simp: external_def)
  qed
qed simp

lemma machine_search_none:
  "\<forall>p \<in> set ps. \<not> api_server p \<Longrightarrow> machine_search k errs ps = ret (None, errs)"
proof (induction ps arbitrary: errs)
  case (Cons p ps)
  obtain m hm where p: "p = (m, hm)" by (cases p)
  show ?case
  proof (cases "m_ControlPlane m \<and> m_InfrastructureReady m")
    case True
    with Cons.prems p have "\<forall>a \<in> set (hmt_Addresses (hm_Status hm)). \<not> external a" by (auto simp: api_server_def)
    with Cons True p show ?thesis by (simp add: address_search_none) (simp add: bindM_def ret_def)
  next
    case False
    with Cons p show ?thesis by auto
  qed
qed simp

lemma machine_search_some:
  "\<exists>p \<in> set ps. api_server p \<Longrightarrow>
   wp (machine_search k errs ps) s (\<lambda>r t s'. \<forall>p. r = Ok p \<longrightarrow> fst p \<noteq> None)"
proof (induction ps arbitrary: errs)
  case (Cons p ps)
  obtain m hm where p: "p = (m, hm)" by (cases p)
  show ?case
  proof (cases "api_server p")
    case True
    with p have "\<exists>a \<in> set (hmt_Addresses (hm_Status hm)). external a" and "m_ControlPlane m" "m_InfrastructureReady m"
      by (auto simp: api_server_def)
    with p show ?thesis
      by (auto simp: wp_simps bind_post_def intro!: wp_mono[OF address_search_some] split: res.splits)
  next
    case False
    with Cons.prems have rest: "wp (machine_search k errs ps) s (\<lambda>r t s'. \<forall>p. r = Ok p \<longrightarrow> fst p \<noteq> None)" for errs
      using Cons.IH by simp
    show ?thesis
    proof (cases "m_ControlPlane m \<and> m_InfrastructureReady m")
      case True
      with False p have "\<forall>a \<in> set (hmt_Addresses (hm_Status hm)). \<not> external a" by (auto simp: api_server_def)
      with rest True p show ?thesis by (simp add: wp_simps address_search_none)
    next
      case False
      with rest p show ?thesis by (auto simp: wp_if)
    qed
  qed
qed simp

definition applied :: "string \<Rightarrow> HcloudCluster \<Rightarrow> HcloudCluster" where
  "applied h hc = hc\<lparr>hc_Status := set_applied h (hc_Status hc)\<rparr>"

text \<open>The client configuration that the search returns: every server in it is the endpoint of the control plane.\<close>

definition cluster_url :: "HcloudCluster \<Rightarrow> string \<Rightarrow> bool" where
  "cluster_url hc url \<longleftrightarrow> (\<exists>ep svc svcs. hcs_ControlPlaneEndpoint (hc_Spec hc) = Some ep \<and>
     lbs_Services (hcs_ControlPlaneLoadBalancer (hc_Spec hc)) = svc # svcs \<and>
     url = ''https://'' @ ep_Host ep @ '':'' @ itoa (lss_ListenPort svc))"

definition cluster_urls :: "HcloudCluster \<Rightarrow> ClientConfig \<Rightarrow> bool" where
  "cluster_urls hc c \<longleftrightarrow> (\<forall>entry \<in> set c. cluster_url hc (snd entry))"

lemma mapMM_all:
  assumes "\<And>x s. wp (f x) s (\<lambda>r t s'. \<forall>y. r = Ok y \<longrightarrow> P y)"
  shows "wp (mapMM f xs) s (\<lambda>r t s'. \<forall>ys. r = Ok ys \<longrightarrow> (\<forall>y \<in> set ys. P y))"
proof (induction xs arbitrary: s)
  case (Cons x xs)
  show ?case
    unfolding mapMM.simps wp_bindM[of "f x"]
    by (rule wp_mono[OF assms])
      (auto simp: bind_post_def wp_simps intro!: wp_mono[OF Cons.IH] split: res.splits)
qed (simp add: wp_simps)

lemma urls_loop_wp:
  "wp (mapMM (\<lambda>(key, _).
       bindM (derefM ''ControlPlaneEndpoint'' (hcs_ControlPlaneEndpoint (hc_Spec hc))) (\<lambda>ep.
       case lbs_Services (hcs_ControlPlaneLoadBalancer (hc_Spec hc)) of
         [] \<Rightarrow> panicM ''index out of range: Services[0]''
       | svc # _ \<Rightarrow> ret (key, ''https://'' @ ep_Host ep @ '':'' @ itoa (lss_ListenPort svc)))) raw) s
     (\<lambda>r t s'. \<forall>c. r = Ok c \<longrightarrow> cluster_urls hc c)"
  unfolding cluster_urls_def
  by (rule mapMM_all) (auto simp: wp_simps cluster_url_def split: prod.splits option.splits list.splits)

lemma client_urls_wp:
  "wp (ClientConfigWithAPIEndpoint k e) s (\<lambda>r t s'. \<forall>c. r = Ok c \<longrightarrow> cluster_urls (cs_HcloudCluster s) c)"
  unfolding ClientConfigWithAPIEndpoint_def ClusterScope_ClientConfig_def client_defs
  by (simp add: wp_simps wp_extcall ext_post_iff) (intro allI impI wp_mono[OF urls_loop_wp], simp)

definition config_found :: "HcloudCluster \<Rightarrow> (ClientConfig option \<times> error list) res \<Rightarrow> bool" where
  "config_found hc r \<longleftrightarrow> (\<forall>c errs. r = Ok (Some c, errs) \<longrightarrow> cluster_urls hc c)"

lemma address_search_urls:
  "wp (address_search k hm as) s (\<lambda>r t s'. config_found (cs_HcloudCluster s) r)"
proof (induction as)
  case (Cons a as)
  show ?case
  proof (cases "na_Type a \<noteq> NodeExternalIP \<and> na_Type a \<noteq> NodeExternalDNS")
    case False
    then show ?thesis
      unfolding address_search.simps if_not_P[OF False] wp_bindM[of "ClientConfigWithAPIEndpoint _ _"]
      by (intro wp_mono[OF client_urls_wp])
        (auto simp: bind_post_def wp_simps IsControlPlaneReady_def client_defs wp_extcall ext_post_iff config_found_def
          split: res.splits)
  qed (use Cons in simp)
qed (simp add: wp_simps config_found_def)

lemma machine_search_urls:
  "wp (machine_search k errs ps) s (\<lambda>r t s'. config_found (cs_HcloudCluster s) r)"
proof (induction ps arbitrary: errs s)
  case (Cons p ps)
  obtain m hm where p: "p = (m, hm)" by (cases p)
  show ?case
  proof (cases "m_ControlPlane m \<and> m_InfrastructureReady m")
    case True
    have *: "wp (address_search k hm (hmt_Addresses (hm_Status hm))) s (\<lambda>r t s'.
        config_found (cs_HcloudCluster s) r \<and> (\<forall>x \<in> set t. manifests_call x) \<and> cs_HcloudCluster s' = cs_HcloudCluster s)"
      by (rule wp_conj[OF address_search_urls frame_wp[OF address_search_frame]])
    from True p show ?thesis
      by (simp add: wp_bindM)
        (rule wp_mono[OF *], auto simp: bind_post_def wp_simps config_found_def split: res.splits
          intro!: wp_mono[OF Cons.IH])
  next
    case False
    with p Cons.IH[of errs s] show ?thesis by (auto simp: wp_if)
  qed
qed (simp add: wp_simps config_found_def)

text \<open>
  Applying: the manifests are applied with the configuration that was found, and the hash is recorded
  exactly when that succeeded.
\<close>

definition apply_post ::
    "'w KubeClient \<Rightarrow> 'w ManifestsLib \<Rightarrow> Manifests \<Rightarrow> string \<Rightarrow> ('w, 'x) ClusterScope_scheme \<Rightarrow>
       unit res \<Rightarrow> call list \<Rightarrow> HcloudCluster \<Rightarrow> bool" where
  "apply_post k ml mf h s r t hc' \<longleftrightarrow> (\<forall>x \<in> set t. manifests_call x) \<and>
     hc' = (if r = Ok () then applied h (cs_HcloudCluster s) else cs_HcloudCluster s) \<and>
     (case ListMachines k s of (lr, lt, s1) \<Rightarrow> case lr of
        Ok ps \<Rightarrow> (case machine_search k [] ps s1 of (sr, st, s2) \<Rightarrow> case sr of
          Ok (found, errs) \<Rightarrow> (case found of
            None \<Rightarrow> (\<forall>p \<in> set ps. \<not> api_server p) \<and> r = Err ErrNoReadyAPIServer
          | Some c \<Rightarrow> (\<exists>p \<in> set ps. api_server p) \<and> cluster_urls (cs_HcloudCluster s) c \<and>
              (case ApplyManifestsWithClientConfig k ml mf c s2 of (ra, ta, s3) \<Rightarrow>
                 t = lt @ st @ ta \<and> (r = Ok () \<longleftrightarrow> ra = Ok ())))
        | _ \<Rightarrow> (\<exists>p \<in> set ps. api_server p) \<and> r \<noteq> Ok ())
      | _ \<Rightarrow> r \<noteq> Ok ())"

lemma applyManifests_wp:
  fixes s :: "('w, 'x) ClusterScope_scheme"
  shows "wp (applyManifests k ml mf h) s (\<lambda>r t s'. apply_post k ml mf h s r t (cs_HcloudCluster s'))"
proof -
  obtain lr lt s1 where listing: "ListMachines k s = (lr, lt, s1)" by (metis prod_cases3)
  from frame_run[OF ListMachines_frame this] have lt: "\<forall>x \<in> set lt. manifests_call x"
    and s1: "cs_HcloudCluster s1 = cs_HcloudCluster s" by auto
  note list = wp_run[where m = "ListMachines k" and s = s, OF listing]
  show ?thesis
  proof (cases lr)
    case (Ok ps)
    obtain sr st s2 where search: "machine_search k [] ps s1 = (sr, st, s2)" by (metis prod_cases3)
    from frame_run[OF machine_search_frame this] s1 have st: "\<forall>x \<in> set st. manifests_call x"
      and s2: "cs_HcloudCluster s2 = cs_HcloudCluster s" by auto
    note found = wp_run[where m = "machine_search k [] ps" and s = s1, OF search]
    show ?thesis
    proof (cases "\<exists>p \<in> set ps. api_server p")
      case False
      then have "machine_search k [] ps s1 = ret (None, []) s1"
        using machine_search_none[of ps k "[]"] by (metis (no_types))
      with search have "sr = Ok (None, [])" "st = []" "s2 = s1" by (simp_all add: ret_def)
      with False lt s1 show ?thesis
        by (simp add: applyManifests_def in_cluster_def wp_simps list found Ok apply_post_def listing search)
    next
      case True
      from wpD[OF machine_search_some[OF True] search] have some: "sr = Ok p \<Longrightarrow> fst p \<noteq> None" for p by simp
      show ?thesis
      proof (cases sr)
        case (Ok p)
        with some obtain c errs where p: "p = (Some c, errs)" by (cases p) auto
        from wpD[OF machine_search_urls search] Ok p s1 have urls: "cluster_urls (cs_HcloudCluster s) c"
          by (simp add: config_found_def)
        obtain ra ta s3 where app: "ApplyManifestsWithClientConfig k ml mf c s2 = (ra, ta, s3)" by (metis prod_cases3)
        from frame_run[OF Apply_frame this] s2 have ta: "\<forall>x \<in> set ta. manifests_call x"
          and s3: "cs_HcloudCluster s3 = cs_HcloudCluster s" by auto
        note run = wp_run[where m = "ApplyManifestsWithClientConfig k ml mf c" and s = s2, OF app]
        show ?thesis
          using True urls lt st ta s3
          by (cases ra) (auto simp: applyManifests_def in_cluster_def wp_simps list found run \<open>lr = Ok ps\<close> Ok p
              apply_post_def listing search app setClusterStatus_def applied_def)
      qed (use True lt st s2 in \<open>auto simp: applyManifests_def in_cluster_def wp_simps list found \<open>lr = Ok ps\<close>
              apply_post_def listing search\<close>)
    qed
  qed (use lt s1 in \<open>simp_all add: applyManifests_def in_cluster_def wp_simps list apply_post_def listing\<close>)
qed

text \<open>An application that succeeds generated the documents for the parameters of the cluster and piped them into kubectl.\<close>

lemma ApplyManifests_run_wp:
  "wp (ApplyManifestsWithClientConfig k ml mf c) s (\<lambda>r t s'. r = Ok () \<longrightarrow>
     (\<exists>p pre w ta. outcome (manifestParameters k s) = Ok p \<and> t = pre @ ta \<and> apply_run ml mf c (ExtVar p) w ta))"
proof -
  obtain pr pt s1 where params: "manifestParameters k s = (pr, pt, s1)" by (metis prod_cases3)
  show ?thesis
    unfolding ApplyManifestsWithClientConfig_def wp_bindM wp_run[where m = "manifestParameters k" and s = s, OF params]
    by (cases pr) (auto simp: params outcome_def intro!: wp_mono[OF Manifests_Apply_wp])
qed

definition applied_by ::
    "'w KubeClient \<Rightarrow> 'w ManifestsLib \<Rightarrow> Manifests \<Rightarrow> ('w, 'x) ClusterScope_scheme \<Rightarrow> call list \<Rightarrow> bool" where
  "applied_by k ml mf s t \<longleftrightarrow> (\<exists>ps c p pre w ta. \<exists>sp :: ('w, 'x) ClusterScope_scheme.
     outcome (ListMachines k s) = Ok ps \<and> (\<exists>q \<in> set ps. api_server q) \<and> cluster_urls (cs_HcloudCluster s) c \<and>
     outcome (manifestParameters k sp) = Ok p \<and> t = pre @ ta \<and> apply_run ml mf c (ExtVar p) w ta)"

lemma apply_post_applied:
  assumes "apply_post k ml mf h s (Ok ()) t hc'"
  shows "applied_by k ml mf s t"
proof -
  obtain lr lt s1 where list: "ListMachines k s = (lr, lt, s1)" by (metis prod_cases3)
  with assms obtain ps where lr: "lr = Ok ps" by (cases lr) (auto simp: apply_post_def)
  obtain sr st s2 where search: "machine_search k [] ps s1 = (sr, st, s2)" by (metis prod_cases3)
  with assms list lr obtain found errs where sr: "sr = Ok (found, errs)" by (cases sr) (auto simp: apply_post_def)
  with assms list lr search obtain c where found: "found = Some c" by (cases found) (auto simp: apply_post_def)
  obtain ra ta s3 where app: "ApplyManifestsWithClientConfig k ml mf c s2 = (ra, ta, s3)" by (metis prod_cases3)
  from assms list lr search sr found app have run: "ListMachines k s = (Ok ps, lt, s1)"
    "machine_search k [] ps s1 = (Ok (Some c, errs), st, s2)" "\<exists>q \<in> set ps. api_server q"
    "cluster_urls (cs_HcloudCluster s) c" "ApplyManifestsWithClientConfig k ml mf c s2 = (Ok (), ta, s3)" "t = lt @ st @ ta"
    by (auto simp: apply_post_def)
  from wpD[OF ApplyManifests_run_wp run(5)] obtain p pre w tb where
    "outcome (manifestParameters k s2) = Ok p" "ta = pre @ tb" "apply_run ml mf c (ExtVar p) w tb" by auto
  with run have "outcome (ListMachines k s) = Ok ps \<and> (\<exists>q \<in> set ps. api_server q) \<and> cluster_urls (cs_HcloudCluster s) c \<and>
     outcome (manifestParameters k s2) = Ok p \<and> t = (lt @ st @ pre) @ tb \<and> apply_run ml mf c (ExtVar p) w tb"
    by (simp add: outcome_def)
  then show ?thesis unfolding applied_by_def by blast
qed

lemma apply_post_none:
  assumes "apply_post k ml mf h s r t hc'" and "outcome (ListMachines k s) = Ok ps" and "\<forall>p \<in> set ps. \<not> api_server p"
  shows "r = Err ErrNoReadyAPIServer"
proof -
  obtain lt s1 where list: "ListMachines k s = (Ok ps, lt, s1)"
    using assms(2) by (cases "ListMachines k s") (auto simp: outcome_def)
  have "machine_search k [] ps s1 = (Ok (None, []), [], s1)"
    by (simp add: machine_search_none[OF assms(3)] ret_def)
  with assms(1) list show ?thesis by (simp add: apply_post_def)
qed

lemma apply_post_found:
  assumes "apply_post k ml mf h s r t hc'" and "ListMachines k s = (Ok ps, lt, s1)"
    and "machine_search k [] ps s1 = (Ok (Some c, errs), st, s2)"
  shows "t = lt @ st @ calls (ApplyManifestsWithClientConfig k ml mf c s2) \<and>
     (r = Ok () \<longleftrightarrow> outcome (ApplyManifestsWithClientConfig k ml mf c s2) = Ok ())"
  using assms by (auto simp: apply_post_def outcome_def calls_def split: prod.splits)

definition up_to_date :: "string \<Rightarrow> HcloudCluster \<Rightarrow> bool" where
  "up_to_date h hc \<longleftrightarrow> (\<exists>m. hct_Manifests (hc_Status hc) = Some m \<and> cm_Initialized m = Some True \<and> cm_AppliedHash m = Some h)"

lemma up_to_date_iff:
  "up_to_date h hc \<longleftrightarrow> \<not> must_initialize (hct_Manifests (hc_Status hc)) \<and>
     Some h = Option.bind (hct_Manifests (hc_Status hc)) cm_AppliedHash"
  by (auto simp: up_to_date_def must_initialize_def split: option.splits)

lemma reconcileManifests_wp:
  fixes s :: "('w, 'x) ClusterScope_scheme"
  assumes "ManifestsHash k ml mf s = (Ok h, th, s1)"
  shows "wp (reconcileManifests k ml mf) s (\<lambda>r t s'.
     if up_to_date h (cs_HcloudCluster s) then r = Ok () \<and> t = th \<and> cs_HcloudCluster s' = cs_HcloudCluster s
     else \<exists>t'. t = th @ t' @ (if r = Ok () then [EventC EventTypeNormal ''ManifestsApplied''] else []) \<and>
       apply_post k ml mf h s1 r t' (cs_HcloudCluster s'))"
proof -
  from frame_run[OF ManifestsHash_frame assms] have s1: "cs_HcloudCluster s1 = cs_HcloudCluster s" by simp
  have announce: "wp (bindM (applyManifests k ml mf h) (\<lambda>_. Eventf EventTypeNormal ''ManifestsApplied'')) s1 (\<lambda>r t s'.
     \<exists>t'. t = t' @ (if r = Ok () then [EventC EventTypeNormal ''ManifestsApplied''] else []) \<and>
       apply_post k ml mf h s1 r t' (cs_HcloudCluster s'))"
    unfolding wp_bindM
    by (rule wp_mono[OF applyManifests_wp]) (auto simp: bind_post_def wp_simps s1 split: res.splits)
  show ?thesis
    unfolding reconcileManifests_def wp_bindM[of "ManifestsHash k ml mf"] wp_def[of "ManifestsHash k ml mf"] assms prod.case
      bind_post_simps wp_bindM[of "getsM _"] wp_getsM s1 append_Nil
    using announce by (auto simp: up_to_date_iff wp_simps s1 elim!: wp_mono split: if_splits)
qed

section \<open>The endpoint\<close>

definition with_manifests :: "HcloudClusterStatusManifests option \<Rightarrow> HcloudCluster \<Rightarrow> HcloudCluster" where
  "with_manifests m hc = hc\<lparr>hc_Status := (hc_Status hc)\<lparr>hct_Manifests := m\<rparr>\<rparr>"

lemma with_manifests_same: "with_manifests (hct_Manifests (hc_Status hc)) hc = hc"
  by (simp add: with_manifests_def)

lemma applied_with: "applied h hc = with_manifests (Some \<lparr>cm_Initialized = Some True, cm_AppliedHash = Some h\<rparr>) hc"
  by (simp add: applied_def set_applied_def with_manifests_def)

lemma reconcileManifests_only:
  fixes s :: "('w, 'x) ClusterScope_scheme"
  shows "wp (reconcileManifests k ml mf) s (\<lambda>r t s'. \<exists>m. cs_HcloudCluster s' = with_manifests m (cs_HcloudCluster s))"
proof -
  obtain hr th s1 where hash: "ManifestsHash k ml mf s = (hr, th, s1)" by (metis prod_cases3)
  from frame_run[OF ManifestsHash_frame this] have s1: "cs_HcloudCluster s1 = cs_HcloudCluster s" by simp
  show ?thesis
  proof (cases hr)
    case (Ok h)
    have same_or: "(\<exists>m. hc' = with_manifests m hc)" if "hc' = hc \<or> hc' = applied h hc" for hc' hc
      using that with_manifests_same applied_with by metis
    have "\<exists>m. hc' = with_manifests m (cs_HcloudCluster s)" if "apply_post k ml mf h s1 r t hc'" for r t hc'
      using that s1 by (intro same_or) (auto simp: apply_post_def split: if_splits)
    then show ?thesis
      using reconcileManifests_wp[OF hash[unfolded Ok]] same_or
      by (auto elim!: wp_mono split: if_splits)
  next
    case (Err e)
    with hash s1 with_manifests_same[of "cs_HcloudCluster s"] show ?thesis
      by (auto simp: reconcileManifests_def wp_def bindM_def intro: sym)
  next
    case (Panic p)
    with hash s1 with_manifests_same[of "cs_HcloudCluster s"] show ?thesis
      by (auto simp: reconcileManifests_def wp_def bindM_def intro: sym)
  qed
qed

lemma reconcileManager_only:
  "wp (reconcileTargetClusterManager k) s (\<lambda>r t s'. cs_HcloudCluster s' = cs_HcloudCluster s)"
proof -
  have "frame (\<lambda>_. True) cs_HcloudCluster (reconcileTargetClusterManager k)"
    unfolding reconcileTargetClusterManager_def newTargetClusterManager_def in_cluster_def closeM_def ClusterScope_ClientConfig_def
      client_defs Let_def
    by (intro frame_intros) simp_all
  from frame_wp[OF this] show ?thesis by (rule wp_mono) simp
qed

text \<open>The steps of a reconcile after the endpoint.\<close>

definition reconcile_guest :: "'w Env \<Rightarrow> 'w ManifestsLib \<Rightarrow> Manifests \<Rightarrow> (('w, 'x) ReconcilerScope_scheme, call, Result) M" where
  "reconcile_guest env ml mf =
     bindM (getsM (\<lambda>s. hc_Meta (cs_HcloudCluster s))) (\<lambda>meta.
     bindM (tryM (reconcileManifests (e_kube env) ml mf)) (\<lambda>manifests.
     case manifests of
       Inl err \<Rightarrow>
         if err = ErrNoReadyAPIServer then
           bindM (Eventf EventTypeNormal ''APIServerNotReady'') (\<lambda>_. ret (requeue_after (10 * Second)))
         else failM (ErrWrap (''failed to reconcile manifests for HcloudCluster '' @ om_Namespace meta @ ''/'' @ om_Name meta) err)
     | Inr _ \<Rightarrow>
         bindM (reconcileTargetClusterManager (e_kube env)) (\<lambda>_. ret no_Result)))"

lemma reconcile_guest_wp:
  fixes s :: "('w, 'x) ReconcilerScope_scheme"
  shows "wp (reconcile_guest env ml mf) s (\<lambda>r t s'. \<exists>m. cs_HcloudCluster s' = with_manifests m (cs_HcloudCluster s))"
proof -
  have mgr: "wp (bindM (reconcileTargetClusterManager (e_kube env)) (\<lambda>_. ret no_Result)) s1
      (\<lambda>r t s'. \<exists>m. cs_HcloudCluster s' = with_manifests m (cs_HcloudCluster s))"
    if "cs_HcloudCluster s1 = with_manifests m (cs_HcloudCluster s)" for s1 :: "('w, 'x) ReconcilerScope_scheme" and m
    unfolding wp_bindM
    by (rule wp_mono[OF reconcileManager_only]) (use that in \<open>auto simp: bind_post_def wp_simps split: res.splits\<close>)
  show ?thesis
    unfolding reconcile_guest_def wp_bindM[of "getsM _"] wp_getsM bind_post_simps wp_bindM[of "tryM _"] wp_tryM
    by (rule wp_mono[OF reconcileManifests_only])
      (use mgr in \<open>auto simp: try_post_def wp_simps split: res.splits\<close>)
qed

text \<open>What a reconcile makes of the endpoint: nothing, or the address and port of the load balancer where they are missing.\<close>

definition endpoint_post :: "HcloudCluster \<Rightarrow> bool \<Rightarrow> HcloudCluster \<Rightarrow> bool" where
  "endpoint_post hc finished hc' \<longleftrightarrow>
     (let old = hcs_ControlPlaneEndpoint (hc_Spec hc); new = hcs_ControlPlaneEndpoint (hc_Spec hc');
          ip = lbt_IPv4 (hct_ControlPlaneLoadBalancer (hc_Status hc'));
          defaulted = (\<exists>svc svcs. lbs_Services (hcs_ControlPlaneLoadBalancer (hc_Spec hc)) = svc # svcs \<and> hct_Ready (hc_Status hc') \<and>
            new = Some (default_endpoint ip (int32 (lss_DestinationPort svc)) old)) in
      defaulted \<or> \<not> (finished \<and> ip \<noteq> ''<nil>'') \<and> new = old \<and> hct_Ready (hc_Status hc') = hct_Ready (hc_Status hc))"

lemma endpoint_post_manifests: "endpoint_post hc f (with_manifests m hc') = endpoint_post hc f hc'"
  by (simp add: endpoint_post_def with_manifests_def Let_def)

lemma endpoint_post_unfinished: "endpoint_post hc f hc' \<Longrightarrow> endpoint_post hc False hc'"
  by (auto simp: endpoint_post_def Let_def)

lemma set_endpoint_wp:
  "cluster_frame s = cluster_frame s0 \<Longrightarrow>
   wp set_endpoint s (\<lambda>r t s'. t = [] \<and> endpoint_post (cs_HcloudCluster s0) (r = Ok ()) (cs_HcloudCluster s'))"
  by (auto simp: set_endpoint_def wp_simps Let_def endpoint_post_def scope_update_defs split: list.splits)

lemma reconcileNormal_wp:
  fixes s :: "('w, 'x) ReconcilerScope_scheme"
  shows "wp (cluster_reconcileNormal env ml mf) s (\<lambda>r t s'. endpoint_post (cs_HcloudCluster s) (is_ok r) (cs_HcloudCluster s'))"
proof -
  let ?hc = "cs_HcloudCluster s" and ?s0 = "setClusterMeta (AddFinalizer env ClusterFinalizer) s"
  have start: "endpoint_post ?hc f hc' = endpoint_post (cs_HcloudCluster ?s0) f hc'" for f hc'
    by (simp add: endpoint_post_def setClusterMeta_def)
  have same: "endpoint_post ?hc False (cs_HcloudCluster s1)" if "cluster_frame s1 = cluster_frame ?s0"
    for s1 :: "('w, 'x) ReconcilerScope_scheme"
    using that by (simp add: endpoint_post_def Let_def setClusterMeta_def)
  have guest: "wp (reconcile_guest env ml mf) s2 (\<lambda>r t s'. endpoint_post ?hc (is_ok r) (cs_HcloudCluster s'))"
    if "endpoint_post ?hc True (cs_HcloudCluster s2)" for s2 :: "('w, 'x) ReconcilerScope_scheme"
  proof -
    have "endpoint_post ?hc f (cs_HcloudCluster s2)" for f
      using that endpoint_post_unfinished[OF that] by (cases f) simp_all
    then show ?thesis by (auto simp: endpoint_post_manifests intro!: wp_mono[OF reconcile_guest_wp])
  qed
  have tail: "wp (bindM set_endpoint (\<lambda>_. reconcile_guest env ml mf)) s1
      (\<lambda>r t s'. endpoint_post ?hc (is_ok r) (cs_HcloudCluster s'))"
    if "cluster_frame s1 = cluster_frame ?s0" for s1 :: "('w, 'x) ReconcilerScope_scheme"
    unfolding wp_bindM
  proof (rule wp_mono[OF set_endpoint_wp[OF that]], elim conjE)
    fix r :: "unit res" and t :: "call list" and s2 :: "('w, 'x) ReconcilerScope_scheme"
    assume "endpoint_post (cs_HcloudCluster ?s0) (r = Ok ()) (cs_HcloudCluster s2)"
    then have "endpoint_post ?hc (r = Ok ()) (cs_HcloudCluster s2)" using start by simp
    then show "bind_post (\<lambda>_. reconcile_guest env ml mf) (\<lambda>r t s'. endpoint_post ?hc (is_ok r) (cs_HcloudCluster s')) r t s2"
      by (cases r) (auto intro: guest)
  qed
  show ?thesis
    unfolding cluster_reconcileNormal_def reconcile_guest_def[symmetric] wp_bindM[of "modifyM _"] wp_modifyM bind_post_simps
      wp_bindM[of "reconcile_infrastructure _"]
  proof (rule wp_mono[OF frame_wp[OF infrastructure_frame]], elim conjE)
    fix r :: "unit res" and t and s1 :: "('w, 'x) ReconcilerScope_scheme"
    assume "cluster_frame s1 = cluster_frame ?s0"
    then show "bind_post (\<lambda>_. bindM set_endpoint (\<lambda>_. reconcile_guest env ml mf))
        (\<lambda>r' t' s2. endpoint_post ?hc (is_ok r') (cs_HcloudCluster s2)) r t s1"
      using tail same by (cases r) auto
  qed
qed

section \<open>One reconcile\<close>

lemma wp_on_sys [wp_simps]:
  "wp (on_sys m) s Q = wp m (sys.truncate s) (\<lambda>r t s'. Q r t (s\<lparr>world := world s', packer := packer s'\<rparr>))"
  by (simp add: wp_def on_sys_def split: prod.splits)

lemma wp_in_reconciler [wp_simps]:
  "wp (in_reconciler scope m) s Q =
     wp m (ClusterScope.extend (scope\<lparr>world := world s, packer := packer s\<rparr>) (ReconcilerScope.fields (rc_managers s)))
       (\<lambda>r t s'. Q r t (s\<lparr>world := world s', packer := packer s', rc_managers := rs_managers s'\<rparr>))"
  by (simp add: wp_def in_reconciler_def split: prod.splits)

text \<open>
  The scope of a reconcile that found the object \<open>hc\<close> and left the world \<open>w\<close>: the one made for the
  owner that the API server then answers, an owner that is not paused.
\<close>

definition cluster_scope_of ::
    "'w Env \<Rightarrow> 'w Reconciler \<Rightarrow> HcloudCluster \<Rightarrow> 'w \<Rightarrow> 'w ReconcilerScope \<Rightarrow> bool" where
  "cluster_scope_of env s hc w scope \<longleftrightarrow> (\<exists>cluster w1 cs tn s1.
     k_GetOwnerCluster (e_kube env) (hc_Meta hc) w = (Inr (Some cluster), w1) \<and>
     \<not> k_IsPaused (e_kube env) cluster (hc_Meta hc) \<and>
     NewClusterScope env (Some cluster) (Some hc) \<lparr>world = w1, packer = packer s\<rparr> = (Ok cs, tn, s1) \<and>
     cs_Cluster cs = cluster \<and> cs_HcloudCluster cs = hc \<and> cs_patchHelper cs = hc \<and> world cs = world s1 \<and>
     scope = ClusterScope.extend cs (ReconcilerScope.fields (rc_managers s)))"

lemma cluster_scope_of_parts:
  assumes "cluster_scope_of env s hc w scope"
  shows "cs_HcloudCluster scope = hc" "cs_patchHelper scope = hc" "rs_managers scope = rc_managers s"
  using assms by (auto simp: cluster_scope_of_def ClusterScope.defs ReconcilerScope.defs)

definition cluster_run ::
    "'w Env \<Rightarrow> 'w ManifestsLib \<Rightarrow> Manifests \<Rightarrow> string \<Rightarrow> string \<Rightarrow> 'w Reconciler \<Rightarrow> HcloudCluster \<Rightarrow> 'w ReconcilerScope \<Rightarrow>
       Result res \<Rightarrow> call list \<Rightarrow> bool" where
  "cluster_run env ml mf ns name s hc scope r t \<longleftrightarrow>
     (\<exists>w s''. k_GetHcloudCluster (e_kube env) ns name (world s) = (Inr hc, w) \<and>
        cluster_scope_of env s hc w scope \<and> cluster_body env ml mf hc scope = (r, t, s''))"

lemma wp_eq: "wp m s P \<Longrightarrow> wp m s (\<lambda>r t s'. m s = (r, t, s') \<and> P r t s')"
  by (auto simp: wp_def split: prod.splits)

lemma NewClusterScope_made:
  fixes s :: "'w sys"
  shows "wp (NewClusterScope env (Some cluster) (Some hc)) s (\<lambda>r t s'.
     NewClusterScope env (Some cluster) (Some hc) s = (r, t, s') \<and> only_reads t \<and>
     (\<forall>cs. r = Ok cs \<longrightarrow> cs_Cluster cs = cluster \<and> cs_HcloudCluster cs = hc \<and> cs_patchHelper cs = hc \<and>
        world cs = world s' \<and> packer cs = packer s'))"
  by (rule wp_mono[OF wp_eq[OF NewClusterScope_wp]]) simp

lemma HcloudCluster_Reconcile_run:
  fixes s :: "'w Reconciler"
  shows "wp (HcloudCluster_Reconcile env ml mf ns name) s (\<lambda>r t s'. only_reads t \<or>
     (\<exists>hc scope t'. cluster_run env ml mf ns name s hc scope r t' \<and> reads_then t' t))"
proof -
  have body: "wp (cluster_body env ml mf hc) scope (\<lambda>r t s'. \<exists>s''. cluster_body env ml mf hc scope = (r, t, s''))"
    for hc and scope :: "'w ReconcilerScope"
    by (auto simp: wp_def split: prod.splits)
  have in_scope: "wp (in_reconciler cs (cluster_body env ml mf hc)) s1 (\<lambda>r t' s'.
     \<exists>hc' scope t''. cluster_run env ml mf ns name s hc' scope r t'' \<and> reads_then t''
       (KubeGetC ''HcloudCluster'' ns name # KubeGetC ''OwnerCluster'' (om_Namespace (hc_Meta hc)) (om_Name (hc_Meta hc)) # t @ t'))"
    if "k_GetHcloudCluster (e_kube env) ns name (world s) = (Inr hc, w)" "only_reads t"
      "k_GetOwnerCluster (e_kube env) (hc_Meta hc) w = (Inr (Some cluster), w1)" "\<not> k_IsPaused (e_kube env) cluster (hc_Meta hc)"
      "NewClusterScope env (Some cluster) (Some hc) \<lparr>world = w1, packer = packer s\<rparr> = (Ok cs, t, s2)"
      "cs_Cluster cs = cluster" "cs_HcloudCluster cs = hc" "cs_patchHelper cs = hc" "world cs = world s2" "packer cs = packer s2"
      "world s1 = world s2" "packer s1 = packer s2" "rc_managers s1 = rc_managers s"
    for hc w t cluster w1 cs s2 and s1 :: "'w Reconciler"
    unfolding wp_in_reconciler
  proof (rule wp_mono[OF body], elim exE)
    let ?scope = "ClusterScope.extend (cs\<lparr>world := world s1, packer := packer s1\<rparr>) (ReconcilerScope.fields (rc_managers s1))"
    fix r t' s''
    assume run: "cluster_body env ml mf hc ?scope = (r, t', s'')"
    have same: "cs\<lparr>world := world s1, packer := packer s1\<rparr> = cs" using that(9-12) by simp
    have "cluster_scope_of env s hc w ?scope"
      unfolding cluster_scope_of_def same that(13) using that by blast
    with that(1) run have "cluster_run env ml mf ns name s hc ?scope r t'"
      unfolding cluster_run_def by blast
    moreover have "reads_then t' (KubeGetC ''HcloudCluster'' ns name # KubeGetC ''OwnerCluster'' (om_Namespace (hc_Meta hc)) (om_Name (hc_Meta hc)) # t @ t')"
      unfolding reads_then_def using that(2)
      by (intro exI[of _ "KubeGetC ''HcloudCluster'' ns name # KubeGetC ''OwnerCluster'' (om_Namespace (hc_Meta hc)) (om_Name (hc_Meta hc)) # t"]) simp
    ultimately show "\<exists>hc' scope t''. cluster_run env ml mf ns name s hc' scope r t'' \<and> reads_then t'' (KubeGetC ''HcloudCluster'' ns name # KubeGetC ''OwnerCluster'' (om_Namespace (hc_Meta hc)) (om_Name (hc_Meta hc)) # t @ t')" by blast
  qed
  show ?thesis
    apply (simp add: HcloudCluster_Reconcile_def wp_simps client_defs wp_extcall ext_post_iff)
    apply (auto simp: wp_simps wp_extcall ext_post_iff split: option.splits)
    apply (rule wp_mono[OF NewClusterScope_made])
    apply (auto simp del: wp_in_reconciler simp: bind_post_def sys.defs split: res.splits)
    apply (rule wp_mono[OF in_scope])
                   apply (assumption | rule refl | simp)+
    done
qed

lemma ClusterScope_Close_wp:
  "wp (ClusterScope_Close k) s (\<lambda>r t s'. t = [PatchHcloudClusterC (cs_HcloudCluster s)])"
  by (simp add: ClusterScope_Close_def wp_def PatchHcloudCluster_def extcall_def split: prod.splits sum.splits)

lemma cluster_delete_body:
  assumes "om_DeletionTimestamp (hc_Meta (cs_HcloudCluster s)) \<noteq> None"
  shows "wp (cluster_body env ml mf (cs_HcloudCluster s)) s (\<lambda>r t s'.
     \<exists>t' obj. t = t' @ [PatchHcloudClusterC obj] \<and> deletion_phases env s t' obj)"
  using assms unfolding cluster_body_def wp_deferM
  by (auto intro!: wp_mono[OF reconcileDelete_wp] wp_mono[OF ClusterScope_Close_wp])

section \<open>Properties\<close>

text \<open>
  C3. A cluster that is being deleted loses its load balancer only when none of its machines is left,
  its network only after its load balancer is gone, and its finalizer only after its network is
  gone. In the scope made for the object and owner that the API server answered, the calls of a
  reconcile are reads and events, then calls on load balancers, then calls on networks, and
  the patch of the object last; the calls on load balancers start in the world in which the
  listings of machines showed none of the cluster, those on networks in the world in which the load
  balancer was settled, and the finalizer is given up only when those settled the network.
\<close>

theorem HcloudCluster_deletion_order:
  fixes env :: "'w Env"
  assumes "documented_finalizers env"
    and "HcloudCluster_Reconcile env ml mf ns name s = (r, t, s')"
    and "k_GetHcloudCluster (e_kube env) ns name (world s) = (Inr hc, w)"
    and "om_DeletionTimestamp (hc_Meta hc) \<noteq> None"
  shows "only_reads t \<or> (\<exists>scope :: 'w ReconcilerScope. \<exists>t0 t1 t2 obj wm wl. cluster_scope_of env s hc w scope \<and>
     t = t0 @ t1 @ t2 @ [PatchHcloudClusterC obj] \<and>
     (\<forall>x \<in> set t0. read_or_event x) \<and> (\<forall>x \<in> set t1. lb_call x) \<and> (\<forall>x \<in> set t2. network_call x) \<and>
     (t1 \<noteq> [] \<longrightarrow> machines_gone (e_kube env) scope wm) \<and>
     (t2 \<noteq> [] \<longrightarrow> t1 \<noteq> [] \<and> lb_settled (ClusterScope_HcloudClient env scope) scope t1 wm wl) \<and>
     (ClusterFinalizer \<in> set (om_Finalizers (hc_Meta hc)) - set (om_Finalizers (hc_Meta obj)) \<longrightarrow>
        t2 \<noteq> [] \<and> network_settled (ClusterScope_HcloudClient env scope) scope t2 wl))"
proof (cases "only_reads t")
  case False
  with wpD[OF HcloudCluster_Reconcile_run assms(2)] obtain hc' t' w' s'' and scope :: "'w ReconcilerScope" where
    got: "k_GetHcloudCluster (e_kube env) ns name (world s) = (Inr hc', w')"
    and scope': "cluster_scope_of env s hc' w' scope" and body: "cluster_body env ml mf hc' scope = (r, t', s'')"
    and t: "reads_then t' t"
    unfolding cluster_run_def by blast
  from t obtain tr where tr: "only_reads tr" "t = tr @ t'" by (auto simp: reads_then_def)
  from got assms(3) have same: "hc' = hc" "w' = w" by simp_all
  with scope' have scope: "cluster_scope_of env s hc w scope" and hc: "cs_HcloudCluster scope = hc"
    using cluster_scope_of_parts(1) by auto
  with assms(4) have "om_DeletionTimestamp (hc_Meta (cs_HcloudCluster scope)) \<noteq> None" by simp
  from wpD[OF cluster_delete_body[OF this]] body hc same obtain t2 obj where
    t2: "t' = t2 @ [PatchHcloudClusterC obj]" and "deletion_phases env scope t2 obj" by metis
  then obtain u0 u1 u2 wm wl where u: "t2 = u0 @ u1 @ u2" and ph: "\<forall>x \<in> set u0. read_or_event x" "\<forall>x \<in> set u1. lb_call x"
    "\<forall>x \<in> set u2. network_call x" "u1 \<noteq> [] \<longrightarrow> machines_gone (e_kube env) scope wm"
    "u2 \<noteq> [] \<longrightarrow> lb_settled (ClusterScope_HcloudClient env scope) scope u1 wm wl"
    and obj: "obj = hc \<or> obj = without_finalizer env hc \<and> network_settled (ClusterScope_HcloudClient env scope) scope u2 wl"
    unfolding deletion_phases_def hc by blast
  have "\<forall>x \<in> set (tr @ u0). read_or_event x"
    using ph(1) tr(1) by (auto simp: only_reads_def elim!: is_read.elims dest!: bspec)
  moreover have "t = (tr @ u0) @ u1 @ u2 @ [PatchHcloudClusterC obj]" by (simp add: tr t2 u)
  moreover have "u2 \<noteq> [] \<longrightarrow> u1 \<noteq> [] \<and> lb_settled (ClusterScope_HcloudClient env scope) scope u1 wm wl"
    using ph(5) by (auto dest: lb_settled_calls)
  moreover have "u2 \<noteq> [] \<and> network_settled (ClusterScope_HcloudClient env scope) scope u2 wl"
    if "ClusterFinalizer \<in> set (om_Finalizers (hc_Meta hc)) - set (om_Finalizers (hc_Meta obj))"
    using that obj by (auto dest: settled_calls)
  ultimately show ?thesis using ph(2-4) scope by blast
qed simp

definition example_deleted_cluster :: HcloudCluster where
  "example_deleted_cluster = example_HcloudCluster\<lparr>hc_Meta := (hc_Meta example_HcloudCluster)
     \<lparr>om_Finalizers := [ClusterFinalizer], om_DeletionTimestamp := Some 1\<rparr>\<rparr>"

definition example_cluster_env :: "HcloudCluster \<Rightarrow> unit Env" where
  "example_cluster_env hc = offline_env
     \<lparr>e_kube := example_cluster_kube\<lparr>k_GetHcloudCluster := \<lambda>_ _ w. (Inr hc, w),
        k_ListMachinesRaw := \<lambda>_ w. (Inr [], w), k_ListHcloudMachinesRaw := \<lambda>_ w. (Inr [], w),
        k_PatchHcloudCluster := \<lambda>_ _ w. (Inr (), w)\<rparr>,
      e_hcloud := \<lambda>token. offline_hcloud\<lparr>h_ListLoadBalancers := \<lambda>_ w. (Inr [], w), h_ListNetworks := \<lambda>_ w. (Inr [], w)\<rparr>\<rparr>"

definition example_reconciler :: "unit Reconciler" where
  "example_reconciler = sys.extend \<lparr>world = (), packer = fresh_packer\<rparr> (Reconciler.fields no_managers)"

lemma documented_example_cluster_env: "documented_finalizers (example_cluster_env hc)"
  using documented_offline_env by (simp add: example_cluster_env_def documented_finalizers_def)

lemma HcloudCluster_deletion_order_witness:
  "\<exists>scope :: unit ReconcilerScope. \<exists>t wm. cs_HcloudCluster scope = example_deleted_cluster \<and>
     machines_gone (e_kube (example_cluster_env example_deleted_cluster)) scope wm \<and>
     network_settled (ClusterScope_HcloudClient (example_cluster_env example_deleted_cluster) scope) scope t wm"
proof -
  let ?env = "example_cluster_env example_deleted_cluster"
  let ?run = "HcloudCluster_Reconcile ?env example_manifests_lib (New_Manifests []) ''default'' ''c1'' example_reconciler"
  let ?obj = "example_deleted_cluster\<lparr>hc_Meta := (hc_Meta example_deleted_cluster)\<lparr>om_Finalizers := []\<rparr>\<rparr>"
  obtain r t s' where run: "?run = (r, t, s')" by (metis prod_cases3)
  have patched: "last (calls ?run) = PatchHcloudClusterC ?obj" by code_simp
  have got: "k_GetHcloudCluster (e_kube ?env) ''default'' ''c1'' (world example_reconciler) = (Inr example_deleted_cluster, ())"
    by (simp add: example_cluster_env_def)
  have deleted: "om_DeletionTimestamp (hc_Meta example_deleted_cluster) \<noteq> None" by (simp add: example_deleted_cluster_def)
  have "\<not> only_reads (calls ?run)" by code_simp
  then have "\<not> only_reads t" by (simp add: run calls_def)
  with HcloudCluster_deletion_order[OF documented_example_cluster_env run got deleted]
  obtain t0 t1 t2 obj wm wl and scope :: "unit ReconcilerScope" where
    scope: "cluster_scope_of ?env example_reconciler example_deleted_cluster () scope" and
    t: "t = t0 @ t1 @ t2 @ [PatchHcloudClusterC obj]" and
    m: "t1 \<noteq> [] \<longrightarrow> machines_gone (e_kube ?env) scope wm" and
    l: "t2 \<noteq> [] \<longrightarrow> t1 \<noteq> [] \<and> lb_settled (ClusterScope_HcloudClient ?env scope) scope t1 wm wl" and
    n: "ClusterFinalizer \<in> set (om_Finalizers (hc_Meta example_deleted_cluster)) - set (om_Finalizers (hc_Meta obj)) \<longrightarrow>
        t2 \<noteq> [] \<and> network_settled (ClusterScope_HcloudClient ?env scope) scope t2 wl" by blast
  from t patched have "obj = ?obj" by (simp add: run calls_def)
  with n l m cluster_scope_of_parts(1)[OF scope] show ?thesis
    by (intro exI[of _ scope] exI[of _ t2] exI[of _ wl]) (auto simp: example_deleted_cluster_def)
qed

text \<open>
  C25. A reconcile of a cluster that is not being deleted never overwrites a requested host or port of
  the control plane endpoint: it leaves the endpoint and the readiness as they are, or makes the cluster ready and fills in
  what is missing, the address of the load balancer and the port of its first service as a 32-bit number.
  When it succeeds and the load balancer has an address, it does the latter.
\<close>

theorem cluster_endpoint_kept:
  assumes "cluster_reconcileNormal env ml mf s = (r, t, s')"
  shows "let hc = cs_HcloudCluster s; hc' = cs_HcloudCluster s';
       old = hcs_ControlPlaneEndpoint (hc_Spec hc); new = hcs_ControlPlaneEndpoint (hc_Spec hc');
       ip = lbt_IPv4 (hct_ControlPlaneLoadBalancer (hc_Status hc')) in
     (\<forall>ep. old = Some ep \<longrightarrow> (\<exists>ep'. new = Some ep' \<and>
        (ep_Host ep \<noteq> [] \<longrightarrow> ep_Host ep' = ep_Host ep) \<and> (ep_Port ep \<noteq> 0 \<longrightarrow> ep_Port ep' = ep_Port ep))) \<and>
     (new \<noteq> old \<longrightarrow> hct_Ready (hc_Status hc')) \<and>
     (is_ok r \<and> ip \<noteq> ''<nil>'' \<longrightarrow> hct_Ready (hc_Status hc') \<and>
        (\<exists>svc svcs. lbs_Services (hcs_ControlPlaneLoadBalancer (hc_Spec hc)) = svc # svcs \<and>
           new = Some (default_endpoint ip (int32 (lss_DestinationPort svc)) old)))"
  using wpD[OF reconcileNormal_wp assms]
  by (auto simp: endpoint_post_def Let_def default_endpoint_def split: if_splits)

definition example_live_env :: "unit Env" where
  "example_live_env = (example_cluster_env example_HcloudCluster)
     \<lparr>e_hcloud := \<lambda>token. (example_lb_client [example_lb])\<lparr>h_ListLocation := \<lambda>w. (Inr example_locations, w),
        h_ListNetworks := \<lambda>_ w. (Inr [example_network], w), h_AttachLoadBalancerToNetwork := \<lambda>_ _ w. (Inr (), w)\<rparr>\<rparr>"

definition example_live_scope :: "APIEndpoint option \<Rightarrow> unit ReconcilerScope" where
  "example_live_scope ep = ClusterScope.extend
     ((zero_ClusterScope ())\<lparr>cs_HcloudCluster := example_lb_cluster
        \<lparr>hc_Spec := (hc_Spec example_lb_cluster)\<lparr>hcs_Locations := [''nbg1''], hcs_ControlPlaneEndpoint := ep\<rparr>\<rparr>\<rparr>)
     (ReconcilerScope.fields no_managers)"

lemma cluster_endpoint_kept_witness:
  "\<exists>ep'. hcs_ControlPlaneEndpoint (hc_Spec (cs_HcloudCluster (final (cluster_reconcileNormal example_live_env example_manifests_lib
       (New_Manifests []) (example_live_scope (Some \<lparr>ep_Host = ''api.example'', ep_Port = 0\<rparr>)))))) = Some ep' \<and>
     ep_Host ep' = ''api.example'' \<and> ep_Port ep' \<noteq> 0"
proof -
  let ?s = "example_live_scope (Some \<lparr>ep_Host = ''api.example'', ep_Port = 0\<rparr>)"
  let ?run = "cluster_reconcileNormal example_live_env example_manifests_lib (New_Manifests []) ?s"
  obtain r t s' where run: "?run = (r, t, s')" by (metis prod_cases3)
  have "hcs_ControlPlaneEndpoint (hc_Spec (cs_HcloudCluster ?s)) = Some \<lparr>ep_Host = ''api.example'', ep_Port = 0\<rparr>"
    by (simp add: example_live_scope_def ClusterScope.defs)
  with cluster_endpoint_kept[OF run] obtain ep' where
    "hcs_ControlPlaneEndpoint (hc_Spec (cs_HcloudCluster s')) = Some ep'" "ep_Host ep' = ''api.example''"
    by (auto simp: Let_def)
  moreover have "map_option ep_Port (hcs_ControlPlaneEndpoint (hc_Spec (cs_HcloudCluster (final ?run)))) = Some 6443"
    by code_simp
  ultimately show ?thesis by (simp add: run final_def)
qed

text \<open>
  C12. Reconciling the manifests, once their hash is known: if the status says that manifests with this hash
  were applied nothing is done. Otherwise the machines are searched for an API server, that is a control
  plane machine with ready infrastructure and an external address, and when the search returns
  a client configuration the manifests are applied with it; the reconcile succeeds exactly when that
  does, and then, and only then, the status records the hash. So a reconcile that succeeds
  found an API server and piped the documents, generated for the parameters of the cluster, into
  kubectl, with a configuration whose servers are all the endpoint of the control plane. Without an API server the
  error says so. Failed health checks are never reported.
\<close>

theorem reconcileManifests_correct:
  assumes "ManifestsHash k ml mf s = (Ok h, th, s1)" and "reconcileManifests k ml mf s = (r, t, s')"
  shows "if up_to_date h (cs_HcloudCluster s) then r = Ok () \<and> t = th \<and> cs_HcloudCluster s' = cs_HcloudCluster s
     else \<exists>t'. t = th @ t' @ (if r = Ok () then [EventC EventTypeNormal ''ManifestsApplied''] else []) \<and>
       cs_HcloudCluster s' = (if r = Ok () then applied h (cs_HcloudCluster s) else cs_HcloudCluster s) \<and>
       (\<forall>ps lt s2 c errs st s3. ListMachines k s1 = (Ok ps, lt, s2) \<and>
          machine_search k [] ps s2 = (Ok (Some c, errs), st, s3) \<longrightarrow>
            t' = lt @ st @ calls (ApplyManifestsWithClientConfig k ml mf c s3) \<and>
            (r = Ok () \<longleftrightarrow> outcome (ApplyManifestsWithClientConfig k ml mf c s3) = Ok ())) \<and>
       (r = Ok () \<longrightarrow> applied_by k ml mf s1 t') \<and>
       (\<forall>ps. outcome (ListMachines k s1) = Ok ps \<and> (\<forall>p \<in> set ps. \<not> api_server p) \<longrightarrow> r = Err ErrNoReadyAPIServer) \<and>
       (\<forall>reason. EventC EventTypeWarning reason \<notin> set t)"
proof (cases "up_to_date h (cs_HcloudCluster s)")
  case True
  with wpD[OF reconcileManifests_wp[OF assms(1)] assms(2)] show ?thesis by simp
next
  case False
  from frame_run[OF ManifestsHash_frame assms(1)] have th: "\<forall>x \<in> set th. manifests_call x"
    and s1: "cs_HcloudCluster s1 = cs_HcloudCluster s" by auto
  from False wpD[OF reconcileManifests_wp[OF assms(1)] assms(2)] obtain t' where
    t: "t = th @ t' @ (if r = Ok () then [EventC EventTypeNormal ''ManifestsApplied''] else [])"
    and post: "apply_post k ml mf h s1 r t' (cs_HcloudCluster s')" by auto
  have "\<forall>reason. EventC EventTypeWarning reason \<notin> set t"
    using th post by (auto simp: t apply_post_def manifests_call_def)
  moreover have "cs_HcloudCluster s' = (if r = Ok () then applied h (cs_HcloudCluster s) else cs_HcloudCluster s)"
    using post s1 by (simp add: apply_post_def)
  ultimately show ?thesis
    using False t post apply_post_applied[of k ml mf h s1 t'] apply_post_none[OF post] apply_post_found[OF post]
    by (auto intro!: exI[of _ t'])
qed

definition example_applied_scope :: "string \<Rightarrow> unit ClusterScope" where
  "example_applied_scope h = (zero_ClusterScope ())\<lparr>cs_HcloudCluster := example_lb_cluster
     \<lparr>hc_Spec := (hc_Spec example_lb_cluster)\<lparr>hcs_ControlPlaneEndpoint := Some \<lparr>ep_Host = ''api'', ep_Port = 6443\<rparr>\<rparr>,
      hc_Status := (hc_Status example_lb_cluster)\<lparr>hct_Manifests := Some \<lparr>cm_Initialized = Some True, cm_AppliedHash = Some h\<rparr>\<rparr>\<rparr>\<rparr>"

text \<open>A cluster with one control plane machine, whose address is external.\<close>

definition example_manifests_kube :: "unit KubeClient" where
  "example_manifests_kube = offline_kube
     \<lparr>k_ListMachinesRaw := \<lambda>_ w. (Inr [zero_Machine\<lparr>m_ControlPlane := True, m_InfrastructureReady := True, m_InfrastructureRefName := ''m1'',
          m_InfrastructureRefGroupKind := ''HcloudMachine.cluster-api-provider-hcloud.capihc.com''\<rparr>], w),
      k_ListHcloudMachinesRaw := \<lambda>_ w. (Inr [zero_HcloudMachine\<lparr>hm_Meta := (hm_Meta zero_HcloudMachine)\<lparr>om_Name := ''m1''\<rparr>,
          hm_Status := (hm_Status zero_HcloudMachine)\<lparr>hmt_Addresses := [\<lparr>na_Type = NodeExternalIP, na_Address = ''1.2.3.4''\<rparr>]\<rparr>\<rparr>], w),
      k_ReadKubeconfig := \<lambda>_ _ w. (Inr [(''c1'', ''https://old'')], w)\<rparr>"

lemma reconcileManifests_correct_witness:
  "\<exists>s1 t'. applied_by example_manifests_kube example_manifests_lib (New_Manifests ''m'') (s1 :: unit ClusterScope) t' \<and>
     hct_Manifests (hc_Status (cs_HcloudCluster (final (reconcileManifests example_manifests_kube example_manifests_lib (New_Manifests ''m'')
       (example_applied_scope ''old''))))) = Some \<lparr>cm_Initialized = Some True, cm_AppliedHash = Some ''2''\<rparr>"
proof -
  let ?k = "example_manifests_kube" and ?ml = example_manifests_lib and ?mf = "New_Manifests ''m''"
    and ?s = "example_applied_scope ''old''"
  obtain hr th s1 where hash: "ManifestsHash ?k ?ml ?mf ?s = (hr, th, s1)" by (metis prod_cases3)
  moreover have "outcome (ManifestsHash ?k ?ml ?mf ?s) = Ok ''2''" by code_simp
  ultimately have hr: "hr = Ok ''2''" by (simp add: outcome_def)
  obtain r t s' where run: "reconcileManifests ?k ?ml ?mf ?s = (r, t, s')" by (metis prod_cases3)
  moreover have "outcome (reconcileManifests ?k ?ml ?mf ?s) = Ok ()" by code_simp
  ultimately have r: "r = Ok ()" by (simp add: outcome_def)
  have stale: "\<not> up_to_date ''2'' (cs_HcloudCluster ?s)"
    by (simp add: up_to_date_def example_applied_scope_def)
  from reconcileManifests_correct[OF hash[unfolded hr] run] stale obtain t' where
    "applied_by ?k ?ml ?mf s1 t'" and "cs_HcloudCluster s' = applied ''2'' (cs_HcloudCluster ?s)"
    by (auto simp: r)
  then show ?thesis
    by (intro exI[of _ s1] exI[of _ t']) (simp add: run final_def applied_def set_applied_def)
qed

end
