(* ===== verification/Block_Devices.thy ===== *)
theory Block_Devices
  imports Go_Lib
begin

text \<open>
  pkg/baremetal/baremetal.go, the choice of the disk: which block device of a bare metal server gets the
  operating system, given what \<^verbatim>\<open>lsblk\<close> prints, and the command that labels the partitions made
  on it. The size of a device is parsed as a 32-bit floating point number, computed exactly here.
  \<^verbatim>\<open>strconv.ParseFloat\<close> is modelled for decimal numbers with an optional exponent; hexadecimal
  numbers, infinities and NaN, which \<^verbatim>\<open>lsblk\<close> does not print, are errors here.

  The lemmas show which devices can be chosen, that a device with partitions is never chosen unless
  it is the one that carries the label, and that the label command makes a device the one that is
  chosen again.
\<close>

record blockDeviceData =
  bd_Name :: string
  bd_Size :: string
  bd_Rotation :: bool
  bd_Type :: string
  bd_Label :: string

text \<open>No \<open>children\<close> in the JSON text gives a nil slice, \<open>None\<close>, other than an empty list.\<close>

record blockDevice = blockDeviceData +
  bd_Children :: "blockDeviceData list option"

section \<open>Labelling\<close>

definition label_line :: "blockDeviceData \<Rightarrow> string" where
  "label_line child = ''e2label /dev/'' @ bd_Name child @ '' os'' @ [CHR 0x0A]"

definition labelChildrenCommand :: "blockDevice list \<Rightarrow> string \<Rightarrow> string res" where
  "labelChildrenCommand devices drive =
     (case find_last (\<lambda>d. drive = bd_Name d) devices of
        None \<Rightarrow> Err (ErrNew (''no device with name '' @ drive @ '' found''))
      | Some device \<Rightarrow> (case bd_Children device of
          None \<Rightarrow> Err (ErrNew (''no children for device with name '' @ drive @ '' found, instalimage did not work properly''))
        | Some children \<Rightarrow>
            let command = concat (map label_line children) in
            if command = [] then Panic ''slice bounds out of range: command[:-1]'' else Ok (butlast command)))"

section \<open>Sizes\<close>

text \<open>
  A decimal number: sign, mantissa, and the power of ten it is multiplied with.
\<close>

fun digits_of :: "int \<Rightarrow> string \<Rightarrow> int \<times> int \<times> string" where
  "digits_of acc [] = (acc, 0, [])"
| "digits_of acc (c # cs) = (case digit_val 10 c of
      None \<Rightarrow> (acc, 0, c # cs)
    | Some d \<Rightarrow> (case digits_of (acc * 10 + d) cs of (m, n, rest) \<Rightarrow> (m, n + 1, rest)))"

definition sign_of :: "string \<Rightarrow> bool \<times> string" where
  "sign_of s = (case s of
      c # cs \<Rightarrow> if c = CHR ''-'' then (True, cs) else if c = CHR ''+'' then (False, cs) else (False, s)
    | [] \<Rightarrow> (False, s))"

definition exponent_of :: "string \<Rightarrow> int option" where
  "exponent_of s = (case s of
      [] \<Rightarrow> Some 0
    | c # cs \<Rightarrow>
        if c = CHR ''e'' \<or> c = CHR ''E'' then
          (case sign_of cs of (neg, r) \<Rightarrow> (case digits_of 0 r of (e, n, rest) \<Rightarrow>
             if n = 0 \<or> rest \<noteq> [] then None else Some (if neg then - min e 10000 else min e 10000)))
        else None)"

definition parse_decimal :: "string \<Rightarrow> (bool \<times> int \<times> int) option" where
  "parse_decimal s =
     (case sign_of s of (neg, s1) \<Rightarrow>
      (case digits_of 0 s1 of (m1, n1, s2) \<Rightarrow>
       (case (case s2 of c # cs \<Rightarrow> if c = CHR ''.'' then digits_of m1 cs else (m1, 0, s2) | [] \<Rightarrow> (m1, 0, [])) of
          (m, n2, s3) \<Rightarrow>
            if n1 + n2 = 0 then None
            else map_option (\<lambda>e. (neg, m, e - n2)) (exponent_of s3))))"

text \<open>
  The nearest 32-bit floating point number of \<open>num / den\<close>, ties to even: a mantissa and a power of
  two. \<open>None\<close> is the range error.
\<close>

function bitlen :: "int \<Rightarrow> int" where
  "bitlen n = (if n \<le> 0 then 0 else 1 + bitlen (n div 2))"
  by pat_completeness auto
termination
  by (relation "measure nat") auto

declare bitlen.simps [simp del]

definition div_even :: "int \<Rightarrow> int \<Rightarrow> int" where
  "div_even a b = (let q = a div b; r = a mod b in if 2 * r > b \<or> 2 * r = b \<and> odd q then q + 1 else q)"

definition log2_floor :: "int \<Rightarrow> int \<Rightarrow> int" where
  "log2_floor num den = (let l = bitlen num - bitlen den in
     if (if l \<ge> 0 then num \<ge> den * 2 ^ nat l else num * 2 ^ nat (- l) \<ge> den) then l else l - 1)"

definition float32 :: "int \<Rightarrow> int \<Rightarrow> (int \<times> int) option" where
  "float32 num den =
     (if num = 0 then Some (0, 0)
      else let e = max (log2_floor num den - 23) (- 149);
               q = (if e \<ge> 0 then div_even num (den * 2 ^ nat e) else div_even (num * 2 ^ nat (- e)) den)
           in if e \<ge> 0 \<and> q * 2 ^ nat e \<ge> 2 ^ 128 then None else Some (q, e))"

definition ParseFloat32 :: "string \<Rightarrow> error + (bool \<times> int \<times> int)" where
  "ParseFloat32 s = (case parse_decimal s of
      None \<Rightarrow> Inl (ErrNew (''strconv.ParseFloat: parsing '' @ s @ '': invalid syntax''))
    | Some (neg, m, e) \<Rightarrow>
        (case float32 (if e \<ge> 0 then m * 10 ^ nat e else m) (if e \<ge> 0 then 1 else 10 ^ nat (- e)) of
           None \<Rightarrow> Inl (ErrNew (''strconv.ParseFloat: parsing '' @ s @ '': value out of range''))
         | Some (q, b) \<Rightarrow> Inr (neg, q, b)))"

text \<open>
  The product with the unit is exact, since it has at most 38 significant bits; the conversion truncates. A number
  that does not fit gives the smallest integer, as on amd64.
\<close>

definition to_int64 :: "int \<Rightarrow> int" where
  "to_int64 x = (if x < - (2 ^ 63) \<or> x \<ge> 2 ^ 63 then - (2 ^ 63) else x)"

definition scale_trunc :: "bool \<times> int \<times> int \<Rightarrow> int \<Rightarrow> int" where
  "scale_trunc z m = (case z of (neg, q, e) \<Rightarrow>
     let x = (if e \<ge> 0 then q * m * 2 ^ nat e else (q * m) div 2 ^ nat (- e)) in
     to_int64 (if neg then - x else x))"

definition unit_of :: "string \<Rightarrow> int option" where
  "unit_of s = (if HasSuffix s ''T'' then Some 1000000 else if HasSuffix s ''G'' then Some 1000
     else if HasSuffix s ''M'' then Some 1 else None)"

text \<open>The result of replacing commas by dots is not used.\<close>

definition convertSizeToInt :: "string \<Rightarrow> error + int" where
  "convertSizeToInt str = (case unit_of str of
      None \<Rightarrow> Inl (ErrNew (''Unknown unit in size '' @ str))
    | Some m \<Rightarrow> (case ParseFloat32 (butlast str) of
        Inl err \<Rightarrow> Inl (ErrNew (''Error while converting string '' @ butlast str @ '' to integer: '' @ Error err))
      | Inr z \<Rightarrow> Inr (scale_trunc z m)))"

section \<open>Choosing a device\<close>

record reducedBlockDevice =
  rd_Name :: string
  rd_Size :: int

definition has_children :: "blockDevice \<Rightarrow> bool" where
  "has_children d = (bd_Children d \<noteq> None \<and> HasPrefix (bd_Name d) ''sd'')"

definition labelled :: "blockDevice \<Rightarrow> bool" where
  "labelled d = (case bd_Children d of
      None \<Rightarrow> False
    | Some children \<Rightarrow> HasPrefix (bd_Name d) ''sd'' \<and> list_ex (\<lambda>c. bd_Label c = ''os'') children)"

definition empty_disk :: "blockDevice \<Rightarrow> bool" where
  "empty_disk d = (bd_Children d = None \<and> HasPrefix (bd_Name d) ''sd'')"

definition empty_ssd :: "blockDevice \<Rightarrow> bool" where
  "empty_ssd d = (bd_Children d = None \<and> HasPrefix (bd_Name d) ''sd'' \<and> bd_Rotation d = False)"

fun reduce_devices :: "blockDevice list \<Rightarrow> error + reducedBlockDevice list" where
  "reduce_devices [] = Inr []"
| "reduce_devices (device # ds) = (case convertSizeToInt (bd_Size device) of
      Inl _ \<Rightarrow> Inl (ErrNew (''Could not convert size '' @ bd_Size device @ '' to integer''))
    | Inr x \<Rightarrow> map_sum id (\<lambda>rest. \<lparr>rd_Name = bd_Name device, rd_Size = x\<rparr> # rest) (reduce_devices ds))"

text \<open>\<^verbatim>\<open>sort.SliceStable\<close> with the names in decreasing order.\<close>

definition sort_names_down :: "reducedBlockDevice list \<Rightarrow> reducedBlockDevice list" where
  "sort_names_down ds = rev (sort_key rd_Name (rev ds))"

definition smallest_device :: "reducedBlockDevice list \<Rightarrow> string" where
  "smallest_device reduced =
     (let reducedDevices = sort_key rd_Size reduced in
      if rd_Size (reducedDevices ! 0) < rd_Size (reducedDevices ! 1) then rd_Name (reducedDevices ! 0)
      else
        let filteredReducedDevices = filter (\<lambda>d. rd_Size d = rd_Size (reducedDevices ! 0)) reducedDevices in
        rd_Name (sort_names_down filteredReducedDevices ! 0))"

text \<open>
  When there is no empty SSD the list of the empty disks of any kind is made, and nothing is done with
  it: the drive is still the empty string.
\<close>

definition findCorrectDevice :: "blockDevice list \<Rightarrow> error + string" where
  "findCorrectDevice devices =
     (let numLabels = length (filter labelled devices);
          hasChildren = length (filter has_children devices);
          drive = (case find_last labelled devices of None \<Rightarrow> [] | Some device \<Rightarrow> bd_Name device) in
      if numLabels > 1 then
        Inl (ErrNew (''Found '' @ itoa (int numLabels) @ '' devices with the correct labels''))
      else if numLabels = 0 then
        (if hasChildren = length devices then
           Inl (ErrNew ''No device is left for installing the operating system'')
         else
           let filteredDevices = filter empty_ssd devices in
           if length filteredDevices = 0 then
             (let filteredDevices = filter empty_disk devices in Inr drive)
           else if length filteredDevices = 1 then Inr (bd_Name (filteredDevices ! 0))
           else (case reduce_devices filteredDevices of
               Inl err \<Rightarrow> Inl err
             | Inr reducedDevices \<Rightarrow> Inr (smallest_device reducedDevices)))
      else Inr drive)"

section \<open>What is chosen\<close>

lemma reduce_devices_Inr:
  "reduce_devices ds = Inr rs \<Longrightarrow>
   list_all2 (\<lambda>d r. rd_Name r = bd_Name d \<and> convertSizeToInt (bd_Size d) = Inr (rd_Size r)) ds rs"
proof (induction ds arbitrary: rs)
  case (Cons d ds)
  then obtain x rest where "convertSizeToInt (bd_Size d) = Inr x" and "reduce_devices ds = Inr rest"
    and "rs = \<lparr>rd_Name = bd_Name d, rd_Size = x\<rparr> # rest"
    by (cases "convertSizeToInt (bd_Size d)"; cases "reduce_devices ds") auto
  with Cons.IH show ?case by simp
qed simp

lemma sort_names_down_first:
  assumes "ds \<noteq> []"
  shows "sort_names_down ds ! 0 \<in> set ds" and "\<forall>d \<in> set ds. rd_Name d \<le> rd_Name (sort_names_down ds ! 0)"
proof -
  let ?s = "sort_key rd_Name (rev ds)"
  have ne: "?s \<noteq> []" using assms by (metis length_0_conv length_rev length_sort)
  then have first: "sort_names_down ds ! 0 = last ?s"
    unfolding sort_names_down_def by (metis hd_conv_nth hd_rev rev_is_Nil_conv)
  from ne have "last ?s \<in> set ds" by (metis last_in_set set_rev set_sort)
  then show "sort_names_down ds ! 0 \<in> set ds" by (simp only: first)
  have "sorted (map rd_Name ?s)" by simp
  then have "rd_Name (?s ! j) \<le> rd_Name (last ?s)" if "j < length ?s" for j
    using that ne by (simp add: last_conv_nth sorted_iff_nth_mono)
  then have "\<forall>d \<in> set ?s. rd_Name d \<le> rd_Name (last ?s)" by (metis in_set_conv_nth)
  then show "\<forall>d \<in> set ds. rd_Name d \<le> rd_Name (sort_names_down ds ! 0)" by (simp add: first)
qed

lemma smallest_device_correct:
  assumes "length rs \<ge> 2"
  shows "\<exists>d \<in> set rs. smallest_device rs = rd_Name d \<and> (\<forall>d' \<in> set rs. rd_Size d \<le> rd_Size d') \<and>
    (\<forall>d' \<in> set rs. rd_Size d' = rd_Size d \<longrightarrow> rd_Name d' \<le> rd_Name d)"
proof -
  let ?r = "sort_key rd_Size rs"
  have len: "length ?r \<ge> 2" using assms by simp
  have mono: "rd_Size (?r ! i) \<le> rd_Size (?r ! j)" if "i \<le> j" "j < length ?r" for i j
    using sorted_nth_mono[of "map rd_Size ?r" i j] that by (simp add: sorted_sort_key)
  have at: "\<exists>j < length ?r. ?r ! j = d'" if "d' \<in> set rs" for d'
    using that in_set_conv_nth[of d' ?r] by simp
  have minimal: "\<forall>d' \<in> set rs. rd_Size (?r ! 0) \<le> rd_Size d'"
    using mono[OF le0] at by blast
  have "?r ! 0 \<in> set ?r" by (rule nth_mem) (use len in linarith)
  then have mem: "?r ! 0 \<in> set rs" by simp
  show ?thesis
  proof (cases "rd_Size (?r ! 0) < rd_Size (?r ! 1)")
    case True
    have "d' = ?r ! 0" if "d' \<in> set rs" and "rd_Size d' = rd_Size (?r ! 0)" for d'
    proof -
      from at[OF that(1)] obtain j where j: "j < length ?r" "d' = ?r ! j" by blast
      with mono[of 1 j] True that(2) have "j = 0" by (cases j) auto
      with j show ?thesis by simp
    qed
    with True mem minimal show ?thesis by (intro bexI[of _ "?r ! 0"]) (auto simp: smallest_device_def Let_def)
  next
    case False
    let ?f = "filter (\<lambda>d. rd_Size d = rd_Size (?r ! 0)) ?r"
    have "?f \<noteq> []" using len by (auto simp: filter_empty_conv intro!: bexI[of _ "?r ! 0"] mem)
    from sort_names_down_first[OF this] have first: "sort_names_down ?f ! 0 \<in> set rs"
      "rd_Size (sort_names_down ?f ! 0) = rd_Size (?r ! 0)"
      "\<forall>d \<in> set rs. rd_Size d = rd_Size (?r ! 0) \<longrightarrow> rd_Name d \<le> rd_Name (sort_names_down ?f ! 0)"
      by auto
    have "smallest_device rs = rd_Name (sort_names_down ?f ! 0)" using False by (simp add: smallest_device_def Let_def)
    with first minimal show ?thesis by (intro bexI[of _ "sort_names_down ?f ! 0"]) auto
  qed
qed

text \<open>
  The order in which empty SSDs are preferred: the smaller one, and the later name among those of the same size.
\<close>

definition preferred :: "blockDevice \<Rightarrow> blockDevice \<Rightarrow> bool" where
  "preferred d d' \<longleftrightarrow> bd_Name d' = bd_Name d \<or> (case (convertSizeToInt (bd_Size d), convertSizeToInt (bd_Size d')) of
     (Inr x, Inr x') \<Rightarrow> x < x' \<or> x = x' \<and> bd_Name d' \<le> bd_Name d | _ \<Rightarrow> False)"

lemma chosen_ssd:
  assumes "reduce_devices ssds = Inr rs" and "length ssds \<ge> 2"
  shows "\<exists>d \<in> set ssds. smallest_device rs = bd_Name d \<and> (\<forall>d' \<in> set ssds. preferred d d')"
proof -
  note all2 = reduce_devices_Inr[OF assms(1)]
  have "length rs \<ge> 2" using assms(2) list_all2_lengthD[OF all2] by (simp only:)
  from smallest_device_correct[OF this] obtain r where r: "r \<in> set rs" "smallest_device rs = rd_Name r"
    "\<forall>r' \<in> set rs. rd_Size r \<le> rd_Size r'" "\<forall>r' \<in> set rs. rd_Size r' = rd_Size r \<longrightarrow> rd_Name r' \<le> rd_Name r" by blast
  from r(1) obtain i where i: "i < length rs" "rs ! i = r" by (metis in_set_conv_nth)
  have "i < length ssds" using i(1) list_all2_lengthD[OF all2] by (simp only:)
  then have d: "ssds ! i \<in> set ssds" "rd_Name r = bd_Name (ssds ! i)" "convertSizeToInt (bd_Size (ssds ! i)) = Inr (rd_Size r)"
    using list_all2_nthD2[OF all2 i(1)] i(2) nth_mem by blast+
  let ?d = "ssds ! i"
  have "preferred ?d d'" if "d' \<in> set ssds" for d'
  proof -
    from that obtain j where j: "j < length ssds" "ssds ! j = d'" by (metis in_set_conv_nth)
    then obtain r' where "r' \<in> set rs" "rd_Name r' = bd_Name d'" "convertSizeToInt (bd_Size d') = Inr (rd_Size r')"
      using list_all2_nthD[OF all2 j(1)] list_all2_lengthD[OF all2] nth_mem[of j rs] by metis
    moreover from this r have "rd_Size r < rd_Size r' \<or> rd_Size r = rd_Size r' \<and> bd_Name d' \<le> bd_Name ?d"
      using d(2) by (metis order_le_less)
    ultimately show ?thesis using d(3) by (simp add: preferred_def)
  qed
  with r(2) d(1,2) show ?thesis by (intro bexI[of _ ?d]) simp_all
qed

lemma find_last_filter:
  assumes "filter P xs = [x]"
  shows "find_last P xs = Some x"
proof -
  have only: "y \<in> set xs \<and> P y \<longleftrightarrow> y = x" for y using arg_cong[OF assms, of set] by auto
  then obtain y where y: "find_last P xs = Some y" using find_last_None[of P xs] by (cases "find_last P xs") auto
  with find_last_Some[OF y] only show ?thesis by simp
qed

lemma two_or_more:
  fixes n :: nat
  obtains (0) "n = 0" | (1) "n = 1" | (2) "n \<ge> 2"
  by linarith

lemma filter_one: "length (filter P xs) = 1 \<Longrightarrow> \<exists>x. filter P xs = [x]"
  by (cases "filter P xs") auto

section \<open>Properties\<close>

text \<open>No labelled device: a preferred one of the empty SSDs is chosen, if there is one.\<close>

lemma findCorrectDevice_unlabelled:
  assumes "filter labelled devices = []" and "findCorrectDevice devices = Inr drive"
  shows "if filter empty_ssd devices = [] then drive = []
    else \<exists>d \<in> set devices. drive = bd_Name d \<and> empty_ssd d \<and> (\<forall>d' \<in> set devices. empty_ssd d' \<longrightarrow> preferred d d')"
proof -
  let ?ssds = "filter empty_ssd devices"
  let ?best = "\<lambda>d. drive = bd_Name d \<and> empty_ssd d \<and> (\<forall>d' \<in> set devices. empty_ssd d' \<longrightarrow> preferred d d')"
  have last: "find_last labelled devices = None" using assms(1) by (auto simp: find_last_None filter_empty_conv)
  show ?thesis
  proof (cases "length ?ssds" rule: two_or_more)
    case 0
    with assms(2) assms(1) last show ?thesis by (auto simp: findCorrectDevice_def Let_def split: if_splits)
  next
    case 1
    then obtain d where d: "?ssds = [d]" using filter_one by blast
    from arg_cong[OF d, of set] have mem: "d' \<in> set devices \<and> empty_ssd d' \<longleftrightarrow> d' = d" for d'
      by auto
    have "drive = bd_Name d" using assms d by (auto simp: findCorrectDevice_def Let_def split: if_splits)
    moreover have "preferred d d'" if "d' \<in> set devices" "empty_ssd d'" for d'
      using that mem[of d'] by (auto simp: preferred_def)
    ultimately show ?thesis using mem[of d] d by auto
  next
    case 2
    with assms obtain rs where rs: "reduce_devices ?ssds = Inr rs" "drive = smallest_device rs"
      by (auto simp: findCorrectDevice_def Let_def split: if_splits sum.splits)
    from chosen_ssd[OF rs(1) 2] rs(2) obtain d where "d \<in> set ?ssds" "drive = bd_Name d" "\<forall>d' \<in> set ?ssds. preferred d d'"
      by auto
    then have "\<exists>d \<in> set devices. ?best d" by (intro bexI[of _ d]) simp_all
    with 2 show ?thesis by auto
  qed
qed

text \<open>
  C11. The device that is chosen for the operating system: the one that carries the label, if exactly one does. If none does, an empty
  SSD that is preferred to every other one; when there is no empty SSD but some device without partitions, the choice is the empty
  name. A device with partitions and without the label is never chosen.
\<close>

theorem findCorrectDevice_correct:
  assumes "findCorrectDevice devices = Inr drive"
  shows "(\<exists>d. filter labelled devices = [d] \<and> drive = bd_Name d) \<or>
     filter labelled devices = [] \<and>
     (if filter empty_ssd devices = [] then drive = []
      else \<exists>d \<in> set devices. drive = bd_Name d \<and> bd_Children d = None \<and> HasPrefix (bd_Name d) ''sd'' \<and> \<not> bd_Rotation d \<and>
        (\<forall>d' \<in> set devices. empty_ssd d' \<longrightarrow> preferred d d'))"
proof -
  consider (many) "length (filter labelled devices) > 1" | (one) "length (filter labelled devices) = 1"
    | (none) "filter labelled devices = []" by (cases "filter labelled devices") fastforce+
  then show ?thesis
  proof cases
    case many
    with assms show ?thesis by (simp add: findCorrectDevice_def Let_def)
  next
    case one
    then obtain d where d: "filter labelled devices = [d]" using filter_one by blast
    with assms find_last_filter[OF d] show ?thesis by (simp add: findCorrectDevice_def Let_def)
  next
    case none
    from findCorrectDevice_unlabelled[OF none assms] none show ?thesis by (auto simp: empty_ssd_def)
  qed
qed

definition example_disk :: "string \<Rightarrow> string \<Rightarrow> bool \<Rightarrow> blockDevice" where
  "example_disk name sz rota = \<lparr>bd_Name = name, bd_Size = sz, bd_Rotation = rota, bd_Type = [], bd_Label = [], bd_Children = None\<rparr>"

lemma findCorrectDevice_correct_witness:
  "findCorrectDevice [example_disk ''sda'' ''2T'' False, example_disk ''sdb'' ''2T'' False] = Inr ''sdb'' \<and>
   preferred (example_disk ''sdb'' ''2T'' False) (example_disk ''sda'' ''2T'' False)"
proof -
  let ?ds = "[example_disk ''sda'' ''2T'' False, example_disk ''sdb'' ''2T'' False]"
  have eq: "findCorrectDevice ?ds = Inr ''sdb''" by code_simp
  have "empty_ssd (example_disk ''sda'' ''2T'' False)" "\<not> labelled (example_disk n x r)" for n x r
    by (simp_all add: example_disk_def empty_ssd_def labelled_def HasPrefix_def)
  with findCorrectDevice_correct[OF eq] eq show ?thesis by (auto simp: example_disk_def)
qed

text \<open>
  The devices after the label command: every partition of the drive carries the label.
\<close>

definition relabelled :: "string \<Rightarrow> blockDevice list \<Rightarrow> blockDevice list" where
  "relabelled drive = map (\<lambda>d. if bd_Name d = drive
     then d\<lparr>bd_Children := map_option (map (\<lambda>c. c\<lparr>bd_Label := ''os''\<rparr>)) (bd_Children d)\<rparr> else d)"

text \<open>
  Labelling the partitions of a device makes it the one that is found again: when the label command of a SATA
  drive can be built, the names of the devices differ and no other device carries the label, then
  the choice among the devices with the labels set is that drive, whatever its size and kind.
\<close>

theorem label_roundtrip:
  assumes "labelChildrenCommand devices drive = Ok command"
    and "distinct (map bd_Name devices)" and "HasPrefix drive ''sd''"
    and "\<forall>d \<in> set devices. labelled d \<longrightarrow> bd_Name d = drive"
  shows "findCorrectDevice (relabelled drive devices) = Inr drive"
proof -
  from assms(1) obtain dev children where dev: "find_last (\<lambda>d. drive = bd_Name d) devices = Some dev"
    and ch: "bd_Children dev = Some children" "concat (map label_line children) \<noteq> []"
    by (auto simp: labelChildrenCommand_def Let_def split: option.splits if_splits)
  from find_last_Some[OF dev] have mem: "dev \<in> set devices" "bd_Name dev = drive" by auto
  have "children \<noteq> []" using ch by auto
  let ?f = "\<lambda>d. if bd_Name d = drive
     then d\<lparr>bd_Children := map_option (map (\<lambda>c. c\<lparr>bd_Label := ''os''\<rparr>)) (bd_Children d)\<rparr> else d"
  have lab: "labelled (?f d) \<longleftrightarrow> d = dev" if "d \<in> set devices" for d
  proof (cases "bd_Name d = drive")
    case True
    with mem that assms(2) have "d = dev" by (auto simp: distinct_map dest: inj_onD)
    with True ch \<open>children \<noteq> []\<close> assms(3) show ?thesis by (cases children) (auto simp: labelled_def)
  next
    case False
    with that assms(4) mem show ?thesis by auto
  qed
  have "filter (labelled \<circ> ?f) devices = filter (\<lambda>d. d = dev) devices"
    using lab by (auto intro: filter_cong)
  also have "\<dots> = [dev]"
    using mem(1) assms(2) by (induction devices) (auto simp: filter_empty_conv)
  finally have "filter labelled (relabelled drive devices) = [?f dev]"
    by (simp add: relabelled_def filter_map)
  with find_last_filter[OF this] mem(2) show ?thesis by (simp add: findCorrectDevice_def Let_def)
qed

lemma label_roundtrip_witness:
  "findCorrectDevice (relabelled ''sdb'' [example_disk ''sda'' ''2T'' False,
     (example_disk ''sdb'' ''4T'' True)\<lparr>bd_Children := Some [\<lparr>bd_Name = ''sdb1'', bd_Size = ''4T'', bd_Rotation = True, bd_Type = [], bd_Label = []\<rparr>]\<rparr>]) =
   Inr ''sdb''"
proof (rule label_roundtrip)
  let ?ds = "[example_disk ''sda'' ''2T'' False,
     (example_disk ''sdb'' ''4T'' True)\<lparr>bd_Children := Some [\<lparr>bd_Name = ''sdb1'', bd_Size = ''4T'', bd_Rotation = True, bd_Type = [], bd_Label = []\<rparr>]\<rparr>]"
  show "labelChildrenCommand ?ds ''sdb'' = Ok ''e2label /dev/sdb1 os''"
    by (simp add: labelChildrenCommand_def find_last_def example_disk_def label_line_def Let_def)
qed (simp_all add: example_disk_def HasPrefix_def labelled_def)

end
