(* ===== verification/Bare_Metal.thy ===== *)
theory Bare_Metal
  imports Block_Devices Scope_Build Frames Server_Service
begin

text \<open>
  pkg/scope/baremetal.go and pkg/baremetal/baremetal.go: bare metal servers, which exist already and are
  ordered elsewhere. The name of a server in the Robot API carries its state: \<^verbatim>\<open>type--...\<close> is free,
  \<^verbatim>\<open>cluster--type--machine\<close> is in use. Provisioning boots the rescue system, installs an image over
  SSH, and renames the server last; deletion only renames it.

  The clock, the dialling, the sleeping and the sessions of SSH, the check of a private key and the
  decoding of \<^verbatim>\<open>lsblk\<close>'s JSON are parameters, \<open>Host\<close>. An argument of \<^verbatim>\<open>errors.Errorf\<close> that the
  format does not use is printed by Go with its type, which is left out of the texts here.

  The lemmas show which calls an SSH command makes, and what the complete script of a provisioning is.
\<close>

section \<open>The scope: pkg/scope/baremetal.go\<close>

text \<open>The patch helper of the embedded cluster scope is replaced by one for the machine.\<close>

record 'w BareMetalMachineScope = "'w ClusterScope" +
  bs_Machine :: Machine
  bs_BareMetalMachine :: BareMetalMachine
  bs_patchHelper :: BareMetalMachine

definition NewBareMetalMachineScope ::
    "'w Env \<Rightarrow> Cluster option \<Rightarrow> HcloudCluster option \<Rightarrow> Machine option \<Rightarrow> BareMetalMachine option
       \<Rightarrow> ('w sys, call, 'w BareMetalMachineScope) M" where
  "NewBareMetalMachineScope env pc phc pm pbm =
     (case pm of
        None \<Rightarrow> failM (ErrNew ''failed to generate new scope from nil Machine'')
      | Some machine \<Rightarrow> (case pbm of
          None \<Rightarrow> failM (ErrNew ''failed to generate new scope from nil BareMetalMachine'')
        | Some bm \<Rightarrow>
            bindM (wrapM ''failed to init patch helper'' (NewClusterScope env pc phc)) (\<lambda>cs.
            bindM (NewHelper env ''BareMetalMachine'' (bm_Meta bm)) (\<lambda>_.
            ret (ClusterScope.extend cs (BareMetalMachineScope.fields machine bm bm))))))"

definition BareMetalMachineScope_Close ::
    "'w KubeClient \<Rightarrow> (('w, 'x) BareMetalMachineScope_scheme, call, unit) M" where
  "BareMetalMachineScope_Close k = (\<lambda>s. PatchBareMetalMachine k (bs_patchHelper s) (bs_BareMetalMachine s) s)"

definition BareMetal_PatchObject ::
    "'w KubeClient \<Rightarrow> (('w, 'x) BareMetalMachineScope_scheme, call, unit) M" where
  "BareMetal_PatchObject k = (\<lambda>s. PatchBareMetalMachine k (bs_patchHelper s) (bs_BareMetalMachine s) s)"

definition BareMetal_Name :: "('w, 'x) BareMetalMachineScope_scheme \<Rightarrow> string" where
  "BareMetal_Name s = om_Name (bm_Meta (bs_BareMetalMachine s))"

definition BareMetal_Namespace :: "('w, 'x) BareMetalMachineScope_scheme \<Rightarrow> string" where
  "BareMetal_Namespace s = om_Namespace (bm_Meta (bs_BareMetalMachine s))"

definition BareMetal_IsBootstrapDataReady :: "('w, 'x) BareMetalMachineScope_scheme \<Rightarrow> bool" where
  "BareMetal_IsBootstrapDataReady s = (m_DataSecretName (bs_Machine s) \<noteq> None)"

definition BareMetal_GetRawBootstrapData ::
    "'w KubeClient \<Rightarrow> (('w, 'x) BareMetalMachineScope_scheme, call, string) M" where
  "BareMetal_GetRawBootstrapData k =
     bindM (getsM id) (\<lambda>s.
     case m_DataSecretName (bs_Machine s) of
       None \<Rightarrow> failM ErrBootstrapDataNotReady
     | Some secretName \<Rightarrow>
         bindM (wrapM (''failed to retrieve bootstrap data secret for BareMetalMachine '' @ BareMetal_Namespace s @ ''/'' @ BareMetal_Name s)
                  (GetSecret k (BareMetal_Namespace s) secretName)) (\<lambda>data.
         case map_of data ''value'' of
           None \<Rightarrow> failM (ErrNew ''error retrieving bootstrap data: secret value key is missing'')
         | Some value \<Rightarrow> ret value))"

definition setBareMetalStatus ::
    "(BareMetalMachineStatus \<Rightarrow> BareMetalMachineStatus) \<Rightarrow> ('w, 'x) BareMetalMachineScope_scheme \<Rightarrow> ('w, 'x) BareMetalMachineScope_scheme" where
  "setBareMetalStatus f s =
     s\<lparr>bs_BareMetalMachine := (bs_BareMetalMachine s)\<lparr>bm_Status := f (bm_Status (bs_BareMetalMachine s))\<rparr>\<rparr>"

definition setBareMetalSpec ::
    "(BareMetalMachineSpec \<Rightarrow> BareMetalMachineSpec) \<Rightarrow> ('w, 'x) BareMetalMachineScope_scheme \<Rightarrow> ('w, 'x) BareMetalMachineScope_scheme" where
  "setBareMetalSpec f s =
     s\<lparr>bs_BareMetalMachine := (bs_BareMetalMachine s)\<lparr>bm_Spec := f (bm_Spec (bs_BareMetalMachine s))\<rparr>\<rparr>"

section \<open>SSH\<close>

text \<open>
  Times are nanoseconds since 1970. \<open>hs_Run\<close> answers that no session could be opened, on which
  the code panics, or the two outputs of the command and its error.
\<close>

record 'w Host =
  hs_Now :: "'w \<Rightarrow> int \<times> 'w"
  hs_ParsePrivateKey :: "string \<Rightarrow> error option"
  hs_Dial :: "string \<Rightarrow> int \<Rightarrow> string \<Rightarrow> 'w \<Rightarrow> (error + unit) \<times> 'w"
  hs_Sleep :: "int \<Rightarrow> 'w \<Rightarrow> 'w"
  hs_Run :: "string \<Rightarrow> string \<Rightarrow> 'w \<Rightarrow> (error + (string \<times> string \<times> error option)) \<times> 'w"
  hs_Unmarshal :: "blockDevice list \<Rightarrow> string \<Rightarrow> error + blockDevice list"

definition delimiter :: string where "delimiter = ''--''"
definition Hour :: int where "Hour = 3600 * Second"
definition hoursBeforeDeletion :: int where "hoursBeforeDeletion = 36"
definition maxWaitingTimeForSSHConnection :: nat where "maxWaitingTimeForSSHConnection = 200"
definition defaultPort :: int where "defaultPort = 22"
definition rateLimitTimeOut :: int where "rateLimitTimeOut = 660"
definition rateLimitTimeOutDeletion :: int where "rateLimitTimeOutDeletion = 120"

definition TimeNow :: "'w Host \<Rightarrow> (('w, 'x) sys_scheme, call, int) M" where
  "TimeNow h = extcall NowC (\<lambda>w. map_prod Inr id (hs_Now h w))"

definition TimeSleep :: "'w Host \<Rightarrow> int \<Rightarrow> (('w, 'x) sys_scheme, call, unit) M" where
  "TimeSleep h d = extcall (SleepC d) (\<lambda>w. (Inr (), hs_Sleep h d w))"

text \<open>
  The dialling loop with the number of attempts left and the error of the last one: \<open>None\<close> when
  connected, else that error, nil when there was no attempt.
\<close>

fun dial_loop :: "'w Host \<Rightarrow> string \<Rightarrow> int \<Rightarrow> string \<Rightarrow> nat \<Rightarrow> string \<Rightarrow> (('w, 'x) sys_scheme, call, string option) M" where
  "dial_loop h ip port key 0 lastError = ret (Some lastError)"
| "dial_loop h ip port key (Suc n) lastError =
     bindM (tryM (extcall (SshDialC ip port (15 * Second)) (hs_Dial h ip port key))) (\<lambda>dialled.
     case dialled of
       Inl err \<Rightarrow> bindM (TimeSleep h (30 * Second)) (\<lambda>_. dial_loop h ip port key n (Error err))
     | Inr _ \<Rightarrow> ret None)"

text \<open>The outputs and the error, as three results.\<close>

definition runSSH ::
    "'w Host \<Rightarrow> string \<Rightarrow> string \<Rightarrow> int \<Rightarrow> string \<Rightarrow> (('w, 'x) sys_scheme, call, string \<times> string \<times> error option) M" where
  "runSSH h command ip port privateSSHKey =
     (case hs_ParsePrivateKey h privateSSHKey of
        Some err \<Rightarrow> ret ([], [], Some (ErrNew (''unable to parse private key: '' @ Error err)))
      | None \<Rightarrow>
          bindM (dial_loop h ip port privateSSHKey (maxWaitingTimeForSSHConnection div 30) ''%!s(<nil>)'') (\<lambda>failed.
          case failed of
            Some err \<Rightarrow> ret ([], [], Some (ErrNew (''Unable to establish connection to remote server: '' @ err)))
          | None \<Rightarrow>
              bindM (tryM (extcall (SshRunC ip command) (hs_Run h ip command))) (\<lambda>session.
              case session of
                Inl err \<Rightarrow> panicM (Error err)
              | Inr result \<Rightarrow> ret result)))"

section \<open>Dates\<close>

text \<open>
  \<^verbatim>\<open>time.Parse("2006-01-02", ...)\<close> in nanoseconds since 1970, or an error, whose text is shortened.
\<close>

definition is_leap :: "int \<Rightarrow> bool" where
  "is_leap y = (y mod 4 = 0 \<and> (y mod 100 \<noteq> 0 \<or> y mod 400 = 0))"

definition days_in :: "int \<Rightarrow> int \<Rightarrow> int" where
  "days_in m y = (if m = 2 then (if is_leap y then 29 else 28) else if m \<in> {4, 6, 9, 11} then 30 else 31)"

definition days_before :: "int \<Rightarrow> int \<Rightarrow> int \<Rightarrow> int" where
  "days_before y m d =
     (let y1 = y - 1 in
      y1 * 365 + y1 div 4 - y1 div 100 + y1 div 400 + sum_list (map (\<lambda>i. days_in (int i) y) [1..<nat m]) + d - 719163)"

fun number_of :: "string \<Rightarrow> int option" where
  "number_of s = (if s = [] then None else foldl (\<lambda>acc c. case (acc, digit_val 10 c) of
     (Some n, Some d) \<Rightarrow> Some (n * 10 + d) | _ \<Rightarrow> None) (Some 0) s)"

definition ParseDate :: "string \<Rightarrow> error + int" where
  "ParseDate s =
     (let perr = Inl (ErrNew (''parsing time '' @ s @ '' as 2006-01-02'')) in
      if length s \<noteq> 10 \<or> s ! 4 \<noteq> CHR ''-'' \<or> s ! 7 \<noteq> CHR ''-'' then perr
      else (case (number_of (take 4 s), number_of (take 2 (drop 5 s)), number_of (drop 8 s)) of
          (Some y, Some m, Some d) \<Rightarrow>
            if m < 1 \<or> m > 12 \<or> d < 1 \<or> d > days_in m y then perr
            else Inr (days_before y m d * 24 * Hour)
        | _ \<Rightarrow> perr))"

definition ends_soon :: "'w Host \<Rightarrow> robot_Server \<Rightarrow> (('w, 'x) sys_scheme, call, bool) M" where
  "ends_soon h server =
     bindM (mapErrM (\<lambda>err. ErrNew (''ERROR: Failed to parse paidUntil date. Error: '' @ Error err))
              (liftM (ParseDate (bs_PaidUntil server)))) (\<lambda>paidUntil.
     bindM (TimeNow h) (\<lambda>now.
     ret (paidUntil < now + hoursBeforeDeletion * Hour)))"

section \<open>Servers\<close>

definition serverType :: "(('w, 'x) BareMetalMachineScope_scheme, call, string) M" where
  "serverType = bindM (getsM (\<lambda>s. bms_ServerType (bm_Spec (bs_BareMetalMachine s)))) (derefM ''Spec.ServerType'')"

text \<open>Whether the loop of \<open>listMatchingMachines\<close> keeps a server.\<close>

definition matches :: "'w Host \<Rightarrow> robot_Server \<Rightarrow> (('w, 'x) BareMetalMachineScope_scheme, call, bool) M" where
  "matches h server =
     (let splitName = Split (bs_ServerName server) delimiter in
      if length splitName = 2 then
        bindM serverType (\<lambda>ty.
        if splitName ! 0 \<noteq> ty then ret False
        else if \<not> bs_Cancelled server then ret True
        else bindM (ends_soon h server) (\<lambda>soon. ret (\<not> soon)))
      else if length splitName = 3 then
        bindM (getsM (\<lambda>s. cl_Name (cs_Cluster s))) (\<lambda>cluster.
        if splitName ! 0 \<noteq> cluster then ret False
        else bindM serverType (\<lambda>ty. ret (splitName ! 1 = ty)))
      else ret False)"

fun match_loop :: "'w Host \<Rightarrow> robot_Server list \<Rightarrow> (('w, 'x) BareMetalMachineScope_scheme, call, robot_Server list) M" where
  "match_loop h [] = ret []"
| "match_loop h (server # servers) =
     bindM (matches h server) (\<lambda>keep.
     bindM (match_loop h servers) (\<lambda>rest.
     ret (if keep then server # rest else rest)))"

definition listMatchingMachines ::
    "'w Host \<Rightarrow> 'w HrobotClient \<Rightarrow> (('w, 'x) BareMetalMachineScope_scheme, call, robot_Server list) M" where
  "listMatchingMachines h r =
     bindM (tryM (ListBMServers r)) (\<lambda>listed.
     case listed of
       Inl err \<Rightarrow>
         bindM serverType (\<lambda>_.
         bindM (Eventf EventTypeWarning ''ErrorListingBareMetalMachines'') (\<lambda>_.
         failM (ErrNew (''unable to list bare metal servers: '' @ Error err))))
     | Inr serverList \<Rightarrow> match_loop h serverList)"

definition attached_to :: "string \<Rightarrow> robot_Server \<Rightarrow> bool" where
  "attached_to name server = (let splitName = Split (bs_ServerName server) delimiter in
     length splitName = 3 \<and> splitName ! 2 = name)"

definition findAttachedMachine ::
    "robot_Server list \<Rightarrow> (('w, 'x) BareMetalMachineScope_scheme, call, robot_Server option) M" where
  "findAttachedMachine servers =
     bindM (getsM BareMetal_Name) (\<lambda>name.
     let check = length (filter (attached_to name) servers) in
     case find_last (attached_to name) servers of
       None \<Rightarrow> ret None
     | Some actualServer \<Rightarrow>
         if check > 1 then
           bindM (Eventf EventTypeWarning ''MultipleBareMetalMachines'') (\<lambda>_.
           failM (ErrNew (''There are %!s(int='' @ itoa (int check) @ '') servers which are attached to the cluster with name '' @
             bs_ServerName actualServer)))
         else ret (Some actualServer))"

definition findNewMachine ::
    "robot_Server list \<Rightarrow> (('w, 'x) BareMetalMachineScope_scheme, call, robot_Server) M" where
  "findNewMachine servers =
     (if length servers = 0 then
        bindM serverType (\<lambda>ty.
        bindM (Eventf EventTypeWarning ''EmptyListBareMetalMachines'') (\<lambda>_.
        failM (ErrNew (''No bare metal server found with type '' @ ty))))
      else (case find (\<lambda>server. length (Split (bs_ServerName server) delimiter) = 2) servers of
          Some server \<Rightarrow> ret server
        | None \<Rightarrow>
            bindM serverType (\<lambda>ty.
            bindM (Eventf EventTypeWarning ''NoAvailableBareMetalMachines'') (\<lambda>_.
            failM (ErrNew (''There are no available servers of type '' @ ty @ '' left''))))))"

definition checkRateLimitExceeded :: "error \<Rightarrow> bool" where
  "checkRateLimitExceeded err = Contains (Error err) ''rate limit exceeded''"

text \<open>The error of listing the keys is dropped: it looks like an empty list.\<close>

definition getSSHFingerprintFromName ::
    "'w HrobotClient \<Rightarrow> string \<Rightarrow> (('w, 'x) sys_scheme, call, string) M" where
  "getSSHFingerprintFromName r name =
     bindM (tryM (ListBMKeys r)) (\<lambda>listed.
     let sshKeys = (case listed of Inl _ \<Rightarrow> [] | Inr keys \<Rightarrow> keys) in
     if length sshKeys = 0 then failM (ErrNew ''No SSH Keys given'')
     else (case find_last (\<lambda>key. name = rk_Name key) sshKeys of
         None \<Rightarrow> failM (ErrNew (''No SSH key with name '' @ name @ '' found''))
       | Some key \<Rightarrow> ret (rk_Fingerprint key)))"

definition retrieveSSHSecret ::
    "'w KubeClient \<Rightarrow> (('w, 'x) BareMetalMachineScope_scheme, call, string \<times> string \<times> string) M" where
  "retrieveSSHSecret k =
     bindM (getsM id) (\<lambda>s.
     let ref = bms_SSHTokenRef (bm_Spec (bs_BareMetalMachine s)); ns = ClusterScope_Namespace s;
         tokenSecretName = ns @ ''/'' @ str_TokenName ref in
     bindM (token_secret k ns (str_TokenName ref)) (\<lambda>data.
     bindM (liftM (secret_key tokenSecretName data (str_PublicKey ref))) (\<lambda>publicKey.
     bindM (liftM (secret_key tokenSecretName data (str_PrivateKey ref))) (\<lambda>privateKey.
     bindM (liftM (secret_key tokenSecretName data (str_SSHKeyName ref))) (\<lambda>sshKeyName.
     ret (sshKeyName, publicKey, privateKey))))))"

section \<open>Provisioning\<close>

definition nl :: string where "nl = [CHR 0x0A]"

definition ssh_failed :: "string \<Rightarrow> error \<Rightarrow> string \<Rightarrow> error" where
  "ssh_failed command err stderr =
     ErrNew (''Error running the ssh command '' @ command @ '': Error: '' @ Error err @ '', stderr: '' @ stderr)"

definition ssh_returned :: "string \<Rightarrow> error \<Rightarrow> string \<Rightarrow> error" where
  "ssh_returned what err stderr =
     ErrNew (''SSH command '' @ what @ '' returned the error '' @ Error err @ ''. The output of stderr is '' @ stderr)"

definition ssh_lost :: "error \<Rightarrow> string \<Rightarrow> error" where
  "ssh_lost err stderr =
     ErrNew (''Connection to server after reboot could not be established. Error: '' @ Error err @ '', stderr: '' @ stderr)"

text \<open>
  A command whose failure ends the provisioning, after a clean-up, and the standard output of one that succeeds. The
  connection goes to port 22 with the private key.
\<close>

definition ssh_step ::
    "'w Host \<Rightarrow> string \<Rightarrow> string \<Rightarrow> (error \<Rightarrow> string \<Rightarrow> error) \<Rightarrow> (('w, 'x) sys_scheme, call, unit) M \<Rightarrow> string
       \<Rightarrow> (('w, 'x) sys_scheme, call, string) M" where
  "ssh_step h ip key failed undo command =
     bindM (runSSH h command ip defaultPort key) (\<lambda>(stdout, stderr, err).
     case err of
       Some e \<Rightarrow> bindM undo (\<lambda>_. failM (failed e stderr))
     | None \<Rightarrow> ret stdout)"

definition wipe :: "'w Host \<Rightarrow> string \<Rightarrow> string \<Rightarrow> string \<Rightarrow> (('w, 'x) sys_scheme, call, unit) M" where
  "wipe h ip key drive =
     bindM (runSSH h (''wipefs -a /dev/'' @ drive) ip defaultPort key) (\<lambda>_. ret ())"

definition reboot :: "'w Host \<Rightarrow> string \<Rightarrow> string \<Rightarrow> (('w, 'x) sys_scheme, call, unit) M" where
  "reboot h ip key =
     bindM (runSSH h ''reboot'' ip defaultPort key) (\<lambda>(stdout, stderr, err).
     case err of
       Some e \<Rightarrow>
         if \<not> Contains (Error e) ''exited without exit status or exit signal'' then
           failM (ssh_failed ''reboot'' e stderr)
         else ret ()
     | None \<Rightarrow> ret ())"

text \<open>The bootstrap data with the kubelet arguments of a joining node, as cloud-init text.\<close>

definition configure_join :: "KubeadmConfig \<Rightarrow> KubeadmConfig" where
  "configure_join kc = (case kc_JoinConfiguration kc of
      None \<Rightarrow> kc
    | Some j \<Rightarrow> kc\<lparr>kc_JoinConfiguration :=
        Some (j\<lparr>jc_KubeletExtraArgs := put_missing ''cloud-provider'' ''external'' (jc_KubeletExtraArgs j)\<rparr>)\<rparr>)"

definition cloud_init :: "Codec \<Rightarrow> 'w KubeClient \<Rightarrow> (('w, 'x) BareMetalMachineScope_scheme, call, string) M" where
  "cloud_init cd k =
     bindM (BareMetal_GetRawBootstrapData k) (\<lambda>userDataInitial.
     bindM (liftM (NewFromReader cd userDataInitial)) (\<lambda>userData.
     bindM (liftM (GetKubeadmConfig cd userData)) (\<lambda>kubeadmConfig.
     bindM (on_userdata (SetKubeadmConfig cd (configure_join kubeadmConfig)) userData) (\<lambda>userData'.
     mapErrM (\<lambda>err. ErrNew (''Error while writing yaml file%!(EXTRA '' @ Error err @ '')'')) (liftM (WriteYAML cd userData'))))))"

text \<open>The rescue system. The error of the reset is dropped.\<close>

definition start_rescue ::
    "'w Host \<Rightarrow> 'w HrobotClient \<Rightarrow> string \<Rightarrow> string \<Rightarrow> string \<Rightarrow> (('w, 'x) sys_scheme, call, unit) M" where
  "start_rescue h r ip sshFingerprint key =
     bindM (mapErrM (\<lambda>err. ErrNew (''Unable to activate rescue system: %!(EXTRA '' @ Error err @ '')''))
              (ActivateRescue r ip sshFingerprint)) (\<lambda>_.
     bindM (tryM (ResetBMServer r ip ''hw'')) (\<lambda>_.
     bindM (ssh_step h ip key (ssh_returned ''hostname'') (ret ()) ''hostname'') (\<lambda>stdout.
     if \<not> Contains stdout ''rescue'' then
       failM (ErrNew (''Rescue system not successfully started. Output of command hostname is '' @ stdout))
     else ret ())))"

definition blockDeviceCommand :: string where
  "blockDeviceCommand = ''lsblk -o name,size,rota,fstype,label -e1 -e7 --json''"

text \<open>The decoder is given what the variable holds, which it may reuse.\<close>

definition block_devices ::
    "'w Host \<Rightarrow> string \<Rightarrow> string \<Rightarrow> (('w, 'x) sys_scheme, call, unit) M \<Rightarrow> blockDevice list \<Rightarrow> (('w, 'x) sys_scheme, call, blockDevice list) M" where
  "block_devices h ip key undo before =
     bindM (ssh_step h ip key (ssh_failed blockDeviceCommand) undo blockDeviceCommand) (\<lambda>stdout.
     mapErrM (\<lambda>err. ErrNew (''Error while unmarshaling: '' @ Error err)) (liftM (hs_Unmarshal h before stdout)))"

definition autosetup :: "string \<Rightarrow> string \<Rightarrow> string \<Rightarrow> string \<Rightarrow> string" where
  "autosetup drive hostname partitions img =
     ''cat > /autosetup << EOF'' @ nl @ ''DRIVE1 /dev/'' @ drive @ nl @ ''BOOTLOADER grub'' @ nl @ ''HOSTNAME '' @ hostname @ nl @
     partitions @ nl @ ''IMAGE '' @ img @ nl @ ''EOF''"

definition partition_of :: "BareMetalMachineSpec \<Rightarrow> string" where
  "partition_of sp = (case bms_Partition sp of
      Some p \<Rightarrow> p | None \<Rightarrow> ''PART /boot ext3 512M'' @ nl @ ''PART / ext4 all'')"

definition attached_name :: "string \<Rightarrow> string \<Rightarrow> string \<Rightarrow> string" where
  "attached_name cluster ty machine = cluster @ delimiter @ ty @ delimiter @ machine"

definition installimage :: string where
  "installimage = ''bash /root/.oldroot/nfs/install/installimage''"

definition lift_res :: "'a res \<Rightarrow> ('s, 'c, 'a) M" where
  "lift_res x = (case x of Ok a \<Rightarrow> ret a | Err e \<Rightarrow> failM e | Panic p \<Rightarrow> panicM p)"

text \<open>From the first look at the block devices to the labels of the new partitions.\<close>

definition install_image ::
    "'w Host \<Rightarrow> string \<Rightarrow> string \<Rightarrow> (('w, 'x) BareMetalMachineScope_scheme, call, unit) M" where
  "install_image h ip key =
     bindM (block_devices h ip key (ret ()) []) (\<lambda>devices.
     bindM (mapErrM (\<lambda>err. ErrNew (''Error while finding correct device: '' @ Error err)) (liftM (findCorrectDevice devices))) (\<lambda>drive.
     bindM (getsM id) (\<lambda>s.
     bindM serverType (\<lambda>ty.
     bindM (derefM ''Spec.ImagePath'' (bms_ImagePath (bm_Spec (bs_BareMetalMachine s)))) (\<lambda>img.
     let hostname = attached_name (cl_Name (cs_Cluster s)) ty (BareMetal_Name s) in
     bindM (ssh_step h ip key (ssh_returned ''autosetup'') (ret ())
              (autosetup drive hostname (partition_of (bm_Spec (bs_BareMetalMachine s))) img)) (\<lambda>_.
     bindM (ssh_step h ip key (ssh_returned ''installimage'') (wipe h ip key drive) installimage) (\<lambda>_.
     bindM (block_devices h ip key (wipe h ip key drive) devices) (\<lambda>devices'.
     bindM (mapErrM (\<lambda>err. ErrNew (''Error while constructing labeling children command of device '' @ drive @ '': '' @ Error err))
              (lift_res (labelChildrenCommand devices' drive))) (\<lambda>command.
     bindM (ssh_step h ip key (ssh_failed command) (wipe h ip key drive) command) (\<lambda>_. ret ()))))))))))"

definition mkdir_nocloud :: string where
  "mkdir_nocloud = ''mkdir -p /var/lib/cloud/seed/nocloud''"

definition meta_data :: string where
  "meta_data = ''echo '' @ [CHR 0x27] @ ''instance-id: iid-system-uuid'' @ [CHR 0x27] @ '' >> /var/lib/cloud/seed/nocloud/meta-data''"

definition user_data :: "string \<Rightarrow> string" where
  "user_data cloudInit = ''cat > /var/lib/cloud/seed/nocloud/user-data << EOF'' @ nl @ cloudInit @ nl @ ''EOF''"

text \<open>From the first reboot into the installed system to the second one.\<close>

definition seed_cloud_init :: "'w Host \<Rightarrow> string \<Rightarrow> string \<Rightarrow> string \<Rightarrow> (('w, 'x) sys_scheme, call, unit) M" where
  "seed_cloud_init h ip key cloudInit =
     bindM (ssh_step h ip key (ssh_failed ''sleep 30'') (ret ()) ''sleep 30'') (\<lambda>_.
     bindM (reboot h ip key) (\<lambda>_.
     bindM (ssh_step h ip key ssh_lost (ret ()) ''sleep 60'') (\<lambda>_.
     bindM (ssh_step h ip key (ssh_failed mkdir_nocloud) (ret ()) mkdir_nocloud) (\<lambda>_.
     bindM (ssh_step h ip key (ssh_failed meta_data) (ret ()) meta_data) (\<lambda>_.
     bindM (ssh_step h ip key (ssh_failed (user_data cloudInit)) (ret ()) (user_data cloudInit)) (\<lambda>_.
     bindM (ssh_step h ip key ssh_lost (ret ()) ''sleep 30'') (\<lambda>_.
     reboot h ip key)))))))"

definition provisionMachine ::
    "Codec \<Rightarrow> 'w Host \<Rightarrow> 'w KubeClient \<Rightarrow> 'w HrobotClient \<Rightarrow> robot_Server \<Rightarrow> (('w, 'x) BareMetalMachineScope_scheme, call, unit) M" where
  "provisionMachine cd h k r server =
     (let ip = bs_ServerIP server in
      bindM (mapErrM (\<lambda>err. ErrNew (''Unable to retrieve SSH secret: %!(EXTRA '' @ Error err @ '')''))
               (retrieveSSHSecret k)) (\<lambda>(sshKeyName, _, privateSSHKey).
      bindM (mapErrM (\<lambda>err. ErrNew (''Unable to get SSH fingerprint for the SSH key '' @ sshKeyName @ '': '' @ Error err @ '' ''))
               (getSSHFingerprintFromName r sshKeyName)) (\<lambda>sshFingerprint.
      bindM (cloud_init cd k) (\<lambda>cloudInitConfigString.
      bindM (start_rescue h r ip sshFingerprint privateSSHKey) (\<lambda>_.
      bindM (install_image h ip privateSSHKey) (\<lambda>_.
      bindM (seed_cloud_init h ip privateSSHKey cloudInitConfigString) (\<lambda>_.
      bindM (getsM id) (\<lambda>s.
      bindM serverType (\<lambda>ty.
      bindM (mapErrM (\<lambda>err. ErrNew (''Unable to change bare metal server name: %!(EXTRA '' @ Error err @ '')''))
               (SetBMServerName r ip (attached_name (cl_Name (cs_Cluster s)) ty (BareMetal_Name s)))) (\<lambda>_.
      Eventf ''CreateBareMetalMachine'' ''Created bare metal machine %s''))))))))))"

section \<open>Reconcile and delete\<close>

definition rate_limited :: "int \<Rightarrow> (('w, 'x) sys_scheme, call, Result option) M" where
  "rate_limited timeout =
     bindM (Eventf EventTypeWarning ''HrobotRateLimitExceeded'') (\<lambda>_. ret (Some (requeue_after (timeout * Second))))"

text \<open>A cancelled server: a failure is recorded when it ends soon, and the reconcile goes on.\<close>

definition check_cancelled :: "'w Host \<Rightarrow> robot_Server \<Rightarrow> (('w, 'x) BareMetalMachineScope_scheme, call, unit) M" where
  "check_cancelled h actualServer =
     whenM (bs_Cancelled actualServer)
       (bindM (ends_soon h actualServer) (\<lambda>soon.
        whenM soon
          (bindM (Eventf EventTypeWarning ''CancelledBareMetalMachine'') (\<lambda>_.
           modifyM (setBareMetalStatus (\<lambda>st. st\<lparr>bmt_FailureReason := Some ''UpdateError'',
             bmt_FailureMessage := Some ''Machine has been cancelled and is paid until less than36nshours'',
             bmt_Ready := False\<rparr>))))))"

definition bare_metal_ready :: "robot_Server \<Rightarrow> (('w, 'x) BareMetalMachineScope_scheme, call, Result option) M" where
  "bare_metal_ready actualServer =
     bindM (modifyM (setBareMetalStatus (\<lambda>st. st\<lparr>bmt_ServerState := ''running''\<rparr>))) (\<lambda>_.
     bindM (modifyM (setBareMetalSpec (\<lambda>sp. sp\<lparr>bms_ProviderID := Some (''hcloud://'' @ itoa (bs_ServerNumber actualServer))\<rparr>))) (\<lambda>_.
     bindM (modifyM (setBareMetalStatus (\<lambda>st. st\<lparr>bmt_Ready := True\<rparr>))) (\<lambda>_.
     ret None)))"

definition attach_new ::
    "Codec \<Rightarrow> 'w Host \<Rightarrow> 'w KubeClient \<Rightarrow> 'w HrobotClient \<Rightarrow> robot_Server list
       \<Rightarrow> (('w, 'x) BareMetalMachineScope_scheme, call, Result option) M" where
  "attach_new cd h k r serverList =
     bindM (mapErrM (\<lambda>err. ErrNew (''Failed to find new machine: '' @ Error err)) (findNewMachine serverList)) (\<lambda>newServer.
     if bs_Status newServer \<noteq> ''ready'' then ret (Some (requeue_after (300 * Second)))
     else
       bindM (getsM BareMetal_IsBootstrapDataReady) (\<lambda>bootstrapped.
       if \<not> bootstrapped then ret (Some (requeue_after (15 * Second)))
       else
         bindM (modifyM (setBareMetalStatus (\<lambda>st. st\<lparr>bmt_ServerState := ''initializing''\<rparr>))) (\<lambda>_.
         bindM (tryM (provisionMachine cd h k r newServer)) (\<lambda>provisioned.
         case provisioned of
           Inl err \<Rightarrow>
             if checkRateLimitExceeded err then rate_limited rateLimitTimeOut
             else failM (ErrNew (''Failed to provision new machine: '' @ Error err))
         | Inr _ \<Rightarrow> bare_metal_ready newServer))))"

definition bare_metal_Reconcile ::
    "Codec \<Rightarrow> 'w Host \<Rightarrow> 'w KubeClient \<Rightarrow> 'w HrobotClient \<Rightarrow> (('w, 'x) BareMetalMachineScope_scheme, call, Result option) M" where
  "bare_metal_Reconcile cd h k r =
     bindM (getsM id) (\<lambda>s.
     if hcs_HrobotTokenRef (hc_Spec (cs_HcloudCluster s)) = None then
       bindM (Eventf EventTypeWarning ''NoTokenFound'') (\<lambda>_.
       failM (ErrNew (''ERROR: No token for Hetzner Robot provided: Cannot reconcile server '' @ BareMetal_Name s)))
     else
       bindM (tryM (listMatchingMachines h r)) (\<lambda>listed.
       case listed of
         Inl err \<Rightarrow>
           if checkRateLimitExceeded err then rate_limited rateLimitTimeOut
           else failM (ErrWrap ''failed to list machines'' err)
       | Inr serverList \<Rightarrow>
           bindM (wrapM ''failed to find attached machine'' (findAttachedMachine serverList)) (\<lambda>found.
           case found of
             Some actualServer \<Rightarrow>
               bindM (check_cancelled h actualServer) (\<lambda>_. bare_metal_ready actualServer)
           | None \<Rightarrow> attach_new cd h k r serverList)))"

definition freed_name :: "string \<Rightarrow> string \<Rightarrow> string" where
  "freed_name ty machine = ty @ delimiter @ ''unused-'' @ machine"

definition bare_metal_Delete ::
    "'w Host \<Rightarrow> 'w HrobotClient \<Rightarrow> (('w, 'x) BareMetalMachineScope_scheme, call, Result option) M" where
  "bare_metal_Delete h r =
     bindM (tryM (listMatchingMachines h r)) (\<lambda>listed.
     case listed of
       Inl err \<Rightarrow>
         if checkRateLimitExceeded err then rate_limited rateLimitTimeOutDeletion
         else failM (ErrWrap ''failed to refresh server status'' err)
     | Inr serverList \<Rightarrow>
         bindM (tryM (findAttachedMachine serverList)) (\<lambda>found.
         case found of
           Inl err \<Rightarrow>
             if checkRateLimitExceeded err then rate_limited rateLimitTimeOutDeletion
             else failM (ErrWrap ''failed to find attached machine'' err)
         | Inr None \<Rightarrow>
             bindM (Eventf ''UnknownBareMetalMachine'' ''No machine with name %s found to delete'') (\<lambda>_. ret None)
         | Inr (Some server) \<Rightarrow>
             bindM serverType (\<lambda>ty.
             bindM (getsM BareMetal_Name) (\<lambda>name.
             bindM (mapErrM (\<lambda>err. ErrNew (''Unable to change bare metal server name: %!(EXTRA '' @ Error err @ '')''))
                      (SetBMServerName r (bs_ServerIP server) (freed_name ty name))) (\<lambda>_.
             ret None)))))"
section \<open>One command\<close>

definition failed_dials :: "nat \<Rightarrow> string \<Rightarrow> int \<Rightarrow> call list" where
  "failed_dials n ip port = concat (replicate n [SshDialC ip port (15 * Second), SleepC (30 * Second)])"

lemma failed_dials_simps [simp]:
  "failed_dials 0 ip port = []"
  "failed_dials (Suc n) ip port = SshDialC ip port (15 * Second) # SleepC (30 * Second) # failed_dials n ip port"
  by (simp_all add: failed_dials_def)

lemma dial_loop_wp:
  "wp (dial_loop h ip port key n err) s (\<lambda>r t s'. (\<exists>w. s' = s\<lparr>world := w\<rparr>) \<and>
     ((\<exists>e. r = Ok (Some e)) \<and> t = failed_dials n ip port \<or>
      (\<exists>m < n. r = Ok None \<and> t = failed_dials m ip port @ [SshDialC ip port (15 * Second)])))"
proof (induction n arbitrary: s err)
  case 0
  then show ?case by (auto simp: wp_simps intro: exI[of _ "world s"])
next
  case (Suc n)
  show ?case
  proof (cases "hs_Dial h ip port key (world s)")
    case (Pair a w)
    show ?thesis
    proof (cases a)
      case (Inl e)
      with Pair show ?thesis
        apply (simp add: wp_simps wp_extcall TimeSleep_def)
        apply (rule wp_mono[OF Suc.IH])
        apply (elim conjE exE disjE)
        subgoal for r t s' w' e' by (simp add: exI[of _ w'])
        subgoal for r t s' w' m
          by (rule conjI, rule exI[of _ w'], simp, rule disjI2, rule exI[of _ "Suc m"], simp)
        done
    next
      case (Inr u)
      with Pair show ?thesis by (auto simp: wp_simps wp_extcall)
    qed
  qed
qed

definition ran_command :: "'w Host \<Rightarrow> string \<Rightarrow> string \<Rightarrow> string \<times> string \<times> error option \<Rightarrow> bool" where
  "ran_command h ip command x = (\<exists>w w'. hs_Run h ip command w = (Inr x, w'))"

lemma runSSH_wp:
  "wp (runSSH h command ip port key) s (\<lambda>r t s'. (\<exists>w. s' = s\<lparr>world := w\<rparr>) \<and>
     (\<exists>n. (\<exists>e. r = Ok ([], [], Some e)) \<and> t = failed_dials n ip port \<and>
            n = (if hs_ParsePrivateKey h key = None then 6 else 0) \<or>
          n < 6 \<and> t = failed_dials n ip port @ [SshDialC ip port (15 * Second), SshRunC ip command] \<and>
            ((\<exists>x. r = Ok x \<and> ran_command h ip command x) \<or> (\<exists>p. r = Panic p))))"
proof (cases "hs_ParsePrivateKey h key")
  case None
  have run: "wp (extcall (SshRunC ip command) (hs_Run h ip command)) s1 (\<lambda>r t s'. (\<exists>w. s' = s1\<lparr>world := w\<rparr>) \<and>
      t = [SshRunC ip command] \<and> ((\<exists>x. r = Ok x \<and> ran_command h ip command x) \<or> (\<exists>e. r = Err e)))"
    for s1 :: "('a, 'b) sys_scheme"
    by (auto simp: wp_extcall ext_post_iff ran_command_def)
  show ?thesis
    unfolding runSSH_def None option.case maxWaitingTimeForSSHConnection_def
    apply (simp only: wp_bindM)
    apply (rule wp_mono[OF dial_loop_wp])
    apply (elim conjE exE disjE)
    subgoal for r t s' w e
      by (simp only: bind_post_simps option.case wp_ret append_Nil2, rule conjI, rule exI[of _ w], simp,
        rule exI[of _ 6], rule disjI1, simp)
    subgoal for r t s' w n
      apply (simp add: wp_bindM wp_tryM)
      apply (rule wp_mono[OF run])
      apply (elim conjE exE disjE)
      subgoal for r1 t1 s1 w1 x
        by (simp add: wp_simps) (rule exI[of _ n], cases x, simp)
      subgoal for r1 t1 s1 w1 e
        by (simp add: wp_simps) (rule exI[of _ n], simp)
      done
    done
next
  case (Some e)
  then show ?thesis by (auto simp: runSSH_def wp_simps intro: exI[of _ "world s"])
qed
text \<open>
  C17. A command over SSH ends after at most six attempts to connect, each failed one followed by a pause of
  thirty seconds, so that the pauses add up to no more than the 200 seconds of the configuration. Each attempt has a
  timeout of fifteen seconds for the connection. The command itself is run at most once, last, and only right after a connection succeeded; then the outcome
  is what the session answered, or the panic of a session that could not be opened. In every other case nothing
  is run and an error is returned, with no attempt at all for a private key that cannot be parsed. Only the
  outside world changes.
\<close>

theorem runSSH_bounds:
  "case runSSH h command ip port key s of (r, t, s') \<Rightarrow>
     (\<exists>n. int n * 30 \<le> int maxWaitingTimeForSSHConnection \<and>
        (t = failed_dials n ip port @ [SshDialC ip port (15 * Second), SshRunC ip command] \<and> n < 6 \<and>
           ((\<exists>x. r = Ok x \<and> ran_command h ip command x) \<or> (\<exists>p. r = Panic p)) \<or>
         t = failed_dials n ip port \<and> n = (if hs_ParsePrivateKey h key = None then 6 else 0) \<and>
           (\<exists>e. r = Ok ([], [], Some e)))) \<and>
     (\<exists>w. s' = s\<lparr>world := w\<rparr>)"
proof -
  obtain r t s' where eq: "runSSH h command ip port key s = (r, t, s')" by (cases "runSSH h command ip port key s")
  from wpD[OF runSSH_wp eq] obtain n where s': "\<exists>w. s' = s\<lparr>world := w\<rparr>"
    and n: "(\<exists>e. r = Ok ([], [], Some e)) \<and> t = failed_dials n ip port \<and>
            n = (if hs_ParsePrivateKey h key = None then 6 else 0) \<or>
          n < 6 \<and> t = failed_dials n ip port @ [SshDialC ip port (15 * Second), SshRunC ip command] \<and>
            ((\<exists>x. r = Ok x \<and> ran_command h ip command x) \<or> (\<exists>p. r = Panic p))" by blast
  from n have "n \<le> 6" by (auto split: if_splits)
  then have "int n * 30 \<le> int maxWaitingTimeForSSHConnection" by (simp add: maxWaitingTimeForSSHConnection_def)
  with s' n show ?thesis unfolding eq by blast
qed

section \<open>Provisioning\<close>

text \<open>The calls that act on a server, and the one that renames it.\<close>

fun acts_on_server :: "call \<Rightarrow> bool" where
  "acts_on_server (ActivateRescueC _ _) = True"
| "acts_on_server (ResetBMServerC _ _) = True"
| "acts_on_server (SetBMServerNameC _ _) = True"
| "acts_on_server (SshRunC _ _) = True"
| "acts_on_server _ = False"

fun renames :: "call \<Rightarrow> bool" where
  "renames (SetBMServerNameC _ _) = True"
| "renames _ = False"

text \<open>
  \<open>performs m s R\<close>: \<open>m\<close> renames no server, and when it succeeds it changed only the outside world, and its value and
  the calls that act on a server are in \<open>R\<close>.
\<close>

definition performs ::
    "(('w, 'x) sys_scheme, call, 'a) M \<Rightarrow> ('w, 'x) sys_scheme \<Rightarrow> ('a \<Rightarrow> call list \<Rightarrow> bool) \<Rightarrow> bool" where
  "performs m s R \<longleftrightarrow> wp m s (\<lambda>r t s'. (\<forall>x \<in> set t. \<not> renames x) \<and>
     (\<forall>a. r = Ok a \<longrightarrow> R a (filter acts_on_server t) \<and> (\<exists>w. s' = s\<lparr>world := w\<rparr>)))"

lemma performs_bindM:
  assumes "performs m s R" and "\<And>a cs w. R a cs \<Longrightarrow> performs (f a) (s\<lparr>world := w\<rparr>) (\<lambda>b cs'. R' b (cs @ cs'))"
  shows "performs (bindM m f) s R'"
  unfolding performs_def wp_bindM
proof (rule wp_mono[OF assms(1)[unfolded performs_def]])
  fix r t s1
  assume *: "(\<forall>x \<in> set t. \<not> renames x) \<and> (\<forall>a. r = Ok a \<longrightarrow> R a (filter acts_on_server t) \<and> (\<exists>w. s1 = s\<lparr>world := w\<rparr>))"
  show "bind_post f (\<lambda>r t s'. (\<forall>x \<in> set t. \<not> renames x) \<and>
     (\<forall>b. r = Ok b \<longrightarrow> R' b (filter acts_on_server t) \<and> (\<exists>w. s' = s\<lparr>world := w\<rparr>))) r t s1"
  proof (cases r)
    case (Ok a)
    with * obtain w where s1: "s1 = s\<lparr>world := w\<rparr>" and R: "R a (filter acts_on_server t)" by blast
    show ?thesis
      unfolding Ok bind_post_simps s1
      by (rule wp_mono[OF assms(2)[OF R, unfolded performs_def]]) (use * in auto)
  qed (use * in auto)
qed

lemma performs_mapErrM: "performs m s R \<Longrightarrow> performs (mapErrM g m) s R"
  unfolding performs_def wp_mapErrM by (erule wp_mono) auto

lemma performs_mono: "performs m s R \<Longrightarrow> (\<And>a cs. R a cs \<Longrightarrow> R' a cs) \<Longrightarrow> performs m s R'"
  unfolding performs_def by (erule wp_mono) auto

lemma sys_world_same: "(s\<lparr>world := world s\<rparr> :: ('w, 'x) sys_scheme) = s"
  by simp

lemma performs_pure:
  "performs (ret a) s R = R a []" "performs (failM e) s R" "performs (panicM msg) s R"
  "performs (getsM f) s R = R (f s) []"
  "performs (liftM x) s R = (\<forall>a. x = Inr a \<longrightarrow> R a [])"
  "performs (derefM what p) s R = (\<forall>a. p = Some a \<longrightarrow> R a [])"
  by (auto simp: performs_def wp_simps intro: exI[of _ "world s"] split: sum.splits option.splits)

text \<open>Programs that act on no server.\<close>

lemma performs_quiet:
  assumes "wp m s (\<lambda>r t s'. (\<forall>x \<in> set t. \<not> acts_on_server x) \<and> (\<exists>w. s' = s\<lparr>world := w\<rparr>))"
  shows "performs m s (\<lambda>a cs. cs = [] \<and> (\<exists>w. outcome (m (s\<lparr>world := w\<rparr>)) = Ok a))"
proof -
  have *: "\<not> renames x" if "\<not> acts_on_server x" for x using that by (cases x) auto
  show ?thesis
    using assms unfolding performs_def wp_def
    by (auto simp: * filter_empty_conv outcome_def split: prod.splits intro!: exI[of _ "world s"])
qed
text \<open>The quiet parts: reading secrets, keys and bootstrap data.\<close>

fun stores_machine :: "call \<Rightarrow> bool" where
  "stores_machine (PatchBareMetalMachineC _) = True"
| "stores_machine _ = False"

fun waits :: "call \<Rightarrow> bool" where
  "waits (SleepC _) = True"
| "waits (SshDialC _ _ _) = True"
| "waits _ = False"

definition quiet_call :: "call \<Rightarrow> bool" where
  "quiet_call x \<longleftrightarrow> \<not> acts_on_server x \<and> \<not> stores_machine x \<and> \<not> waits x"

lemma quiet_call_simps [simp]:
  "quiet_call (KubeGetC a b d)" "quiet_call ListBMKeysC" "quiet_call (EventC ty reason)" "quiet_call NowC"
  "quiet_call ListBMServersC"
  by (simp_all add: quiet_call_def)

lemma failed_dials_quiet [simp]:
  "filter acts_on_server (failed_dials n ip port) = []" "x \<in> set (failed_dials n ip port) \<Longrightarrow> \<not> renames x"
  "x \<in> set (failed_dials n ip port) \<Longrightarrow> \<not> stores_machine x"
  by (induction n) auto

definition strip :: "('w, 'x) sys_scheme \<Rightarrow> ('w, 'x) sys_scheme" where
  "strip s = s\<lparr>world := undefined\<rparr>"

lemma performs_frame:
  assumes "frame quiet_call strip m"
  shows "performs m s (\<lambda>a cs. cs = [] \<and> (\<exists>w. outcome (m (s\<lparr>world := w\<rparr>)) = Ok a))"
proof (rule performs_quiet, rule wp_mono[OF frame_wp[OF assms]])
  fix r t s'
  assume *: "(\<forall>x \<in> set t. quiet_call x) \<and> strip s' = strip s"
  then have "strip s'\<lparr>world := world s'\<rparr> = strip s\<lparr>world := world s'\<rparr>" by simp
  then have "s' = s\<lparr>world := world s'\<rparr>" by (simp add: strip_def)
  with * show "(\<forall>x \<in> set t. \<not> acts_on_server x) \<and> (\<exists>w. s' = s\<lparr>world := w\<rparr>)" by (auto simp: quiet_call_def)
qed

lemma frame_retrieveSSHSecret: "frame quiet_call strip (retrieveSSHSecret k)"
  unfolding retrieveSSHSecret_def token_secret_def Let_def client_defs
  by (intro frame_intros) (simp_all add: strip_def)

lemma frame_fingerprint: "frame quiet_call strip (getSSHFingerprintFromName r name)"
  unfolding getSSHFingerprintFromName_def Let_def client_defs
  by (intro frame_intros) (simp_all add: strip_def)

lemma frame_set_kubeadm: "frame P f (on_userdata (SetKubeadmConfig cd kc) u)"
  by (auto simp: frame_def wp_on_userdata split: prod.splits res.splits)

lemma frame_cloud_init: "frame quiet_call strip (cloud_init cd k)"
  unfolding cloud_init_def BareMetal_GetRawBootstrapData_def client_defs
  by (intro frame_intros frame_set_kubeadm) (simp_all add: strip_def)

text \<open>A command that succeeded, with its standard output.\<close>

definition succeeded :: "'w Host \<Rightarrow> string \<Rightarrow> string \<Rightarrow> string \<Rightarrow> bool" where
  "succeeded h ip command stdout \<longleftrightarrow> (\<exists>stderr. ran_command h ip command (stdout, stderr, None))"

lemma runSSH_no_rename: "wp (runSSH h command ip port key) s (\<lambda>r t s'. (\<forall>x \<in> set t. \<not> renames x) \<and>
    (\<exists>w. s' = s\<lparr>world := w\<rparr>) \<and> filter acts_on_server t \<in> {[], [SshRunC ip command]} \<and>
    (\<forall>stdout stderr. r = Ok (stdout, stderr, None) \<longrightarrow>
       filter acts_on_server t = [SshRunC ip command] \<and> ran_command h ip command (stdout, stderr, None)))"
  by (rule wp_mono[OF runSSH_wp]) auto

lemma performs_ssh_step:
  assumes "\<And>s. wp undo s (\<lambda>r t s'. \<forall>x \<in> set t. \<not> renames x)"
  shows "performs (ssh_step h ip key failed undo command) s
    (\<lambda>out cs. cs = [SshRunC ip command] \<and> succeeded h ip command out)"
  unfolding performs_def ssh_step_def wp_bindM
  apply (rule wp_mono[OF runSSH_no_rename])
  subgoal for r t s1
    by (cases r) (auto simp: wp_simps bind_post_def succeeded_def split: option.splits res.splits intro!: wp_mono[OF assms])
  done

lemma wipe_no_rename: "wp (wipe h ip key drive) s (\<lambda>r t s'. \<forall>x \<in> set t. \<not> renames x)"
  unfolding wipe_def wp_bindM
  by (rule wp_mono[OF runSSH_no_rename]) (auto simp: bind_post_def wp_simps split: res.splits)

lemma performs_reboot:
  "performs (reboot h ip key) s (\<lambda>_ cs. cs \<in> {[], [SshRunC ip ''reboot'']})"
  unfolding performs_def reboot_def wp_bindM
  by (rule wp_mono[OF runSSH_no_rename]) (auto simp: bind_post_def wp_simps split: res.splits option.splits)

lemma performs_call:
  "\<not> renames c \<Longrightarrow> acts_on_server c \<Longrightarrow> performs (extcall c f) s (\<lambda>_ cs. cs = [c])"
  by (auto simp: performs_def wp_extcall ext_post_iff)

lemma performs_start_rescue:
  "performs (start_rescue h r ip fp key) s
    (\<lambda>_ cs. cs = [ActivateRescueC ip fp, ResetBMServerC ip ''hw'', SshRunC ip ''hostname''] \<and>
       (\<exists>out. succeeded h ip ''hostname'' out \<and> Contains out ''rescue''))"
proof -
  have reset: "performs (tryM (extcall (ResetBMServerC ip ''hw'') f)) s (\<lambda>_ cs. cs = [ResetBMServerC ip ''hw''])" for f s
    by (auto simp: performs_def wp_simps wp_extcall ext_post_iff)
  show ?thesis
    unfolding start_rescue_def client_defs
    apply (rule performs_bindM[OF performs_mapErrM[OF performs_call]], simp, simp)
    apply (rule performs_bindM[OF reset])
    apply (rule performs_bindM[OF performs_ssh_step])
     apply (simp add: wp_simps)
    apply (auto simp: performs_pure)
    done
qed

lemma performs_block_devices:
  assumes "\<And>s. wp undo s (\<lambda>r t s'. \<forall>x \<in> set t. \<not> renames x)"
  shows "performs (block_devices h ip key undo before) s (\<lambda>devices cs. cs = [SshRunC ip blockDeviceCommand] \<and>
    (\<exists>out. succeeded h ip blockDeviceCommand out \<and> hs_Unmarshal h before out = Inr devices))"
  unfolding block_devices_def
  by (rule performs_bindM[OF performs_ssh_step[OF assms]], rule performs_mapErrM) (auto simp: performs_pure)
definition ssh_commands :: "string \<Rightarrow> string list \<Rightarrow> call list" where
  "ssh_commands ip = map (SshRunC ip)"

definition ran_ok :: "'w Host \<Rightarrow> string \<Rightarrow> string list \<Rightarrow> bool" where
  "ran_ok h ip commands \<longleftrightarrow> (\<forall>c \<in> set commands. \<exists>out. succeeded h ip c out)"

lemma ssh_commands_simps [simp]:
  "ssh_commands ip [] = []" "ssh_commands ip (c # cs) = SshRunC ip c # ssh_commands ip cs"
  by (simp_all add: ssh_commands_def)

lemma ran_ok_simps [simp]:
  "ran_ok h ip []" "ran_ok h ip (c # cs) \<longleftrightarrow> (\<exists>out. succeeded h ip c out) \<and> ran_ok h ip cs"
  by (simp_all add: ran_ok_def)

text \<open>
  The drive that the block devices of the server gave, and the command that labels the partitions found on it afterwards.
\<close>

definition chosen_drive :: "'w Host \<Rightarrow> string \<Rightarrow> string \<Rightarrow> string \<Rightarrow> bool" where
  "chosen_drive h ip drive command \<longleftrightarrow> (\<exists>out devices out' devices'.
     succeeded h ip blockDeviceCommand out \<and> hs_Unmarshal h [] out = Inr devices \<and>
     findCorrectDevice devices = Inr drive \<and>
     succeeded h ip blockDeviceCommand out' \<and> hs_Unmarshal h devices out' = Inr devices' \<and>
     labelChildrenCommand devices' drive = Ok command)"

lemma chosen_driveI:
  "succeeded h ip blockDeviceCommand out \<Longrightarrow> hs_Unmarshal h [] out = Inr devices \<Longrightarrow>
   findCorrectDevice devices = Inr drive \<Longrightarrow> succeeded h ip blockDeviceCommand out' \<Longrightarrow>
   hs_Unmarshal h devices out' = Inr devices' \<Longrightarrow> labelChildrenCommand devices' drive = Ok command \<Longrightarrow>
   chosen_drive h ip drive command"
  unfolding chosen_drive_def by blast

definition install_commands :: "string \<Rightarrow> string \<Rightarrow> string \<Rightarrow> string \<Rightarrow> string \<Rightarrow> string list" where
  "install_commands drive name partitions img command =
     [blockDeviceCommand, autosetup drive name partitions img, installimage, blockDeviceCommand, command]"

definition seed_commands :: "string \<Rightarrow> string list" where
  "seed_commands cloudInit = [''sleep 60'', mkdir_nocloud, meta_data, user_data cloudInit, ''sleep 30'']"

text \<open>Steps that make no call and change nothing.\<close>

lemma performs_bind_lift: "(\<And>a. x = Inr a \<Longrightarrow> performs (f a) s R) \<Longrightarrow> performs (bindM (liftM x) f) s R"
  by (cases x) (simp_all add: performs_def wp_simps)

lemma performs_bind_mapErr: "(\<And>a. x = Inr a \<Longrightarrow> performs (f a) s R) \<Longrightarrow> performs (bindM (mapErrM g (liftM x)) f) s R"
  by (cases x) (simp_all add: performs_def wp_simps)

lemma performs_bind_res: "(\<And>a. x = Ok a \<Longrightarrow> performs (f a) s R) \<Longrightarrow> performs (bindM (mapErrM g (lift_res x)) f) s R"
  by (cases x) (simp_all add: performs_def lift_res_def wp_simps)

lemma performs_bind_deref: "(\<And>a. x = Some a \<Longrightarrow> performs (f a) s R) \<Longrightarrow> performs (bindM (derefM what x) f) s R"
  by (cases x) (simp_all add: performs_def wp_simps)

lemma performs_bind_gets: "performs (f (v s)) s R \<Longrightarrow> performs (bindM (getsM v) f) s R"
  by (simp add: performs_def wp_simps)

lemmas performs_bind_pure = performs_bind_lift performs_bind_mapErr performs_bind_res performs_bind_deref performs_bind_gets

lemma performs_bind_serverType:
  "(\<And>ty. bms_ServerType (bm_Spec (bs_BareMetalMachine s)) = Some ty \<Longrightarrow> performs (f ty) s R) \<Longrightarrow>
   performs (bindM serverType f) s R"
  by (auto simp: performs_def serverType_def wp_simps split: option.splits)

lemma undo_ret: "wp (ret ()) s (\<lambda>r t s'. \<forall>x \<in> set t. \<not> renames x)"
  by (simp add: wp_simps)

lemmas performs_steps = performs_ssh_step[OF undo_ret] performs_ssh_step[OF wipe_no_rename]

lemma performs_install_image:
  "performs (install_image h ip key) s (\<lambda>_ cs. \<exists>drive ty img command.
     bms_ServerType (bm_Spec (bs_BareMetalMachine s)) = Some ty \<and>
     bms_ImagePath (bm_Spec (bs_BareMetalMachine s)) = Some img \<and> chosen_drive h ip drive command \<and>
     (let commands = install_commands drive (attached_name (cl_Name (cs_Cluster s)) ty (BareMetal_Name s))
        (partition_of (bm_Spec (bs_BareMetalMachine s))) img command in
      cs = ssh_commands ip commands \<and> ran_ok h ip commands))"
  unfolding install_image_def
  apply (rule performs_bindM[OF performs_block_devices[OF undo_ret]])
  apply (rule performs_bind_pure(2))
  apply (rule performs_bind_pure(5))
  apply (rule performs_bind_serverType)
  apply (rule performs_bind_pure(4))
  apply (simp only: Let_def)
  apply (rule performs_bindM[OF performs_steps(1)])
  apply (rule performs_bindM[OF performs_steps(2)])
  apply (rule performs_bindM[OF performs_block_devices[OF wipe_no_rename]])
  apply (rule performs_bind_pure(3))
  apply (rule performs_bindM[OF performs_steps(2)])
  apply (simp only: performs_pure)
  apply (elim exE conjE)
  apply (simp add: BareMetal_Name_def install_commands_def)
  apply ((rule exI)+, rule conjI)
   apply (rule chosen_driveI; assumption)
  apply simp
  apply (intro conjI; rule exI, assumption)
  done

lemma seed_callsI:
  "rb1 \<in> S \<Longrightarrow> rb2 \<in> S \<Longrightarrow> cs = c # rb1 @ m @ rb2 \<Longrightarrow> ok \<Longrightarrow>
   \<exists>rb1 rb2. {rb1, rb2} \<subseteq> S \<and> cs = c # rb1 @ m @ rb2 \<and> ok"
  by blast

lemma performs_seed_cloud_init:
  "performs (seed_cloud_init h ip key cloudInit) s (\<lambda>_ cs. \<exists>rb1 rb2. {rb1, rb2} \<subseteq> {[], [SshRunC ip ''reboot'']} \<and>
     cs = SshRunC ip ''sleep 30'' # rb1 @ ssh_commands ip (seed_commands cloudInit) @ rb2 \<and>
     ran_ok h ip (''sleep 30'' # seed_commands cloudInit))"
  unfolding seed_cloud_init_def
  apply (rule performs_bindM[OF performs_steps(1)])
  apply (rule performs_bindM[OF performs_reboot])
  apply (rule performs_bindM[OF performs_steps(1)])+
  apply (rule performs_mono[OF performs_reboot])
  apply (elim conjE)
  apply (erule seed_callsI, assumption)
   apply (simp add: seed_commands_def)
  apply (simp add: seed_commands_def)
  apply (intro conjI; rule exI, assumption)
  done
definition renamed :: "call list \<Rightarrow> bool" where
  "renamed t \<longleftrightarrow> (\<exists>x \<in> set t. renames x)"

lemma wp_performs:
  assumes "performs m s R"
    and "\<And>a cs w. R a cs \<Longrightarrow>
       wp (f a) (s\<lparr>world := w\<rparr>) (\<lambda>r t s'. renamed t \<longrightarrow> Q (cs @ filter acts_on_server t))"
  shows "wp (bindM m f) s (\<lambda>r t s'. renamed t \<longrightarrow> Q (filter acts_on_server t))"
  unfolding wp_bindM
proof (rule wp_mono[OF assms(1)[unfolded performs_def]])
  fix r t s1
  assume *: "(\<forall>x \<in> set t. \<not> renames x) \<and> (\<forall>a. r = Ok a \<longrightarrow> R a (filter acts_on_server t) \<and> (\<exists>w. s1 = s\<lparr>world := w\<rparr>))"
  then have r: "renamed (t @ t') = renamed t'" for t' by (auto simp: renamed_def)
  show "bind_post f (\<lambda>r t s'. renamed t \<longrightarrow> Q (filter acts_on_server t)) r t s1"
  proof (cases r)
    case (Ok a)
    with * obtain w where s1: "s1 = s\<lparr>world := w\<rparr>" and R: "R a (filter acts_on_server t)" by blast
    show ?thesis unfolding Ok bind_post_simps s1 r filter_append by (rule assms(2)[OF R])
  qed (use r[of "[]"] in \<open>simp_all add: renamed_def\<close>)
qed

lemma wp_set_name:
  fixes s :: "('w, 'x) BareMetalMachineScope_scheme"
  assumes "bms_ServerType (bm_Spec (bs_BareMetalMachine s)) = Some ty"
    and "Q [SetBMServerNameC ip (attached_name (cl_Name (cs_Cluster s)) ty (BareMetal_Name s))]"
  shows "wp (bindM (getsM id) (\<lambda>s. bindM serverType (\<lambda>ty.
      bindM (mapErrM g (SetBMServerName r ip (attached_name (cl_Name (cs_Cluster s)) ty (BareMetal_Name s)))) (\<lambda>_.
      Eventf reason msg)))) s (\<lambda>r t s'. renamed t \<longrightarrow> Q (filter acts_on_server t))"
  using assms by (simp add: wp_simps serverType_def SetBMServerName_def wp_extcall ext_post_iff)

definition provision_commands :: "string \<Rightarrow> string \<Rightarrow> string \<Rightarrow> string \<Rightarrow> string \<Rightarrow> string \<Rightarrow> string list" where
  "provision_commands drive name partitions img command cloudInit =
     ''hostname'' # install_commands drive name partitions img command @ ''sleep 30'' # seed_commands cloudInit"

definition provision_script ::
    "string \<Rightarrow> string \<Rightarrow> string list \<Rightarrow> string list \<Rightarrow> call list \<Rightarrow> call list \<Rightarrow> string \<Rightarrow> call list" where
  "provision_script ip fp installing seeding rb1 rb2 name =
     [ActivateRescueC ip fp, ResetBMServerC ip ''hw'', SshRunC ip ''hostname''] @ ssh_commands ip installing @
     SshRunC ip ''sleep 30'' # rb1 @ ssh_commands ip seeding @ rb2 @ [SetBMServerNameC ip name]"

text \<open>A script that was carried out for a scope, on a server.\<close>

definition provisioned ::
    "Codec \<Rightarrow> 'w Host \<Rightarrow> 'w KubeClient \<Rightarrow> ('w, 'x) BareMetalMachineScope_scheme \<Rightarrow> string \<Rightarrow> call list \<Rightarrow> bool" where
  "provisioned cd h k s ip cs \<longleftrightarrow> (\<exists>fp drive ty img command cloudInit rb1 rb2 w.
     let spec = bm_Spec (bs_BareMetalMachine s);
         name = attached_name (cl_Name (cs_Cluster s)) ty (BareMetal_Name s);
         installing = install_commands drive name (partition_of spec) img command in
     bms_ServerType spec = Some ty \<and> bms_ImagePath spec = Some img \<and> chosen_drive h ip drive command \<and>
     outcome (cloud_init cd k (s\<lparr>world := w\<rparr>)) = Ok cloudInit \<and>
     {rb1, rb2} \<subseteq> {[], [SshRunC ip ''reboot'']} \<and>
     cs = provision_script ip fp installing (seed_commands cloudInit) rb1 rb2 name \<and>
     ran_ok h ip (''hostname'' # installing @ ''sleep 30'' # seed_commands cloudInit))"

lemma ran_ok_append [simp]: "ran_ok h ip (cs @ cs') \<longleftrightarrow> ran_ok h ip cs \<and> ran_ok h ip cs'"
  by (auto simp: ran_ok_def)

lemma provisionedI:
  assumes "bms_ServerType (bm_Spec (bs_BareMetalMachine s)) = Some ty"
    and "bms_ImagePath (bm_Spec (bs_BareMetalMachine s)) = Some img" and "chosen_drive h ip drive command"
    and "outcome (cloud_init cd k (s\<lparr>world := w\<rparr>)) = Ok cloudInit"
    and "(rb1 = [] \<or> rb1 = [SshRunC ip ''reboot'']) \<and> (rb2 = [] \<or> rb2 = [SshRunC ip ''reboot''])"
    and "ran_ok h ip (''sleep 30'' # seed_commands cloudInit)"
    and "name = attached_name (cl_Name (cs_Cluster s)) ty (BareMetal_Name s)"
    and "installing = install_commands drive name (partition_of (bm_Spec (bs_BareMetalMachine s))) img command"
    and "ran_ok h ip installing" and "\<exists>out. succeeded h ip ''hostname'' out"
    and "\<exists>fp. cs = provision_script ip fp installing (seed_commands cloudInit) rb1 rb2 name"
  shows "provisioned cd h k s ip cs"
proof -
  from assms(11) obtain fp where cs: "cs = provision_script ip fp installing (seed_commands cloudInit) rb1 rb2 name" by blast
  show ?thesis
    unfolding provisioned_def Let_def
    by (rule exI[of _ fp], rule exI[of _ drive], rule exI[of _ ty], rule exI[of _ img], rule exI[of _ command],
      rule exI[of _ cloudInit], rule exI[of _ rb1], rule exI[of _ rb2], rule exI[of _ w])
      (use cs assms in simp)
qed

lemma provisionMachine_wp:
  fixes s :: "('w, 'x) BareMetalMachineScope_scheme"
  shows "wp (provisionMachine cd h k r server) s (\<lambda>res t s'. renamed t \<longrightarrow>
    provisioned cd h k s (bs_ServerIP server) (filter acts_on_server t))"
  unfolding provisionMachine_def Let_def
  apply (rule wp_performs[OF performs_mapErrM[OF performs_frame[OF frame_retrieveSSHSecret]]])
  apply (simp only: prod.case split: prod.splits)
  apply (intro allI impI)
  apply (rule wp_performs[OF performs_mapErrM[OF performs_frame[OF frame_fingerprint]], where Q = "\<lambda>cs. provisioned cd h k s _ (_ @ cs)"])
  apply (rule wp_performs[OF performs_frame[OF frame_cloud_init]])
  apply (rule wp_performs[OF performs_start_rescue])
  apply (rule wp_performs[OF performs_install_image])
  apply (rule wp_performs[OF performs_seed_cloud_init])
  apply (elim exE conjE)
  apply (simp only: Let_def)
  apply (elim exE conjE)
  apply hypsubst
  apply (rule wp_set_name)
   apply (simp; fail)
  apply (simp add: BareMetal_Name_def del: ran_ok_simps ssh_commands_simps)
  apply (rule provisionedI)
            apply assumption+
       apply (rule refl)+
    apply (simp only: BareMetal_Name_def)
   apply (rule exI, assumption)
  apply (simp add: provision_script_def BareMetal_Name_def del: ran_ok_simps ssh_commands_simps)
  done
lemma provisioned_renames:
  "provisioned cd h k s ip' cs \<Longrightarrow> SetBMServerNameC ip name \<in> set cs \<Longrightarrow> ip = ip' \<and>
    Some name = map_option (\<lambda>ty. attached_name (cl_Name (cs_Cluster s)) ty (BareMetal_Name s))
      (bms_ServerType (bm_Spec (bs_BareMetalMachine s)))"
  by (auto simp: provisioned_def Let_def provision_script_def ssh_commands_def)

text \<open>
  C6. A server is renamed by provisioning only to the machine's name in the cluster, and only as the last act of the
  complete script, carried out on that server alone and in order: the rescue system is activated and
  booted, the image is installed on the drive that was chosen from the block devices it reports, the
  partitions found afterwards are labelled, and the bootstrap data is written before the last reboot. Every
  command but the reboots succeeded.
\<close>

theorem provisionMachine_script:
  fixes s :: "('w, 'x) BareMetalMachineScope_scheme"
  assumes "provisionMachine cd h k r server s = (res, t, s')" and "SetBMServerNameC ip name \<in> set t"
  shows "provisioned cd h k s (bs_ServerIP server) (filter acts_on_server t) \<and> ip = bs_ServerIP server \<and>
    Some name = map_option (\<lambda>ty. attached_name (cl_Name (cs_Cluster s)) ty (BareMetal_Name s))
      (bms_ServerType (bm_Spec (bs_BareMetalMachine s)))"
proof -
  from assms(2) have "renamed t" unfolding renamed_def by (rule bexI[rotated]) simp
  with wpD[OF provisionMachine_wp assms(1)] have p: "provisioned cd h k s (bs_ServerIP server) (filter acts_on_server t)" by blast
  moreover from assms(2) have "SetBMServerNameC ip name \<in> set (filter acts_on_server t)" by simp
  ultimately show ?thesis using provisioned_renames[OF p] by blast
qed

definition example_bm_scope :: "unit BareMetalMachineScope" where
  "example_bm_scope = ClusterScope.extend (zero_ClusterScope ())
     (BareMetalMachineScope.fields (zero_Machine\<lparr>m_DataSecretName := Some ''boot''\<rparr>)
        (zero_BareMetalMachine\<lparr>bm_Meta := zero_ObjectMeta\<lparr>om_Name := ''m1''\<rparr>,
           bm_Spec := (bm_Spec zero_BareMetalMachine)\<lparr>bms_ImagePath := Some ''img'', bms_ServerType := Some ''AX41'',
             bms_SSHTokenRef := \<lparr>str_PublicKey = ''pub'', str_PrivateKey = ''key'', str_SSHKeyName = ''name'', str_TokenName = ''t''\<rparr>\<rparr>\<rparr>)
        zero_BareMetalMachine)"

definition example_bm_disk :: "blockDeviceData list option \<Rightarrow> blockDevice" where
  "example_bm_disk children = \<lparr>bd_Name = ''sda'', bd_Size = ''1T'', bd_Rotation = False, bd_Type = [], bd_Label = [],
     bd_Children = children\<rparr>"

definition example_host :: "unit Host" where
  "example_host = \<lparr>hs_Now = (\<lambda>w. (0, w)), hs_ParsePrivateKey = (\<lambda>_. None), hs_Dial = (\<lambda>_ _ _ w. (Inr (), w)),
     hs_Sleep = (\<lambda>_ w. w), hs_Run = (\<lambda>_ _ w. (Inr (''rescue'', [], None), w)),
     hs_Unmarshal = (\<lambda>before _. Inr (if before = [] then [example_bm_disk None]
        else [example_bm_disk (Some [\<lparr>bd_Name = ''sda1'', bd_Size = ''1T'', bd_Rotation = False, bd_Type = [], bd_Label = []\<rparr>])]))\<rparr>"

definition example_bm_kube :: "unit KubeClient" where
  "example_bm_kube = offline_kube\<lparr>k_GetSecret := \<lambda>_ _ w.
     (Inr [(''value'', ''data''), (''pub'', ''p''), (''key'', ''k''), (''name'', ''ssh'')], w)\<rparr>"

definition example_bm_server :: "string \<Rightarrow> robot_Server" where
  "example_bm_server name = \<lparr>bs_ServerIP = ''1.2.3.4'', bs_ServerNumber = 7, bs_ServerName = name,
     bs_Status = ''ready'', bs_Cancelled = False, bs_PaidUntil = ''2020-01-01''\<rparr>"

definition example_robot :: "robot_Server list \<Rightarrow> unit HrobotClient" where
  "example_robot servers = \<lparr>r_ListBMServers = (\<lambda>w. (Inr servers, w)),
     r_ListBMKeys = (\<lambda>w. (Inr [\<lparr>rk_Name = ''ssh'', rk_Fingerprint = ''fp''\<rparr>], w)),
     r_ActivateRescue = (\<lambda>_ _ w. (Inr (), w)), r_ResetBMServer = (\<lambda>_ _ w. (Inr (), w)),
     r_SetBMServerName = (\<lambda>_ _ w. (Inr (), w))\<rparr>"

lemma example_ssh:
  "runSSH example_host command ip port key s = (Ok (''rescue'', [], None), [SshDialC ip port (15 * Second), SshRunC ip command], s)"
proof -
  have "maxWaitingTimeForSSHConnection div 30 = Suc 5" by (simp add: maxWaitingTimeForSSHConnection_def)
  moreover have "dial_loop example_host ip port key (Suc 5) e s = (Ok None, [SshDialC ip port (15 * Second)], s)" for e
    unfolding dial_loop.simps by (simp add: example_host_def run_defs)
  moreover have "extcall (SshRunC ip command) (hs_Run example_host ip command) s = (Ok (''rescue'', [], None), [SshRunC ip command], s)"
    by (simp add: example_host_def extcall_def)
  moreover have "hs_ParsePrivateKey example_host key = None" by (simp add: example_host_def)
  ultimately show ?thesis by (simp add: runSSH_def bindM_def tryM_def ret_def del: dial_loop.simps)
qed

lemma example_step:
  "ssh_step example_host ip key failed undo command s = (Ok ''rescue'', [SshDialC ip 22 (15 * Second), SshRunC ip command], s)"
  "reboot example_host ip key s = (Ok (), [SshDialC ip 22 (15 * Second), SshRunC ip ''reboot''], s)"
  by (simp_all add: ssh_step_def reboot_def example_ssh run_defs defaultPort_def)

lemma example_install:
  "\<exists>t. install_image example_host ip key example_bm_scope = (Ok (), t, example_bm_scope)"
proof -
  have "findCorrectDevice [example_bm_disk None] = Inr ''sda''" by code_simp
  moreover have "labelChildrenCommand [example_bm_disk (Some [\<lparr>bd_Name = ''sda1'', bd_Size = ''1T'', bd_Rotation = False, bd_Type = [], bd_Label = []\<rparr>])] ''sda''
      = Ok ''e2label /dev/sda1 os''" by code_simp
  moreover have "bms_ServerType (bm_Spec (bs_BareMetalMachine example_bm_scope)) = Some ''AX41''"
    "bms_ImagePath (bm_Spec (bs_BareMetalMachine example_bm_scope)) = Some ''img''"
    by (simp_all add: example_bm_scope_def zero_BareMetalMachine_def BareMetalMachineScope.defs ClusterScope.defs)
  moreover have "hs_Unmarshal example_host [] s = Inr [example_bm_disk None]"
    "hs_Unmarshal example_host [example_bm_disk None] s = Inr [example_bm_disk (Some [\<lparr>bd_Name = ''sda1'', bd_Size = ''1T'', bd_Rotation = False, bd_Type = [], bd_Label = []\<rparr>])]" for s
    by (simp_all add: example_host_def)
  ultimately show ?thesis
    by (simp add: install_image_def block_devices_def example_step serverType_def lift_res_def run_defs Let_def)
qed

lemma unit_strip: "strip s = strip s' \<Longrightarrow> s = s'" for s s' :: "(unit, 'x) sys_scheme"
proof -
  assume *: "strip s = strip s'"
  have same: "strip x\<lparr>world := ()\<rparr> = x" for x :: "(unit, 'x) sys_scheme"
    unfolding strip_def by (cases x) simp
  from * have "strip s\<lparr>world := ()\<rparr> = strip s'\<lparr>world := ()\<rparr>" by simp
  then show "s = s'" unfolding same .
qed

lemma example_quiet:
  fixes m :: "((unit, 'x) sys_scheme, call, 'a) M"
  assumes "frame quiet_call strip m" and "outcome (m s) = Ok a"
  shows "\<exists>t. m s = (Ok a, t, s)"
proof -
  obtain r t s' where eq: "m s = (r, t, s')" by (metis prod_cases3)
  from wpD[OF frame_wp[OF assms(1)] eq] have "s' = s" using unit_strip by blast
  with eq assms(2) show ?thesis by (simp add: outcome_def)
qed

lemma bindM_ok: "m s = (Ok a, t, s1) \<Longrightarrow> bindM m f s = (case f a s1 of (r, t', s2) \<Rightarrow> (r, t @ t', s2))"
  by (simp add: bindM_def)

lemma mapErrM_ok: "m s = (Ok a, t, s1) \<Longrightarrow> mapErrM g m s = (Ok a, t, s1)"
  by (simp add: mapErrM_def)

lemma example_rescue:
  "\<exists>t. start_rescue example_host (example_robot servers) ip fp key s = (Ok (), t, s)" for s :: "(unit, 'x) sys_scheme"
proof -
  have "Contains ''rescue'' ''rescue''" by (simp add: HasPrefix_def)
  then show ?thesis
    by (simp add: start_rescue_def ActivateRescue_def ResetBMServer_def example_robot_def example_step run_defs)
qed

lemma example_seed:
  "\<exists>t. seed_cloud_init example_host ip key cloudInit s = (Ok (), t, s)" for s :: "(unit, 'x) sys_scheme"
  by (simp add: seed_cloud_init_def example_step bindM_def ret_def)

lemma example_rename:
  "bms_ServerType (bm_Spec (bs_BareMetalMachine s)) = Some ty \<Longrightarrow>
   \<exists>t r. bindM (getsM id) (\<lambda>s. bindM serverType (\<lambda>ty.
      bindM (mapErrM g (SetBMServerName (example_robot servers) ip (nm s ty))) (\<lambda>_. Eventf reason msg))) s = (r, t, s) \<and>
      SetBMServerNameC ip (nm s ty) \<in> set t" for s :: "(unit, 'x) BareMetalMachineScope_scheme"
  by (simp add: serverType_def SetBMServerName_def example_robot_def run_defs Eventf_def tellM_def)

lemma provisionMachine_script_witness:
  "\<exists>t. provisioned example_codec example_host example_bm_kube example_bm_scope ''1.2.3.4'' (filter acts_on_server t) \<and> renamed t"
proof -
  let ?run = "provisionMachine example_codec example_host example_bm_kube (example_robot []) (example_bm_server ''AX41--x'') example_bm_scope"
  obtain r t s' where run: "?run = (r, t, s')" by (metis prod_cases3)
  have "\<exists>ip name. SetBMServerNameC ip name \<in> set (calls ?run)"
  proof -
    have "outcome (retrieveSSHSecret example_bm_kube example_bm_scope) = Ok (''ssh'', ''p'', ''k'')" by code_simp
    from example_quiet[OF frame_retrieveSSHSecret this] obtain t1 where
      1: "retrieveSSHSecret example_bm_kube example_bm_scope = (Ok (''ssh'', ''p'', ''k''), t1, example_bm_scope)" by blast
    have "outcome (getSSHFingerprintFromName (example_robot []) ''ssh'' example_bm_scope) = Ok ''fp''" by code_simp
    from example_quiet[OF frame_fingerprint this] obtain t2 where
      2: "getSSHFingerprintFromName (example_robot []) ''ssh'' example_bm_scope = (Ok ''fp'', t2, example_bm_scope)" by blast
    have "outcome (cloud_init example_codec example_bm_kube example_bm_scope) = Ok ''doc''" by code_simp
    from example_quiet[OF frame_cloud_init this] obtain t3 where
      3: "cloud_init example_codec example_bm_kube example_bm_scope = (Ok ''doc'', t3, example_bm_scope)" by blast
    let ?ip = "bs_ServerIP (example_bm_server ''AX41--x'')"
    obtain t4 where 4: "start_rescue example_host (example_robot []) ?ip ''fp'' ''k'' example_bm_scope = (Ok (), t4, example_bm_scope)"
      using example_rescue by blast
    obtain t5 where 5: "install_image example_host ?ip ''k'' example_bm_scope = (Ok (), t5, example_bm_scope)"
      using example_install by blast
    obtain t6 where 6: "seed_cloud_init example_host ?ip ''k'' ''doc'' example_bm_scope = (Ok (), t6, example_bm_scope)"
      using example_seed by blast
    have "bms_ServerType (bm_Spec (bs_BareMetalMachine example_bm_scope)) = Some ''AX41''"
      by (simp add: example_bm_scope_def zero_BareMetalMachine_def BareMetalMachineScope.defs ClusterScope.defs)
    from example_rename[OF this, where servers = "[]" and ip = ?ip and reason = "''CreateBareMetalMachine''"
        and msg = "''Created bare metal machine %s''" and g = "\<lambda>err. ErrNew (''Unable to change bare metal server name: %!(EXTRA '' @ Error err @ '')'')"
        and nm = "\<lambda>s ty. attached_name (cl_Name (cs_Cluster s)) ty (BareMetal_Name s)"] obtain t7 r7 where 7: "(bindM (getsM id) (\<lambda>s. bindM serverType (\<lambda>ty.
      bindM (mapErrM (\<lambda>err. ErrNew (''Unable to change bare metal server name: %!(EXTRA '' @ Error err @ '')''))
        (SetBMServerName (example_robot []) ?ip (attached_name (cl_Name (cs_Cluster s)) ty (BareMetal_Name s)))) (\<lambda>_.
      Eventf ''CreateBareMetalMachine'' ''Created bare metal machine %s'')))) example_bm_scope = (r7, t7, example_bm_scope)"
      "\<exists>name. SetBMServerNameC ?ip name \<in> set t7" by blast
    show ?thesis
      unfolding provisionMachine_def Let_def
      by (simp only: bindM_ok mapErrM_ok 1 2 3 4 5 6 7(1) prod.case) (use 7(2) in \<open>auto simp: calls_def\<close>)
  qed
  then obtain ip name where mem: "SetBMServerNameC ip name \<in> set t" by (auto simp: run calls_def)
  have "bs_ServerIP (example_bm_server ''AX41--x'') = ''1.2.3.4''" by (simp add: example_bm_server_def)
  moreover from mem have "renamed t" unfolding renamed_def by (rule bexI[rotated]) simp
  ultimately show ?thesis using provisionMachine_script[OF run mem] by auto
qed

end
