(* ===== verification/Bare_Metal_Servers.thy ===== *)
theory Bare_Metal_Servers
  imports Bare_Metal
begin

text \<open>
  What the operations of pkg/baremetal/baremetal.go guarantee of the servers in the Robot API: the names that
  provisioning and deletion set are read back as in use and as free, a machine becomes ready only with a
  server that is its own, deletion renames only that server, and no reconcile waits longer than a fixed time.
\<close>

section \<open>Names\<close>

text \<open>A name with no delimiter in it that neither begins nor ends with a dash, as DNS labels do not.\<close>

definition safe_name :: "string \<Rightarrow> bool" where
  "safe_name a \<longleftrightarrow> \<not> Contains (''-'' @ a @ ''-'') delimiter"

lemma HasPrefix_appendI: "HasPrefix a p \<Longrightarrow> HasPrefix (a @ b) p"
  unfolding HasPrefix_def by (metis length_take min.cobounded1 nat_le_linear take_all take_append append_Nil2 diff_is_0_eq take0)

lemma Contains_appendI: "Contains a p \<Longrightarrow> Contains (a @ b) p"
proof (induction a)
  case Nil
  then show ?case by (cases b) (simp_all add: HasPrefix_def)
next
  case (Cons c a)
  then show ?case using HasPrefix_appendI[of "c # a" p b] by auto
qed

lemma split_delimiter:
  "\<not> Contains (a @ ''-'') ''--'' \<Longrightarrow> split_from ''--'' cur (a @ ''--'' @ rest) = (cur @ a) # split_from ''--'' [] rest"
proof (induction a arbitrary: cur)
  case Nil
  then show ?case by (simp add: split_from.simps[of _ cur] HasPrefix_def)
next
  case (Cons c a)
  then have "\<not> HasPrefix (c # a @ ''--'' @ rest) ''--''" by (cases a) (auto simp: HasPrefix_def)
  with Cons show ?case by (simp add: split_from.simps[of _ cur])
qed

lemma split_rest: "\<not> Contains a ''--'' \<Longrightarrow> split_from ''--'' cur a = [cur @ a]"
  by (induction a arbitrary: cur) (simp_all add: split_from.simps[of _ _ "[]"] split_from.simps[of _ _ "_ # _"])

lemma safe_nameD:
  assumes "safe_name a"
  shows "\<not> Contains (a @ ''-'') ''--''" and "\<not> Contains a ''--''" and "\<not> Contains (''-'' @ a) ''--''"
  using assms Contains_appendI[of a "''--''" "''-''"] Contains_appendI[of "''-'' @ a" "''--''" "''-''"]
  by (auto simp: safe_name_def delimiter_def)

lemma Split_attached_name:
  "safe_name c \<Longrightarrow> safe_name ty \<Longrightarrow> safe_name m \<Longrightarrow> Split (attached_name c ty m) delimiter = [c, ty, m]"
  using split_delimiter[OF safe_nameD(1), of c "[]" "ty @ ''--'' @ m"] split_delimiter[OF safe_nameD(1), of ty "[]" m]
  by (simp add: Split_def attached_name_def delimiter_def split_rest safe_nameD)

lemma Split_freed_name:
  assumes "safe_name ty" and "safe_name m"
  shows "Split (freed_name ty m) delimiter = [ty, ''unused-'' @ m]"
proof -
  have "\<not> Contains (''unused-'' @ m) ''--''" using safe_nameD(3)[OF assms(2)] by (auto simp: HasPrefix_def)
  then show ?thesis
    using split_delimiter[OF safe_nameD(1)[OF assms(1)], of "[]" "''unused-'' @ m"]
    by (simp add: Split_def freed_name_def delimiter_def split_rest)
qed


section \<open>Programs that act on no server and change nothing\<close>

lemma strip_same: "strip s' = strip s \<longleftrightarrow> (\<exists>w. s' = s\<lparr>world := w\<rparr>)"
proof
  assume "strip s' = strip s"
  then have "strip s'\<lparr>world := world s'\<rparr> = strip s\<lparr>world := world s'\<rparr>" by simp
  then show "\<exists>w. s' = s\<lparr>world := w\<rparr>" by (auto simp: strip_def)
qed (auto simp: strip_def)

lemma quiet_wp:
  assumes "frame quiet_call strip m"
  shows "wp m s (\<lambda>r t s'. (\<exists>w. s' = s\<lparr>world := w\<rparr>) \<and> (\<forall>x \<in> set t. \<not> acts_on_server x))"
  by (rule wp_mono[OF frame_wp[OF assms]]) (auto simp: strip_same quiet_call_def)

lemma frame_ends_soon: "frame quiet_call strip (ends_soon h server)"
  unfolding ends_soon_def TimeNow_def by (intro frame_intros) (simp_all add: strip_def)

lemma frame_serverType: "frame quiet_call strip serverType"
  unfolding serverType_def by (intro frame_intros)

lemma frame_match_loop: "frame quiet_call strip (match_loop h servers)"
  by (induction servers) (auto simp: matches_def Let_def intro!: frame_intros frame_serverType frame_ends_soon)

lemma frame_listMatchingMachines: "frame quiet_call strip (listMatchingMachines h r)"
  unfolding listMatchingMachines_def client_defs
  by (intro frame_intros frame_serverType frame_match_loop) (simp_all add: strip_def)

lemma frame_findAttachedMachine: "frame quiet_call strip (findAttachedMachine servers)"
  unfolding findAttachedMachine_def Let_def by (intro frame_intros) simp_all

lemma frame_findNewMachine: "frame quiet_call strip (findNewMachine servers)"
  unfolding findNewMachine_def by (intro frame_intros frame_serverType) simp_all

lemma match_loop_wp:
  "wp (match_loop h servers) s (\<lambda>r t s'. (\<exists>w. s' = s\<lparr>world := w\<rparr>) \<and> (\<forall>x \<in> set t. \<not> acts_on_server x) \<and>
     (\<forall>list. r = Ok list \<longrightarrow> set list \<subseteq> set servers))"
proof (rule wp_mono[OF wp_conj[OF quiet_wp[OF frame_match_loop]]])
  show "wp (match_loop h servers) s (\<lambda>r t s'. \<forall>list. r = Ok list \<longrightarrow> set list \<subseteq> set servers)"
  proof (induction servers arbitrary: s)
    case (Cons server servers)
    have "wp (matches h server) s (\<lambda>r t s'. True)" by (simp add: wp_def split: prod.splits)
    then show ?case
      unfolding match_loop.simps wp_bindM
      by (rule wp_mono) (fastforce simp: bind_post_def wp_simps intro!: wp_mono[OF Cons.IH] split: res.splits)
  qed (simp add: wp_simps)
qed auto

text \<open>The servers that the Robot API lists for a scope.\<close>

definition robot_lists :: "'w HrobotClient \<Rightarrow> ('w, 'x) sys_scheme \<Rightarrow> robot_Server \<Rightarrow> bool" where
  "robot_lists r s server \<longleftrightarrow> (\<exists>servers w. r_ListBMServers r (world s) = (Inr servers, w) \<and> server \<in> set servers)"

lemma listMatchingMachines_wp:
  "wp (listMatchingMachines h r) s (\<lambda>res t s'. (\<exists>w. s' = s\<lparr>world := w\<rparr>) \<and> (\<forall>x \<in> set t. \<not> acts_on_server x) \<and>
     (\<forall>list. res = Ok list \<longrightarrow> (\<forall>server \<in> set list. robot_lists r s server)))"
proof (rule wp_mono[OF wp_conj[OF quiet_wp[OF frame_listMatchingMachines]]])
  show "wp (listMatchingMachines h r) s (\<lambda>res t s'. \<forall>list. res = Ok list \<longrightarrow> (\<forall>server \<in> set list. robot_lists r s server))"
    unfolding listMatchingMachines_def
    by (auto simp: wp_simps client_defs wp_extcall ext_post_iff serverType_def robot_lists_def
        intro!: wp_mono[OF match_loop_wp] split: option.splits)
qed auto

lemma findAttachedMachine_wp:
  "wp (findAttachedMachine servers) s (\<lambda>r t s'. (\<exists>w. s' = s\<lparr>world := w\<rparr>) \<and> (\<forall>x \<in> set t. \<not> acts_on_server x) \<and>
     (\<forall>server. r = Ok (Some server) \<longrightarrow> filter (attached_to (BareMetal_Name s)) servers = [server]) \<and>
     (r = Ok None \<longrightarrow> filter (attached_to (BareMetal_Name s)) servers = []))"
proof (rule wp_mono[OF wp_conj[OF quiet_wp[OF frame_findAttachedMachine]]])
  have one: "filter P xs = [x]" if "find_last P xs = Some x" "\<not> length (filter P xs) > 1" for P and xs :: "robot_Server list" and x
  proof -
    from find_last_Some[OF that(1)] have "x \<in> set (filter P xs)" by simp
    with that(2) show ?thesis by (cases "filter P xs"; cases "tl (filter P xs)") auto
  qed
  show "wp (findAttachedMachine servers) s (\<lambda>r t s'.
     (\<forall>server. r = Ok (Some server) \<longrightarrow> filter (attached_to (BareMetal_Name s)) servers = [server]) \<and>
     (r = Ok None \<longrightarrow> filter (attached_to (BareMetal_Name s)) servers = []))"
    unfolding findAttachedMachine_def
    by (auto simp: wp_simps Let_def filter_empty_conv find_last_None one simp del: set_filter split: option.splits)
qed auto
section \<open>Provisioning changes only the outside world\<close>

lemma frame_quiet: "frame quiet_call f m \<Longrightarrow> frame (\<lambda>x. \<not> stores_machine x) f m"
  by (erule frame_mono) (simp add: quiet_call_def)

lemma frame_runSSH: "frame (\<lambda>x. \<not> stores_machine x) strip (runSSH h command ip port key)"
  by (rule frameI, rule wp_mono[OF runSSH_wp]) (auto simp: strip_same)

lemma frame_ssh_step: "frame (\<lambda>x. \<not> stores_machine x) strip undo \<Longrightarrow> frame (\<lambda>x. \<not> stores_machine x) strip (ssh_step h ip key failed undo command)"
  unfolding ssh_step_def by (intro frame_intros frame_runSSH)

lemma frame_wipe: "frame (\<lambda>x. \<not> stores_machine x) strip (wipe h ip key drive)"
  unfolding wipe_def by (intro frame_intros frame_runSSH)

lemma frame_reboot: "frame (\<lambda>x. \<not> stores_machine x) strip (reboot h ip key)"
  unfolding reboot_def by (intro frame_intros frame_runSSH)

lemma frame_block_devices: "frame (\<lambda>x. \<not> stores_machine x) strip undo \<Longrightarrow> frame (\<lambda>x. \<not> stores_machine x) strip (block_devices h ip key undo before)"
  unfolding block_devices_def by (intro frame_intros frame_ssh_step)

lemma frame_lift_res: "frame P f (lift_res x)"
  by (cases x) (auto simp: lift_res_def intro: frame_intros)

lemma frame_provisionMachine: "frame (\<lambda>x. \<not> stores_machine x) strip (provisionMachine cd h k r server)"
proof -
  have install: "frame (\<lambda>x. \<not> stores_machine x) strip (install_image h ip key :: (('a, 'b) BareMetalMachineScope_scheme, call, unit) M)" for ip key
    unfolding install_image_def Let_def
    by (intro frame_intros frame_block_devices frame_ssh_step frame_wipe frame_lift_res
        frame_quiet[OF frame_serverType])
  have seed: "frame (\<lambda>x. \<not> stores_machine x) strip (seed_cloud_init h ip key c :: (('a, 'b) BareMetalMachineScope_scheme, call, unit) M)" for ip key c
    unfolding seed_cloud_init_def by (intro frame_intros frame_ssh_step frame_reboot)
  have rescue: "frame (\<lambda>x. \<not> stores_machine x) strip (start_rescue h r ip fp key :: (('a, 'b) BareMetalMachineScope_scheme, call, unit) M)" for ip fp key
    unfolding start_rescue_def client_defs by (intro frame_intros frame_ssh_step) (simp_all add: strip_def)
  show ?thesis
    unfolding provisionMachine_def Let_def SetBMServerName_def
    by (intro frame_intros install seed rescue frame_quiet[OF frame_serverType]
        frame_quiet[OF frame_retrieveSSHSecret] frame_quiet[OF frame_fingerprint] frame_quiet[OF frame_cloud_init])
      (simp_all add: strip_def)
qed

lemma wp_bind_last:
  "(\<And>a s1. wp (f a) s1 (\<lambda>r t s'. is_ok r \<longrightarrow> renamed t)) \<Longrightarrow> wp (bindM m f) s (\<lambda>r t s'. is_ok r \<longrightarrow> renamed t)"
  unfolding wp_bindM
proof (rule wp_mono[of m s "\<lambda>_ _ _. True"])
  assume *: "\<And>a s1. wp (f a) s1 (\<lambda>r t s'. is_ok r \<longrightarrow> renamed t)"
  show "bind_post f (\<lambda>r t s'. is_ok r \<longrightarrow> renamed t) r t s1" for r t s1
    by (cases r) (auto simp: renamed_def intro!: wp_mono[OF *])
qed (simp add: wp_iff)

lemma provisionMachine_renames: "wp (provisionMachine cd h k r server) s (\<lambda>res t s'. is_ok res \<longrightarrow> renamed t)"
  unfolding provisionMachine_def Let_def SetBMServerName_def
  apply (rule wp_bind_last)
  apply (simp only: split_paired_all prod.case)
  apply (rule wp_bind_last, rule wp_bind_last, rule wp_bind_last, rule wp_bind_last, rule wp_bind_last, rule wp_bind_last, rule wp_bind_last)
  apply (simp add: wp_simps wp_extcall ext_post_iff renamed_def)
  done

lemma provisionMachine_done:
  fixes s :: "('w, 'x) BareMetalMachineScope_scheme"
  shows "wp (provisionMachine cd h k r server) s (\<lambda>res t s'. (\<exists>w. s' = s\<lparr>world := w\<rparr>) \<and>
    (is_ok res \<longrightarrow> provisioned cd h k s (bs_ServerIP server) (filter acts_on_server t)))"
  by (rule wp_mono2[OF wp_conj[OF provisionMachine_wp provisionMachine_renames] frame_wp[OF frame_provisionMachine]])
    (simp add: strip_same)
section \<open>Reconciling\<close>

definition bm_ready :: "('w, 'x) BareMetalMachineScope_scheme \<Rightarrow> bool" where
  "bm_ready s = bmt_Ready (bm_Status (bs_BareMetalMachine s))"

definition bm_provider_id :: "('w, 'x) BareMetalMachineScope_scheme \<Rightarrow> string option" where
  "bm_provider_id s = bms_ProviderID (bm_Spec (bs_BareMetalMachine s))"

definition runs_on :: "robot_Server \<Rightarrow> ('w, 'x) BareMetalMachineScope_scheme \<Rightarrow> bool" where
  "runs_on server s \<longleftrightarrow> bm_ready s \<and> bmt_ServerState (bm_Status (bs_BareMetalMachine s)) = ''running'' \<and>
     bm_provider_id s = Some (''hcloud://'' @ itoa (bs_ServerNumber server))"

definition not_ready_post :: "('w, 'x) BareMetalMachineScope_scheme \<Rightarrow> ('w, 'x) BareMetalMachineScope_scheme \<Rightarrow> bool" where
  "not_ready_post s s' \<longleftrightarrow> bm_ready s' = bm_ready s \<and> bm_provider_id s' = bm_provider_id s"

lemma not_ready_simps [simp]:
  "not_ready_post s (s\<lparr>world := w\<rparr>)" "not_ready_post (s\<lparr>world := w\<rparr>) s' = not_ready_post s s'"
  "not_ready_post s ((setBareMetalStatus (bmt_ServerState_update f) s)\<lparr>world := w\<rparr>)"
  "not_ready_post s (setBareMetalStatus (bmt_ServerState_update f) s)" "not_ready_post s s"
  by (auto simp: not_ready_post_def bm_ready_def bm_provider_id_def setBareMetalStatus_def)

lemma bare_metal_ready_wp:
  "wp (bare_metal_ready server) s (\<lambda>r t s'. r = Ok None \<and> t = [] \<and> runs_on server s')"
  by (simp add: bare_metal_ready_def wp_simps runs_on_def bm_ready_def bm_provider_id_def setBareMetalStatus_def setBareMetalSpec_def)

lemma check_cancelled_wp:
  "wp (check_cancelled h server) s (\<lambda>r t s'. (\<forall>x \<in> set t. \<not> acts_on_server x) \<and> (is_ok r \<or> not_ready_post s s'))"
proof -
  have "wp (ends_soon h server) s (\<lambda>r t s'. (\<exists>w. s' = s\<lparr>world := w\<rparr>) \<and> (\<forall>x \<in> set t. \<not> acts_on_server x))"
    by (rule quiet_wp[OF frame_ends_soon])
  then show ?thesis
    unfolding check_cancelled_def wp_whenM wp_bindM
    by (auto simp: bind_post_def wp_simps elim!: wp_mono split: res.splits)
qed

definition own_server ::
    "Codec \<Rightarrow> 'w Host \<Rightarrow> 'w KubeClient \<Rightarrow> robot_Server \<Rightarrow> ('w, 'x) BareMetalMachineScope_scheme \<Rightarrow> call list \<Rightarrow> bool" where
  "own_server cd h k server s cs \<longleftrightarrow>
     attached_to (BareMetal_Name s) server \<and> cs = [] \<or>
     length (Split (bs_ServerName server) delimiter) = 2 \<and> bs_Status server = ''ready'' \<and>
       BareMetal_IsBootstrapDataReady s \<and> provisioned cd h k s (bs_ServerIP server) cs"

lemma findNewMachine_wp:
  "wp (findNewMachine servers) s (\<lambda>r t s'. (\<exists>w. s' = s\<lparr>world := w\<rparr>) \<and> (\<forall>x \<in> set t. \<not> acts_on_server x) \<and>
     (\<forall>server. r = Ok server \<longrightarrow> server \<in> set servers \<and> length (Split (bs_ServerName server) delimiter) = 2))"
proof (rule wp_mono[OF wp_conj[OF quiet_wp[OF frame_findNewMachine]]])
  show "wp (findNewMachine servers) s (\<lambda>r t s'. \<forall>server. r = Ok server \<longrightarrow>
     server \<in> set servers \<and> length (Split (bs_ServerName server) delimiter) = 2)"
    unfolding findNewMachine_def
    by (auto simp: wp_simps serverType_def dest: find_Some_mem split: option.splits)
qed auto
text \<open>The status of the machine is not read by provisioning.\<close>

lemma GetRawBootstrapData_status:
  "BareMetal_GetRawBootstrapData k (setBareMetalStatus f s) =
     (case BareMetal_GetRawBootstrapData k s of (r, t, s') \<Rightarrow> (r, t, setBareMetalStatus f s'))"
  by (auto simp: BareMetal_GetRawBootstrapData_def BareMetal_Name_def BareMetal_Namespace_def GetSecret_def run_defs
      setBareMetalStatus_def failM_def split: option.splits prod.splits sum.splits)

definition userdata_rest :: "Codec \<Rightarrow> string \<Rightarrow> ('s, call, string) M" where
  "userdata_rest cd raw =
     bindM (liftM (NewFromReader cd raw)) (\<lambda>userData.
     bindM (liftM (GetKubeadmConfig cd userData)) (\<lambda>kubeadmConfig.
     bindM (on_userdata (SetKubeadmConfig cd (configure_join kubeadmConfig)) userData) (\<lambda>userData'.
     mapErrM (\<lambda>err. ErrNew (''Error while writing yaml file%!(EXTRA '' @ Error err @ '')'')) (liftM (WriteYAML cd userData')))))"

text \<open>\<open>stateless m\<close>: the state neither changes nor matters.\<close>

definition stateless :: "('s, 'c, 'a) M \<Rightarrow> bool" where
  "stateless m \<longleftrightarrow> (\<exists>r t. \<forall>s. m s = (r, t, s))"

lemma statelessI: "(\<And>s. m s = (r, t, s)) \<Longrightarrow> stateless m"
  by (auto simp: stateless_def)

lemma stateless_lift: "stateless (liftM x)"
  by (cases x) (auto simp: liftM_def failM_def ret_def intro: statelessI)

lemma stateless_userdata: "stateless (on_userdata m n)"
proof -
  obtain r t u where "m n = (r, t, u)" by (metis prod_cases3)
  then show ?thesis by (cases r) (auto simp: on_userdata_def intro: statelessI)
qed

lemma stateless_mapErrM:
  assumes "stateless m"
  shows "stateless (mapErrM g m)"
proof -
  from assms obtain r t where "\<forall>s. m s = (r, t, s)" by (auto simp: stateless_def)
  then show ?thesis by (cases r) (auto simp: mapErrM_def intro: statelessI)
qed

lemma stateless_bindM:
  assumes "stateless m" and "\<And>a. stateless (f a)"
  shows "stateless (bindM m f)"
proof -
  from assms(1) obtain r t where m: "\<forall>s. m s = (r, t, s)" by (auto simp: stateless_def)
  show ?thesis
  proof (cases r)
    case (Ok a)
    from assms(2)[of a] obtain r' t' where "\<forall>s. f a s = (r', t', s)" by (auto simp: stateless_def)
    with m Ok show ?thesis by (simp add: stateless_def bindM_def)
  qed (use m in \<open>simp_all add: stateless_def bindM_def\<close>)
qed

lemma stateless_userdata_rest: "stateless (userdata_rest cd raw)"
  unfolding userdata_rest_def by (intro stateless_bindM stateless_lift stateless_userdata stateless_mapErrM)

lemma stateless_outcome: "stateless m \<Longrightarrow> outcome (m s) = outcome (m s')"
  by (auto simp: stateless_def outcome_def)

lemma outcome_bindM:
  "outcome (bindM m f s) = (case m s of (Ok a, t, s1) \<Rightarrow> outcome (f a s1) | (Err e, t, s1) \<Rightarrow> Err e | (Panic p, t, s1) \<Rightarrow> Panic p)"
  by (simp add: bindM_def outcome_def split: prod.splits res.splits)

lemma cloud_init_status: "outcome (cloud_init cd k (setBareMetalStatus f s)) = outcome (cloud_init cd k s)"
proof -
  have "cloud_init cd k = (bindM (BareMetal_GetRawBootstrapData k) (userdata_rest cd) :: (('a, 'b) BareMetalMachineScope_scheme, call, string) M)"
    unfolding cloud_init_def userdata_rest_def ..
  note eq = this
  show ?thesis
    by (cases "BareMetal_GetRawBootstrapData k s")
      (auto simp: eq outcome_bindM GetRawBootstrapData_status split: res.splits
        intro: stateless_outcome[OF stateless_userdata_rest])
qed

lemma setBareMetalStatus_world: "(setBareMetalStatus f s)\<lparr>world := w\<rparr> = setBareMetalStatus f (s\<lparr>world := w\<rparr>)"
  by (simp add: setBareMetalStatus_def)

lemma provisioned_status [simp]:
  "provisioned cd h k (setBareMetalStatus f s) ip cs = provisioned cd h k s ip cs"
  unfolding provisioned_def setBareMetalStatus_world cloud_init_status
  by (simp add: setBareMetalStatus_def BareMetal_Name_def)

lemma provisioned_world [simp]: "provisioned cd h k (s\<lparr>world := w\<rparr>) ip cs = provisioned cd h k s ip cs"
  unfolding provisioned_def by (simp add: BareMetal_Name_def)

lemma own_server_world [simp]: "own_server cd h k server (s\<lparr>world := w\<rparr>) cs = own_server cd h k server s cs"
  by (simp add: own_server_def BareMetal_Name_def BareMetal_IsBootstrapDataReady_def)

definition reconciled ::
    "Codec \<Rightarrow> 'w Host \<Rightarrow> 'w KubeClient \<Rightarrow> robot_Server set \<Rightarrow> ('w, 'x) BareMetalMachineScope_scheme
       \<Rightarrow> Result option res \<Rightarrow> call list \<Rightarrow> ('w, 'x) BareMetalMachineScope_scheme \<Rightarrow> bool" where
  "reconciled cd h k servers s r t s' \<longleftrightarrow>
     (if r = Ok None then \<exists>server \<in> servers. runs_on server s' \<and> own_server cd h k server s (filter acts_on_server t)
      else not_ready_post s s')"

lemma reconciled_quiet:
  "\<forall>x \<in> set t0. \<not> acts_on_server x \<Longrightarrow> reconciled cd h k servers (s\<lparr>world := w\<rparr>) r t s' \<Longrightarrow>
   reconciled cd h k servers s r (t0 @ t) s'"
  by (auto simp: reconciled_def filter_empty_conv[THEN iffD2] split: if_splits)

lemma rate_limited_wp:
  "wp (rate_limited d) s (\<lambda>r t s'. s' = s \<and> (\<exists>c. r = Ok (Some c)) \<and> (\<forall>x \<in> set t. \<not> acts_on_server x))"
  by (simp add: rate_limited_def wp_simps)

lemma provision_new_wp:
  fixes s :: "('w, 'x) BareMetalMachineScope_scheme"
  assumes "length (Split (bs_ServerName server) delimiter) = 2" and "bs_Status server = ''ready''"
    and "BareMetal_IsBootstrapDataReady s" and "server \<in> servers"
  shows "wp (bindM (modifyM (setBareMetalStatus (bmt_ServerState_update f))) (\<lambda>_.
      bindM (tryM (provisionMachine cd h k r server)) (\<lambda>provisioned.
         case provisioned of
           Inl err \<Rightarrow> if checkRateLimitExceeded err then rate_limited rateLimitTimeOut else failM (e err)
         | Inr _ \<Rightarrow> bare_metal_ready server))) s (reconciled cd h k servers s)"
  unfolding wp_bindM[of "modifyM _"] wp_modifyM bind_post_simps wp_bindM[of "tryM _"] wp_tryM
proof (rule wp_mono[OF provisionMachine_done], elim conjE exE)
  fix res t s1 w
  let ?s = "setBareMetalStatus (bmt_ServerState_update f) s"
  assume s1: "s1 = ?s\<lparr>world := w\<rparr>" and p: "is_ok res \<longrightarrow> provisioned cd h k ?s (bs_ServerIP server) (filter acts_on_server t)"
  show "try_post (bind_post (\<lambda>provisioned. case provisioned of
           Inl err \<Rightarrow> if checkRateLimitExceeded err then rate_limited rateLimitTimeOut else failM (e err)
         | Inr _ \<Rightarrow> bare_metal_ready server) (\<lambda>r' t' s2. reconciled cd h k servers s r' ([] @ t') s2)) res t s1"
  proof (cases res)
    case (Ok u)
    then show ?thesis
      using p assms by (simp, intro wp_mono[OF bare_metal_ready_wp]) (auto simp: reconciled_def own_server_def)
  next
    case (Err err)
    then show ?thesis
      using s1 by (auto simp: wp_simps reconciled_def intro!: wp_mono[OF rate_limited_wp])
  qed (use s1 in \<open>simp add: reconciled_def\<close>)
qed
lemma attach_new_wp:
  assumes "\<forall>server \<in> set list. server \<in> servers"
  shows "wp (attach_new cd h k r list) s (reconciled cd h k servers s)"
proof -
  have quiet: "wp (attach_new cd h k r list) s
     (\<lambda>r t s'. \<exists>t0 t1 w. t = t0 @ t1 \<and> (\<forall>x \<in> set t0. \<not> acts_on_server x) \<and> reconciled cd h k servers (s\<lparr>world := w\<rparr>) r t1 s')"
    unfolding attach_new_def wp_bindM[of "mapErrM _ _"] wp_mapErrM
  proof (rule wp_mono[OF findNewMachine_wp], elim conjE exE)
    fix r0 t0 s1 w
    assume s1: "s1 = s\<lparr>world := w\<rparr>" and t0: "\<forall>x \<in> set t0. \<not> acts_on_server x"
      and new: "\<forall>server. r0 = Ok server \<longrightarrow> server \<in> set list \<and> length (Split (bs_ServerName server) delimiter) = 2"
    let ?Q = "\<lambda>r t s'. \<exists>t0 t1 w. t = t0 @ t1 \<and> (\<forall>x \<in> set t0. \<not> acts_on_server x) \<and> reconciled cd h k servers (s\<lparr>world := w\<rparr>) r t1 s'"
    have stop: "?Q res t0 s1" if "res \<noteq> Ok None" for res
      by (rule exI[of _ t0], rule exI[of _ "[]"], rule exI[of _ w]) (use that t0 s1 in \<open>simp add: reconciled_def\<close>)
    show "bind_post (\<lambda>newServer.
          if bs_Status newServer \<noteq> ''ready'' then ret (Some (requeue_after (300 * Second)))
          else bindM (getsM BareMetal_IsBootstrapDataReady) (\<lambda>bootstrapped.
            if \<not> bootstrapped then ret (Some (requeue_after (15 * Second)))
            else bindM (modifyM (setBareMetalStatus (\<lambda>st. st\<lparr>bmt_ServerState := ''initializing''\<rparr>))) (\<lambda>_.
              bindM (tryM (provisionMachine cd h k r newServer)) (\<lambda>provisioned.
              case provisioned of
                Inl err \<Rightarrow> if checkRateLimitExceeded err then rate_limited rateLimitTimeOut
                  else failM (ErrNew (''Failed to provision new machine: '' @ Error err))
              | Inr _ \<Rightarrow> bare_metal_ready newServer)))) ?Q
        (map_err (\<lambda>err. ErrNew (''Failed to find new machine: '' @ Error err)) r0) t0 s1"
    proof (cases r0)
      case (Ok server)
      show ?thesis
      proof (cases "bs_Status server = ''ready'' \<and> BareMetal_IsBootstrapDataReady s")
        case True
        then have p: "bs_Status server = ''ready''" "BareMetal_IsBootstrapDataReady s1"
          by (simp_all add: s1 BareMetal_IsBootstrapDataReady_def)
        from new Ok assms have mem: "length (Split (bs_ServerName server) delimiter) = 2" "server \<in> servers" by auto
        show ?thesis
          unfolding Ok map_err_simps bind_post_simps
          apply (simp only: p not_False_eq_True if_False simp_thms wp_bindM[of "getsM _"] wp_getsM bind_post_simps append_Nil)
          apply (rule wp_mono[OF provision_new_wp[OF mem(1) p mem(2), where f = "\<lambda>_. ''initializing''"]])
          apply (rule exI[of _ t0], rule exI, rule exI[of _ w])
          using t0 s1 by simp
      next
        case False
        then show ?thesis
          unfolding Ok using stop[of "Ok (Some (requeue_after _))"] s1
          by (auto simp: wp_simps BareMetal_IsBootstrapDataReady_def)
      qed
    qed (use stop in simp_all)
  qed
  show ?thesis
    by (rule wp_mono[OF quiet]) (auto intro: reconciled_quiet)
qed
text \<open>The ways on: with a server that carries the machine's name, or with the list of those that may be taken.\<close>

lemma attached_server_wp:
  fixes s :: "('w, 'x) BareMetalMachineScope_scheme"
  assumes "server \<in> S" and "attached_to (BareMetal_Name s) server"
  shows "wp (bindM (check_cancelled h server) (\<lambda>_. bare_metal_ready server)) s (reconciled cd h k S s)"
  unfolding wp_bindM
proof (rule wp_mono[OF check_cancelled_wp], elim conjE)
  fix r t s'
  assume t: "\<forall>x \<in> set t. \<not> acts_on_server x" and r: "is_ok r \<or> not_ready_post s s'"
  show "bind_post (\<lambda>_. bare_metal_ready server) (reconciled cd h k S s) r t s'"
  proof (cases r)
    case (Ok u)
    show ?thesis
      unfolding Ok bind_post_simps
      by (rule wp_mono[OF bare_metal_ready_wp])
        (use assms t in \<open>auto simp: reconciled_def own_server_def filter_empty_conv\<close>)
  qed (use r in \<open>simp_all add: reconciled_def\<close>)
qed

lemma listed_servers_wp:
  fixes s :: "('w, 'x) BareMetalMachineScope_scheme"
  assumes list: "\<forall>server \<in> set list. server \<in> S"
  shows "wp (bindM (wrapM ''failed to find attached machine'' (findAttachedMachine list)) (\<lambda>found.
        case found of
          Some actualServer \<Rightarrow> bindM (check_cancelled h actualServer) (\<lambda>_. bare_metal_ready actualServer)
        | None \<Rightarrow> attach_new cd h k r list)) s (reconciled cd h k S s)"
  unfolding wp_bindM[of "mapErrM _ _"] wp_mapErrM
proof (rule wp_mono[OF findAttachedMachine_wp], elim conjE exE)
  fix r0 t0 s2 w
  assume s2: "s2 = s\<lparr>world := w\<rparr>" and t0: "\<forall>x \<in> set t0. \<not> acts_on_server x"
    and found: "\<forall>server. r0 = Ok (Some server) \<longrightarrow> filter (attached_to (BareMetal_Name s)) list = [server]"
  have cont: "wp m s2 (reconciled cd h k S s2) \<Longrightarrow> wp m s2 (\<lambda>r t s'. reconciled cd h k S s r (t0 @ t) s')"
    for m :: "(('w, 'x) BareMetalMachineScope_scheme, call, Result option) M"
    by (erule wp_mono) (rule reconciled_quiet[OF t0], simp only: s2)
  show "bind_post (\<lambda>found. case found of
        Some actualServer \<Rightarrow> bindM (check_cancelled h actualServer) (\<lambda>_. bare_metal_ready actualServer)
      | None \<Rightarrow> attach_new cd h k r list) (reconciled cd h k S s) (map_err (ErrWrap ''failed to find attached machine'') r0) t0 s2"
  proof (cases r0)
    case (Ok x)
    show ?thesis
    proof (cases x)
      case None
      then show ?thesis unfolding Ok by (simp add: cont[OF attach_new_wp[OF list]])
    next
      case (Some server)
      with found Ok have "filter (attached_to (BareMetal_Name s)) list = [server]" by blast
      then have "server \<in> set (filter (attached_to (BareMetal_Name s)) list)" by simp
      then have "server \<in> S" "attached_to (BareMetal_Name s2) server"
        using list by (auto simp: s2 BareMetal_Name_def)
      then show ?thesis unfolding Ok Some by (simp add: cont attached_server_wp)
    qed
  qed (simp_all add: reconciled_def s2)
qed

lemma bare_metal_Reconcile_wp:
  fixes s :: "('w, 'x) BareMetalMachineScope_scheme"
  shows "wp (bare_metal_Reconcile cd h k r) s (reconciled cd h k {server. robot_lists r s server} s)"
proof -
  let ?S = "{server. robot_lists r s server}"
  show ?thesis
  proof (cases "hcs_HrobotTokenRef (hc_Spec (cs_HcloudCluster s)) = None")
    case True
    then show ?thesis by (simp add: bare_metal_Reconcile_def wp_simps reconciled_def)
  next
    case False
    show ?thesis
      unfolding bare_metal_Reconcile_def wp_bindM[of "getsM _"] wp_getsM bind_post_simps id_apply append_Nil
        if_not_P[OF False] wp_bindM[of "tryM _"] wp_tryM
    proof (rule wp_mono[OF listMatchingMachines_wp], elim conjE exE)
      fix r0 t0 s1 w
      assume s1: "s1 = s\<lparr>world := w\<rparr>" and t0: "\<forall>x \<in> set t0. \<not> acts_on_server x"
        and list: "\<forall>list. r0 = Ok list \<longrightarrow> (\<forall>server \<in> set list. robot_lists r s server)"
      show "try_post (bind_post (\<lambda>listed. case listed of
           Inl err \<Rightarrow> if checkRateLimitExceeded err then rate_limited rateLimitTimeOut
             else failM (ErrWrap ''failed to list machines'' err)
         | Inr serverList \<Rightarrow> bindM (wrapM ''failed to find attached machine'' (findAttachedMachine serverList)) (\<lambda>found.
             case found of
               Some actualServer \<Rightarrow> bindM (check_cancelled h actualServer) (\<lambda>_. bare_metal_ready actualServer)
             | None \<Rightarrow> attach_new cd h k r serverList)) (reconciled cd h k ?S s)) r0 t0 s1"
      proof (cases r0)
        case (Ok l)
        then have "\<forall>server \<in> set l. server \<in> ?S" using list by simp
        from listed_servers_wp[OF this] show ?thesis
          unfolding Ok try_post_simps bind_post_simps sum.case
          by (rule wp_mono) (rule reconciled_quiet[OF t0], simp only: s1)
      next
        case (Err e)
        then show ?thesis
          using s1 by (auto simp: wp_simps reconciled_def intro!: wp_mono[OF rate_limited_wp])
      qed (use s1 in \<open>simp add: reconciled_def\<close>)
    qed
  qed
qed

text \<open>
  C22. A reconcile of a bare metal machine that ends with neither a result nor an error leaves it ready and
  running, with the provider identifier of a server that the Robot API listed: one that carries the machine's
  name already, and then nothing was done to any server, or a free and ready one, and then the machine's
  bootstrap data was there and the complete script was carried out on that server and no other. Any other
  reconcile leaves readiness and provider identifier as they were. A server that is cancelled and
  ends soon makes no difference to this.
\<close>

theorem bare_metal_Reconcile_ready:
  "case bare_metal_Reconcile cd h k r s of (res, t, s') \<Rightarrow>
     if res = Ok None
     then \<exists>server. robot_lists r s server \<and> runs_on server s' \<and> own_server cd h k server s (filter acts_on_server t)
     else bm_ready s' = bm_ready s \<and> bm_provider_id s' = bm_provider_id s"
proof -
  obtain res t s' where eq: "bare_metal_Reconcile cd h k r s = (res, t, s')" by (metis prod_cases3)
  from wpD[OF bare_metal_Reconcile_wp eq] show ?thesis
    by (auto simp: eq reconciled_def not_ready_post_def split: if_splits)
qed

section \<open>Deleting\<close>

lemma find_filter_True: "find P xs = find (\<lambda>_. True) (filter P xs)"
  by (induction xs) auto

lemma find_last_of_filter: "find_last P xs = find_last (\<lambda>_. True) (filter P xs)"
  unfolding find_last_def rev_filter by (rule find_filter_True)

lemma findAttachedMachine_none:
  assumes "filter (attached_to (BareMetal_Name s)) list = []"
  shows "findAttachedMachine list s = (Ok None, [], s)"
proof -
  have "find_last (attached_to (BareMetal_Name s)) list = None"
    unfolding find_last_of_filter[of "attached_to (BareMetal_Name s)"] assms by (simp add: find_last_def)
  then show ?thesis by (simp add: findAttachedMachine_def bindM_def getsM_def ret_def Let_def)
qed

lemma findAttachedMachine_one:
  assumes "filter (attached_to (BareMetal_Name s)) list = [server]"
  shows "findAttachedMachine list s = (Ok (Some server), [], s)"
proof -
  have "find_last (attached_to (BareMetal_Name s)) list = Some server"
    unfolding find_last_of_filter[of "attached_to (BareMetal_Name s)"] assms by (simp add: find_last_def)
  with assms show ?thesis by (simp add: findAttachedMachine_def bindM_def getsM_def ret_def Let_def)
qed

lemma findAttachedMachine_many:
  assumes "filter (attached_to (BareMetal_Name s)) list = a # b # l"
  shows "\<exists>e. findAttachedMachine list s = (Err e, [EventC EventTypeWarning ''MultipleBareMetalMachines''], s)"
proof -
  from assms have "\<not> (\<forall>x \<in> set list. \<not> attached_to (BareMetal_Name s) x)" by (metis filter_False list.simps(3))
  then obtain y where "find_last (attached_to (BareMetal_Name s)) list = Some y" by (meson find_last_None not_None_eq)
  with assms show ?thesis
    by (simp add: findAttachedMachine_def bindM_def getsM_def Let_def Eventf_def tellM_def failM_def)
qed

text \<open>The deletion with one server of the machine's name: it gets a free name, made of the type of the specification.\<close>

lemma bare_metal_Delete_renames:
  assumes listed: "listMatchingMachines h r s = (Ok list, t0, s\<lparr>world := w\<rparr>)" and f0: "filter acts_on_server t0 = []"
    and one: "filter (attached_to (BareMetal_Name s)) list = [server]"
  shows "case bare_metal_Delete h r s of (res, t, s') \<Rightarrow> bs_BareMetalMachine s' = bs_BareMetalMachine s \<and>
    (case bms_ServerType (bm_Spec (bs_BareMetalMachine s)) of
       None \<Rightarrow> is_panic res \<and> filter acts_on_server t = []
     | Some ty \<Rightarrow> (let name = freed_name ty (BareMetal_Name s) in
         filter acts_on_server t = [SetBMServerNameC (bs_ServerIP server) name] \<and>
         (\<exists>w. case r_SetBMServerName r (bs_ServerIP server) name w of
             (Inl e, _) \<Rightarrow> (\<exists>e. res = Err e) | (Inr _, _) \<Rightarrow> res = Ok None)))"
proof -
  have "BareMetal_Name (s\<lparr>world := w\<rparr>) = BareMetal_Name s" by (simp add: BareMetal_Name_def)
  with one have found: "findAttachedMachine list (s\<lparr>world := w\<rparr>) = (Ok (Some server), [], s\<lparr>world := w\<rparr>)"
    by (simp only: findAttachedMachine_one)
  note run = bare_metal_Delete_def bindM_def tryM_def listed
  show ?thesis
  proof (cases "bms_ServerType (bm_Spec (bs_BareMetalMachine s))")
    case None
    with f0 show ?thesis by (simp add: run found serverType_def getsM_def derefM_def panicM_def is_panic_def)
  next
    case (Some ty)
    let ?answer = "r_SetBMServerName r (bs_ServerIP server) (freed_name ty (BareMetal_Name s)) w"
    obtain a w' where "?answer = (a, w')" by (cases ?answer)
    with f0 Some show ?thesis
      by (cases a) (auto simp: run found serverType_def getsM_def derefM_def ret_def
          SetBMServerName_def mapErrM_def extcall_def BareMetal_Name_def intro!: exI[of _ w])
  qed
qed

text \<open>
  C23. Deleting a bare metal machine changes nothing of the object and acts on servers at most once, by renaming
  the only matching server with the machine's name to a free name. It reports completion exactly when there is no such
  server or the Robot API accepted the new name; an attempt that could not be made or was refused is an error or is repeated.
\<close>

theorem bare_metal_Delete_correct:
  "case bare_metal_Delete h r s of (res, t, s') \<Rightarrow>
     bs_BareMetalMachine s' = bs_BareMetalMachine s \<and>
     (case outcome (listMatchingMachines h r s) of
        Ok list \<Rightarrow> (case filter (attached_to (BareMetal_Name s)) list of
            [] \<Rightarrow> res = Ok None \<and> filter acts_on_server t = []
          | [server] \<Rightarrow> (case bms_ServerType (bm_Spec (bs_BareMetalMachine s)) of
                None \<Rightarrow> is_panic res \<and> filter acts_on_server t = []
              | Some ty \<Rightarrow> (let name = freed_name ty (BareMetal_Name s) in
                  filter acts_on_server t = [SetBMServerNameC (bs_ServerIP server) name] \<and>
                  (\<exists>w. case r_SetBMServerName r (bs_ServerIP server) name w of
                      (Inl e, _) \<Rightarrow> (\<exists>e. res = Err e) | (Inr _, _) \<Rightarrow> res = Ok None)))
          | _ \<Rightarrow> res \<noteq> Ok None \<and> filter acts_on_server t = [])
      | _ \<Rightarrow> res \<noteq> Ok None \<and> filter acts_on_server t = [])"
proof -
  obtain r0 t0 s1 where listed: "listMatchingMachines h r s = (r0, t0, s1)" by (metis prod_cases3)
  from wpD[OF quiet_wp[OF frame_listMatchingMachines] listed] obtain w where
    s1: "s1 = s\<lparr>world := w\<rparr>" and t0: "\<forall>x \<in> set t0. \<not> acts_on_server x" by blast
  then have f0: "filter acts_on_server t0 = []" by (simp add: filter_empty_conv)
  have name: "BareMetal_Name s1 = BareMetal_Name s" by (simp add: s1 BareMetal_Name_def)
  have limited: "\<exists>c. rate_limited d s1 = (Ok (Some c), [EventC EventTypeWarning ''HrobotRateLimitExceeded''], s1)" for d
    by (simp add: rate_limited_def Eventf_def tellM_def bindM_def ret_def)
  note run = bare_metal_Delete_def bindM_def tryM_def listed
  show ?thesis
  proof (cases r0)
    case (Ok list)
    let ?found = "filter (attached_to (BareMetal_Name s)) list"
    consider (none) "?found = []" | (one) server where "?found = [server]" | (many) a b l where "?found = a # b # l"
      by (cases ?found; cases "tl ?found") auto
    then show ?thesis
    proof cases
      case none
      have "findAttachedMachine list s1 = (Ok None, [], s1)" using none by (simp only: findAttachedMachine_none name)
      with Ok f0 show ?thesis
        unfolding outcome_def listed Ok fst_conv res.case none list.case
        by (simp add: run Ok mapErrM_def Eventf_def tellM_def ret_def s1)
    next
      case one
      from bare_metal_Delete_renames[OF listed[unfolded Ok s1] f0 one] show ?thesis
        unfolding outcome_def listed Ok fst_conv res.case one list.case by simp
    next
      case many
      obtain e where "findAttachedMachine list s1 = (Err e, [EventC EventTypeWarning ''MultipleBareMetalMachines''], s1)"
        using findAttachedMachine_many[of s1 list] many name by auto
      with Ok many f0 limited[of rateLimitTimeOutDeletion] show ?thesis
        by (auto simp: run failM_def outcome_def s1)
    qed
  next
    case (Err e)
    with f0 limited[of rateLimitTimeOutDeletion] show ?thesis by (auto simp: run failM_def outcome_def s1)
  next
    case (Panic p)
    with f0 show ?thesis by (simp add: run outcome_def s1)
  qed
qed

section \<open>How long a reconcile waits\<close>

text \<open>
  The time that the calls of a trace sleep, and how often they dial. \<^verbatim>\<open>time.Sleep\<close> returns at
  once for a negative duration.
\<close>

fun slept :: "call list \<Rightarrow> int" where
  "slept [] = 0"
| "slept (SleepC d # t) = max 0 d + slept t"
| "slept (_ # t) = slept t"

fun dials :: "call list \<Rightarrow> nat" where
  "dials [] = 0"
| "dials (SshDialC _ _ _ # t) = Suc (dials t)"
| "dials (_ # t) = dials t"

lemma slept_append [simp]: "slept (t @ t') = slept t + slept t'"
  by (induction t rule: slept.induct) auto

lemma dials_append [simp]: "dials (t @ t') = dials t + dials t'"
  by (induction t rule: dials.induct) auto

lemma slept_nonneg: "0 \<le> slept t"
  by (induction t rule: slept.induct) auto

lemma no_waits: "\<forall>x \<in> set t. \<not> waits x \<Longrightarrow> slept t = 0 \<and> dials t = 0"
proof (induction t)
  case (Cons x t)
  then show ?case by (cases x) auto
qed simp

lemma failed_dials_cost: "slept (failed_dials n ip port) = int n * (30 * Second)" "dials (failed_dials n ip port) = n"
  by (induction n) (simp_all add: algebra_simps Second_def)

definition pauses :: "nat \<Rightarrow> ('s, call, 'a) M \<Rightarrow> bool" where
  "pauses n m \<longleftrightarrow> (\<forall>s. wp m s (\<lambda>r t s'. slept t \<le> int n * (30 * Second) \<and> dials t \<le> n))"

named_theorems pauses_intros "how long the program combinators wait"

lemma pauses_mono:
  assumes "pauses a m" and "a \<le> b"
  shows "pauses b m"
proof -
  have "int a * (30 * Second) \<le> int b * (30 * Second)" using assms(2) by (simp add: Second_def)
  with assms show ?thesis unfolding pauses_def by (fastforce elim!: wp_mono)
qed

lemma pauses_quiet:
  assumes "frame quiet_call f m"
  shows "pauses 0 m"
  unfolding pauses_def
proof (rule allI, rule wp_mono[OF frame_wp[OF assms]])
  fix s :: 'a and t s'
  assume "(\<forall>x \<in> set t. quiet_call x) \<and> f s' = f s"
  with no_waits[of t] show "slept t \<le> int 0 * (30 * Second) \<and> dials t \<le> 0" by (simp add: quiet_call_def)
qed

lemma pauses_pure [pauses_intros]: "pauses 0 (ret a)" "pauses 0 (failM e)" "pauses 0 (panicM p)" "pauses 0 (getsM g)"
  "pauses 0 (modifyM f)" "pauses 0 (liftM x)" "pauses 0 (derefM what y)"
  by (auto simp: pauses_def wp_simps split: sum.splits option.splits)

lemma pauses_call [pauses_intros]: "\<not> waits c \<Longrightarrow> pauses 0 (extcall c g)"
  using no_waits[of "[c]"] by (simp add: pauses_def wp_extcall ext_post_iff)

lemma pauses_tell [pauses_intros]: "pauses 0 (Eventf ty reason)"
  using no_waits[of "[EventC ty reason]"] by (simp add: pauses_def wp_simps)

lemma pauses_bindM [pauses_intros]:
  assumes "pauses a m" and "\<And>x. pauses b (k x)"
  shows "pauses (a + b) (bindM m k)"
  unfolding pauses_def wp_bindM
proof (rule allI, rule wp_mono)
  fix s
  show "wp m s (\<lambda>r t s'. slept t \<le> int a * (30 * Second) \<and> dials t \<le> a)" using assms(1) by (simp add: pauses_def)
  fix r t s1
  assume *: "slept t \<le> int a * (30 * Second) \<and> dials t \<le> a"
  then have le: "slept t \<le> int (a + b) * (30 * Second)" by (simp add: algebra_simps Second_def)
  show "bind_post k (\<lambda>r t s'. slept t \<le> int (a + b) * (30 * Second) \<and> dials t \<le> a + b) r t s1"
  proof (cases r)
    case (Ok x)
    have "wp (k x) s1 (\<lambda>r t s'. slept t \<le> int b * (30 * Second) \<and> dials t \<le> b)"
      using assms(2)[of x] by (simp add: pauses_def)
    with * show ?thesis unfolding Ok bind_post_simps by (auto simp: algebra_simps elim!: wp_mono)
  qed (use * le in auto)
qed

lemma pauses_tryM [pauses_intros]: "pauses a m \<Longrightarrow> pauses a (tryM m)"
  unfolding pauses_def wp_tryM by (auto simp: wp_def try_post_def split: res.splits prod.splits)

lemma pauses_mapErrM [pauses_intros]: "pauses a m \<Longrightarrow> pauses a (mapErrM f m)"
  by (simp add: pauses_def wp_mapErrM)

lemma pauses_cases [pauses_intros]:
  "pauses a m \<Longrightarrow> pauses b m' \<Longrightarrow> pauses (max a b) (if c then m else m')"
  "pauses a m \<Longrightarrow> (\<And>x. pauses b (k1 x)) \<Longrightarrow> pauses (max a b) (case p of None \<Rightarrow> m | Some x \<Rightarrow> k1 x)"
  "(\<And>x. pauses a (k2 x)) \<Longrightarrow> (\<And>x. pauses b (k3 x)) \<Longrightarrow> pauses (max a b) (case q of Inl x \<Rightarrow> k2 x | Inr x \<Rightarrow> k3 x)"
  "(\<And>x y. pauses a (k4 x y)) \<Longrightarrow> pauses a (case z of (x, y) \<Rightarrow> k4 x y)"
  by (auto intro: pauses_mono[OF _ max.cobounded1] pauses_mono[OF _ max.cobounded2] split: option.splits sum.splits prod.splits)

lemma pauses_runSSH: "pauses 6 (runSSH h command ip port key)"
  unfolding pauses_def
  by (rule allI, rule wp_mono[OF runSSH_wp]) (auto simp: failed_dials_cost Second_def split: if_splits)

lemma pauses_ssh_step: "pauses a undo \<Longrightarrow> pauses (6 + (a + 0)) (ssh_step h ip key failed undo command)"
proof -
  assume undo: "pauses a undo"
  have "pauses (6 + max 0 (a + 0)) (ssh_step h ip key failed undo command)"
    unfolding ssh_step_def by (intro pauses_intros pauses_runSSH undo)
  then show ?thesis by simp
qed

lemma pauses_wipe: "pauses 6 (wipe h ip key drive)"
proof -
  have "pauses (6 + 0) (wipe h ip key drive)"
    unfolding wipe_def by (intro pauses_intros pauses_runSSH)
  then show ?thesis by simp
qed

lemma pauses_reboot: "pauses 6 (reboot h ip key)"
proof -
  have "pauses (6 + max 0 (max 0 0)) (reboot h ip key)"
    unfolding reboot_def by (intro pauses_intros pauses_runSSH)
  then show ?thesis by simp
qed

lemma pauses_lift_res: "pauses 0 (lift_res x)"
  by (cases x) (auto simp: lift_res_def intro: pauses_intros)

lemmas pauses_steps = pauses_ssh_step pauses_wipe pauses_reboot pauses_lift_res

lemma pauses_block_devices: "pauses a undo \<Longrightarrow> pauses (6 + a) (block_devices h ip key undo before)"
  unfolding block_devices_def
  by (rule pauses_mono, (rule pauses_intros pauses_steps | assumption | simp)+)

lemma pauses_install_image: "pauses 48 (install_image h ip key)"
  unfolding install_image_def Let_def
  by (rule pauses_mono, (rule pauses_intros pauses_steps pauses_block_devices pauses_quiet[OF frame_serverType] | simp)+)

lemma pauses_seed_cloud_init: "pauses 48 (seed_cloud_init h ip key c)"
  unfolding seed_cloud_init_def by (rule pauses_mono, (rule pauses_intros pauses_steps | simp)+)

lemma pauses_start_rescue: "pauses 6 (start_rescue h r ip fp key)"
  unfolding start_rescue_def client_defs
  by (rule pauses_mono, (rule pauses_intros pauses_steps | simp)+)

lemma pauses_provisionMachine: "pauses 102 (provisionMachine cd h k r server)"
  unfolding provisionMachine_def Let_def SetBMServerName_def
  by (rule pauses_mono, (rule pauses_intros pauses_install_image pauses_seed_cloud_init pauses_start_rescue
      pauses_quiet[OF frame_serverType] pauses_quiet[OF frame_retrieveSSHSecret] pauses_quiet[OF frame_fingerprint]
      pauses_quiet[OF frame_cloud_init] | simp)+)

lemma pauses_bare_metal_Reconcile: "pauses 102 (bare_metal_Reconcile cd h k r)"
  unfolding bare_metal_Reconcile_def attach_new_def check_cancelled_def whenM_def bare_metal_ready_def rate_limited_def
  by (rule pauses_mono, (rule pauses_intros pauses_provisionMachine pauses_quiet[OF frame_listMatchingMachines]
      pauses_quiet[OF frame_findAttachedMachine] pauses_quiet[OF frame_findNewMachine] pauses_quiet[OF frame_ends_soon] | simp)+)

lemma pauses_bare_metal_Delete: "pauses 0 (bare_metal_Delete h r)"
  unfolding bare_metal_Delete_def rate_limited_def SetBMServerName_def
  by (rule pauses_mono, (rule pauses_intros pauses_quiet[OF frame_listMatchingMachines]
      pauses_quiet[OF frame_findAttachedMachine] pauses_quiet[OF frame_serverType] | simp)+)

lemma pauses_calls: "pauses n m \<Longrightarrow> slept (calls (m s)) \<le> int n * (30 * Second) \<and> dials (calls (m s)) \<le> n"
  by (cases "m s") (auto simp: pauses_def wp_def calls_def dest!: spec[of _ s])

text \<open>
  C39. However long the servers stay unreachable, and however they, the Robot API and the API server answer, a reconcile of a
  bare metal machine dials a server at most 102 times, and its pauses add up to at most 102 times thirty seconds, which
  is 51 minutes. A deletion dials no server and does not pause at all.
\<close>

theorem bare_metal_Reconcile_ends:
  "slept (calls (bare_metal_Reconcile cd h k r s)) \<le> 51 * 60 * Second \<and>
   dials (calls (bare_metal_Reconcile cd h k r s)) \<le> 102 \<and>
   dials (calls (bare_metal_Delete h r s)) = 0 \<and> slept (calls (bare_metal_Delete h r s)) = 0"
  using pauses_bare_metal_Reconcile[of cd h k r] pauses_bare_metal_Delete[of h r]
    slept_nonneg[of "calls (bare_metal_Delete h r s)"]
  by (auto dest!: pauses_calls[where s = s] simp: Second_def)

end
