(* ===== verification/Bare_Metal_Controller.thy ===== *)
theory Bare_Metal_Controller
  imports Bare_Metal_Servers Machine_Controller
begin

text \<open>
  controllers/baremetalmachine\_controller.go: one reconcile of a BareMetalMachine, and the requests that a
  change of an HcloudCluster triggers. The Robot API's client is the one of the cluster's scope; the SSH
  host is a parameter of the service. The finalizer is the one of cloud machines.

  The lemmas show the protocol of the finalizer.
\<close>

section \<open>Reconciling\<close>

definition setBareMetalMeta ::
    "(ObjectMeta \<Rightarrow> ObjectMeta) \<Rightarrow> ('w, 'x) BareMetalMachineScope_scheme \<Rightarrow> ('w, 'x) BareMetalMachineScope_scheme" where
  "setBareMetalMeta f s =
     s\<lparr>bs_BareMetalMachine := (bs_BareMetalMachine s)\<lparr>bm_Meta := f (bm_Meta (bs_BareMetalMachine s))\<rparr>\<rparr>"

definition in_bare_metal ::
    "string \<Rightarrow> (('w, 'x) BareMetalMachineScope_scheme, call, 'a) M \<Rightarrow> (('w, 'x) BareMetalMachineScope_scheme, call, 'a) M" where
  "in_bare_metal msg m =
     bindM (getsM (\<lambda>s. bm_Meta (bs_BareMetalMachine s))) (\<lambda>meta.
     wrapM (msg @ '' for BareMetalMachine '' @ om_Namespace meta @ ''/'' @ om_Name meta) m)"

definition bare_metal_reconcileDelete ::
    "'w Host \<Rightarrow> 'w Env \<Rightarrow> (('w, 'x) BareMetalMachineScope_scheme, call, Result) M" where
  "bare_metal_reconcileDelete h env =
     bindM (getsM (ClusterScope_HrobotClient env)) (\<lambda>r.
     breakReconcile (in_bare_metal ''failed to delete servers'' (bare_metal_Delete h r))
       (bindM (modifyM (setBareMetalMeta (RemoveFinalizer env MachineFinalizer))) (\<lambda>_.
        ret no_Result)))"

definition bare_metal_reconcileNormal ::
    "Codec \<Rightarrow> 'w Host \<Rightarrow> 'w Env \<Rightarrow> (('w, 'x) BareMetalMachineScope_scheme, call, Result) M" where
  "bare_metal_reconcileNormal cd h env =
     bindM (modifyM (setBareMetalMeta (AddFinalizer env MachineFinalizer))) (\<lambda>_.
     bindM (BareMetal_PatchObject (e_kube env)) (\<lambda>_.
     bindM (getsM (ClusterScope_HrobotClient env)) (\<lambda>r.
     breakReconcile (in_bare_metal ''failed to reconcile server'' (bare_metal_Reconcile cd h (e_kube env) r))
       (ret no_Result))))"

definition bare_metal_body ::
    "Codec \<Rightarrow> 'w Host \<Rightarrow> 'w Env \<Rightarrow> BareMetalMachine \<Rightarrow> (('w, 'x) BareMetalMachineScope_scheme, call, Result) M" where
  "bare_metal_body cd h env bareMetalMachine =
     deferM
       (if om_DeletionTimestamp (bm_Meta bareMetalMachine) \<noteq> None then bare_metal_reconcileDelete h env
        else bare_metal_reconcileNormal cd h env)
       (BareMetalMachineScope_Close (e_kube env))"

definition bare_metal_in_cluster ::
    "Codec \<Rightarrow> 'w Host \<Rightarrow> 'w Env \<Rightarrow> BareMetalMachine \<Rightarrow> Machine \<Rightarrow> Cluster \<Rightarrow> ('w sys, call, Result) M" where
  "bare_metal_in_cluster cd h env bareMetalMachine machine cluster =
     (if k_IsPaused (e_kube env) cluster (bm_Meta bareMetalMachine) then ret no_Result
      else
        bindM (derefM ''cluster.Spec.InfrastructureRef'' (cl_InfrastructureRefName cluster)) (\<lambda>refName.
        bindM (tryM (GetHcloudCluster (e_kube env) (om_Namespace (bm_Meta bareMetalMachine)) refName)) (\<lambda>gotCluster.
        case gotCluster of
          Inl _ \<Rightarrow> ret no_Result
        | Inr hcloudCluster \<Rightarrow>
            bindM (mapErrM (\<lambda>err. ErrNew (''failed to create scope: '' @ Error err))
                     (NewBareMetalMachineScope env (Some cluster) (Some hcloudCluster) (Some machine)
                       (Some bareMetalMachine))) (\<lambda>bareMetalMachineScope.
            in_scope bareMetalMachineScope (bare_metal_body cd h env bareMetalMachine)))))"

definition bare_metal_owned ::
    "Codec \<Rightarrow> 'w Host \<Rightarrow> 'w Env \<Rightarrow> BareMetalMachine \<Rightarrow> ('w sys, call, Result) M" where
  "bare_metal_owned cd h env bareMetalMachine =
     bindM (GetOwnerMachine (e_kube env) (bm_Meta bareMetalMachine)) (\<lambda>owner.
     case owner of
       None \<Rightarrow> ret no_Result
     | Some machine \<Rightarrow>
         bindM (tryM (GetClusterOfMachine (e_kube env) machine)) (\<lambda>found.
         case found of
           Inl _ \<Rightarrow> ret no_Result
         | Inr cluster \<Rightarrow> bare_metal_in_cluster cd h env bareMetalMachine machine cluster))"

definition BareMetalMachine_Reconcile ::
    "Codec \<Rightarrow> 'w Host \<Rightarrow> 'w Env \<Rightarrow> string \<Rightarrow> string \<Rightarrow> ('w sys, call, Result) M" where
  "BareMetalMachine_Reconcile cd h env ns name =
     bindM (tryM (GetBareMetalMachine (e_kube env) ns name)) (\<lambda>got.
     case got of
       Inl err \<Rightarrow> if IsNotFound err then ret no_Result else failM err
     | Inr bareMetalMachine \<Rightarrow> bare_metal_owned cd h env bareMetalMachine)"

definition HcloudClusterToBareMetalMachines ::
    "'w KubeClient \<Rightarrow> HcloudCluster option \<Rightarrow> (('w, 'x) sys_scheme, call, (string \<times> string) list) M" where
  "HcloudClusterToBareMetalMachines = ClusterToMachines ''worker-bm''"

section \<open>The frame of the service\<close>

abbreviation bm_meta :: "('w, 'x) BareMetalMachineScope_scheme \<Rightarrow> ObjectMeta" where
  "bm_meta s \<equiv> bm_Meta (bs_BareMetalMachine s)"

lemma strip_meta: "frame P strip m \<Longrightarrow> frame P bm_meta m"
  by (erule frame_part) (auto simp: strip_same)

lemma frame_ready: "frame (\<lambda>x. \<not> stores_machine x) bm_meta (bare_metal_ready server)"
  unfolding bare_metal_ready_def by (intro frame_intros) (simp_all add: setBareMetalStatus_def setBareMetalSpec_def)

lemma frame_rate_limited: "frame (\<lambda>x. \<not> stores_machine x) f (rate_limited d)"
  unfolding rate_limited_def by (intro frame_intros) simp

lemmas service_frames = frame_listMatchingMachines frame_findAttachedMachine frame_findNewMachine frame_ends_soon frame_serverType

lemma bare_metal_Reconcile_frame: "frame (\<lambda>x. \<not> stores_machine x) bm_meta (bare_metal_Reconcile cd h k r)"
  unfolding bare_metal_Reconcile_def check_cancelled_def attach_new_def
  by (intro frame_intros frame_ready frame_rate_limited service_frames[THEN strip_meta, THEN frame_quiet]
      strip_meta[OF frame_provisionMachine]) (simp_all add: setBareMetalStatus_def)

lemma strip_machine: "frame P strip m \<Longrightarrow> frame P bs_BareMetalMachine m"
  by (erule frame_part) (auto simp: strip_same)

lemma bare_metal_Delete_frame: "frame (\<lambda>x. \<not> stores_machine x) bs_BareMetalMachine (bare_metal_Delete h r)"
  unfolding bare_metal_Delete_def SetBMServerName_def
  by (intro frame_intros frame_rate_limited service_frames[THEN strip_machine, THEN frame_quiet]) simp_all

section \<open>One reconcile\<close>

interpretation bare_metal_object: stored_object "bs_BareMetalMachine :: 'w BareMetalMachineScope \<Rightarrow> BareMetalMachine" bm_Meta
  PatchBareMetalMachineC stores_machine setBareMetalMeta "BareMetalMachineScope_Close k" "BareMetal_PatchObject k"
  "\<lambda>s ob. \<exists>v v'. k_PatchBareMetalMachine k (bs_patchHelper s) ob v = (Inr (), v')" for k
proof
  show "stores_machine x \<longleftrightarrow> x \<in> range PatchBareMetalMachineC" for x by (cases x) auto
  show "wp (BareMetalMachineScope_Close k) s (\<lambda>r t s'. t = [PatchBareMetalMachineC (bs_BareMetalMachine s)])"
    for s :: "'w BareMetalMachineScope"
    by (simp add: BareMetalMachineScope_Close_def wp_def PatchBareMetalMachine_def extcall_def split: prod.splits sum.splits)
  show "wp (BareMetal_PatchObject k) s (\<lambda>r t s'. t = [PatchBareMetalMachineC (bs_BareMetalMachine s)] \<and>
      bs_BareMetalMachine s' = bs_BareMetalMachine s \<and>
      (r = Ok () \<longrightarrow> (\<exists>v v'. k_PatchBareMetalMachine k (bs_patchHelper s) (bs_BareMetalMachine s) v = (Inr (), v'))))"
    for s :: "'w BareMetalMachineScope"
    by (auto simp: BareMetal_PatchObject_def wp_def PatchBareMetalMachine_def extcall_def split: prod.splits sum.splits)
qed (simp_all add: setBareMetalMeta_def)

text \<open>What the service did when it released a machine.\<close>

definition released :: "'w Host \<Rightarrow> 'w HrobotClient \<Rightarrow> 'w BareMetalMachineScope \<Rightarrow> call list \<Rightarrow> bool" where
  "released h r s t \<longleftrightarrow> (\<exists>t' s'. bare_metal_Delete h r s = (Ok None, t', s') \<and>
     filter acts_on_server t = filter acts_on_server t')"

lemma bare_metal_delete_body:
  fixes s :: "'w BareMetalMachineScope"
  assumes "om_DeletionTimestamp (bm_meta s) \<noteq> None"
  shows "wp (bare_metal_body cd h env (bs_BareMetalMachine s)) s (\<lambda>r t s'. \<exists>t1 obj. t = t1 @ [PatchBareMetalMachineC obj] \<and>
     (\<forall>x \<in> set t1. \<not> stores_machine x) \<and>
     (bm_Meta obj = bm_meta s \<or>
        bm_Meta obj = RemoveFinalizer env MachineFinalizer (bm_meta s) \<and> released h (ClusterScope_HrobotClient env s) s t1))"
proof -
  let ?r = "ClusterScope_HrobotClient env s"
  have svc: "wp (bare_metal_Delete h ?r) s (\<lambda>r t s'. (\<forall>x \<in> set t. \<not> stores_machine x) \<and> bm_meta s' = bm_meta s \<and>
      (r = Ok None \<longrightarrow> released h ?r s t))"
    by (rule wp_frame[OF bare_metal_Delete_frame]) (auto simp: wp_def released_def split: prod.splits)
  have "wp (bare_metal_reconcileDelete h env) s (\<lambda>r t s'. (\<forall>x \<in> set t. \<not> stores_machine x) \<and>
     (bm_meta s' = bm_meta s \<or> bm_meta s' = RemoveFinalizer env MachineFinalizer (bm_meta s) \<and> released h ?r s t))"
    by (auto simp: bare_metal_reconcileDelete_def breakReconcile_def in_bare_metal_def wp_simps bind_post_def map_err_def
        setBareMetalMeta_def intro!: wp_mono[OF svc] split: res.splits option.splits)
  from bare_metal_object.closed[OF this] assms show ?thesis by (simp add: bare_metal_body_def)
qed

lemma bare_metal_normal_body:
  fixes s :: "'w BareMetalMachineScope"
  assumes "om_DeletionTimestamp (bm_meta s) = None"
  shows "wp (bare_metal_body cd h env (bs_BareMetalMachine s)) s (\<lambda>r t s'. \<exists>a t1 b.
     t = PatchBareMetalMachineC a # t1 @ [PatchBareMetalMachineC b] \<and> (\<forall>x \<in> set t1. \<not> stores_machine x) \<and>
     bm_Meta a = AddFinalizer env MachineFinalizer (bm_meta s) \<and> bm_Meta b = bm_Meta a \<and>
     (t1 \<noteq> [] \<longrightarrow> (\<exists>v v'. k_PatchBareMetalMachine (e_kube env) (bs_patchHelper s) a v = (Inr (), v'))))"
proof -
  have rest: "wp (bindM (getsM (ClusterScope_HrobotClient env)) (\<lambda>r.
      breakReconcile (in_bare_metal ''failed to reconcile server'' (bare_metal_Reconcile cd h (e_kube env) r))
       (ret no_Result))) s1 (\<lambda>r t s'. (\<forall>x \<in> set t. \<not> stores_machine x) \<and> bm_meta s' = bm_meta s1)"
    for s1 :: "'w BareMetalMachineScope"
    by (auto simp: breakReconcile_def in_bare_metal_def wp_simps bind_post_def map_err_def
        intro!: wp_mono[OF frame_wp[OF bare_metal_Reconcile_frame]] split: res.splits option.splits)
  have "\<forall>x \<in> set ([] :: call list). \<not> stores_machine x" by simp
  from bare_metal_object.stored_then_served[OF rest this] assms show ?thesis
    by (simp add: bare_metal_body_def bare_metal_reconcileNormal_def)
qed

lemma NewBareMetalMachineScope_wp:
  "wp (NewBareMetalMachineScope env (Some cluster) (Some hc) (Some m) (Some bm)) s
     (\<lambda>r t s'. only_reads t \<and> packer s' = packer s \<and>
     (\<forall>sc. r = Ok sc \<longrightarrow> bs_BareMetalMachine sc = bm \<and> bs_patchHelper sc = bm \<and>
        world sc = world s' \<and> packer sc = packer s'))"
  by (auto simp: NewBareMetalMachineScope_def NewHelper_def wp_simps bind_post_def ClusterScope.defs BareMetalMachineScope.defs
      intro!: wp_mono[OF NewClusterScope_wp] split: res.splits option.splits)

text \<open>Calls that only read, or those of the body after such calls, for a scope with the machine as it was read.\<close>

definition bare_metal_run ::
    "Codec \<Rightarrow> 'w Host \<Rightarrow> 'w Env \<Rightarrow> BareMetalMachine \<Rightarrow> Result res \<Rightarrow> call list \<Rightarrow> bool" where
  "bare_metal_run cd h env bm r t \<longleftrightarrow> only_reads t \<or>
     (\<exists>t' s''. \<exists>scope :: 'w BareMetalMachineScope. bs_BareMetalMachine scope = bm \<and> bs_patchHelper scope = bm \<and>
        bare_metal_body cd h env bm scope = (r, t', s'') \<and> reads_then t' t)"

lemma bare_metal_run_reads: "only_reads t \<Longrightarrow> bare_metal_run cd h env bm r t"
  by (simp add: bare_metal_run_def)

lemma bare_metal_run_Cons: "is_read x \<Longrightarrow> bare_metal_run cd h env bm r t \<Longrightarrow> bare_metal_run cd h env bm r (x # t)"
  unfolding bare_metal_run_def by (metis only_reads_simps(2) reads_then_Cons)

lemma bare_metal_in_cluster_wp:
  fixes s :: "'w sys"
  shows "wp (bare_metal_in_cluster cd h env bm m cluster) s (\<lambda>r t s'. bare_metal_run cd h env bm r t)"
proof -
  have body: "wp (bare_metal_body cd h env bm) scope (\<lambda>r t s'. \<exists>s''. bare_metal_body cd h env bm scope = (r, t, s''))"
    for scope :: "'w BareMetalMachineScope"
    by (auto simp: wp_def split: prod.splits)
  have scope: "wp (bare_metal_body cd h env bm) (scope\<lparr>world := w, packer := p\<rparr>) (\<lambda>r t' s'. bare_metal_run cd h env bm r (x # t @ t'))"
    if "is_read x" "only_reads t" "bs_BareMetalMachine scope = bm" "bs_patchHelper scope = bm"
    for scope :: "'w BareMetalMachineScope" and w p t x
  proof (rule wp_mono[OF body])
    fix r t' s'
    assume "\<exists>s''. bare_metal_body cd h env bm (scope\<lparr>world := w, packer := p\<rparr>) = (r, t', s'')"
    moreover have "bs_BareMetalMachine (scope\<lparr>world := w, packer := p\<rparr>) = bm"
      "bs_patchHelper (scope\<lparr>world := w, packer := p\<rparr>) = bm" using that by simp_all
    ultimately show "bare_metal_run cd h env bm r (x # t @ t')"
      unfolding bare_metal_run_def using reads_then_Cons[OF that(1) reads_then_append[OF that(2)]] by blast
  qed
  show ?thesis
    unfolding bare_metal_in_cluster_def
    by (auto simp: wp_simps client_defs wp_extcall ext_post_iff bind_post_def bare_metal_run_reads
        intro!: wp_mono[OF NewBareMetalMachineScope_wp] bare_metal_run_Cons scope split: option.splits res.splits)
qed

lemma BareMetalMachine_Reconcile_run:
  fixes s :: "'w sys"
  assumes "k_GetBareMetalMachine (e_kube env) ns name (world s) = (Inr bm, w)"
  shows "wp (BareMetalMachine_Reconcile cd h env ns name) s (\<lambda>r t s'. bare_metal_run cd h env bm r t)"
  unfolding BareMetalMachine_Reconcile_def bare_metal_owned_def
  by (auto simp: assms wp_simps client_defs wp_extcall ext_post_iff bind_post_def bare_metal_run_reads
      intro!: wp_mono[OF bare_metal_in_cluster_wp] bare_metal_run_Cons split: option.splits)

lemma is_read_quiet: "is_read x \<Longrightarrow> \<not> acts_on_server x \<and> \<not> stores_machine x"
  by (auto elim: is_read.elims)

interpretation bare_metal_finalizer: finalized_first "bs_BareMetalMachine :: 'w BareMetalMachineScope \<Rightarrow> BareMetalMachine" bm_Meta
  PatchBareMetalMachineC stores_machine setBareMetalMeta "BareMetalMachineScope_Close (e_kube env)" env MachineFinalizer
  "bare_metal_body cd h env" "\<lambda>s. released h (ClusterScope_HrobotClient env s) s" is_read
  "\<lambda>s ob. \<exists>v v'. k_PatchBareMetalMachine (e_kube env) (bs_patchHelper s) ob v = (Inr (), v')" "\<lambda>_. True"
  for cd h env
proof
  show "is_read x \<Longrightarrow> \<not> stores_machine x" for x by (simp add: is_read_quiet)
  show "\<forall>x \<in> set t0. is_read x \<Longrightarrow> released h r s t \<Longrightarrow> released h r s (t0 @ t)"
    for r and s :: "'w BareMetalMachineScope" and t0 t
    by (auto simp: released_def is_read_quiet filter_empty_conv)
qed (rule wp_mono[OF bare_metal_delete_body] wp_mono[OF bare_metal_normal_body], assumption, blast)+

text \<open>A run that does more than read is one of the body.\<close>

lemma bare_metal_runD:
  assumes "bare_metal_run cd h env bm r t" and "x \<in> set t" and "\<not> is_read x"
  obtains t' t0 s'' and scope :: "'w BareMetalMachineScope" where "bs_BareMetalMachine scope = bm" "bs_patchHelper scope = bm"
    "bare_metal_body cd h env (bs_BareMetalMachine scope) scope = (r, t', s'')" "t = t0 @ t'" "\<forall>x \<in> set t0. is_read x"
  using assms unfolding bare_metal_run_def reads_then_def only_reads_def by blast

lemma bare_metal_run_acts:
  fixes env :: "'w Env"
  assumes "documented_finalizers env" and run: "bare_metal_run cd h env bm r t"
    and none: "om_DeletionTimestamp (bm_Meta bm) = None" and acts: "filter acts_on_server t \<noteq> []"
  shows "\<exists>pre obj post v v'. t = pre @ PatchBareMetalMachineC obj # post \<and> filter acts_on_server pre = [] \<and>
    MachineFinalizer \<in> set (om_Finalizers (bm_Meta obj)) \<and> k_PatchBareMetalMachine (e_kube env) bm obj v = (Inr (), v')"
proof -
  from acts obtain x where x: "x \<in> set t" "acts_on_server x" by (auto simp: filter_empty_conv)
  have loud: "\<not> is_read x" "\<not> stores_machine x" using x(2) is_read_quiet by blast (use x(2) in \<open>cases x; simp\<close>)
  from bare_metal_runD[OF run x(1) loud(1)] obtain t' t0 s'' and scope :: "'w BareMetalMachineScope" where
    scope: "bs_BareMetalMachine scope = bm" "bs_patchHelper scope = bm"
    and body: "bare_metal_body cd h env (bs_BareMetalMachine scope) scope = (r, t', s'')"
    and t: "t = t0 @ t'" and t0: "\<forall>x \<in> set t0. is_read x" .
  have "filter acts_on_server t0 = []" using t0 is_read_quiet by (auto simp: filter_empty_conv)
  with bare_metal_finalizer.stored_before[OF assms(1) none[folded scope(1)] body t0 x(1)[unfolded t] loud] scope(2)
  show ?thesis unfolding t by blast
qed

lemma bare_metal_run_gives_up:
  fixes env :: "'w Env"
  assumes "documented_finalizers env" and run: "bare_metal_run cd h env bm r t"
    and fin: "MachineFinalizer \<in> set (om_Finalizers (bm_Meta bm))" and mem: "PatchBareMetalMachineC obj \<in> set t"
    and lost: "MachineFinalizer \<notin> set (om_Finalizers (bm_Meta obj))"
  shows "om_DeletionTimestamp (bm_Meta bm) \<noteq> None \<and> (\<exists>pre scope. t = pre @ [PatchBareMetalMachineC obj] \<and>
    bs_BareMetalMachine scope = bm \<and> released h (ClusterScope_HrobotClient env scope) scope pre)"
proof -
  have "\<not> is_read (PatchBareMetalMachineC obj)" by simp
  from bare_metal_runD[OF run mem this] obtain t' t0 s'' and scope :: "'w BareMetalMachineScope" where
    scope: "bs_BareMetalMachine scope = bm"
    and body: "bare_metal_body cd h env (bs_BareMetalMachine scope) scope = (r, t', s'')"
    and t: "t = t0 @ t'" and t0: "\<forall>x \<in> set t0. is_read x" .
  from bare_metal_finalizer.given_up_last[OF assms(1) body t0 fin[folded scope] mem[unfolded t] lost] scope
  show ?thesis unfolding t by blast
qed


definition example_deleted_bm :: BareMetalMachine where
  "example_deleted_bm = bs_BareMetalMachine example_bm_scope\<lparr>bm_Meta := zero_ObjectMeta\<lparr>om_Name := ''m1'',
     om_Namespace := ''default'', om_Finalizers := [MachineFinalizer], om_DeletionTimestamp := Some 1\<rparr>\<rparr>"

definition example_bm_env :: "unit Env" where
  "example_bm_env = offline_env
     \<lparr>e_kube := example_machine_kube zero_HcloudMachine\<lparr>k_GetBareMetalMachine := \<lambda>_ _ w. (Inr example_deleted_bm, w),
        k_PatchBareMetalMachine := \<lambda>_ _ w. (Inr (), w)\<rparr>,
      e_hrobot := \<lambda>_ _. example_robot []\<rparr>"


end
