(* ===== verification/Rounds.thy ===== *)
theory Rounds
  imports Main
begin

text \<open>
  Repetition. A controller never waits inside a reconcile: it is run again until nothing is left to do. The
  locale states what one round promises, and the lemmas what follows for the repetition.
\<close>

locale completing_rounds =
  fixes inv :: "'s \<Rightarrow> bool" and round_of :: "'s \<Rightarrow> 's" and rank :: "'s \<Rightarrow> nat" and finished :: "'s \<Rightarrow> bool"
  assumes keeps: "inv s \<Longrightarrow> inv (round_of s)"
    and last_round: "inv s \<Longrightarrow> rank s = 0 \<Longrightarrow> finished (round_of s)"
    and progress: "inv s \<Longrightarrow> rank s \<noteq> 0 \<Longrightarrow> rank (round_of s) < rank s"
    and finished_rank: "finished s \<Longrightarrow> rank s = 0"
begin

lemma keeps_all: "inv s \<Longrightarrow> inv ((round_of ^^ k) s)"
  by (induction k) (auto intro: keeps)

lemma rank_decreases: "inv s \<Longrightarrow> rank ((round_of ^^ k) s) \<le> rank s - k"
proof (induction k)
  case (Suc k)
  let ?s = "(round_of ^^ k) s"
  have inv: "inv ?s" using keeps_all[OF Suc.prems] .
  have "rank (round_of ?s) \<le> rank ?s - 1"
  proof (cases "rank ?s = 0")
    case True
    with finished_rank[OF last_round[OF inv]] show ?thesis by simp
  qed (use progress[OF inv] in simp)
  with Suc show ?case by simp
qed simp

text \<open>Once the rank of the first state has passed, every round finds the work done.\<close>

lemma completes:
  assumes "inv s" and "rank s < k"
  shows "finished ((round_of ^^ k) s)"
proof -
  obtain k' where k: "k = Suc k'" using assms(2) by (cases k) auto
  have "rank ((round_of ^^ k') s) = 0" using rank_decreases[OF assms(1), of k'] assms(2) by (simp add: k)
  from last_round[OF keeps_all[OF assms(1)] this] show ?thesis by (simp add: k)
qed

end

end
