(* ===== verification/Progress.thy ===== *)
theory Progress
  imports Rounds Machine_Controller
begin

text \<open>
  Progress of the deletion of a machine (controllers/hcloudmachine\_controller.go, reconcileDelete, and
  pkg/cloud/resources/server/server.go, Delete). A reconcile never waits: it shuts a running server down
  and is repeated until the server is off. Against a cloud that accepts the requests and turns a server off within a
  bounded number of reconciles after a shutdown, the repetition ends with the server and the finalizer gone.
\<close>

text \<open>
  What passes between two reconciles: nobody else starts a server or deletes it, and one that is neither running nor
  off is off after at most \<open>m + 1\<close> reconciles.
\<close>

definition settles :: "hcloud_Server option \<Rightarrow> nat \<Rightarrow> hcloud_Server option \<Rightarrow> nat \<Rightarrow> bool" where
  "settles before m after m' = (case before of
      None \<Rightarrow> after = None
    | Some a \<Rightarrow> (\<exists>b. after = Some b \<and> (case sv_Status a of
          ServerStatusRunning \<Rightarrow> sv_Status b = ServerStatusRunning
        | ServerStatusOff \<Rightarrow> sv_Status b = ServerStatusOff
        | ServerStatusOther _ \<Rightarrow> sv_Status b = ServerStatusOff \<or> (\<exists>x. sv_Status b = ServerStatusOther x) \<and> m' < m)))"

text \<open>
  The documented behaviour of the cloud towards the owner of one machine: listings by the machine's and by the
  cluster's labels find its server, if there is one, and the one load balancer, whose targets are servers; requests for what
  exists are accepted. \<open>server\<close> and \<open>left\<close> read the outside world, \<open>tick\<close> is what passes between two reconciles.
\<close>

definition cloud_deletes ::
    "'w HcloudClient \<Rightarrow> string \<Rightarrow> string \<Rightarrow> ('w \<Rightarrow> 'w) \<Rightarrow> ('w \<Rightarrow> hcloud_Server option) \<Rightarrow> ('w \<Rightarrow> nat) \<Rightarrow> nat \<Rightarrow> bool" where
  "cloud_deletes c sel lbsel tick server left n \<longleftrightarrow>
     (\<forall>w. \<exists>w'. h_ListServers c sel w = (Inr (case server w of None \<Rightarrow> [] | Some sv \<Rightarrow> [sv]), w') \<and>
        server w' = server w \<and> left w' = left w) \<and>
     (\<forall>w. \<exists>lb w'. h_ListLoadBalancers c lbsel w = (Inr [lb], w') \<and> None \<notin> set (lb_Targets lb) \<and>
        server w' = server w \<and> left w' = left w) \<and>
     (\<forall>lb sv w. \<exists>w'. h_DeleteTargetServerOfLoadBalancer c lb sv w = (Inr (), w') \<and>
        server w' = server w \<and> left w' = left w) \<and>
     (\<forall>sv w. server w = Some sv \<longrightarrow> (\<exists>w' b. h_ShutdownServer c sv w = (Inr (), w') \<and> server w' = Some b \<and>
        sv_Status b \<noteq> ServerStatusRunning \<and> left w' \<le> n)) \<and>
     (\<forall>sv w. server w = Some sv \<longrightarrow> (\<exists>w'. h_DeleteServer c sv w = (Inr (), w') \<and> server w' = None)) \<and>
     (\<forall>w. settles (server w) (left w) (server (tick w)) (left (tick w)))"

lemma cloud_deletesD:
  assumes "cloud_deletes c sel lbsel tick server left n"
  shows "\<exists>w'. h_ListServers c sel w = (Inr (case server w of None \<Rightarrow> [] | Some sv \<Rightarrow> [sv]), w') \<and>
        server w' = server w \<and> left w' = left w"
    and "\<exists>lb w'. h_ListLoadBalancers c lbsel w = (Inr [lb], w') \<and> None \<notin> set (lb_Targets lb) \<and>
        server w' = server w \<and> left w' = left w"
    and "\<exists>w'. h_DeleteTargetServerOfLoadBalancer c lb sv w = (Inr (), w') \<and> server w' = server w \<and> left w' = left w"
    and "server w = Some sv \<Longrightarrow> \<exists>w' b. h_ShutdownServer c sv w = (Inr (), w') \<and> server w' = Some b \<and>
        sv_Status b \<noteq> ServerStatusRunning \<and> left w' \<le> n"
    and "server w = Some sv \<Longrightarrow> \<exists>w'. h_DeleteServer c sv w = (Inr (), w') \<and> server w' = None"
    and "settles (server w) (left w) (server (tick w)) (left (tick w))"
  using assms unfolding cloud_deletes_def by blast+

section \<open>One round\<close>

text \<open>A reconcile of a machine that is being deleted, and what passes until the next one.\<close>

definition deletion_round ::
    "'w Env \<Rightarrow> ('w \<Rightarrow> 'w) \<Rightarrow> 'w MachineScope \<Rightarrow> 'w MachineScope" where
  "deletion_round env tick s = (case machine_reconcileDelete env s of (_, _, s') \<Rightarrow> s'\<lparr>world := tick (world s')\<rparr>)"

lemma leave_load_balancer_wp:
  fixes s :: "('w, 'x) MachineScope_scheme"
  assumes "cloud_deletes c sel (lb_selector s) tick server left n"
  shows "wp (deleteServerOfLoadBalancer c sv) s (\<lambda>r t s'. r = Ok () \<and>
     (\<exists>w. s' = s\<lparr>world := w\<rparr> \<and> server w = server (world s) \<and> left w = left (world s)))"
proof -
  from cloud_deletesD(2)[OF assms, of "world s"] obtain lb w where
    lb: "h_ListLoadBalancers c (lb_selector s) (world s) = (Inr [lb], w)" "None \<notin> set (lb_Targets lb)"
    and w: "server w = server (world s)" "left w = left (world s)" by blast
  show ?thesis
    using lb w cloud_deletesD(3)[OF assms, of lb sv w]
    by (auto simp: deleteServerOfLoadBalancer_def wp_simps wp_FindLoadBalancer found_lb_def has_target_wp client_defs
        wp_extcall ext_post_def)
qed

text \<open>How many rounds are left, at most, until a round completes the deletion.\<close>

definition rounds_left :: "('w \<Rightarrow> hcloud_Server option) \<Rightarrow> ('w \<Rightarrow> nat) \<Rightarrow> nat \<Rightarrow> 'w \<Rightarrow> nat" where
  "rounds_left server left n w = (case server w of
      None \<Rightarrow> 0
    | Some a \<Rightarrow> (case sv_Status a of
        ServerStatusRunning \<Rightarrow> n + 1
      | ServerStatusOff \<Rightarrow> 0
      | ServerStatusOther _ \<Rightarrow> left w + 1))"

lemma server_Delete_progress:
  fixes s :: "('w, 'x) MachineScope_scheme"
  assumes "cloud_deletes c (server_selector s) (lb_selector s) tick server left n"
  shows "wp (server_Delete c) s (\<lambda>r t s'. \<exists>w. s' = s\<lparr>world := w\<rparr> \<and>
     (if rounds_left server left n (world s) = 0 then r = Ok None \<and> server w = None
      else (\<exists>x. r = Ok (Some x)) \<and>
        (rounds_left server left n (tick w) < rounds_left server left n (world s))))"
proof -
  note cloud = cloud_deletesD[OF assms]
  obtain w1 where listed: "h_ListServers c (server_selector s) (world s) =
      (Inr (case server (world s) of None \<Rightarrow> [] | Some sv \<Rightarrow> [sv]), w1)"
    and w1: "server w1 = server (world s)" "left w1 = left (world s)" using cloud(1) by blast
  show ?thesis
  proof (cases "server (world s)")
    case None
    with listed w1 show ?thesis
      by (auto simp: server_Delete_def wp_simps wp_findServer found_server_def rounds_left_def intro!: exI[of _ w1])
  next
    case (Some sv)
    have same: "server_selector (s\<lparr>world := w\<rparr>) = server_selector s" "lb_selector (s\<lparr>world := w\<rparr>) = lb_selector s" for w
      by (simp_all add: server_selector_def createLabels_def lb_selector_def lb_labels_def IsControlPlane_def MachineScope_Name_def)
    have found: "wp (findServer c) s Q \<longleftrightarrow> Q (Ok (Some sv)) [ListServersC (server_selector s)] (s\<lparr>world := w1\<rparr>)" for Q
      using listed Some by (simp add: wp_findServer found_server_def)
    have left: "wp (deleteServerOfLoadBalancer c sv) (s\<lparr>world := w1\<rparr>) (\<lambda>r t s'. r = Ok () \<and>
       (\<exists>w. s' = s\<lparr>world := w\<rparr> \<and> server w = Some sv \<and> left w = left (world s)))"
      by (rule wp_mono[OF leave_load_balancer_wp]) (use assms same w1 Some in auto)
    show ?thesis
    proof (cases "sv_Status sv")
      case ServerStatusRunning
      have "rounds_left server left n (tick w') < n + 1"
        if "server w' = Some b" "sv_Status b \<noteq> ServerStatusRunning" "left w' \<le> n" for w' b
        using cloud(6)[of w'] that
        by (cases "sv_Status b") (auto simp: settles_def rounds_left_def split: ServerStatus.splits)
      then show ?thesis
        using Some ServerStatusRunning cloud(4)
        by (fastforce simp: server_Delete_def wp_simps found bind_post_def client_defs wp_extcall ext_post_iff rounds_left_def
            intro!: wp_mono[OF left])
    next
      case ServerStatusOff
      then show ?thesis
        using Some cloud(5)
        by (fastforce simp: server_Delete_def wp_simps found bind_post_def client_defs wp_extcall ext_post_iff rounds_left_def
            intro!: wp_mono[OF left])
    next
      case (ServerStatusOther x)
      have "rounds_left server left n (tick w) < left (world s) + 1"
        if "server w = Some sv" "left w = left (world s)" for w
        using cloud(6)[of w] that ServerStatusOther
        by (auto simp: settles_def rounds_left_def split: ServerStatus.splits)
      then show ?thesis
        using Some ServerStatusOther
        unfolding rounds_left_def
        by (simp add: server_Delete_def wp_simps found bind_post_def, intro wp_mono[OF left], clarsimp simp: wp_simps) blast
    qed
  qed
qed

text \<open>What a round keeps: the client and the labels that it lists by.\<close>

definition same_owner :: "'w Env \<Rightarrow> 'w MachineScope \<Rightarrow> 'w MachineScope \<Rightarrow> bool" where
  "same_owner env s s' \<longleftrightarrow> ClusterScope_HcloudClient env s' = ClusterScope_HcloudClient env s \<and>
     server_selector s' = server_selector s \<and> lb_selector s' = lb_selector s"

definition owns ::
    "'w Env \<Rightarrow> 'w MachineScope \<Rightarrow> ('w \<Rightarrow> 'w) \<Rightarrow> ('w \<Rightarrow> hcloud_Server option) \<Rightarrow> ('w \<Rightarrow> nat) \<Rightarrow> nat \<Rightarrow> bool" where
  "owns env s tick server left n \<longleftrightarrow>
     cloud_deletes (ClusterScope_HcloudClient env s) (server_selector s) (lb_selector s) tick server left n"

text \<open>The server does not exist, and the finalizer is not on the object.\<close>

definition deleted :: "('w \<Rightarrow> hcloud_Server option) \<Rightarrow> 'w MachineScope \<Rightarrow> bool" where
  "deleted server s \<longleftrightarrow> server (world s) = None \<and> MachineFinalizer \<notin> set (om_Finalizers (machine_meta s))"

lemma deletion_round_progress:
  fixes s :: "'w MachineScope"
  assumes "documented_finalizers env" and "owns env s tick server left n"
  shows "owns env (deletion_round env tick s) tick server left n \<and>
    (if rounds_left server left n (world s) = 0 then deleted server (deletion_round env tick s)
     else rounds_left server left n (world (deletion_round env tick s)) < rounds_left server left n (world s))"
proof -
  let ?c = "ClusterScope_HcloudClient env s"
  note cloud = assms(2)[unfolded owns_def]
  have run: "wp (machine_reconcileDelete env) s (\<lambda>r t s'. same_owner env s s' \<and>
     (if rounds_left server left n (world s) = 0 then server (world s') = None \<and>
        MachineFinalizer \<notin> set (om_Finalizers (machine_meta s'))
      else rounds_left server left n (tick (world s')) < rounds_left server left n (world s)))"
    using documented_finalizersD(2)[OF assms(1)]
    by (auto simp: machine_reconcileDelete_def breakReconcile_def in_machine_def wp_simps bind_post_def map_err_def
        same_owner_def setMachineMeta_def RemoveFinalizer_def server_selector_def createLabels_def lb_selector_def
        lb_labels_def IsControlPlane_def MachineScope_Name_def ClusterScope_HcloudClient_def
        intro!: wp_mono[OF server_Delete_progress[OF cloud, unfolded ClusterScope_HcloudClient_def]]
        split: res.splits option.splits if_splits)
  obtain r t s' where eq: "machine_reconcileDelete env s = (r, t, s')" by (metis prod_cases3)
  have settled: "server (tick w) = None" if "server w = None" for w
    using cloud_deletesD(6)[OF cloud, of w] that by (simp add: settles_def)
  have round: "deletion_round env tick s = s'\<lparr>world := tick (world s')\<rparr>" by (simp add: deletion_round_def eq)
  have same: "same_owner env s (deletion_round env tick s)"
    using wpD[OF run eq] unfolding round
    by (simp add: same_owner_def server_selector_def createLabels_def lb_selector_def lb_labels_def IsControlPlane_def
        MachineScope_Name_def ClusterScope_HcloudClient_def)
  then have "owns env (deletion_round env tick s) tick server left n"
    using cloud by (simp add: owns_def same_owner_def)
  then show ?thesis using wpD[OF run eq] settled by (auto simp: round deleted_def)
qed

interpretation machine_deletion: completing_rounds "\<lambda>s. documented_finalizers env \<and> owns env s tick server left n"
  "deletion_round env tick" "\<lambda>s. rounds_left server left n (world s)" "deleted server" for env tick server left n
proof
  fix s :: "'a MachineScope"
  assume s: "documented_finalizers env \<and> owns env s tick server left n"
  note progress = deletion_round_progress[of env s tick server left n]
  from s progress show "documented_finalizers env \<and> owns env (deletion_round env tick s) tick server left n" by blast
  from s progress show "rounds_left server left n (world s) = 0 \<Longrightarrow> deleted server (deletion_round env tick s)" by simp
  from s progress show "rounds_left server left n (world s) \<noteq> 0 \<Longrightarrow>
      rounds_left server left n (world (deletion_round env tick s)) < rounds_left server left n (world s)" by simp
qed (simp add: deleted_def rounds_left_def)


section \<open>A concrete run\<close>

definition example_cloud :: "hcloud_Server option HcloudClient" where
  "example_cloud = offline_hcloud
     \<lparr>h_ListServers := \<lambda>_ w. (Inr (case w of None \<Rightarrow> [] | Some sv \<Rightarrow> [sv]), w),
      h_ListLoadBalancers := \<lambda>_ w. (Inr [example_lb], w),
      h_DeleteTargetServerOfLoadBalancer := \<lambda>_ _ w. (Inr (), w),
      h_ShutdownServer := \<lambda>_ w. (Inr (), map_option (sv_Status_update (\<lambda>_. ServerStatusOther ''stopping'')) w),
      h_DeleteServer := \<lambda>_ w. (Inr (), None)\<rparr>"

definition example_tick :: "hcloud_Server option \<Rightarrow> hcloud_Server option" where
  "example_tick = map_option (sv_Status_update (\<lambda>st. case st of ServerStatusOther _ \<Rightarrow> ServerStatusOff | _ \<Rightarrow> st))"

lemma example_cloud_deletes: "cloud_deletes example_cloud sel lbsel example_tick id (\<lambda>_. 0) 0"
  by (auto simp: cloud_deletes_def example_cloud_def example_tick_def settles_def example_lb_def
      split: option.splits ServerStatus.splits)

definition example_deletion_env :: "hcloud_Server option Env" where
  "example_deletion_env = offline_env\<lparr>e_hcloud := \<lambda>_. example_cloud\<rparr>"


end
