(* ===== verification/Cluster_Progress.thy ===== *)
theory Cluster_Progress
  imports Rounds Cluster_Controller
begin

text \<open>
  Progress of the deletion of a cluster (controllers/hcloudcluster\_controller.go, Reconcile and reconcileDelete):
  the whole reconcile, from the read of the object to its patch, is repeated. Each one stops the guest cluster's manager, and waits
  while machines are left; then the load balancer, the network and the finalizer go. Against an API server and
  a cloud that accept the requests, and once the machines are gone, all of it is.
\<close>

section \<open>The outside world\<close>

text \<open>
  What the controller can see of the outside world: the stored object, how many reconciles its machines
  remain, its load balancer and its network.
\<close>

record cluster_view =
  v_object :: "HcloudCluster option"
  v_left :: nat
  v_lb :: "hcloud_LoadBalancer option"
  v_network :: "hcloud_Network option"

definition with_finalizers :: "string list \<Rightarrow> HcloudCluster \<Rightarrow> HcloudCluster" where
  "with_finalizers fs hc = hc\<lparr>hc_Meta := (hc_Meta hc)\<lparr>om_Finalizers := fs\<rparr>\<rparr>"

text \<open>A request that is answered and changes nothing that can be seen.\<close>

definition answered :: "('w \<Rightarrow> 'v) \<Rightarrow> ('w \<Rightarrow> (error + 'a) \<times> 'w) \<Rightarrow> ('v \<Rightarrow> 'a \<Rightarrow> bool) \<Rightarrow> bool" where
  "answered view f answer \<longleftrightarrow> (\<forall>w. \<exists>a w'. f w = (Inr a, w') \<and> view w' = view w \<and> answer (view w) a)"

text \<open>
  The API server has the object under its name and stores what is sent, except that an object that is being deleted
  and has no finalizer is gone. Its cluster is not paused, the referenced secrets exist, and
  machines of the cluster are listed exactly while some are left.
\<close>

definition has_keys :: "string list \<Rightarrow> (string, string) gomap \<Rightarrow> bool" where
  "has_keys ks data \<longleftrightarrow> (\<forall>k \<in> set ks. map_of data k \<noteq> None)"

definition secrets_serve :: "'w KubeClient \<Rightarrow> ('w \<Rightarrow> cluster_view) \<Rightarrow> HcloudCluster \<Rightarrow> string \<Rightarrow> bool" where
  "secrets_serve k view hc token \<longleftrightarrow>
     (\<exists>ref. hcs_HcloudTokenRef (hc_Spec hc) = Some ref \<and>
        answered view (k_GetSecret k (om_Namespace (hc_Meta hc)) (sel_Name ref)) (\<lambda>_ data. map_of data (sel_Key ref) = Some token)) \<and>
     (\<forall>ref. hcs_HrobotTokenRef (hc_Spec hc) = Some ref \<longrightarrow>
        answered view (k_GetSecret k (om_Namespace (hc_Meta hc)) (hrt_TokenName ref))
          (\<lambda>_ data. has_keys [hrt_PasswordKey ref, hrt_UserNameKey ref] data))"

definition machines_listed :: "'w KubeClient \<Rightarrow> ('w \<Rightarrow> cluster_view) \<Rightarrow> string \<Rightarrow> string \<Rightarrow> bool" where
  "machines_listed k view ns cluster \<longleftrightarrow>
     (\<forall>w. \<exists>ms w1 hms w2. k_ListMachinesRaw k ns w = (Inr ms, w1) \<and> k_ListHcloudMachinesRaw k ns w1 = (Inr hms, w2) \<and>
        view w2 = view w \<and> ((\<forall>hm \<in> set hms. \<forall>m \<in> set ms. \<not> belongs cluster m hm) \<longleftrightarrow> v_left (view w) = 0))"

definition api_serves :: "'w Env \<Rightarrow> ('w \<Rightarrow> cluster_view) \<Rightarrow> HcloudCluster \<Rightarrow> Cluster \<Rightarrow> string \<Rightarrow> bool" where
  "api_serves env view hc cluster token \<longleftrightarrow>
     (let k = e_kube env; ns = om_Namespace (hc_Meta hc); name = om_Name (hc_Meta hc) in
      (\<forall>w. \<exists>a w'. k_GetHcloudCluster k ns name w = (a, w') \<and> view w' = view w \<and>
         (case v_object (view w) of Some ob \<Rightarrow> a = Inr ob | None \<Rightarrow> \<exists>e. a = Inl e \<and> IsNotFound e)) \<and>
      (\<forall>fs. let meta = hc_Meta (with_finalizers fs hc) in
         answered view (k_GetOwnerCluster k meta) (\<lambda>_ a. a = Some cluster) \<and> \<not> k_IsPaused k cluster meta \<and>
         e_NewHelper env ''HcloudCluster'' meta = None) \<and>
      secrets_serve k view hc token \<and> machines_listed k view ns (cl_Name cluster) \<and>
      (\<forall>old new w. v_object (view w) = Some old \<longrightarrow> (\<exists>w'. k_PatchHcloudCluster k old new w = (Inr (), w') \<and>
         (view w' = (view w)\<lparr>v_object := Some new\<rparr> \<or>
          om_Finalizers (hc_Meta new) = [] \<and> view w' = (view w)\<lparr>v_object := None\<rparr>))))"

text \<open>The cloud lists by the cluster's label what carries it, and accepts the deletion of what exists.\<close>

definition cluster_selector :: "HcloudCluster \<Rightarrow> string" where
  "cluster_selector hc = LabelsToLabelSelector [(ClusterTagKey (om_Name (hc_Meta hc)), ResourceLifecycleOwned)]"

definition cloud_serves :: "'w HcloudClient \<Rightarrow> ('w \<Rightarrow> cluster_view) \<Rightarrow> HcloudCluster \<Rightarrow> bool" where
  "cloud_serves c view hc \<longleftrightarrow>
     answered view (h_ListLoadBalancers c (cluster_selector hc)) (\<lambda>v lbs. lbs = (case v_lb v of None \<Rightarrow> [] | Some lb \<Rightarrow> [lb])) \<and>
     (\<forall>lb w. v_lb (view w) = Some lb \<longrightarrow>
        (\<exists>w'. h_DeleteLoadBalancer c lb w = (Inr (), w') \<and> view w' = (view w)\<lparr>v_lb := None\<rparr>)) \<and>
     answered view (h_ListNetworks c (cluster_selector hc)) (\<lambda>v nets. nets = (case v_network v of None \<Rightarrow> [] | Some n \<Rightarrow> [n])) \<and>
     (\<forall>n w. v_network (view w) = Some n \<longrightarrow>
        map_of (nw_Labels n) (ClusterTagKey (om_Name (hc_Meta hc))) = Some ResourceLifecycleOwned \<and>
        (\<exists>w'. h_DeleteNetwork c (nw_ID n) w = (Inr (), w') \<and> view w' = (view w)\<lparr>v_network := None\<rparr>))"

text \<open>
  What passes between two reconciles: machines go, and none come once they are gone; nobody changes the object or creates a load balancer
  or a network for it.
\<close>

definition passes :: "cluster_view \<Rightarrow> cluster_view \<Rightarrow> bool" where
  "passes v v' \<longleftrightarrow> v_object v' = v_object v \<and> v_left v' \<le> v_left v - 1 \<and>
     v_lb v' \<in> {None, v_lb v} \<and> v_network v' \<in> {None, v_network v}"

definition winds_down :: "('w \<Rightarrow> cluster_view) \<Rightarrow> ('w \<Rightarrow> 'w) \<Rightarrow> bool" where
  "winds_down view tick \<longleftrightarrow> (\<forall>w. passes (view w) (view (tick w)))"

section \<open>The services\<close>

lemma lb_Delete_serves:
  assumes "cloud_serves c view hc" and "lb_selector s = cluster_selector hc"
  shows "wp (lb_Delete c) s (\<lambda>r t s'. r = Ok () \<and>
    (\<exists>w. s' = s\<lparr>world := w\<rparr> \<and> view w = (view (world s))\<lparr>v_lb := None\<rparr>))"
proof -
  from assms obtain w where lst: "h_ListLoadBalancers c (lb_selector s) (world s) =
      (Inr (case v_lb (view (world s)) of None \<Rightarrow> [] | Some lb \<Rightarrow> [lb]), w)" and w: "view w = view (world s)"
    unfolding cloud_serves_def answered_def by metis
  have del: "v_lb (view w) = Some lb \<Longrightarrow> \<exists>w'. h_DeleteLoadBalancer c lb w = (Inr (), w') \<and> view w' = (view w)\<lparr>v_lb := None\<rparr>" for lb
    using assms(1) unfolding cloud_serves_def by blast
  show ?thesis
    using lst w del
    by (cases "v_lb (view (world s))")
      (auto simp: lb_Delete_def wp_simps wp_FindLoadBalancer found_lb_def client_defs wp_extcall)
qed

lemma network_Delete_serves:
  fixes s :: "('w, 'x) ClusterScope_scheme"
  assumes "cloud_serves c view hc" and "om_Name (hc_Meta (cs_HcloudCluster s)) = om_Name (hc_Meta hc)"
  shows "wp (network_Delete c) s (\<lambda>r t s'. r = Ok () \<and>
    (\<exists>w. s' = s\<lparr>world := w\<rparr> \<and> view w = (view (world s))\<lparr>v_network := None\<rparr>))"
proof -
  have sel: "LabelsToLabelSelector (network_labels s) = cluster_selector hc"
    by (simp add: network_labels_def cluster_selector_def assms(2))
  from assms obtain w where lst: "h_ListNetworks c (cluster_selector hc) (world s) =
      (Inr (case v_network (view (world s)) of None \<Rightarrow> [] | Some n \<Rightarrow> [n]), w)" and w: "view w = view (world s)"
    unfolding cloud_serves_def answered_def by metis
  have del: "v_network (view w) = Some n \<Longrightarrow>
      map_of (nw_Labels n) (ClusterTagKey (om_Name (hc_Meta hc))) = Some ResourceLifecycleOwned \<and>
      (\<exists>w'. h_DeleteNetwork c (nw_ID n) w = (Inr (), w') \<and> view w' = (view w)\<lparr>v_network := None\<rparr>)" for n
    using assms(1) unfolding cloud_serves_def by blast
  show ?thesis
    using lst w del assms(2)
    by (cases "v_network (view (world s))")
      (auto simp: network_Delete_def network_deleteNetwork_def wp_simps network_actualStatus_wp sel network_apiToStatus_def
        client_defs wp_extcall)
qed

lemma ListMachines_serves:
  assumes "machines_listed k view (ClusterScope_Namespace s) (cl_Name (cs_Cluster s))"
  shows "wp (ListMachines k) s (\<lambda>r t s'. (\<exists>ms. r = Ok ms \<and> (ms = [] \<longleftrightarrow> v_left (view (world s)) = 0)) \<and>
    (\<exists>w. s' = s\<lparr>world := w\<rparr> \<and> view w = view (world s)))"
proof -
  from assms obtain ms w1 hms w2 where lst: "k_ListMachinesRaw k (ClusterScope_Namespace s) (world s) = (Inr ms, w1)"
    "k_ListHcloudMachinesRaw k (ClusterScope_Namespace s) w1 = (Inr hms, w2)"
    and w2: "view w2 = view (world s)"
    and left: "(\<forall>hm \<in> set hms. \<forall>m \<in> set ms. \<not> belongs (cl_Name (cs_Cluster s)) m hm) \<longleftrightarrow> v_left (view (world s)) = 0"
    unfolding machines_listed_def by blast
  have "match_machines idx hms = [] \<longleftrightarrow> (\<forall>hm \<in> set hms. idx (om_Name (hm_Meta hm)) = None)" for idx hms
    by (induction hms) (auto split: option.splits)
  then show ?thesis
    using lst w2 left by (auto simp: ListMachines_def wp_simps client_defs wp_extcall index_machines_None)
qed

text \<open>The manager of the guest cluster is stopped, if it runs and its channel is open.\<close>

definition can_stop :: "NamespacedName \<Rightarrow> Managers \<Rightarrow> bool" where
  "can_stop key mg \<longleftrightarrow> (\<forall>ch. targetClusterManagersStopCh mg key = Some ch \<longrightarrow> ch \<notin> set (mg_closed mg))"

lemma stop_manager_serves:
  assumes "om_DeletionTimestamp (hc_Meta (cs_HcloudCluster s)) \<noteq> None" and "can_stop (manager_key s) (rs_managers s)"
  shows "wp (reconcileTargetClusterManager k) s (\<lambda>r t s'. r = Ok () \<and>
    (\<exists>mg. s' = s\<lparr>rs_managers := mg\<rparr> \<and> targetClusterManagersStopCh mg (manager_key s) = None))"
proof (cases "targetClusterManagersStopCh (rs_managers s) (manager_key s)")
  case None
  with assms(1) show ?thesis
    by (auto simp: reconcileTargetClusterManager_def wp_simps Let_def intro!: exI[of _ "rs_managers s"])
next
  case (Some ch)
  with assms show ?thesis
    by (auto simp: reconcileTargetClusterManager_def closeM_def can_stop_def stop_manager_def wp_simps Let_def)
qed

text \<open>
  A reconcile of the deletion: it stops the manager, and deletes the rest when no machine is left.
\<close>

definition deletion_step :: "'w Env \<Rightarrow> ('w \<Rightarrow> cluster_view) \<Rightarrow> 'w ReconcilerScope \<Rightarrow> 'w ReconcilerScope \<Rightarrow> bool" where
  "deletion_step env view s s' \<longleftrightarrow>
     targetClusterManagersStopCh (rs_managers s') (manager_key s) = None \<and> cs_patchHelper s' = cs_patchHelper s \<and>
     (if v_left (view (world s)) \<noteq> 0
      then cs_HcloudCluster s' = cs_HcloudCluster s \<and> view (world s') = view (world s)
      else cs_HcloudCluster s' = cs_HcloudCluster s
             \<lparr>hc_Meta := RemoveFinalizer env ClusterFinalizer (hc_Meta (cs_HcloudCluster s))\<rparr> \<and>
           view (world s') = (view (world s))\<lparr>v_lb := None, v_network := None\<rparr>)"

lemma delete_infrastructure_serves:
  fixes s :: "'w ReconcilerScope"
  assumes cloud: "cloud_serves c view hc" and hc: "om_Name (hc_Meta (cs_HcloudCluster s)) = om_Name (hc_Meta hc)"
  shows "wp (delete_infrastructure env c) s (\<lambda>r t s'. \<exists>w. view w = (view (world s))\<lparr>v_lb := None, v_network := None\<rparr> \<and>
    s' = setClusterMeta (RemoveFinalizer env ClusterFinalizer) (s\<lparr>world := w\<rparr>))"
proof -
  have sel: "lb_selector s = cluster_selector hc" by (simp add: lb_selector_def lb_labels_def cluster_selector_def hc)
  have net: "wp (network_Delete c) (s\<lparr>world := w\<rparr>) (\<lambda>r t s'. r = Ok () \<and>
      (\<exists>w'. s' = s\<lparr>world := w'\<rparr> \<and> view w' = (view w)\<lparr>v_network := None\<rparr>))" for w
    by (rule wp_mono[OF network_Delete_serves[OF cloud]]) (auto simp: hc)
  show ?thesis
    unfolding delete_infrastructure_def in_cluster_def
    by (auto simp: wp_simps bind_post_def map_err_def intro!: wp_mono[OF lb_Delete_serves[OF cloud sel]] wp_mono[OF net]) blast
qed

lemma reconcileDelete_serves:
  fixes s :: "'w ReconcilerScope"
  assumes "cloud_serves (ClusterScope_HcloudClient env s) view hc"
    and "machines_listed (e_kube env) view (ClusterScope_Namespace s) (cl_Name (cs_Cluster s))"
    and "om_Name (hc_Meta (cs_HcloudCluster s)) = om_Name (hc_Meta hc)"
    and "om_DeletionTimestamp (hc_Meta (cs_HcloudCluster s)) \<noteq> None" and "can_stop (manager_key s) (rs_managers s)"
  shows "wp (cluster_reconcileDelete env) s (\<lambda>r t s'. deletion_step env view s s')"
proof -
  have wait: "wp (wait_or_delete env) (s\<lparr>rs_managers := mg\<rparr>) (\<lambda>r t s'. deletion_step env view s s')"
    if mg: "targetClusterManagersStopCh mg (manager_key s) = None" for mg
  proof -
    let ?s = "s\<lparr>rs_managers := mg\<rparr>"
    have lst: "wp (ListMachines (e_kube env)) ?s (\<lambda>r t s'. (\<exists>ms. r = Ok ms \<and> (ms = [] \<longleftrightarrow> v_left (view (world s)) = 0)) \<and>
        (\<exists>w. s' = ?s\<lparr>world := w\<rparr> \<and> view w = view (world s)))"
      by (rule wp_mono[OF ListMachines_serves]) (use assms(2) in \<open>auto simp: ClusterScope_Namespace_def\<close>)
    have client: "ClusterScope_HcloudClient env (?s\<lparr>world := w\<rparr>) = ClusterScope_HcloudClient env s" for w
      by (simp add: ClusterScope_HcloudClient_def)
    have del: "wp (delete_infrastructure env (ClusterScope_HcloudClient env s)) (?s\<lparr>world := w\<rparr>)
        (\<lambda>r t s'. deletion_step env view s s')" if "view w = view (world s)" "v_left (view (world s)) = 0" for w
      by (rule wp_mono[OF delete_infrastructure_serves[OF assms(1)]])
        (use that mg assms(3) in \<open>auto simp: deletion_step_def setClusterMeta_def\<close>)
    have stay: "deletion_step env view s (?s\<lparr>world := w\<rparr>)" if "view w = view (world s)" "v_left (view (world s)) \<noteq> 0" for w
      using that mg by (simp add: deletion_step_def)
    show ?thesis
      unfolding wait_or_delete_def in_cluster_def
      by (auto simp: wp_simps bind_post_def map_err_def client stay intro!: wp_mono[OF lst] del)
  qed
  show ?thesis
    unfolding cluster_reconcileDelete_def delete_infrastructure_def[symmetric] wait_or_delete_def[symmetric] wp_bindM
    by (rule wp_mono[OF stop_manager_serves[OF assms(4,5)]]) (auto intro: wait)
qed

section \<open>One reconcile\<close>

lemma with_finalizers_simps [simp]:
  "hc_Spec (with_finalizers fs hc) = hc_Spec hc"
  "om_Name (hc_Meta (with_finalizers fs hc)) = om_Name (hc_Meta hc)"
  "om_Namespace (hc_Meta (with_finalizers fs hc)) = om_Namespace (hc_Meta hc)"
  "om_DeletionTimestamp (hc_Meta (with_finalizers fs hc)) = om_DeletionTimestamp (hc_Meta hc)"
  "om_Finalizers (hc_Meta (with_finalizers fs hc)) = fs"
  "with_finalizers fs (with_finalizers gs hc) = with_finalizers fs hc"
  by (simp_all add: with_finalizers_def)

lemma RemoveFinalizer_with:
  "hc\<lparr>hc_Meta := RemoveFinalizer env f (hc_Meta hc)\<rparr> = with_finalizers (e_RemoveFinalizer env f (om_Finalizers (hc_Meta hc))) hc"
  by (simp add: RemoveFinalizer_def with_finalizers_def)

lemma token_secret_serves:
  assumes "answered view (k_GetSecret k ns n) answer"
  shows "wp (token_secret k ns n) s (\<lambda>r t s'. (\<exists>data. r = Ok data \<and> answer (view (world s)) data) \<and>
    (\<exists>w. s' = s\<lparr>world := w\<rparr> \<and> view w = view (world s)))"
proof -
  from assms obtain data w where "k_GetSecret k ns n (world s) = (Inr data, w)" "view w = view (world s)"
    "answer (view (world s)) data" unfolding answered_def by blast
  then show ?thesis by (auto simp: token_secret_def GetSecret_def wp_simps wp_extcall)
qed

definition scope_of :: "Cluster \<Rightarrow> HcloudCluster \<Rightarrow> string \<Rightarrow> 'w ClusterScope \<Rightarrow> bool" where
  "scope_of cluster hc token cs \<longleftrightarrow>
     cs_Cluster cs = cluster \<and> cs_HcloudCluster cs = hc \<and> cs_patchHelper cs = hc \<and> cs_hcloudToken cs = token"

lemma NewClusterScope_serves:
  fixes s :: "'w sys"
  assumes "secrets_serve (e_kube env) view hc token" and "e_NewHelper env ''HcloudCluster'' (hc_Meta hc) = None"
  shows "wp (NewClusterScope env (Some cluster) (Some hc)) s (\<lambda>r t s'. view (world s') = view (world s) \<and>
    (\<exists>cs. r = Ok cs \<and> scope_of cluster hc token cs))"
proof -
  let ?ns = "om_Namespace (hc_Meta hc)"
  from assms(1) obtain ref where ref: "hcs_HcloudTokenRef (hc_Spec hc) = Some ref"
    and token: "answered view (k_GetSecret (e_kube env) ?ns (sel_Name ref)) (\<lambda>_ data. map_of data (sel_Key ref) = Some token)"
    unfolding secrets_serve_def by blast
  have rest: "wp (bindM (HcloudClientFactory (e_kube env) hc) (\<lambda>hcloudToken.
            bindM (NewHelper env ''HcloudCluster'' (hc_Meta hc)) (\<lambda>_.
            bindM (getsM id) (\<lambda>s.
            ret (sys.extend s (ClusterScope.fields cluster hc hc hcloudToken (fst robot) (snd robot))))))) s0
     (\<lambda>r t s'. view (world s') = view (world s) \<and> (\<exists>cs. r = Ok cs \<and> scope_of cluster hc token cs))" if "view (world s0) = view (world s)" for robot and s0 :: "'w sys"
    using that unfolding HcloudClientFactory_def Let_def
    by (auto simp: ref assms(2) NewHelper_def secret_key_def scope_of_def wp_simps bind_post_def sys.defs ClusterScope.defs
        intro!: wp_mono[OF token_secret_serves[OF token]])
  show ?thesis
  proof (cases "hcs_HrobotTokenRef (hc_Spec hc)")
    case None
    then show ?thesis using rest[of s "([], [])"] by (simp add: NewClusterScope_def wp_bindM wp_ret)
  next
    case (Some rref)
    with assms(1) have robot: "answered view (k_GetSecret (e_kube env) ?ns (hrt_TokenName rref))
        (\<lambda>_ data. has_keys [hrt_PasswordKey rref, hrt_UserNameKey rref] data)"
      unfolding secrets_serve_def by blast
    have made: "wp (HrobotClientFactory (e_kube env) hc rref) s
        (\<lambda>r t s'. view (world s') = view (world s) \<and> (\<exists>x. r = Ok x))"
      unfolding HrobotClientFactory_def Let_def
      by (auto simp: wp_simps bind_post_def secret_key_def has_keys_def intro!: wp_mono[OF token_secret_serves[OF robot]])
    show ?thesis
      unfolding NewClusterScope_def Some option.case wp_bindM[of "HrobotClientFactory _ _ _"]
      by (rule wp_mono[OF made]) (auto intro: rest[of _ "(_, _)", simplified])
  qed
qed

lemma secrets_serve_with: "secrets_serve k view (with_finalizers fs hc) token = secrets_serve k view hc token"
  by (simp add: secrets_serve_def)

text \<open>The body, and the patch of what it leaves: the object stays, or goes when it has no finalizer.\<close>

definition stored :: "cluster_view \<Rightarrow> HcloudCluster \<Rightarrow> cluster_view \<Rightarrow> bool" where
  "stored v new v' \<longleftrightarrow> v' = v\<lparr>v_object := Some new\<rparr> \<or> om_Finalizers (hc_Meta new) = [] \<and> v' = v\<lparr>v_object := None\<rparr>"

definition reconciled :: "'w Env \<Rightarrow> cluster_view \<Rightarrow> HcloudCluster \<Rightarrow> cluster_view \<Rightarrow> bool" where
  "reconciled env v ob v' \<longleftrightarrow>
     (if v_left v \<noteq> 0 then stored v ob v'
      else stored (v\<lparr>v_lb := None, v_network := None\<rparr>)
             (with_finalizers (e_RemoveFinalizer env ClusterFinalizer (om_Finalizers (hc_Meta ob))) ob) v')"

lemma patch_serves:
  assumes "api_serves env view hc cluster token" and "v_object (view w) = Some old"
  shows "\<exists>w'. k_PatchHcloudCluster (e_kube env) old new w = (Inr (), w') \<and> stored (view w) new (view w')"
  using assms unfolding api_serves_def Let_def stored_def by blast

lemma body_serves:
  fixes s :: "'w ReconcilerScope"
  assumes api: "api_serves env view hc cluster token" and cloud: "cloud_serves (e_hcloud env token) view hc"
    and ob: "ob = with_finalizers fs hc" "om_DeletionTimestamp (hc_Meta hc) \<noteq> None" "v_object (view (world s)) = Some ob"
    and s: "cs_HcloudCluster s = ob" "cs_patchHelper s = ob" "cs_Cluster s = cluster" "cs_hcloudToken s = token"
    and stop: "can_stop (manager_key s) (rs_managers s)"
  shows "wp (cluster_body env ml mf ob) s (\<lambda>r t s'. reconciled env (view (world s)) ob (view (world s')) \<and>
    targetClusterManagersStopCh (rs_managers s') (manager_key s) = None)"
proof -
  have deleted: "om_DeletionTimestamp (hc_Meta ob) \<noteq> None" using ob by simp
  have client: "ClusterScope_HcloudClient env s = e_hcloud env token" by (simp add: ClusterScope_HcloudClient_def s)
  have listed: "machines_listed (e_kube env) view (ClusterScope_Namespace s) (cl_Name (cs_Cluster s))"
    using api by (simp add: api_serves_def Let_def ClusterScope_Namespace_def s ob)
  have run: "wp (cluster_reconcileDelete env) s (\<lambda>r t s'. deletion_step env view s s')"
    by (rule reconcileDelete_serves[where hc = hc])
      (use cloud listed stop in \<open>simp_all add: client s ob\<close>)
  have close: "wp (ClusterScope_Close (e_kube env)) s1 (\<lambda>r t s'. reconciled env (view (world s)) ob (view (world s')) \<and>
      targetClusterManagersStopCh (rs_managers s') (manager_key s) = None)" if "deletion_step env view s s1" for s1 :: "'w ReconcilerScope"
  proof -
    have helper: "cs_patchHelper s1 = ob" "v_object (view (world s1)) = Some ob"
      using that s ob(3) by (auto simp: deletion_step_def split: if_splits)
    from patch_serves[OF api helper(2), of "cs_HcloudCluster s1"] obtain w where
      w: "k_PatchHcloudCluster (e_kube env) ob (cs_HcloudCluster s1) (world s1) = (Inr (), w)"
      "stored (view (world s1)) (cs_HcloudCluster s1) (view w)" by blast
    then have "ClusterScope_Close (e_kube env) s1 = (Ok (), [PatchHcloudClusterC (cs_HcloudCluster s1)], s1\<lparr>world := w\<rparr>)"
      by (simp add: ClusterScope_Close_def PatchHcloudCluster_def extcall_def helper)
    with that w(2) show ?thesis
      by (auto simp: wp_def deletion_step_def reconciled_def s RemoveFinalizer_with split: if_splits)
  qed
  show ?thesis
    using deleted unfolding cluster_body_def wp_deferM by (simp, intro wp_mono[OF run]) (erule close)
qed

definition cluster_key :: "HcloudCluster \<Rightarrow> NamespacedName" where
  "cluster_key hc = (om_Namespace (hc_Meta hc), om_Name (hc_Meta hc))"

lemma get_serves:
  assumes "api_serves env view hc cluster token"
  shows "\<exists>a w'. k_GetHcloudCluster (e_kube env) (om_Namespace (hc_Meta hc)) (om_Name (hc_Meta hc)) w = (a, w') \<and> view w' = view w \<and>
    (case v_object (view w) of Some ob \<Rightarrow> a = Inr ob | None \<Rightarrow> \<exists>e. a = Inl e \<and> IsNotFound e)"
  using assms unfolding api_serves_def Let_def by blast

lemma owner_serves:
  assumes "api_serves env view hc cluster token"
  shows "\<exists>w'. k_GetOwnerCluster (e_kube env) (hc_Meta (with_finalizers fs hc)) w = (Inr (Some cluster), w') \<and> view w' = view w"
    and "\<not> k_IsPaused (e_kube env) cluster (hc_Meta (with_finalizers fs hc))"
    and "e_NewHelper env ''HcloudCluster'' (hc_Meta (with_finalizers fs hc)) = None"
    and "secrets_serve (e_kube env) view (with_finalizers fs hc) token"
  using assms unfolding api_serves_def Let_def secrets_serve_with answered_def by blast+

lemma HcloudCluster_Reconcile_serves:
  fixes s :: "'w Reconciler"
  assumes api: "api_serves env view hc cluster token" and cloud: "cloud_serves (e_hcloud env token) view hc"
    and del: "om_DeletionTimestamp (hc_Meta hc) \<noteq> None" and stop: "can_stop (cluster_key hc) (rc_managers s)"
    and known: "\<forall>ob. v_object (view (world s)) = Some ob \<longrightarrow> (\<exists>fs. ob = with_finalizers fs hc)"
  shows "wp (HcloudCluster_Reconcile env ml mf (om_Namespace (hc_Meta hc)) (om_Name (hc_Meta hc))) s (\<lambda>r t s'.
    case v_object (view (world s)) of
      None \<Rightarrow> view (world s') = view (world s) \<and> rc_managers s' = rc_managers s
    | Some ob \<Rightarrow> reconciled env (view (world s)) ob (view (world s')) \<and>
        targetClusterManagersStopCh (rc_managers s') (cluster_key hc) = None)"
proof -
  let ?ns = "om_Namespace (hc_Meta hc)" and ?name = "om_Name (hc_Meta hc)"
  from get_serves[OF api, of "world s"] obtain a w where got: "k_GetHcloudCluster (e_kube env) ?ns ?name (world s) = (a, w)"
    and w: "view w = view (world s)"
    and a: "case v_object (view (world s)) of Some ob \<Rightarrow> a = Inr ob | None \<Rightarrow> \<exists>e. a = Inl e \<and> IsNotFound e" by blast
  show ?thesis
  proof (cases "v_object (view (world s))")
    case None
    with a got w show ?thesis
      by (auto simp: HcloudCluster_Reconcile_def wp_simps client_defs wp_extcall)
  next
    case (Some ob)
    with known obtain fs where ob: "ob = with_finalizers fs hc" by blast
    from owner_serves(1)[OF api, of fs w] obtain w2 where owner: "k_GetOwnerCluster (e_kube env) (hc_Meta ob) w = (Inr (Some cluster), w2)"
      and w2: "view w2 = view (world s)" using w ob by auto
    have unpaused: "\<not> k_IsPaused (e_kube env) cluster (hc_Meta ob)" using owner_serves(2)[OF api] ob by simp
    have made: "wp (NewClusterScope env (Some cluster) (Some ob)) s0 (\<lambda>r t s'. view (world s') = view (world s0) \<and>
      (\<exists>cs. r = Ok cs \<and> scope_of cluster ob token cs))"
      for s0 :: "'w sys"
      by (rule NewClusterScope_serves) (use owner_serves(3,4)[OF api, of fs] ob in simp_all)
    have body: "wp (cluster_body env ml mf ob) (ClusterScope.extend (cs\<lparr>world := w3, packer := p\<rparr>) (ReconcilerScope.fields (rc_managers s)))
       (\<lambda>r t s'. reconciled env (view (world s)) ob (view (world s')) \<and>
          targetClusterManagersStopCh (rs_managers s') (cluster_key hc) = None)"
      if "view w3 = view (world s)" "scope_of cluster ob token cs"
      for cs :: "'w ClusterScope" and w3 p
    proof -
      let ?s = "ClusterScope.extend (cs\<lparr>world := w3, packer := p\<rparr>) (ReconcilerScope.fields (rc_managers s))"
      have fields: "cs_HcloudCluster ?s = ob" "cs_patchHelper ?s = ob" "cs_Cluster ?s = cluster" "cs_hcloudToken ?s = token"
        "world ?s = w3" "rs_managers ?s = rc_managers s"
        using that by (simp_all add: scope_of_def ClusterScope.defs ReconcilerScope.defs)
      have key: "manager_key ?s = cluster_key hc" by (simp add: manager_key_def cluster_key_def fields(1) ob)
      show ?thesis
        using body_serves[OF api cloud ob del, of ?s ml mf] fields that(1) Some stop by (simp add: key)
    qed
    show ?thesis
      unfolding HcloudCluster_Reconcile_def using a Some got owner unpaused w2
      by (auto simp: wp_simps client_defs wp_extcall bind_post_def map_err_def sys.defs intro!: wp_mono[OF made] body)
  qed
qed

section \<open>The repetition\<close>

text \<open>A reconcile of the cluster, and what passes until the next one.\<close>

definition cluster_round ::
    "'w Env \<Rightarrow> 'w ManifestsLib \<Rightarrow> Manifests \<Rightarrow> ('w \<Rightarrow> 'w) \<Rightarrow> NamespacedName \<Rightarrow> 'w Reconciler \<Rightarrow> 'w Reconciler" where
  "cluster_round env ml mf tick key s =
     (case HcloudCluster_Reconcile env ml mf (fst key) (snd key) s of (_, _, s') \<Rightarrow> s'\<lparr>world := tick (world s')\<rparr>)"

text \<open>Nothing is left: no load balancer, no network, no manager of the guest cluster, and no finalizer of this controller.\<close>

definition cluster_deleted :: "('w \<Rightarrow> cluster_view) \<Rightarrow> NamespacedName \<Rightarrow> 'w Reconciler \<Rightarrow> bool" where
  "cluster_deleted view key s \<longleftrightarrow> v_lb (view (world s)) = None \<and> v_network (view (world s)) = None \<and>
     targetClusterManagersStopCh (rc_managers s) key = None \<and>
     (\<forall>ob. v_object (view (world s)) = Some ob \<longrightarrow> ClusterFinalizer \<notin> set (om_Finalizers (hc_Meta ob)))"

text \<open>The world as documented, and a state in which the object, if it is there, has the finalizer unless nothing is left.\<close>

definition serves ::
    "'w Env \<Rightarrow> ('w \<Rightarrow> cluster_view) \<Rightarrow> ('w \<Rightarrow> 'w) \<Rightarrow> HcloudCluster \<Rightarrow> Cluster \<Rightarrow> string \<Rightarrow> bool" where
  "serves env view tick hc cluster token \<longleftrightarrow> documented_finalizers env \<and> api_serves env view hc cluster token \<and>
     cloud_serves (e_hcloud env token) view hc \<and> winds_down view tick"

definition being_deleted :: "('w \<Rightarrow> cluster_view) \<Rightarrow> HcloudCluster \<Rightarrow> 'w Reconciler \<Rightarrow> bool" where
  "being_deleted view hc s \<longleftrightarrow> om_DeletionTimestamp (hc_Meta hc) \<noteq> None \<and> can_stop (cluster_key hc) (rc_managers s) \<and>
     (\<forall>ob. v_object (view (world s)) = Some ob \<longrightarrow> (\<exists>fs. ob = with_finalizers fs hc)) \<and>
     (cluster_deleted view (cluster_key hc) s \<or>
      (\<exists>ob. v_object (view (world s)) = Some ob \<and> ClusterFinalizer \<in> set (om_Finalizers (hc_Meta ob))))"

definition cluster_rank :: "('w \<Rightarrow> cluster_view) \<Rightarrow> NamespacedName \<Rightarrow> 'w Reconciler \<Rightarrow> nat" where
  "cluster_rank view key s = (if cluster_deleted view key s then 0 else v_left (view (world s)))"

text \<open>What a round does, once what passes after it is taken into account.\<close>

definition after_round :: "'w Env \<Rightarrow> ('w \<Rightarrow> cluster_view) \<Rightarrow> NamespacedName \<Rightarrow> 'w Reconciler \<Rightarrow> 'w Reconciler \<Rightarrow> bool" where
  "after_round env view key s s' \<longleftrightarrow> (\<exists>v.
     (case v_object (view (world s)) of
        None \<Rightarrow> v = view (world s) \<and> rc_managers s' = rc_managers s
      | Some ob \<Rightarrow> reconciled env (view (world s)) ob v \<and> targetClusterManagersStopCh (rc_managers s') key = None) \<and>
     passes v (view (world s')))"

lemma cluster_round_serves:
  assumes "serves env view tick hc cluster token" and "being_deleted view hc s"
  shows "after_round env view (cluster_key hc) s (cluster_round env ml mf tick (cluster_key hc) s)"
proof -
  obtain r t s' where eq: "HcloudCluster_Reconcile env ml mf (om_Namespace (hc_Meta hc)) (om_Name (hc_Meta hc)) s = (r, t, s')"
    by (metis prod_cases3)
  have tick: "passes (view (world s')) (view (tick (world s')))"
    using assms(1) unfolding serves_def winds_down_def by blast
  have "case v_object (view (world s)) of
      None \<Rightarrow> view (world s') = view (world s) \<and> rc_managers s' = rc_managers s
    | Some ob \<Rightarrow> reconciled env (view (world s)) ob (view (world s')) \<and>
        targetClusterManagersStopCh (rc_managers s') (cluster_key hc) = None"
    using wpD[OF HcloudCluster_Reconcile_serves eq] assms unfolding serves_def being_deleted_def by blast
  with tick show ?thesis
    unfolding after_round_def cluster_round_def cluster_key_def fst_conv snd_conv eq prod.case
    by (intro exI[of _ "view (world s')"]) (auto split: option.splits)
qed

text \<open>The object after a round on one that is being deleted; what is gone stays gone.\<close>

lemma after_round_object:
  assumes s: "being_deleted view hc s" and after: "after_round env view (cluster_key hc) s s'"
    and ob: "v_object (view (world s)) = Some ob"
  obtains v where "reconciled env (view (world s)) ob v" "passes v (view (world s'))"
    "targetClusterManagersStopCh (rc_managers s') (cluster_key hc) = None"
    "cluster_deleted view (cluster_key hc) s' \<or>
       (\<exists>a. v_object v = Some a \<and> ClusterFinalizer \<in> set (om_Finalizers (hc_Meta a))) \<Longrightarrow> being_deleted view hc s'"
proof -
  from after ob obtain v where v: "passes v (view (world s'))" "reconciled env (view (world s)) ob v"
    and stopped: "targetClusterManagersStopCh (rc_managers s') (cluster_key hc) = None"
    unfolding after_round_def by auto
  from s ob obtain fs where fs: "ob = with_finalizers fs hc" by (auto simp: being_deleted_def)
  have "\<exists>gs. a = with_finalizers gs hc" if "v_object v = Some a" for a
    using v(2) that by (auto simp: reconciled_def stored_def fs split: if_splits)
  then show ?thesis
    using that v stopped s by (auto simp: being_deleted_def can_stop_def passes_def)
qed

lemma after_round_waits:
  assumes s: "being_deleted view hc s" and after: "after_round env view (cluster_key hc) s s'"
    and ob: "v_object (view (world s)) = Some ob" and left: "v_left (view (world s)) \<noteq> 0"
  shows "being_deleted view hc s'"
    and "cluster_deleted view (cluster_key hc) s \<Longrightarrow> cluster_deleted view (cluster_key hc) s'"
    and "\<not> cluster_deleted view (cluster_key hc) s \<Longrightarrow> v_left (view (world s')) < v_left (view (world s))"
proof -
  from after_round_object[OF s after ob] obtain v where v: "stored (view (world s)) ob v" "passes v (view (world s'))"
    "targetClusterManagersStopCh (rc_managers s') (cluster_key hc) = None"
    and step: "cluster_deleted view (cluster_key hc) s' \<or>
       (\<exists>a. v_object v = Some a \<and> ClusterFinalizer \<in> set (om_Finalizers (hc_Meta a))) \<Longrightarrow> being_deleted view hc s'"
    using left unfolding reconciled_def by metis
  show gone: "cluster_deleted view (cluster_key hc) s'" if "cluster_deleted view (cluster_key hc) s"
    using that v ob by (auto simp: cluster_deleted_def stored_def passes_def)
  have has: "ClusterFinalizer \<in> set (om_Finalizers (hc_Meta ob))" if "\<not> cluster_deleted view (cluster_key hc) s"
    using that s ob by (simp add: being_deleted_def)
  with v(1) have kept: "v = view (world s)\<lparr>v_object := Some ob\<rparr>" if "\<not> cluster_deleted view (cluster_key hc) s"
    using that by (auto simp: stored_def)
  show "being_deleted view hc s'" using step gone has kept by fastforce
  show "v_left (view (world s')) < v_left (view (world s))" if "\<not> cluster_deleted view (cluster_key hc) s"
    using kept[OF that] v(2) left by (simp add: passes_def) linarith
qed

lemma after_round_finishes:
  assumes doc: "documented_finalizers env" and s: "being_deleted view hc s" and after: "after_round env view (cluster_key hc) s s'"
    and over: "v_object (view (world s)) = None \<or> v_left (view (world s)) = 0"
  shows "being_deleted view hc s' \<and> cluster_deleted view (cluster_key hc) s'"
proof (cases "v_object (view (world s))")
  case None
  with s after show ?thesis
    by (auto simp: after_round_def being_deleted_def cluster_deleted_def passes_def)
next
  case (Some ob)
  with over have left: "v_left (view (world s)) = 0" by simp
  from after_round_object[OF s after Some] obtain v where v: "reconciled env (view (world s)) ob v" "passes v (view (world s'))"
    "targetClusterManagersStopCh (rc_managers s') (cluster_key hc) = None"
    and step: "cluster_deleted view (cluster_key hc) s' \<Longrightarrow> being_deleted view hc s'"
    by metis
  have "v_lb v = None" "v_network v = None" "\<forall>a. v_object v = Some a \<longrightarrow> ClusterFinalizer \<notin> set (om_Finalizers (hc_Meta a))"
    using v(1) left documented_finalizersD(2)[OF doc] by (auto simp: reconciled_def stored_def)
  with v(2,3) have "cluster_deleted view (cluster_key hc) s'" by (auto simp: cluster_deleted_def passes_def)
  with step show ?thesis by blast
qed

lemma after_round_progress:
  assumes doc: "documented_finalizers env" and s: "being_deleted view hc s" and after: "after_round env view (cluster_key hc) s s'"
  shows "being_deleted view hc s'"
    and "cluster_rank view (cluster_key hc) s = 0 \<Longrightarrow> cluster_deleted view (cluster_key hc) s'"
    and "cluster_rank view (cluster_key hc) s \<noteq> 0 \<Longrightarrow> cluster_rank view (cluster_key hc) s' < cluster_rank view (cluster_key hc) s"
proof -
  have "being_deleted view hc s' \<and>
    (cluster_rank view (cluster_key hc) s = 0 \<longrightarrow> cluster_deleted view (cluster_key hc) s') \<and>
    (cluster_rank view (cluster_key hc) s \<noteq> 0 \<longrightarrow> cluster_rank view (cluster_key hc) s' < cluster_rank view (cluster_key hc) s)"
  proof (cases "v_object (view (world s)) = None \<or> v_left (view (world s)) = 0")
    case True
    from after_round_finishes[OF doc s after this] show ?thesis by (simp add: cluster_rank_def)
  next
    case False
    then obtain ob where "v_object (view (world s)) = Some ob" "v_left (view (world s)) \<noteq> 0" by auto
    from after_round_waits[OF s after this] this(2) show ?thesis by (simp add: cluster_rank_def)
  qed
  then show "being_deleted view hc s'"
    and "cluster_rank view (cluster_key hc) s = 0 \<Longrightarrow> cluster_deleted view (cluster_key hc) s'"
    and "cluster_rank view (cluster_key hc) s \<noteq> 0 \<Longrightarrow> cluster_rank view (cluster_key hc) s' < cluster_rank view (cluster_key hc) s"
    by blast+
qed

interpretation cluster_deletion: completing_rounds "\<lambda>s. serves env view tick hc cluster token \<and> being_deleted view hc s"
  "cluster_round env ml mf tick (cluster_key hc)" "cluster_rank view (cluster_key hc)" "cluster_deleted view (cluster_key hc)"
  for env view tick hc cluster token ml mf
proof
  fix s :: "'a Reconciler"
  assume s: "serves env view tick hc cluster token \<and> being_deleted view hc s"
  then have doc: "documented_finalizers env" by (simp add: serves_def)
  note progress = after_round_progress[OF doc conjunct2[OF s] cluster_round_serves[OF conjunct1[OF s] conjunct2[OF s]]]
  from s progress(1) show "serves env view tick hc cluster token \<and>
      being_deleted view hc (cluster_round env ml mf tick (cluster_key hc) s)" by blast
  from progress(2) show "cluster_rank view (cluster_key hc) s = 0 \<Longrightarrow>
      cluster_deleted view (cluster_key hc) (cluster_round env ml mf tick (cluster_key hc) s)" .
  from progress(3) show "cluster_rank view (cluster_key hc) s \<noteq> 0 \<Longrightarrow>
      cluster_rank view (cluster_key hc) (cluster_round env ml mf tick (cluster_key hc) s) < cluster_rank view (cluster_key hc) s" .
qed (simp add: cluster_rank_def)

text \<open>
  C15. The deletion of a cluster completes. Against an API server that stores what is sent and a cloud that accepts
  the requests, for an object that is being deleted and has the finalizer, and with \<open>n\<close> reconciles until its machines are gone, every whole reconcile
  from the \<open>n + 1\<close>st on leaves no load balancer, no network, no manager of the guest cluster and no finalizer of
  the controller, and there it stays.
\<close>

theorem cluster_deletion_completes:
  fixes s :: "'w Reconciler"
  assumes "documented_finalizers env" and "api_serves env view hc cluster token"
    and "cloud_serves (e_hcloud env token) view hc" and "winds_down view tick"
    and "v_object (view (world s)) = Some hc" and "om_DeletionTimestamp (hc_Meta hc) \<noteq> None"
    and "ClusterFinalizer \<in> set (om_Finalizers (hc_Meta hc))" and "can_stop (cluster_key hc) (rc_managers s)"
    and "v_left (view (world s)) < k"
  shows "cluster_deleted view (cluster_key hc) ((cluster_round env ml mf tick (cluster_key hc) ^^ k) s)"
proof (rule cluster_deletion.completes[of env view tick hc cluster token])
  have "hc = with_finalizers (om_Finalizers (hc_Meta hc)) hc" by (simp add: with_finalizers_def)
  then show "serves env view tick hc cluster token \<and> being_deleted view hc s"
    using assms by (auto simp: serves_def being_deleted_def)
  show "cluster_rank view (cluster_key hc) s < k" using assms(9) by (simp add: cluster_rank_def)
qed

section \<open>A concrete run\<close>

text \<open>A world of a stored object, a number of machines, and whether there are a load balancer and a network.\<close>

type_synonym example_world = "HcloudCluster option \<times> nat \<times> bool \<times> bool"

definition example_owned_network :: hcloud_Network where
  "example_owned_network = example_network\<lparr>nw_Labels := [(ClusterTagKey ''c1'', ResourceLifecycleOwned)]\<rparr>"

definition example_view :: "example_world \<Rightarrow> cluster_view" where
  "example_view w = (case w of (ob, n, l, net) \<Rightarrow> \<lparr>v_object = ob, v_left = n,
     v_lb = (if l then Some example_lb else None), v_network = (if net then Some example_owned_network else None)\<rparr>)"

definition example_members :: "nat \<Rightarrow> Machine list" where
  "example_members n = (if n = 0 then [] else [zero_Machine\<lparr>m_ClusterName := ''c1'',
     m_InfrastructureRefGroupKind := ''HcloudMachine.cluster-api-provider-hcloud.capihc.com'', m_InfrastructureRefName := ''m1''\<rparr>])"

definition example_deletion_kube :: "example_world KubeClient" where
  "example_deletion_kube = example_cluster_kube
     \<lparr>k_GetHcloudCluster := \<lambda>_ _ w. (case fst w of Some ob \<Rightarrow> Inr ob | None \<Rightarrow> Inl (ErrNotFound ''not found''), w),
      k_ListMachinesRaw := \<lambda>_ w. (Inr (example_members (fst (snd w))), w),
      k_ListHcloudMachinesRaw := \<lambda>_ w. (Inr [zero_HcloudMachine\<lparr>hm_Meta := zero_ObjectMeta\<lparr>om_Name := ''m1''\<rparr>\<rparr>], w),
      k_PatchHcloudCluster := \<lambda>_ new w. (Inr (), (if om_Finalizers (hc_Meta new) = [] then None else Some new, snd w))\<rparr>"

definition example_deletion_cloud :: "example_world HcloudClient" where
  "example_deletion_cloud = offline_hcloud
     \<lparr>h_ListLoadBalancers := \<lambda>_ w. (Inr (case v_lb (example_view w) of None \<Rightarrow> [] | Some lb \<Rightarrow> [lb]), w),
      h_DeleteLoadBalancer := \<lambda>_ (ob, n, l, net). (Inr (), ob, n, False, net),
      h_ListNetworks := \<lambda>_ w. (Inr (case v_network (example_view w) of None \<Rightarrow> [] | Some nw \<Rightarrow> [nw]), w),
      h_DeleteNetwork := \<lambda>_ (ob, n, l, net). (Inr (), ob, n, l, False)\<rparr>"

definition example_cluster_deletion_env :: "example_world Env" where
  "example_cluster_deletion_env = offline_env\<lparr>e_kube := example_deletion_kube, e_hcloud := \<lambda>_. example_deletion_cloud\<rparr>"

definition example_one_less :: "example_world \<Rightarrow> example_world" where
  "example_one_less w = (case w of (ob, n, l, net) \<Rightarrow> (ob, n - 1, l, net))"

definition example_owner :: Cluster where
  "example_owner = zero_Cluster\<lparr>cl_Name := ''c1'', cl_InfrastructureRefName := Some ''c1''\<rparr>"

lemma example_api_serves:
  "api_serves example_cluster_deletion_env example_view example_deleted_cluster example_owner ''t0ken''"
proof -
  have hc: "om_Name (hc_Meta example_deleted_cluster) = ''c1''"
    "hcs_HcloudTokenRef (hc_Spec example_deleted_cluster) = Some \<lparr>sel_Name = ''token'', sel_Key = ''hcloud''\<rparr>"
    "hcs_HrobotTokenRef (hc_Spec example_deleted_cluster) = None"
    by (simp_all add: example_deleted_cluster_def example_HcloudCluster_def zero_HcloudCluster_def zero_defs)
  show ?thesis
    by (auto simp: api_serves_def Let_def answered_def secrets_serve_def machines_listed_def hc
        example_cluster_deletion_env_def offline_env_def example_deletion_kube_def example_cluster_kube_def offline_kube_def
        example_view_def example_owner_def example_members_def belongs_def split: option.splits)
qed

lemma example_cloud_serves: "cloud_serves example_deletion_cloud example_view example_deleted_cluster"
  by (auto simp: cloud_serves_def answered_def example_deletion_cloud_def example_view_def example_owned_network_def
      example_deleted_cluster_def example_HcloudCluster_def zero_defs split: option.splits)

lemma cluster_deletion_completes_witness:
  "\<forall>ml. cluster_deleted example_view (''default'', ''c1'')
     ((cluster_round example_cluster_deletion_env ml (New_Manifests []) example_one_less (''default'', ''c1'') ^^ 3)
       (sys.extend \<lparr>world = (Some example_deleted_cluster, 2, True, True), packer = fresh_packer\<rparr> (Reconciler.fields no_managers)))"
proof -
  let ?s = "sys.extend \<lparr>world = (Some example_deleted_cluster, 2, True, True), packer = fresh_packer\<rparr> (Reconciler.fields no_managers)"
  have env: "documented_finalizers example_cluster_deletion_env"
    using documented_offline_env by (simp add: example_cluster_deletion_env_def documented_finalizers_def)
  have cloud: "cloud_serves (e_hcloud example_cluster_deletion_env ''t0ken'') example_view example_deleted_cluster"
    using example_cloud_serves by (simp add: example_cluster_deletion_env_def)
  have key: "cluster_key example_deleted_cluster = (''default'', ''c1'')"
    by (simp add: cluster_key_def example_deleted_cluster_def example_HcloudCluster_def)
  have tick: "winds_down example_view example_one_less"
    by (auto simp: winds_down_def passes_def example_view_def example_one_less_def)
  have state: "v_object (example_view (world ?s)) = Some example_deleted_cluster" "v_left (example_view (world ?s)) < 3"
    "can_stop (cluster_key example_deleted_cluster) (rc_managers ?s)"
    by (simp_all add: example_view_def sys.defs Reconciler.defs can_stop_def no_managers_def)
  have hc: "om_DeletionTimestamp (hc_Meta example_deleted_cluster) \<noteq> None"
    "ClusterFinalizer \<in> set (om_Finalizers (hc_Meta example_deleted_cluster))"
    by (simp_all add: example_deleted_cluster_def)
  show ?thesis
    using cluster_deletion_completes[OF env example_api_serves cloud tick state(1) hc state(3,2), of _ "New_Manifests []"]
    by (simp add: key)
qed

end
