(* ===== verification/Image_Flag.thy ===== *)
theory Image_Flag
  imports Machine_Controller
begin

text \<open>
  The flag \<^verbatim>\<open>Status.ImageInitialized\<close> of a machine (controllers/hcloudmachine\_controller.go, Reconcile). The controller
  sets it in the object it has read, and makes the scope of that object, whose copy is what patches are computed
  from. So no patch ever asks for a change of the flag, and a machine stays without it in the API server.
\<close>

section \<open>What depends on the answers to patches\<close>

abbreviation flag :: "HcloudMachine \<Rightarrow> bool" where
  "flag hm \<equiv> hmt_ImageInitialized (hm_Status hm)"

text \<open>An API server that answers patches of machines by \<open>p\<close>.\<close>

definition patched_by ::
    "(HcloudMachine \<Rightarrow> HcloudMachine \<Rightarrow> 'w \<Rightarrow> (error + unit) \<times> 'w) \<Rightarrow> 'w Env \<Rightarrow> 'w Env" where
  "patched_by p env = env\<lparr>e_kube := (e_kube env)\<lparr>k_PatchHcloudMachine := p\<rparr>\<rparr>"

lemma patched_by_simps [simp]:
  "e_os (patched_by p env) = e_os env" "e_hcloud (patched_by p env) = e_hcloud env" "e_hrobot (patched_by p env) = e_hrobot env"
  "e_NewHelper (patched_by p env) = e_NewHelper env"
  "AddFinalizer (patched_by p env) = AddFinalizer env" "RemoveFinalizer (patched_by p env) = RemoveFinalizer env"
  "e_kube (patched_by p env) = (e_kube env)\<lparr>k_PatchHcloudMachine := p\<rparr>"
  by (simp_all add: patched_by_def AddFinalizer_def RemoveFinalizer_def fun_eq_iff)

lemma gather_volumes_patched: "gather_volumes (k\<lparr>k_PatchHcloudMachine := p\<rparr>) ns vs = gather_volumes k ns vs"
  by (induction vs) (simp_all add: GetHcloudVolume_def cong: option.case_cong sum.case_cong)

lemma address_loop_patched: "address_loop (k\<lparr>k_PatchHcloudMachine := p\<rparr>) i as = address_loop k i as"
  by (induction as) (simp_all add: ClientConfigWithAPIEndpoint_def ClusterScope_ClientConfig_def IsControlPlaneReady_def
      ReadKubeconfig_def Readyz_def)

lemma server_Reconcile_patched: "server_Reconcile cd o' (k\<lparr>k_PatchHcloudMachine := p\<rparr>) c = server_Reconcile cd o' k c"
  by (simp add: server_Reconcile_def find_or_create_def createServer_def prepare_userdata_def GetRawBootstrapData_def
      with_instance_def GetSecret_def gather_volumes_patched address_loop_patched
      cong: option.case_cong sum.case_cong if_cong)

lemma NewMachineScope_patched: "NewMachineScope (patched_by p env) = NewMachineScope env"
  by (simp add: fun_eq_iff NewMachineScope_def NewClusterScope_def HcloudClientFactory_def HrobotClientFactory_def token_secret_def
      GetSecret_def NewHelper_def cong: option.case_cong)

lemma HcloudClient_patched: "ClusterScope_HcloudClient (patched_by p env) = ClusterScope_HcloudClient env"
  by (simp add: ClusterScope_HcloudClient_def fun_eq_iff)

text \<open>Equal programs in a state: the rest is compared only where the first part leads to.\<close>

lemma bindM_eqI:
  assumes "m s = m' s" and "\<And>a t s'. m s = (Ok a, t, s') \<Longrightarrow> k a s' = k' a s'"
  shows "bindM m k s = bindM m' k' s"
  using assms by (auto simp: bindM_def split: prod.splits res.splits)

section \<open>The flag\<close>

text \<open>The answers to patches that leave the flag alone are those of the API server.\<close>

definition same_flag_patches :: "(HcloudMachine \<Rightarrow> HcloudMachine \<Rightarrow> 'w \<Rightarrow> (error + unit) \<times> 'w) \<Rightarrow> 'w Env \<Rightarrow> bool" where
  "same_flag_patches p env \<longleftrightarrow>
     (\<forall>old new w. flag old = flag new \<longrightarrow> p old new w = k_PatchHcloudMachine (e_kube env) old new w)"

abbreviation flag_kept :: "('w, 'x) MachineScope_scheme \<Rightarrow> bool" where
  "flag_kept s \<equiv> flag (ms_patchHelper s) = flag (ms_HcloudMachine s)"

lemma patch_same:
  assumes "same_flag_patches p env" and "flag_kept s"
  shows "MachineScope_Close ((e_kube env)\<lparr>k_PatchHcloudMachine := p\<rparr>) s = MachineScope_Close (e_kube env) s"
    and "PatchObject ((e_kube env)\<lparr>k_PatchHcloudMachine := p\<rparr>) s = PatchObject (e_kube env) s"
  using assms by (simp_all add: MachineScope_Close_def PatchObject_def PatchHcloudMachine_def extcall_def same_flag_patches_def)

lemma frame_normal: "frame (\<lambda>_. True) machine_frame (bindM (getsM (ClusterScope_HcloudClient env)) (\<lambda>c.
      breakReconcile (in_machine msg (server_Reconcile cd o' k c)) (ret no_Result)))"
  unfolding breakReconcile_def in_machine_def
  by (intro frame_intros frame_mono[OF server_Reconcile_frame]) simp

lemma frame_patch: "frame (\<lambda>_. True) machine_frame (PatchObject k)"
  by (auto simp: frame_def wp_def PatchObject_def PatchHcloudMachine_def extcall_def split: prod.splits sum.splits)

lemma reconcileNormal_patched:
  assumes "same_flag_patches p env" and "flag_kept s"
  shows "machine_reconcileNormal cd (patched_by p env) s = machine_reconcileNormal cd env s"
    and "machine_reconcileNormal cd env s = (r, t, s') \<Longrightarrow> flag_kept s'"
proof -
  show "machine_reconcileNormal cd (patched_by p env) s = machine_reconcileNormal cd env s"
    unfolding machine_reconcileNormal_def
  proof (rule bindM_eqI, simp, rule bindM_eqI)
    fix a t s1
    assume "modifyM (setMachineMeta (AddFinalizer (patched_by p env) MachineFinalizer)) s = (Ok a, t, s1)"
    then have "flag_kept s1" using assms(2) by (auto simp: modifyM_def setMachineMeta_def)
    with patch_same(2)[OF assms(1)] show "PatchObject (e_kube (patched_by p env)) s1 = PatchObject (e_kube env) s1" by simp
  qed (simp add: HcloudClient_patched server_Reconcile_patched fun_eq_iff)
  show "flag_kept s'" if "machine_reconcileNormal cd env s = (r, t, s')"
  proof -
    have "frame (\<lambda>_. True) (\<lambda>s. (flag (ms_HcloudMachine s), flag (ms_patchHelper s))) (machine_reconcileNormal cd env)"
      unfolding machine_reconcileNormal_def
      by (intro frame_bindM frame_modifyM frame_part[OF frame_patch] frame_part[OF frame_normal]) (simp_all add: setMachineMeta_def)
    from frame_run(2)[OF this that] assms(2) show ?thesis by simp
  qed
qed

lemma reconcileDelete_patched: "machine_reconcileDelete (patched_by p env) = machine_reconcileDelete env"
  by (simp add: machine_reconcileDelete_def HcloudClient_patched)

lemma reconcileDelete_flag:
  assumes "machine_reconcileDelete env s = (r, t, s')" and "flag_kept s"
  shows "flag_kept s'"
proof -
  have svc: "frame (\<lambda>_. True) (\<lambda>s. (ms_HcloudMachine s, ms_patchHelper s)) (server_Delete c)"
    for c :: "'a HcloudClient"
    by (rule frame_mono[OF server_Delete_frame]) simp
  have "frame (\<lambda>_. True) (\<lambda>s. (flag (ms_HcloudMachine s), flag (ms_patchHelper s))) (machine_reconcileDelete env)"
    unfolding machine_reconcileDelete_def breakReconcile_def in_machine_def
    by (intro frame_intros frame_part[OF svc]) (simp_all add: setMachineMeta_def)
  from frame_run(2)[OF this assms(1)] assms(2) show ?thesis by simp
qed

lemma machine_body_patched:
  assumes "same_flag_patches p env" and "flag_kept s"
  shows "machine_body cd (patched_by p env) hm s = machine_body cd env hm s"
proof -
  let ?m = "\<lambda>env. if om_DeletionTimestamp (hm_Meta hm) \<noteq> None then machine_reconcileDelete env else machine_reconcileNormal cd env"
  obtain r t s' where run: "?m env s = (r, t, s')" by (metis prod_cases3)
  have same: "?m (patched_by p env) s = ?m env s"
    using reconcileNormal_patched(1)[OF assms] by (simp add: reconcileDelete_patched)
  have "flag_kept s'"
    using run reconcileNormal_patched(2)[OF assms] reconcileDelete_flag[OF _ assms(2)] by (auto split: if_splits)
  from patch_same(1)[OF assms(1) this] same run show ?thesis
    unfolding machine_body_def deferM_def by (simp only: prod.case patched_by_simps)
qed

lemma machine_in_cluster_patched:
  assumes "same_flag_patches p env"
  shows "machine_in_cluster cd (patched_by p env) hm m cluster s = machine_in_cluster cd env hm m cluster s"
proof -
  have scope: "bindM (mapErrM f (NewMachineScope env (Some cluster) (Some hc) (Some m) (Some hm)))
      (\<lambda>sc. in_scope sc (machine_body cd (patched_by p env) hm)) s1 =
    bindM (mapErrM f (NewMachineScope env (Some cluster) (Some hc) (Some m) (Some hm)))
      (\<lambda>sc. in_scope sc (machine_body cd env hm)) s1" for f hc and s1 :: "'a sys"
  proof (rule bindM_eqI, rule refl)
    fix sc :: "'a MachineScope" and t s2
    assume "mapErrM f (NewMachineScope env (Some cluster) (Some hc) (Some m) (Some hm)) s1 = (Ok sc, t, s2)"
    then have "NewMachineScope env (Some cluster) (Some hc) (Some m) (Some hm) s1 = (Ok sc, t, s2)"
      by (auto simp: mapErrM_def split: prod.splits res.splits)
    from wpD[OF NewMachineScope_wp this] have "flag_kept (sc\<lparr>world := world s2, packer := packer s2\<rparr>)" by simp
    from machine_body_patched[OF assms this]
    show "in_scope sc (machine_body cd (patched_by p env) hm) s2 = in_scope sc (machine_body cd env hm) s2"
      by (simp add: in_scope_def)
  qed
  show ?thesis
    unfolding machine_in_cluster_def NewMachineScope_patched patched_by_simps
    by (auto simp: GetHcloudCluster_def intro!: bindM_eqI scope split: sum.splits)
qed

lemma machine_owned_patched:
  assumes "same_flag_patches p env"
  shows "machine_owned cd (patched_by p env) hm s = machine_owned cd env hm s"
  unfolding machine_owned_def
  by (auto simp: GetOwnerMachine_def GetClusterOfMachine_def machine_in_cluster_patched[OF assms]
      intro!: bindM_eqI split: option.splits sum.splits)

section \<open>Property\<close>

text \<open>
  C19. No reconcile asks the API server to change \<^verbatim>\<open>ImageInitialized\<close>: what it would answer to a patch of an object
  that differs in the flag from the one the patch is computed from makes no difference to any run, so no such patch is
  ever sent.
\<close>

theorem HcloudMachine_flag_never_patched:
  assumes "\<forall>old new w. hmt_ImageInitialized (hm_Status old) = hmt_ImageInitialized (hm_Status new) \<longrightarrow>
     p old new w = k_PatchHcloudMachine (e_kube env) old new w"
  shows "HcloudMachine_Reconcile cd (env\<lparr>e_kube := (e_kube env)\<lparr>k_PatchHcloudMachine := p\<rparr>\<rparr>) ns name s =
     HcloudMachine_Reconcile cd env ns name s"
proof -
  have "same_flag_patches p env" using assms by (simp add: same_flag_patches_def)
  from machine_owned_patched[OF this] show ?thesis
    unfolding HcloudMachine_Reconcile_def patched_by_def[symmetric]
    by (auto simp: GetHcloudMachine_def initialize_image_def intro!: bindM_eqI split: sum.splits)
qed

text \<open>A machine without the flag: an API server that refuses to set it answers as one that does not.\<close>

definition refuse_flag :: "HcloudMachine \<Rightarrow> HcloudMachine \<Rightarrow> unit \<Rightarrow> (error + unit) \<times> unit" where
  "refuse_flag old new w = (if flag old = flag new then Inr () else Inl (ErrNew ''the flag is immutable''), w)"

definition example_unflagged :: HcloudMachine where
  "example_unflagged = (example_owned_machine None)\<lparr>hm_Status := hm_Status zero_HcloudMachine\<rparr>"

lemma HcloudMachine_flag_never_patched_witness:
  "HcloudMachine_Reconcile example_codec ((example_machine_env example_unflagged)
       \<lparr>e_kube := (e_kube (example_machine_env example_unflagged))\<lparr>k_PatchHcloudMachine := refuse_flag\<rparr>\<rparr>) ''default'' ''m1''
       \<lparr>world = (), packer = fresh_packer\<rparr> =
     HcloudMachine_Reconcile example_codec (example_machine_env example_unflagged) ''default'' ''m1'' \<lparr>world = (), packer = fresh_packer\<rparr>"
  by (rule HcloudMachine_flag_never_patched)
    (simp add: refuse_flag_def example_machine_env_def example_machine_kube_def)

end
