(* ===== verification/Program_Start.thy ===== *)
theory Program_Start
  imports Manifests Target_Managers
begin

text \<open>
  The start of the program, cmd/cluster-api-provider-hcloud/main.go, and the registration of the controllers and
  webhooks, the functions \<^verbatim>\<open>SetupWithManager\<close> of controllers and \<^verbatim>\<open>SetupWebhookWithManager\<close> of api/v1alpha3. The program
  runs either the controllers or the webhooks, by the port it is given, and its manager is started
  only after everything is registered.

  The manager is library code: \<open>Runtime\<close> has a function for its construction, for completing a registration and for
  serving. The parsing of the command line, a library, has made the \<open>Flags\<close>. A registration is the kind that a controller reconciles and the kinds
  whose events it maps to requests.
\<close>

section \<open>Registrations\<close>

datatype mapper =
    ClusterToInfrastructure string
  | MachineToInfrastructure string
  | HcloudClusterTo string

record registration =
  reg_For :: string
  reg_Watches :: "(string \<times> mapper) list"

record Flags =
  MetricsAddr :: string
  EnableLeaderElection :: bool
  Verbose :: bool
  ManifestsConfigPath :: string
  PackerConfigPath :: string
  WebhookPort :: int

datatype startup =
    Did call
  | NewManagerC string bool string int
  | CompleteC registration
  | SetupWebhookC string
  | StartManagerC
  | ExitC int

record 'w Runtime =
  rt_NewManager :: "string \<Rightarrow> bool \<Rightarrow> string \<Rightarrow> int \<Rightarrow> 'w \<Rightarrow> (error + unit) \<times> 'w"
  rt_Complete :: "registration \<Rightarrow> 'w \<Rightarrow> (error + unit) \<times> 'w"
  rt_Webhook :: "string \<Rightarrow> 'w \<Rightarrow> (error + unit) \<times> 'w"
  rt_Start :: "'w \<Rightarrow> (error + unit) \<times> 'w"

text \<open>The reconciler's map of managers is nil until it is set up.\<close>

record 'w StartScope = "'w sys" +
  st_managers :: "Managers option"

definition startcall :: "startup \<Rightarrow> ('w \<Rightarrow> (error + 'a) \<times> 'w) \<Rightarrow> (('w, 'x) sys_scheme, startup, 'a) M" where
  "startcall c f = (\<lambda>s. case f (world s) of
      (Inl e, w) \<Rightarrow> (Err e, [c], s\<lparr>world := w\<rparr>)
    | (Inr a, w) \<Rightarrow> (Ok a, [c], s\<lparr>world := w\<rparr>))"

definition doing :: "('s, call, 'a) M \<Rightarrow> ('s, startup, 'a) M" where
  "doing m = (\<lambda>s. case m s of (r, t, s') \<Rightarrow> (r, map Did t, s'))"

definition complete :: "'w Runtime \<Rightarrow> registration \<Rightarrow> (('w, 'x) sys_scheme, startup, unit) M" where
  "complete rt reg = startcall (CompleteC reg) (rt_Complete rt reg)"

definition HcloudCluster_registration :: registration where
  "HcloudCluster_registration =
     \<lparr>reg_For = ''HcloudCluster'', reg_Watches = [(''Cluster'', ClusterToInfrastructure ''HcloudCluster'')]\<rparr>"

definition HcloudCluster_SetupWithManager :: "'w Runtime \<Rightarrow> (('w, 'x) StartScope_scheme, startup, unit) M" where
  "HcloudCluster_SetupWithManager rt =
     bindM (modifyM (\<lambda>s. case st_managers s of None \<Rightarrow> s\<lparr>st_managers := Some no_managers\<rparr> | Some _ \<Rightarrow> s)) (\<lambda>_.
     complete rt HcloudCluster_registration)"

definition HcloudMachine_registration :: registration where
  "HcloudMachine_registration = \<lparr>reg_For = ''HcloudMachine'',
     reg_Watches = [(''Machine'', MachineToInfrastructure ''HcloudMachine''), (''HcloudCluster'', HcloudClusterTo ''HcloudMachines'')]\<rparr>"

definition HcloudMachine_SetupWithManager :: "'w Runtime \<Rightarrow> (('w, 'x) sys_scheme, startup, unit) M" where
  "HcloudMachine_SetupWithManager rt = complete rt HcloudMachine_registration"

definition BareMetalMachine_registration :: registration where
  "BareMetalMachine_registration = \<lparr>reg_For = ''BareMetalMachine'',
     reg_Watches = [(''Machine'', MachineToInfrastructure ''BareMetalMachine''), (''HcloudCluster'', HcloudClusterTo ''BareMetalMachines'')]\<rparr>"

definition BareMetalMachine_SetupWithManager :: "'w Runtime \<Rightarrow> (('w, 'x) sys_scheme, startup, unit) M" where
  "BareMetalMachine_SetupWithManager rt = complete rt BareMetalMachine_registration"

definition HcloudVolume_registration :: registration where
  "HcloudVolume_registration = \<lparr>reg_For = ''HcloudVolume'', reg_Watches = []\<rparr>"

definition HcloudVolume_SetupWithManager :: "'w Runtime \<Rightarrow> (('w, 'x) sys_scheme, startup, unit) M" where
  "HcloudVolume_SetupWithManager rt = complete rt HcloudVolume_registration"

definition GuestCSR_registration :: registration where
  "GuestCSR_registration = \<lparr>reg_For = ''CertificateSigningRequest'', reg_Watches = []\<rparr>"

definition GuestCSR_SetupWithManager :: "'w Runtime \<Rightarrow> (('w, 'x) sys_scheme, startup, unit) M" where
  "GuestCSR_SetupWithManager rt = complete rt GuestCSR_registration"

definition SetupWebhookWithManager :: "'w Runtime \<Rightarrow> string \<Rightarrow> (('w, 'x) sys_scheme, startup, unit) M" where
  "SetupWebhookWithManager rt kind = startcall (SetupWebhookC kind) (rt_Webhook rt kind)"

section \<open>The program\<close>

text \<open>An error is logged and ends the program.\<close>

definition or_exit :: "('s, startup, 'a) M \<Rightarrow> ('s, startup, 'a) M" where
  "or_exit m = bindM (tryM m) (\<lambda>r.
     case r of
       Inl err \<Rightarrow> bindM (tellM (ExitC 1)) (\<lambda>_. failM err)
     | Inr a \<Rightarrow> ret a)"

definition setup_controllers ::
    "'w Runtime \<Rightarrow> 'w OsClient \<Rightarrow> 'w ManifestsLib \<Rightarrow> Flags \<Rightarrow> (('w, 'x) StartScope_scheme, startup, unit) M" where
  "setup_controllers rt os ml flags =
     bindM (or_exit (doing (Manifests_Initialize os ml (New_Manifests (ManifestsConfigPath flags))))) (\<lambda>_.
     bindM (modifyM (\<lambda>s. s\<lparr>packer := fresh_packer\<rparr>)) (\<lambda>_.
     bindM (or_exit (HcloudCluster_SetupWithManager rt)) (\<lambda>_.
     bindM (or_exit (HcloudMachine_SetupWithManager rt)) (\<lambda>_.
     bindM (or_exit (BareMetalMachine_SetupWithManager rt)) (\<lambda>_.
     or_exit (HcloudVolume_SetupWithManager rt))))))"

definition webhook_types :: "string list" where
  "webhook_types = [''HcloudCluster'', ''HcloudClusterList'', ''HcloudMachine'', ''HcloudMachineList'']"

definition setup_webhooks :: "'w Runtime \<Rightarrow> (('w, 'x) sys_scheme, startup, unit) M" where
  "setup_webhooks rt = forM (\<lambda>t. or_exit (SetupWebhookWithManager rt t)) webhook_types"

definition rootCmd_Run ::
    "'w Runtime \<Rightarrow> 'w OsClient \<Rightarrow> 'w ManifestsLib \<Rightarrow> Flags \<Rightarrow> (('w, 'x) StartScope_scheme, startup, unit) M" where
  "rootCmd_Run rt os ml flags =
     bindM (or_exit (startcall (NewManagerC (MetricsAddr flags) (EnableLeaderElection flags) ''capi-hcloud-leader-election'' (WebhookPort flags))
              (rt_NewManager rt (MetricsAddr flags) (EnableLeaderElection flags) ''capi-hcloud-leader-election'' (WebhookPort flags)))) (\<lambda>_.
     bindM (if WebhookPort flags = 0 then setup_controllers rt os ml flags else setup_webhooks rt) (\<lambda>_.
     or_exit (startcall StartManagerC (rt_Start rt))))"

section \<open>Programs without a panic\<close>

text \<open>The initialisation of the manifests fails with an error, never with a panic.\<close>

definition calm :: "('s, 'c, 'a) M \<Rightarrow> bool" where
  "calm m \<longleftrightarrow> (\<forall>s. wp m s (\<lambda>r t s'. \<not> is_panic r))"

lemma calm_simps [simp]: "calm (ret a)" "calm (failM e)" "calm (extcall c f)" "calm (liftM x)" "calm (mapErrM g m) = calm m"
  by (auto simp: calm_def wp_simps wp_extcall ext_post_iff split: sum.splits)

lemma calm_bindM:
  fixes m :: "('s, 'c, 'a) M" and k :: "'a \<Rightarrow> ('s, 'c, 'b) M"
  assumes "calm m" and "\<And>a. calm (k a)"
  shows "calm (bindM m k)"
  unfolding calm_def wp_bindM
proof (rule allI, rule wp_mono)
  fix s
  show "wp m s (\<lambda>r t s'. \<not> is_panic r)" using assms(1) by (simp add: calm_def)
  fix r :: "'a res" and t s1
  assume "\<not> is_panic r"
  then show "bind_post k (\<lambda>r t s'. \<not> is_panic r) r t s1"
    using assms(2) by (cases r) (auto simp: calm_def)
qed

lemma calm_forM: "(\<And>x. x \<in> set xs \<Longrightarrow> calm (f x)) \<Longrightarrow> calm (forM f xs)"
  by (induction xs) (auto intro!: calm_bindM)

lemma calm_dumpYAML: "(\<And>d. calm (enc d)) \<Longrightarrow> calm (dumpYAML enc i)"
proof (induction enc i rule: dumpYAML.induct)
  case (1 enc v)
  have "calm (case map_of v k of Some e \<Rightarrow> dumpYAML enc e | None \<Rightarrow> ret ())"
    if "\<not> (map_of v ''kind'' \<noteq> None \<and> map_of v ''apiVersion'' \<noteq> None)" "k \<in> set (sort (map fst v))" for k
    using 1 that by (cases "map_of v k") auto
  with 1(2) show ?case by (auto simp: Let_def intro!: calm_forM)
next
  case (2 enc v)
  then show ?case by (auto intro!: calm_forM)
qed auto

lemma calm_Manifests_Initialize: "calm (Manifests_Initialize os ml m)"
proof -
  have "calm (dumpYAML (encoder (\<lambda>_ _. ret ())) i)" for i :: json
    by (rule calm_dumpYAML) (simp add: calm_def wp_def encoder_def ret_def split: prod.splits)
  then have "calm (with_encoder (dumpYAML (encoder (\<lambda>_ _. ret ())) i))" for i :: json
    by (fastforce simp: calm_def wp_def with_encoder_def split: prod.splits)
  then show ?thesis
    unfolding Manifests_Initialize_def initializeKubectl_def initializeConfig_def evaluateJsonnet_def load_manifests_def Let_def
    by (auto intro!: calm_bindM split: option.splits)
qed

section \<open>What is registered\<close>

lemma wp_doing [wp_simps]: "wp (doing m) s Q \<longleftrightarrow> wp m s (\<lambda>r t s'. Q r (map Did t) s')"
  by (auto simp: wp_def doing_def split: prod.splits)

lemma wp_startcall [wp_simps]:
  "wp (startcall c f) s Q \<longleftrightarrow> (\<forall>e w. f (world s) = (Inl e, w) \<longrightarrow> Q (Err e) [c] (s\<lparr>world := w\<rparr>)) \<and>
     (\<forall>a w. f (world s) = (Inr a, w) \<longrightarrow> Q (Ok a) [c] (s\<lparr>world := w\<rparr>))"
  by (auto simp: wp_def startcall_def split: prod.splits sum.splits)

lemma wp_or_exit [wp_simps]:
  "wp (or_exit m) s Q \<longleftrightarrow> wp m s (\<lambda>r t s'. case r of
     Ok a \<Rightarrow> Q (Ok a) t s' | Err e \<Rightarrow> Q (Err e) (t @ [ExitC 1]) s' | Panic p \<Rightarrow> Q (Panic p) t s')"
proof -
  have *: "(case r of Ok a \<Rightarrow> Q (Ok a) t s' | Err e \<Rightarrow> Q (Err e) (t @ [ExitC 1]) s' | Panic p \<Rightarrow> Q (Panic p) t s') =
      try_post (bind_post (\<lambda>r. case r of Inl err \<Rightarrow> bindM (tellM (ExitC 1)) (\<lambda>_. failM err) | Inr a \<Rightarrow> ret a) Q) r t s'" for r t s'
    by (cases r) (simp_all add: wp_simps)
  show ?thesis unfolding or_exit_def wp_bindM wp_tryM * ..
qed

text \<open>
  The setup of the controllers from a state: the manifests were initialised without an error, then the
  registration of each controller in turn was accepted.
\<close>

definition controllers :: "registration list" where
  "controllers = [HcloudCluster_registration, HcloudMachine_registration, BareMetalMachine_registration, HcloudVolume_registration]"

definition controllers_set_up ::
    "'w Runtime \<Rightarrow> 'w OsClient \<Rightarrow> 'w ManifestsLib \<Rightarrow> Flags \<Rightarrow> ('w, 'x) StartScope_scheme \<Rightarrow> startup list \<Rightarrow> 'w \<Rightarrow> bool" where
  "controllers_set_up rt os ml flags s t w' \<longleftrightarrow> (\<exists>m ti s1.
     Manifests_Initialize os ml (New_Manifests (ManifestsConfigPath flags)) s = (Ok m, ti, s1) \<and>
     accepts_all (rt_Complete rt) controllers (world s1) w' \<and> t = map Did ti @ map CompleteC controllers)"

definition webhooks_set_up :: "'w Runtime \<Rightarrow> ('w, 'x) sys_scheme \<Rightarrow> startup list \<Rightarrow> 'w \<Rightarrow> bool" where
  "webhooks_set_up rt s t w' \<longleftrightarrow>
     accepts_all (rt_Webhook rt) webhook_types (world s) w' \<and> t = map SetupWebhookC webhook_types"

text \<open>A part that gave up: the error is the result, and the program exited with status 1.\<close>

definition gave_up :: "'a res \<Rightarrow> startup list \<Rightarrow> bool" where
  "gave_up r t \<longleftrightarrow> (\<exists>e pre. r = Err e \<and> t = pre @ [ExitC 1] \<and> StartManagerC \<notin> set pre)"

lemma gave_up_simps [simp]: "\<not> gave_up (Ok a) t" "\<not> gave_up (Panic p) t"
  "gave_up (Err e) (t @ [ExitC 1]) \<longleftrightarrow> StartManagerC \<notin> set t" "gave_up (Err e) [c, ExitC 1] \<longleftrightarrow> c \<noteq> StartManagerC"
  by (auto simp: gave_up_def append_eq_Cons_conv Cons_eq_append_conv)

lemma gave_up_before: "gave_up r t \<Longrightarrow> StartManagerC \<notin> set pre \<Longrightarrow> \<exists>e. r = Err e \<and> gave_up (Err e) (pre @ t)"
  by (auto simp: gave_up_def)

lemma bindM_assoc: "bindM (bindM m f) g = bindM m (\<lambda>x. bindM (f x) g)"
  by (rule ext) (auto simp: bindM_def split: prod.splits res.splits)

text \<open>The rest of a program after a part that succeeds with \<open>T\<close> or gives up.\<close>

lemma wp_next:
  fixes m :: "('s, startup, 'a) M" and k :: "'a \<Rightarrow> ('s, startup, 'b) M"
  assumes "wp m s (\<lambda>r t s'. gave_up r t \<or> (\<exists>a. r = Ok a \<and> StartManagerC \<notin> set t \<and> T t s'))"
    and "\<And>a t s'. T t s' \<Longrightarrow> wp (k a) s' (\<lambda>r u s''. gave_up r u \<or> (\<exists>b. r = Ok b \<and> Q b (t @ u) s''))"
  shows "wp (bindM m k) s (\<lambda>r t s'. gave_up r t \<or> (\<exists>b. r = Ok b \<and> Q b t s'))"
  unfolding wp_bindM
proof (rule wp_mono[OF assms(1)])
  fix r :: "'a res" and t s1
  assume *: "gave_up r t \<or> (\<exists>a. r = Ok a \<and> StartManagerC \<notin> set t \<and> T t s1)"
  show "bind_post k (\<lambda>r t s'. gave_up r t \<or> (\<exists>b. r = Ok b \<and> Q b t s')) r t s1"
  proof (cases r)
    case (Ok a)
    with * have T: "T t s1" "StartManagerC \<notin> set t" by auto
    show ?thesis
      unfolding Ok bind_post_simps
      by (rule wp_mono[OF assms(2)[OF T(1)]]) (use T(2) in \<open>auto dest: gave_up_before\<close>)
  qed (use * in \<open>auto simp: gave_up_def\<close>)
qed

text \<open>What the controllers rely on: a map of managers and an image builder that runs nothing.\<close>

definition prepared :: "('w, 'x) StartScope_scheme \<Rightarrow> bool" where
  "prepared s \<longleftrightarrow> st_managers s \<noteq> None \<and> packer s = fresh_packer"

lemma manifests_wp:
  "wp (or_exit (doing (Manifests_Initialize os ml m))) s (\<lambda>r t s'. gave_up r t \<or>
     (\<exists>a. r = Ok a \<and> StartManagerC \<notin> set t \<and> (\<exists>m' ti. Manifests_Initialize os ml m s = (Ok m', ti, s') \<and> t = map Did ti)))"
proof -
  obtain r t s' where run: "Manifests_Initialize os ml m s = (r, t, s')" by (metis prod_cases3)
  from calm_Manifests_Initialize[of os ml m] run have "\<not> is_panic r" by (auto simp: calm_def wp_def dest!: spec[of _ s])
  with run show ?thesis
    unfolding wp_or_exit wp_doing by (cases r) (auto simp: wp_def)
qed

lemma complete_all_wp:
  fixes s :: "('w, 'x) StartScope_scheme"
  shows "wp (bindM (modifyM (\<lambda>s. s\<lparr>packer := fresh_packer\<rparr>)) (\<lambda>_.
     bindM (or_exit (HcloudCluster_SetupWithManager rt)) (\<lambda>_.
     bindM (or_exit (HcloudMachine_SetupWithManager rt)) (\<lambda>_.
     bindM (or_exit (BareMetalMachine_SetupWithManager rt)) (\<lambda>_.
     or_exit (HcloudVolume_SetupWithManager rt)))))) s (\<lambda>r t s'. gave_up r t \<or>
       (\<exists>a. r = Ok a \<and> t = map CompleteC controllers \<and> accepts_all (rt_Complete rt) controllers (world s) (world s') \<and> prepared s'))"
  by (cases "st_managers s")
    (simp_all add: wp_simps HcloudCluster_SetupWithManager_def HcloudMachine_SetupWithManager_def
      BareMetalMachine_SetupWithManager_def HcloudVolume_SetupWithManager_def complete_def bind_post_def controllers_def prepared_def gave_up_def)

lemma setup_controllers_wp:
  fixes s :: "('w, 'x) StartScope_scheme"
  shows "wp (setup_controllers rt os ml flags) s (\<lambda>r t s'. gave_up r t \<or>
     (\<exists>a. r = Ok a \<and> StartManagerC \<notin> set t \<and> controllers_set_up rt os ml flags s t (world s') \<and> prepared s'))"
  unfolding setup_controllers_def
  by (rule wp_next[OF manifests_wp], rule wp_mono[OF complete_all_wp]) (auto simp: controllers_set_up_def)

lemma setup_webhooks_wp:
  "wp (setup_webhooks rt) s (\<lambda>r t s'. gave_up r t \<or>
     (\<exists>a. r = Ok a \<and> StartManagerC \<notin> set t \<and> webhooks_set_up rt s t (world s')))"
  by (simp add: setup_webhooks_def webhook_types_def webhooks_set_up_def SetupWebhookWithManager_def wp_simps gave_up_def)

text \<open>Everything before the start was accepted, with the calls \<open>t\<close> and the outside world they leave.\<close>

definition ready_to_start ::
    "'w Runtime \<Rightarrow> 'w OsClient \<Rightarrow> 'w ManifestsLib \<Rightarrow> Flags \<Rightarrow> ('w, 'x) StartScope_scheme \<Rightarrow> startup list \<Rightarrow> 'w \<Rightarrow> bool" where
  "ready_to_start rt os ml flags s t w' \<longleftrightarrow> (\<exists>w u.
     rt_NewManager rt (MetricsAddr flags) (EnableLeaderElection flags) ''capi-hcloud-leader-election'' (WebhookPort flags) (world s) = (Inr (), w) \<and>
     t = NewManagerC (MetricsAddr flags) (EnableLeaderElection flags) ''capi-hcloud-leader-election'' (WebhookPort flags) # u \<and>
     (if WebhookPort flags = 0 then controllers_set_up rt os ml flags (s\<lparr>world := w\<rparr>) u w'
      else webhooks_set_up rt (s\<lparr>world := w\<rparr>) u w'))"

text \<open>The run of a program that starts the manager after the calls \<open>pre\<close>, in the world \<open>w\<close>.\<close>

definition starts :: "'w Runtime \<Rightarrow> startup list \<Rightarrow> 'w \<Rightarrow> unit res \<Rightarrow> startup list \<Rightarrow> 'w \<Rightarrow> bool" where
  "starts rt pre w r t w' \<longleftrightarrow> StartManagerC \<notin> set pre \<and> (case rt_Start rt w of
      (Inl e, w1) \<Rightarrow> r = Err e \<and> t = pre @ [StartManagerC, ExitC 1] \<and> w' = w1
    | (Inr _, w1) \<Rightarrow> r = Ok () \<and> t = pre @ [StartManagerC] \<and> w' = w1)"

lemma start_wp:
  "wp (or_exit (startcall StartManagerC (rt_Start rt))) s (\<lambda>r t s'.
     (\<exists>w. s' = s\<lparr>world := w\<rparr>) \<and> (StartManagerC \<notin> set pre \<longrightarrow> starts rt pre (world s) r (pre @ t) (world s')))"
  by (auto simp: wp_simps starts_def)

text \<open>A program that is ready does not give up before the start.\<close>

lemma ready_controllers:
  fixes s :: "('w, 'x) StartScope_scheme"
  assumes "controllers_set_up rt os ml flags s u w"
  shows "wp (setup_controllers rt os ml flags) s (\<lambda>r t s'. is_ok r)"
proof -
  from assms obtain m ti and s1 :: "('w, 'x) StartScope_scheme" where
    init: "Manifests_Initialize os ml (New_Manifests (ManifestsConfigPath flags)) s = (Ok m, ti, s1)"
    and accepted: "accepts_all (rt_Complete rt) controllers (world s1) w"
    by (auto simp: controllers_set_up_def)
  have step: "wp (or_exit (doing (Manifests_Initialize os ml (New_Manifests (ManifestsConfigPath flags))))) s Q \<longleftrightarrow>
      Q (Ok m) (map Did ti) s1" for Q
    by (simp add: wp_or_exit wp_doing) (simp add: wp_def init)
  show ?thesis
    unfolding setup_controllers_def wp_bindM[of "or_exit (doing _)"] step bind_post_simps
    using accepted
    by (cases "st_managers s1")
      (auto simp: wp_simps HcloudCluster_SetupWithManager_def HcloudMachine_SetupWithManager_def controllers_def
        BareMetalMachine_SetupWithManager_def HcloudVolume_SetupWithManager_def complete_def bind_post_def
        split: sum.splits prod.splits)
qed

lemma ready_webhooks:
  assumes "webhooks_set_up rt s u w"
  shows "wp (setup_webhooks rt) s (\<lambda>r t s'. is_ok r)"
  using assms
  by (auto simp: setup_webhooks_def webhook_types_def webhooks_set_up_def SetupWebhookWithManager_def wp_simps
      split: sum.splits prod.splits)

lemma ready_not_gave_up:
  fixes s :: "('w, 'x) StartScope_scheme"
  assumes "ready_to_start rt os ml flags s u w"
  shows "wp (rootCmd_Run rt os ml flags) s (\<lambda>r t s'. \<not> gave_up r t)"
proof -
  from assms obtain w1 v where new: "rt_NewManager rt (MetricsAddr flags) (EnableLeaderElection flags)
      ''capi-hcloud-leader-election'' (WebhookPort flags) (world s) = (Inr (), w1)"
    and parts: "if WebhookPort flags = 0 then controllers_set_up rt os ml flags (s\<lparr>world := w1\<rparr>) v w
      else webhooks_set_up rt (s\<lparr>world := w1\<rparr>) v w"
    unfolding ready_to_start_def by blast
  have set_up: "wp (if WebhookPort flags = 0 then setup_controllers rt os ml flags else setup_webhooks rt) (s\<lparr>world := w1\<rparr>)
      (\<lambda>r t s'. is_ok r)"
    using parts ready_controllers[of rt os ml flags "s\<lparr>world := w1\<rparr>" v w] ready_webhooks[of rt "s\<lparr>world := w1\<rparr>" v w] by simp
  have start: "wp (or_exit (startcall StartManagerC (rt_Start rt))) s1 (\<lambda>r t s'. StartManagerC \<in> set t)"
    for s1 :: "('w, 'x) StartScope_scheme"
    by (simp add: wp_simps)
  have rest: "wp (bindM m (\<lambda>_. or_exit (startcall StartManagerC (rt_Start rt)))) s1 (\<lambda>r t s'. StartManagerC \<in> set t)"
    if m: "wp m s1 (\<lambda>r t s'. is_ok r)" for m :: "(('w, 'x) StartScope_scheme, startup, unit) M" and s1
    unfolding wp_bindM
  proof (rule wp_mono[OF m])
    fix r :: "unit res" and t and s2 :: "('w, 'x) StartScope_scheme"
    assume "is_ok r"
    then show "bind_post (\<lambda>_. or_exit (startcall StartManagerC (rt_Start rt))) (\<lambda>r t s'. StartManagerC \<in> set t) r t s2"
      by (cases r) (auto intro: wp_mono[OF start])
  qed
  have "wp (rootCmd_Run rt os ml flags) s (\<lambda>r t s'. StartManagerC \<in> set t)"
    unfolding rootCmd_Run_def wp_bindM[of "or_exit (startcall (NewManagerC _ _ _ _) _)"] wp_or_exit wp_startcall
    using new rest[OF set_up] by (auto elim!: wp_mono)
  then show ?thesis by (rule wp_mono) (auto simp: gave_up_def)
qed

text \<open>
  C40. The manager of the program is started exactly when its construction and everything that is set up before were
  accepted: with no webhook port the initialisation of the manifests and, in this order, the registrations of the
  four controllers, over an empty map of guest cluster managers or the one that was there and over an image builder that
  runs nothing; with a webhook port the four webhooks and no controller. It is started once, as the last call of a
  start that succeeds. In every other case the program ends with exit status 1, before the start when something was
  refused there, and right after it when the start fails.
\<close>

theorem rootCmd_Run_starts:
  fixes s :: "('w, 'x) StartScope_scheme"
  shows "case rootCmd_Run rt os ml flags s of (r, t, s') \<Rightarrow>
    if \<exists>pre w. ready_to_start rt os ml flags s pre w
    then (\<exists>pre w. ready_to_start rt os ml flags s pre w \<and> starts rt pre w r t (world s')) \<and>
      (if WebhookPort flags = 0 then prepared s' else True)
    else gave_up r t"
proof -
  obtain r t s' where run: "rootCmd_Run rt os ml flags s = (r, t, s')" by (metis prod_cases3)
  have new: "wp (or_exit (startcall (NewManagerC a b c d) f)) s (\<lambda>r t s'. gave_up r t \<or> (\<exists>x. r = Ok x \<and>
      StartManagerC \<notin> set t \<and> (t = [NewManagerC a b c d] \<and> f (world s) = (Inr (), world s') \<and> s' = s\<lparr>world := world s'\<rparr>)))"
    for a b c d and f :: "'w \<Rightarrow> (error + unit) \<times> 'w"
    by (auto simp: wp_simps gave_up_def)
  have parts: "wp (if WebhookPort flags = 0 then setup_controllers rt os ml flags else setup_webhooks rt) s1
      (\<lambda>r t s'. gave_up r t \<or> (\<exists>a. r = Ok a \<and> StartManagerC \<notin> set t \<and>
         (if WebhookPort flags = 0 then controllers_set_up rt os ml flags s1 t (world s') \<and> prepared s'
          else webhooks_set_up rt s1 t (world s'))))" for s1 :: "('w, 'x) StartScope_scheme"
    using setup_controllers_wp[of rt os ml flags s1] setup_webhooks_wp[of rt s1] by simp
  have set_up: "wp (bindM (or_exit (startcall (NewManagerC (MetricsAddr flags) (EnableLeaderElection flags) ''capi-hcloud-leader-election'' (WebhookPort flags))
              (rt_NewManager rt (MetricsAddr flags) (EnableLeaderElection flags) ''capi-hcloud-leader-election'' (WebhookPort flags)))) (\<lambda>_.
     if WebhookPort flags = 0 then setup_controllers rt os ml flags else setup_webhooks rt)) s
     (\<lambda>r t s'. gave_up r t \<or> (\<exists>a. r = Ok a \<and> StartManagerC \<notin> set t \<and>
        (ready_to_start rt os ml flags s t (world s') \<and> (WebhookPort flags = 0 \<longrightarrow> prepared s'))))"
  proof (rule wp_next[OF new])
    fix x t and s1 :: "('w, 'x) StartScope_scheme"
    assume first: "t = [NewManagerC (MetricsAddr flags) (EnableLeaderElection flags) ''capi-hcloud-leader-election'' (WebhookPort flags)] \<and>
      rt_NewManager rt (MetricsAddr flags) (EnableLeaderElection flags) ''capi-hcloud-leader-election'' (WebhookPort flags) (world s) =
        (Inr (), world s1) \<and> s1 = s\<lparr>world := world s1\<rparr>"
    then have s1: "s\<lparr>world := world s1\<rparr> = s1" by metis
    show "wp (if WebhookPort flags = 0 then setup_controllers rt os ml flags else setup_webhooks rt) s1
      (\<lambda>r u s''. gave_up r u \<or> (\<exists>b. r = Ok b \<and> StartManagerC \<notin> set (t @ u) \<and>
        ready_to_start rt os ml flags s (t @ u) (world s'') \<and> (WebhookPort flags = 0 \<longrightarrow> prepared s'')))"
      by (rule wp_mono[OF parts]) (use first s1 in \<open>auto simp: ready_to_start_def\<close>)
  qed
  have "wp (rootCmd_Run rt os ml flags) s (\<lambda>r t s'. gave_up r t \<or>
     ((\<exists>pre w. ready_to_start rt os ml flags s pre w \<and> starts rt pre w r t (world s')) \<and> (WebhookPort flags = 0 \<longrightarrow> prepared s')))"
    unfolding rootCmd_Run_def bindM_assoc[symmetric] wp_bindM[of "bindM _ _"]
  proof (rule wp_mono[OF set_up])
    fix r :: "unit res" and t and s1 :: "('w, 'x) StartScope_scheme"
    assume *: "gave_up r t \<or> (\<exists>a. r = Ok a \<and> StartManagerC \<notin> set t \<and>
        (ready_to_start rt os ml flags s t (world s1) \<and> (WebhookPort flags = 0 \<longrightarrow> prepared s1)))"
    show "bind_post (\<lambda>_. or_exit (startcall StartManagerC (rt_Start rt))) (\<lambda>r t s'. gave_up r t \<or>
     ((\<exists>pre w. ready_to_start rt os ml flags s pre w \<and> starts rt pre w r t (world s')) \<and> (WebhookPort flags = 0 \<longrightarrow> prepared s'))) r t s1"
    proof (cases r)
      case (Ok a)
      with * show ?thesis
        unfolding Ok bind_post_simps
        by (intro wp_mono[OF start_wp[where pre = t]]) (auto simp: prepared_def)
    qed (use * in \<open>auto simp: gave_up_def\<close>)
  qed
  with run have "gave_up r t \<or>
     ((\<exists>pre w. ready_to_start rt os ml flags s pre w \<and> starts rt pre w r t (world s')) \<and> (WebhookPort flags = 0 \<longrightarrow> prepared s'))"
    by (simp add: wp_def)
  moreover have "\<not> gave_up r t" if "ready_to_start rt os ml flags s pre w" for pre w
    using ready_not_gave_up[OF that] run by (simp add: wp_def)
  ultimately show ?thesis unfolding run by auto
qed

end
