(* ===== verification/Spec2Isabelle.thy ===== *)
theory Spec2Isabelle
  imports Prelude Go_Lib Api_Types Clients Scope Location_Service Network_Service Load_Balancer
    Volume_Service Md5 Packer_Builder Userdata Server_Service Scope_Build Frames Webhooks Csr
    Volume_Controller Machine_Controller Manifests Target_Managers Cluster_Controller Block_Devices
    Finalizers Bare_Metal Bare_Metal_Servers Bare_Metal_Controller Rounds Progress Cluster_Progress Image_Flag Program_Start
begin

text \<open>
  Verification development of the Cluster API provider for Hetzner Cloud: the controllers that turn
  the resources HcloudCluster, HcloudMachine, HcloudVolume and BareMetalMachine of a management
  cluster into networks, load balancers, servers and volumes.

  \<^bold>\<open>How the program works, and how it is modelled.\<close>
  A controller is called with the name of an object. It reads the object and what it belongs to
  from the API server, builds a \<^emph>\<open>scope\<close>, runs one service after the other on it, and stores the changed object
  when it leaves, whatever happened. It keeps no state between calls but the builds of images and
  the managers of guest clusters: everything else is read again from the cloud, by labels.

  A program is a value of the monad \<open>('s, 'c, 'a) M\<close> of theory Prelude, a function from a state to an outcome, the
  list of the calls it made and the new state. An outcome is a result (\<open>Ok\<close>), a Go error
  (\<open>Err\<close>) or a panic (\<open>Panic\<close>, for a nil dereference or an index out of range). A state is a record that extends
  \<open>sys\<close>: the outside world, of an arbitrary type \<open>'w\<close>, and the memory of the image builder; the scopes
  extend it in the way the structs of pkg/scope embed one another. The
  world changes only through the functions of a client (\<open>HcloudClient\<close>, \<open>KubeClient\<close>, \<open>HrobotClient\<close>,
  \<open>Os\<close>, \<open>Host\<close>), which answer and give the next world, so that every sequence of answers and failures is covered;
  each call is an element of the trace, and the properties speak of the trace and of the answers. Nothing
  is assumed of a client unless a property says so.

  \<^bold>\<open>The theories.\<close>
  \<^item> Prelude, Go\_Lib, Frames: the monad and its weakest preconditions (\<open>wp\<close>, collection \<open>wp_simps\<close>); the functions of Go's
    strings, strconv, net and time packages that matter; what a program leaves alone (\<open>frame\<close>, collection \<open>frame_intros\<close>).
  \<^item> Api\_Types (api/v1alpha3), Clients (pkg/scope/hcloudClient.go, hrobotClient.go and the Kubernetes client), Scope and Scope\_Build
    (pkg/scope/cluster.go, machine.go, volume.go, interface of the parameters): the data, the interfaces, the accessors
    and the constructors of the scopes with the reading of secrets.
  \<^item> Location\_Service, Network\_Service, Load\_Balancer, Volume\_Service, Server\_Service: one per package of
    pkg/cloud/resources, one definition per function. Properties: what may be created (once, only after a listing by label
    came back empty, with which options), what may be deleted and in which order, what the status says afterwards, and when the code panics.
    Location\_Service states the interface of its two clients as a locale, interpreted on the cluster and the volume scope.
  \<^item> Packer\_Builder and Md5 (pkg/packer): the builder of machine images; child processes and calls interleave as the inductive relation
    \<open>packer_step\<close>, whose invariant is that no image is built twice at a time.
  \<^item> Userdata (pkg/userdata): the edits of a cloud-init document as a YAML tree, with round trip, frame and idempotence.
  \<^item> Manifests (pkg/manifests): evaluation, hash and application by kubectl.
  \<^item> Csr (pkg/csr, controllers/cluster\_csr\_controller.go): which kubelet certificates are approved.
  \<^item> Webhooks (api/v1alpha3/*\_webhook.go): what every admitted chain of updates keeps; a locale for an immutable field, interpreted on both webhooks.
  \<^item> Cluster\_Controller, Machine\_Controller, Volume\_Controller, Bare\_Metal\_Controller (controllers/): a whole reconcile each, from the
    request to the last patch, composed of the services above. Properties: the protocol of the finalizers, the order of a
    deletion, the control plane endpoint, the application of the manifests.
  \<^item> Finalizers: that protocol as locales over the object of a scope, its patch and its finalizer, what one reconcile in a scope has to
    satisfy as assumptions; interpreted on the machine, the bare metal machine and the volume controller.
  \<^item> Target\_Managers (controllers/hcloudcluster\_controller.go): the map of stop channels and the goroutines that use it, as an
    inductive step relation with an invariant, and the reconciler's operation as a refinement of its steps.
  \<^item> Block\_Devices, Bare\_Metal, Bare\_Metal\_Servers (pkg/baremetal, pkg/scope/baremetal.go): the choice of a disk, the provisioning over SSH as a script
    of commands, the search for servers by name, Reconcile and Delete.
  \<^item> Program\_Start (cmd/cluster-api-provider-hcloud/main.go, SetupWithManager, SetupWebhookWithManager): what is registered before the manager starts.
  \<^item> Image\_Flag: what a machine's reconcile asks the API server to change, stated as independence of the answers to other patches.
  \<^item> Rounds, Progress, Cluster\_Progress: reconciles are repeated instead of waiting; a locale for rounds with a rank that decreases, interpreted
    on the deletion of a machine (reconcileDelete) and of a cluster (the whole Reconcile): against an API server and a cloud that behave as documented,
    both complete within a bounded number of reconciles.

  A property carries an identifier (C1 and so on) in the text before it; a property with hypotheses is followed or preceded by a
  concrete run, \<open>..._witness\<close>, on the example clients of the theories.

  \<^bold>\<open>Bounds.\<close>
  No model has fuel. The dialling of SSH has a counter in the source, which is the argument of
  \<open>dial_loop\<close>, computed from the constant: 200 / 30, that is 6, so that
  a reconcile of a bare metal machine sleeps at most 51 minutes. Recursion that is not structural
  (splitting and printing of strings, the traversal of a JSON value, the blocks of a digest, powers of two) has a termination proof.
  Sizes and ids are unbounded integers where the source's 64 bits cannot overflow by what it computes; bytes of addresses and
  the words of the digest are kept at their width, and the sizes of disks are rounded to 32-bit floating point numbers and converted to 64-bit integers as the code does.

  \<^bold>\<open>Iteration order of maps.\<close>
  Go does not fix it. A map is an association list, and the properties that say so hold for every order of it
  (failure domains, the documents of the manifests).

  \<^bold>\<open>Not modelled, and why.\<close>
  \<^item> Libraries are parameters: the API server and its patch helper, finalizer helpers, the cloud and Robot clients,
    the jsonnet interpreter, JSON and YAML parsing and printing, SHA-256, x509 parsing and signatures, SSH sessions, files and processes.
  \<^item> Log output, and the message texts of events: an event is its type and reason. Error texts are kept as far as they are
    built from values; the text of a parse error of a date is shortened, and so are arguments that a format string does not use.
  \<^item> Special forms of \<^verbatim>\<open>ParseFloat\<close> (hexadecimal, infinities, underscores), which \<^verbatim>\<open>lsblk\<close> does not print.
  \<^item> The parsing of the command line, the controller runtime and the registration of types in its scheme.
  \<^item> Generated deep copies, mocks, the machine templates and conversion hubs, which have no logic or no caller; the bare metal webhook is a comment.
  \<^item> Cancellation by contexts: every context of the source is the background context.
\<close>

end
